(* ===== verification/Hitrace_Prelude.thy ===== *)
theory Hitrace_Prelude
  imports Main "HOL-Library.Word" "HOL-Library.Sublist"
begin

text \<open>
  Shared vocabulary of the development: the machine integer types of the C and C++ sources,
  the operations of the C++ standard string that the sources use (\<^verbatim>\<open>find\<close>, \<^verbatim>\<open>substr\<close>,
  \<^verbatim>\<open>rfind\<close>, \<^verbatim>\<open>std::to_string\<close>), and the generic lemmas on lists and words that several
  components need.
\<close>

unbundle bit_operations_syntax

type_synonym u8 = "8 word"
type_synonym u16 = "16 word"
type_synonym u32 = "32 word"
type_synonym u64 = "64 word"
type_synonym i32 = "32 word"
type_synonym i64 = "64 word"
type_synonym bytes = "8 word list"

named_theorems hitrace_defs

section \<open>The standard string\<close>

text \<open>
  \<^verbatim>\<open>std::string::find(pat, pos)\<close>: the first index at or after \<open>pos\<close> where \<open>pat\<close>
  occurs, \<open>None\<close> standing for \<^verbatim>\<open>std::string::npos\<close>.
\<close>

primrec find_pos :: "string \<Rightarrow> string \<Rightarrow> nat \<Rightarrow> nat option" where
  "find_pos pat [] i = (if pat = [] then Some i else None)"
| "find_pos pat (c # cs) i = (if prefix pat (c # cs) then Some i else find_pos pat cs (Suc i))"

definition str_find :: "string \<Rightarrow> string \<Rightarrow> nat \<Rightarrow> nat option" where
  "str_find s pat pos = (if pos \<le> length s then find_pos pat (drop pos s) pos else None)"

text \<open>\<^verbatim>\<open>std::string::substr(pos, count)\<close> for a position inside the string.\<close>

definition substr :: "string \<Rightarrow> nat \<Rightarrow> nat \<Rightarrow> string" where
  "substr s pos count = take count (drop pos s)"

text \<open>\<^verbatim>\<open>std::to_string\<close> on unsigned and signed integers.\<close>

definition digit_char :: "nat \<Rightarrow> char" where
  "digit_char d = char_of (48 + d)"

fun dec_digits :: "nat \<Rightarrow> string" where
  "dec_digits n = (if n < 10 then [digit_char n] else dec_digits (n div 10) @ [digit_char (n mod 10)])"

declare dec_digits.simps [simp del]

definition to_string_nat :: "nat \<Rightarrow> string" where
  "to_string_nat n = dec_digits n"

definition to_string_int :: "int \<Rightarrow> string" where
  "to_string_int i = (if i < 0 then CHR ''-'' # dec_digits (nat (- i)) else dec_digits (nat i))"

definition is_digit :: "char \<Rightarrow> bool" where
  "is_digit c \<longleftrightarrow> 48 \<le> (of_char c :: nat) \<and> (of_char c :: nat) \<le> 57"

definition digit_value :: "char \<Rightarrow> nat" where
  "digit_value c = of_char c - 48"

definition dec_value :: "string \<Rightarrow> nat" where
  "dec_value s = foldl (\<lambda>a c. a * 10 + digit_value c) 0 s"

subsection \<open>Facts about searching\<close>

lemma find_pos_Some:
  "find_pos pat s i = Some k \<Longrightarrow> i \<le> k \<and> k \<le> i + length s \<and> prefix pat (drop (k - i) s)"
proof (induction s arbitrary: i)
  case Nil
  then show ?case by (auto split: if_splits)
next
  case (Cons c cs)
  show ?case
  proof (cases "prefix pat (c # cs)")
    case True
    with Cons.prems show ?thesis by auto
  next
    case False
    with Cons.prems have "find_pos pat cs (Suc i) = Some k" by simp
    note IH = Cons.IH [OF this]
    then have "k - i = Suc (k - Suc i)" by arith
    with IH show ?thesis by simp
  qed
qed

lemma find_pos_None:
  "find_pos pat s i = None \<longleftrightarrow> (\<forall>k \<le> length s. \<not> prefix pat (drop k s))"
proof (induction s arbitrary: i)
  case Nil
  then show ?case by auto
next
  case (Cons c cs)
  have "(\<forall>k \<le> length (c # cs). \<not> prefix pat (drop k (c # cs))) \<longleftrightarrow>
      \<not> prefix pat (c # cs) \<and> (\<forall>k \<le> length cs. \<not> prefix pat (drop k cs))"
    by (auto simp: drop_Cons split: nat.splits)
  with Cons show ?case by simp
qed

subsection \<open>Facts about decimal text\<close>

lemma digit_value_digit_char [simp]: "d < 10 \<Longrightarrow> digit_value (digit_char d) = d"
  by (simp add: digit_value_def digit_char_def)

lemma is_digit_digit_char [simp]: "d < 10 \<Longrightarrow> is_digit (digit_char d)"
  by (simp add: is_digit_def digit_char_def)

lemma dec_value_append: "dec_value (xs @ [c]) = dec_value xs * 10 + digit_value c"
  by (simp add: dec_value_def)

lemma dec_digits_not_Nil [simp]: "dec_digits n \<noteq> []"
  by (subst dec_digits.simps) simp

lemma dec_digits_digits: "list_all is_digit (dec_digits n)"
proof (induction n rule: dec_digits.induct)
  case (1 n)
  then show ?case by (cases "n < 10") (simp_all add: dec_digits.simps [of n])
qed

lemma dec_value_dec_digits [simp]: "dec_value (dec_digits n) = n"
proof (induction n rule: dec_digits.induct)
  case (1 n)
  show ?case
  proof (cases "n < 10")
    case True
    then show ?thesis by (simp add: dec_digits.simps [of n] dec_value_def)
  next
    case False
    with 1 show ?thesis by (simp add: dec_digits.simps [of n] dec_value_append)
  qed
qed

lemma length_dec_digits: "n < 10 ^ k \<Longrightarrow> 0 < k \<Longrightarrow> length (dec_digits n) \<le> k"
proof (induction k arbitrary: n)
  case (Suc k)
  show ?case
  proof (cases "n < 10")
    case True
    then show ?thesis by (simp add: dec_digits.simps [of n])
  next
    case False
    have "n div 10 < 10 ^ k" using Suc.prems(1) by (simp add: less_mult_imp_div_less mult.commute)
    moreover from this False have "0 < k" by (cases k) (auto simp: div_eq_0_iff)
    ultimately have "length (dec_digits (n div 10)) \<le> k" by (rule Suc.IH)
    with False show ?thesis by (simp add: dec_digits.simps [of n])
  qed
qed simp

lemma dec_digits_inj [simp]: "dec_digits m = dec_digits n \<longleftrightarrow> m = n"
  by (metis dec_value_dec_digits)

section \<open>Prefixes of bounded buffers\<close>

lemma take_append_bounded [simp]:
  "take cap s @ take (cap - min (length s) cap) t = take cap (s @ t)"
  by (cases "length s \<le> cap") (simp_all add: min_def)

section \<open>Words\<close>

lemma unat_ucast_le: "unat (ucast (w :: 'a::len word) :: 'b::len word) \<le> unat w"
  by (simp add: unsigned_ucast_eq)

end
