(* ===== verification/Common_Utils.thy ===== *)
theory Common_Utils
  imports Hitrace_Prelude
begin

text \<open>
  The helpers of \<^verbatim>\<open>utils/common_utils.cpp\<close> that carry logic of their own: the checked conversions
  from text to numbers, path canonicalisation, and the readers of small kernel files. What
  \<^verbatim>\<open>strtol\<close> and its relatives do with base 10 is written out: leading white space, one sign, the
  longest run of digits, \<^verbatim>\<open>ERANGE\<close> outside the type. File contents and the answers of system
  calls are arguments. Strings carry no NUL character, as the results of \<^verbatim>\<open>c_str()\<close> that the
  code compares.
\<close>

section \<open>Numbers from text\<close>

definition is_space :: "char \<Rightarrow> bool" where
  "is_space c \<longleftrightarrow> (of_char c :: nat) = 32 \<or> 9 \<le> (of_char c :: nat) \<and> (of_char c :: nat) \<le> 13"

text \<open>
  The part \<^verbatim>\<open>strtol\<close>, \<^verbatim>\<open>strtoll\<close> and \<^verbatim>\<open>strtoull\<close> share: sign, magnitude and what
  \<^verbatim>\<open>endPtr\<close> points at; \<open>None\<close> when no digit is found (\<^verbatim>\<open>endPtr == str\<close>).
\<close>

definition strto_scan :: "string \<Rightarrow> (bool \<times> nat \<times> string) option" where
  "strto_scan s =
     (let t = dropWhile is_space s;
          neg = (t \<noteq> [] \<and> hd t = CHR ''-'');
          u = (if t \<noteq> [] \<and> (hd t = CHR ''-'' \<or> hd t = CHR ''+'') then tl t else t);
          ds = takeWhile is_digit u
      in if ds = [] then None else Some (neg, dec_value ds, dropWhile is_digit u))"

definition signed_value :: "bool \<Rightarrow> nat \<Rightarrow> int" where
  "signed_value neg n = (if neg then - int n else int n)"

text \<open>\<^verbatim>\<open>long\<close> and \<^verbatim>\<open>int64_t\<close> are 64 bits wide; outside them \<^verbatim>\<open>errno\<close> is \<^verbatim>\<open>ERANGE\<close>.\<close>

definition strtoll_result :: "string \<Rightarrow> int option" where
  "strtoll_result s =
     (case strto_scan s of None \<Rightarrow> None
      | Some (neg, n, rest) \<Rightarrow>
          if rest \<noteq> [] then None
          else if - (2 ^ 63) \<le> signed_value neg n \<and> signed_value neg n < 2 ^ 63
          then Some (signed_value neg n) else None)"

definition StringToInt :: "string \<Rightarrow> int option" where
  "StringToInt str =
     (case strtoll_result str of None \<Rightarrow> None
      | Some num \<Rightarrow> if num > 2147483647 \<or> num < -2147483648 then None else Some num)"

definition StringToInt64 :: "string \<Rightarrow> int option" where
  "StringToInt64 str = strtoll_result str"

definition StringToUint64 :: "string \<Rightarrow> u64 option" where
  "StringToUint64 str =
     (case strto_scan str of None \<Rightarrow> None
      | Some (neg, n, rest) \<Rightarrow>
          if rest \<noteq> [] then None
          else if 2 ^ 64 \<le> n then None
          else if hd str = CHR ''-'' then None
          else Some (if neg then - of_nat n else of_nat n))"

definition IsNumber :: "string \<Rightarrow> bool" where
  "IsNumber str = (str \<noteq> [] \<and> list_all is_digit str)"

section \<open>Paths and small files\<close>

definition PATH_MAX :: nat where "PATH_MAX = 4096"

text \<open>
  \<open>access\<close> says whether the path exists and \<open>realpath\<close> is the resolver, \<open>None\<close> for its null
  result. The \<^verbatim>\<open>sprintf_s\<close> copy cannot fail, since the path is shorter than the buffer.
\<close>

definition CanonicalizeSpecPath :: "(string \<Rightarrow> bool) \<Rightarrow> (string \<Rightarrow> string option) \<Rightarrow> string option \<Rightarrow> string" where
  "CanonicalizeSpecPath access realpath src =
     (case src of None \<Rightarrow> ''''
      | Some p \<Rightarrow>
          if PATH_MAX \<le> length p then ''''
          else if access p then (case realpath p of None \<Rightarrow> '''' | Some r \<Rightarrow> r)
          else if str_find p ''..'' 0 = None then p else '''')"

definition GetFilePath :: "string \<Rightarrow> string \<Rightarrow> string" where
  "GetFilePath fileName traceRootPath = traceRootPath @ fileName"

text \<open>\<open>read\<close> gives the content of a file that can be opened.\<close>

definition ReadFileInner ::
  "(string \<Rightarrow> bool) \<Rightarrow> (string \<Rightarrow> string option) \<Rightarrow> (string \<Rightarrow> string option) \<Rightarrow> string \<Rightarrow> string" where
  "ReadFileInner access realpath read filename =
     (case read (CanonicalizeSpecPath access realpath (Some filename)) of None \<Rightarrow> '''' | Some c \<Rightarrow> c)"

definition ReadFile ::
  "(string \<Rightarrow> bool) \<Rightarrow> (string \<Rightarrow> string option) \<Rightarrow> (string \<Rightarrow> string option) \<Rightarrow> string \<Rightarrow> string \<Rightarrow> string" where
  "ReadFile access realpath read filename traceRootPath =
     ReadFileInner access realpath read (GetFilePath filename traceRootPath)"

definition IsTracingOn ::
  "(string \<Rightarrow> bool) \<Rightarrow> (string \<Rightarrow> string option) \<Rightarrow> (string \<Rightarrow> string option) \<Rightarrow> string \<Rightarrow> bool" where
  "IsTracingOn access realpath read traceRootPath =
     (substr (ReadFile access realpath read ''tracing_on'' traceRootPath) 0 1 = ''1'')"

text \<open>\<open>freq i\<close> is the first line of the frequency file of cpu \<open>i\<close>, \<open>None\<close> if there is none.\<close>

definition ReadCurrentCpuFrequencies :: "(nat \<Rightarrow> string option) \<Rightarrow> nat \<Rightarrow> string \<Rightarrow> string" where
  "ReadCurrentCpuFrequencies freq cpuNum freqs =
     foldl (\<lambda>acc i. acc @ ''cpu_id='' @ to_string_nat i @ '' state='' @
              (case freq i of None \<Rightarrow> ''0'' | Some l \<Rightarrow> l) @ (if Suc i \<noteq> cpuNum then '','' else ''''))
       freqs [0..<cpuNum]"

definition GetCpuProcessors :: "int \<Rightarrow> int" where
  "GetCpuProcessors conf = (if conf = 0 then 1 else conf)"

definition S_TO_NS :: i64 where "S_TO_NS = 1000000000"

definition GetCurBootTime :: "i64 \<Rightarrow> i64 \<Rightarrow> u64" where
  "GetCurBootTime sec nsec = sec * S_TO_NS + nsec"

definition GetRemainingSpace :: "(u64 \<times> u64) option \<Rightarrow> u64" where
  "GetRemainingSpace fsInfo = (case fsInfo of None \<Rightarrow> - 1 | Some (bavail, frsize) \<Rightarrow> bavail * frsize)"

text \<open>The first line that mentions the name decides, whether its number can be read or not.\<close>

primrec GetMemInfoByName :: "string \<Rightarrow> string list \<Rightarrow> int" where
  "GetMemInfoByName name [] = 0"
| "GetMemInfoByName name (l # ls) =
     (if str_find l name 0 \<noteq> None
      then (case StringToInt (takeWhile is_digit (dropWhile (\<lambda>c. \<not> is_digit c) l)) of
              None \<Rightarrow> 0 | Some v \<Rightarrow> v)
      else GetMemInfoByName name ls)"

definition TRACE_FILE_DEFAULT_DIR :: string where "TRACE_FILE_DEFAULT_DIR = ''/data/log/hitrace/''"

definition IsTraceFilePathLegal :: "(string \<Rightarrow> string option) \<Rightarrow> string \<Rightarrow> nat \<Rightarrow> string option" where
  "IsTraceFilePathLegal realpath fileName bufLen =
     (if bufLen \<le> length fileName then None
      else case realpath fileName of None \<Rightarrow> None
        | Some r \<Rightarrow>
            (let p = take (bufLen - 1) r
             in if substr p 0 (length TRACE_FILE_DEFAULT_DIR) \<noteq> TRACE_FILE_DEFAULT_DIR then None else Some p))"

section \<open>Facts\<close>

lemma is_digit_not_space [simp]: "is_digit c \<Longrightarrow> \<not> is_space c"
  by (simp add: is_digit_def is_space_def)

lemma is_digit_not_sign [simp]: "is_digit c \<Longrightarrow> c \<noteq> CHR ''-''" "is_digit c \<Longrightarrow> c \<noteq> CHR ''+''"
  by (auto simp: is_digit_def)

lemma dec_digits_hd [simp]: "is_digit (hd (dec_digits n))"
  using dec_digits_digits [of n] dec_digits_not_Nil [of n] by (cases "dec_digits n") auto

lemma takeWhile_dec_digits [simp]:
  "takeWhile is_digit (dec_digits n) = dec_digits n" "dropWhile is_digit (dec_digits n) = []"
  using dec_digits_digits [of n] by (simp_all add: takeWhile_eq_all_conv list_all_iff)

lemma dropWhile_space_dec_digits [simp]: "dropWhile is_space (dec_digits n) = dec_digits n"
  using dec_digits_hd [of n] by (cases "dec_digits n") auto

lemma strto_scan_dec [simp]: "strto_scan (dec_digits n) = Some (False, n, [])"
  using dec_digits_hd [of n] by (auto simp: strto_scan_def Let_def)

lemma strto_scan_neg_dec [simp]: "strto_scan (CHR ''-'' # dec_digits n) = Some (True, n, [])"
  by (auto simp: strto_scan_def Let_def is_space_def)

text \<open>Printing a 64-bit signed number and reading it back gives the number; a decimal text
outside the 64-bit range is refused.\<close>

theorem StringToInt64_to_string:
  "StringToInt64 (to_string_int i) = (if - (2 ^ 63) \<le> i \<and> i < 2 ^ 63 then Some i else None)"
  by (auto simp: StringToInt64_def strtoll_result_def to_string_int_def signed_value_def)

text \<open>The conversion of text to an unsigned 64-bit number inverts printing, and refuses every
decimal text from two to the power 64 on; but a minus sign behind white space is accepted and wraps
around, although the code tests for a minus sign.\<close>

theorem StringToUint64_to_string:
  "StringToUint64 (to_string_nat n) = (if n < 2 ^ 64 then Some (of_nat n) else None) \<and>
   StringToUint64 (CHR ''-'' # to_string_nat n) = None \<and>
   StringToUint64 ('' -'' @ to_string_nat 1) = Some (- 1)"
proof -
  have "strto_scan ('' -'' @ dec_digits 1) = Some (True, 1, [])"
    by (auto simp: strto_scan_def Let_def is_space_def)
  then show ?thesis by (auto simp: StringToUint64_def to_string_nat_def)
qed

end
