(* ===== verification/Trace_Setting.thy ===== *)
theory Trace_Setting
  imports Common_Utils "HOL-Library.List_Lexorder" "HOL-Library.Char_ord"
begin

text \<open>
  How a trace is configured in the kernel: the first half of
  \<^verbatim>\<open>interfaces/native/innerkits/src/hitrace_dump.cpp\<close>, with \<^verbatim>\<open>SearchWordsByKeyWord\<close> of
  \<^verbatim>\<open>hitrace_util.cpp\<close>. The kernel is the content of its nodes, named relative to the root of the
  tracing file system; the nodes that can be written are the domain of the map. A node may refuse a
  value. The system parameters are a second map, and the service that keeps them may refuse a name.
\<close>

section \<open>The kernel\<close>

record kernel =
  k_nodes :: "string \<rightharpoonup> string"
  k_accepts :: "string \<Rightarrow> string \<Rightarrow> bool"
  k_params :: "string \<rightharpoonup> string"
  k_paramOk :: "string \<Rightarrow> bool"

text \<open>The stream is tested before it is flushed, so that a value the node refuses counts as written.\<close>

definition WriteStrToFile :: "string \<Rightarrow> string \<Rightarrow> kernel \<Rightarrow> bool \<times> kernel" where
  "WriteStrToFile p str k =
     (case k_nodes k p of None \<Rightarrow> (False, k)
      | Some _ \<Rightarrow> (True, if k_accepts k p str then k\<lparr>k_nodes := (k_nodes k)(p \<mapsto> str)\<rparr> else k))"

definition SetTraceNodeStatus :: "string \<Rightarrow> bool \<Rightarrow> kernel \<Rightarrow> bool \<times> kernel" where
  "SetTraceNodeStatus path enabled k = WriteStrToFile path (if enabled then ''1'' else ''0'') k"

definition TruncateFile :: "string \<Rightarrow> kernel \<Rightarrow> kernel" where
  "TruncateFile path k = (case k_nodes k path of None \<Rightarrow> k | Some _ \<Rightarrow> k\<lparr>k_nodes := (k_nodes k)(path \<mapsto> [])\<rparr>)"

definition SetProperty :: "string \<Rightarrow> string \<Rightarrow> kernel \<Rightarrow> bool \<times> kernel" where
  "SetProperty name value k =
     (if k_paramOk k name then (True, k\<lparr>k_params := (k_params k)(name \<mapsto> value)\<rparr>) else (False, k))"

text \<open>\<^verbatim>\<open>ReadFile\<close> on a node; a node that is missing reads as the empty string.\<close>

definition read_node :: "string \<Rightarrow> kernel \<Rightarrow> string" where
  "read_node p k = (case k_nodes k p of None \<Rightarrow> [] | Some c \<Rightarrow> c)"

definition TRACE_TAG_ENABLE_FLAGS :: string where "TRACE_TAG_ENABLE_FLAGS = ''debug.hitrace.tags.enableflags''"
definition TRACING_ON_NODE :: string where "TRACING_ON_NODE = ''tracing_on''"
definition TRACE_NODE :: string where "TRACE_NODE = ''trace''"

section \<open>Tags\<close>

datatype TraceType = USER | KERNEL

record TraceTag =
  tag_description :: string
  tag_bits :: u64
  tag_type :: TraceType
  enablePath :: "string list"
  formatPath :: "string list"

type_synonym tag_table = "(string \<times> TraceTag) list"
type_synonym group_table = "(string \<times> string list) list"

text \<open>\<^verbatim>\<open>std::map\<close> as the list of its entries in the order of the keys.\<close>

definition CheckTags :: "string list \<Rightarrow> tag_table \<Rightarrow> bool" where
  "CheckTags tags allTags = list_all (\<lambda>t. map_of allTags t \<noteq> None) tags"

definition CheckTagGroup :: "string list \<Rightarrow> group_table \<Rightarrow> bool" where
  "CheckTagGroup tagGroups tagGroupTable = list_all (\<lambda>g. map_of tagGroupTable g \<noteq> None) tagGroups"

definition set_nodes :: "bool \<Rightarrow> string list \<Rightarrow> kernel \<Rightarrow> kernel" where
  "set_nodes enabled ps k = fold (\<lambda>p k. snd (SetTraceNodeStatus p enabled k)) ps k"

definition TraceInit :: "tag_table \<Rightarrow> kernel \<Rightarrow> kernel" where
  "TraceInit allTags k =
     (let k1 = fold (\<lambda>(n, t) k. if tag_type t \<noteq> KERNEL then k else set_nodes False (enablePath t) k) allTags k;
          k2 = snd (SetProperty TRACE_TAG_ENABLE_FLAGS (to_string_nat 0) k1);
          k3 = snd (SetTraceNodeStatus TRACING_ON_NODE False k2)
      in snd (WriteStrToFile ''buffer_size_kb'' ''1'' k3))"

record TraceParams =
  tp_tags :: "string list"
  tp_tagGroups :: "string list"
  tp_filterPids :: "string list"
  tp_bufferSize :: string
  tp_clockType :: string
  tp_isOverWrite :: string
  tp_outputFile :: string
  tp_fileLimit :: int
  tp_fileSize :: int
  tp_appPid :: int
  tp_totalSize :: int

definition TraceParams_default :: TraceParams where
  "TraceParams_default = \<lparr>tp_tags = [], tp_tagGroups = [], tp_filterPids = [], tp_bufferSize = [], tp_clockType = [],
     tp_isOverWrite = [], tp_outputFile = [], tp_fileLimit = 0, tp_fileSize = 0, tp_appPid = 0, tp_totalSize = 0\<rparr>"

text \<open>The tags to enable: \<^verbatim>\<open>std::set\<close>, so each once and in alphabetical order.\<close>

definition readyEnableTagList :: "TraceParams \<Rightarrow> group_table \<Rightarrow> kernel \<Rightarrow> string list" where
  "readyEnableTagList tp tagGroupTable k =
     (let tags = tp_tags tp;
          sched = (if ''schedlt'' \<in> set tags \<and> ''sched'' \<notin> set tags \<and> str_find (read_node ''saved_cmdlines_size'' k) ''10240'' 0 = None
                   then [''sched''] else []);
          groups = concat (map (\<lambda>g. case map_of tagGroupTable g of None \<Rightarrow> [] | Some ts \<Rightarrow> ts) (tp_tagGroups tp))
      in sort (remdups (tags @ sched @ groups)))"

definition enable_tag :: "tag_table \<Rightarrow> string \<Rightarrow> u64 \<times> string list \<times> kernel \<Rightarrow> u64 \<times> string list \<times> kernel" where
  "enable_tag allTags tagName s =
     (case map_of allTags tagName of None \<Rightarrow> s
      | Some t \<Rightarrow>
          (case s of (bits, fmts, k) \<Rightarrow>
             if tag_type t = USER then (bits OR tag_bits t, fmts, k)
             else (bits, fmts @ formatPath t, set_nodes True (enablePath t) k)))"

definition SetAllTags :: "TraceParams \<Rightarrow> tag_table \<Rightarrow> group_table \<Rightarrow> string list \<Rightarrow> kernel \<Rightarrow> string list \<times> kernel" where
  "SetAllTags tp allTags tagGroupTable tagFmts k =
     (let (enabledUserTags, tagFmts', k') = fold (enable_tag allTags) (readyEnableTagList tp tagGroupTable k) (0, tagFmts, k)
      in (tagFmts', snd (SetProperty TRACE_TAG_ENABLE_FLAGS (to_string_nat (unat enabledUserTags)) k')))"

section \<open>Settings\<close>

definition is_blank :: "char \<Rightarrow> bool" where
  "is_blank c \<longleftrightarrow> c = CHR '' '' \<or> c = char_of (10 :: nat) \<or> c = char_of (13 :: nat) \<or> c = char_of (9 :: nat)"

text \<open>
  The words around the occurrences of \<open>key\<close>: from the last blank before the occurrence to the next one
  behind it, and on from there.
\<close>

function search_words :: "string \<Rightarrow> string \<Rightarrow> nat \<Rightarrow> string list" where
  "search_words source key frm =
     (if key = [] then []
      else case str_find source key frm of None \<Rightarrow> []
        | Some pos \<Rightarrow>
            (let left = pos - length (takeWhile (\<lambda>c. \<not> is_blank c) (rev (take pos source)));
                 right = pos + length key + length (takeWhile (\<lambda>c. \<not> is_blank c) (drop (pos + length key) source))
             in substr source left (right - left) # search_words source key right))"
  by pat_completeness auto
termination
proof (relation "measure (\<lambda>(source, key, frm). Suc (length source) - frm)")
  fix source key :: string and frm pos left right
  assume k: "key \<noteq> []" "str_find source key frm = Some pos"
    and r: "right = pos + length key + length (takeWhile (\<lambda>c. \<not> is_blank c) (drop (pos + length key) source))"
  then have "frm \<le> length source" "find_pos key (drop frm source) frm = Some pos" by (auto simp: str_find_def split: if_splits)
  moreover from this have "frm \<le> pos" using find_pos_Some by blast
  moreover have "0 < length key" using k(1) by simp
  ultimately have "frm < right" using r by linarith
  with \<open>frm \<le> length source\<close> show "((source, key, right), source, key, frm) \<in> measure (\<lambda>(source, key, frm). Suc (length source) - frm)" by simp
qed simp

declare search_words.simps [simp del]

definition SearchWordsByKeyWord :: "string \<Rightarrow> string \<Rightarrow> string list" where
  "SearchWordsByKeyWord source key = search_words source key 0"

text \<open>
  The clock: the words of the node are looked through until one is the clock itself, or the clock in
  brackets, which is already set. \<open>None\<close> is the early return.
\<close>

primrec choose_clock :: "string \<Rightarrow> string list \<Rightarrow> string option" where
  "choose_clock clockType [] = Some ''boot''"
| "choose_clock clockType (w # ws) =
     (if length w = length clockType then Some clockType
      else if length w - length clockType = 2 \<and> hd w = CHR ''['' \<and> last w = CHR '']'' then None
      else choose_clock clockType ws)"

definition SetClock :: "string \<Rightarrow> kernel \<Rightarrow> kernel" where
  "SetClock clockType k =
     (case (if clockType = [] then Some ''boot'' else choose_clock clockType (SearchWordsByKeyWord (read_node ''trace_clock'' k) clockType)) of
        None \<Rightarrow> k
      | Some c \<Rightarrow> snd (WriteStrToFile ''trace_clock'' c k))"

definition SAVED_CMDLINES_SIZE :: nat where "SAVED_CMDLINES_SIZE = 3072"

definition set_options :: "TraceParams \<Rightarrow> kernel \<Rightarrow> kernel" where
  "set_options tp k =
     (let k1 = snd (WriteStrToFile ''options/overwrite'' (if tp_isOverWrite tp = ''1'' then ''1'' else ''0'') k);
          k2 = snd (WriteStrToFile ''saved_cmdlines_size'' (to_string_nat SAVED_CMDLINES_SIZE) k1);
          k3 = snd (WriteStrToFile ''options/record-tgid'' ''1'' k2)
      in snd (WriteStrToFile ''options/record-cmd'' ''1'' k3))"

text \<open>
  \<^verbatim>\<open>SetTraceSetting\<close>, whose result is always true. What \<^verbatim>\<open>AddFilterPids\<close> does to the node
  \<^verbatim>\<open>set_event_pid\<close> is an argument, since it belongs to the filter.
\<close>

definition SetTraceSetting ::
  "(string list \<Rightarrow> kernel \<Rightarrow> kernel) \<Rightarrow> TraceParams \<Rightarrow> tag_table \<Rightarrow> group_table \<Rightarrow> string list \<Rightarrow> kernel \<Rightarrow> string list \<times> kernel" where
  "SetTraceSetting addFilterPids tp allTags tagGroupTable tagFmts k =
     (let k1 = (if tp_filterPids tp \<noteq> [] then TruncateFile ''trace_pipe_raw'' (addFilterPids (tp_filterPids tp) k) else k);
          k2 = TruncateFile TRACE_NODE (TraceInit allTags k1);
          (tagFmts', k3) = SetAllTags tp allTags tagGroupTable tagFmts k2;
          k4 = snd (WriteStrToFile ''current_tracer'' ''nop'' k3);
          k5 = snd (WriteStrToFile ''buffer_size_kb'' (tp_bufferSize tp) k4);
          k6 = SetClock (tp_clockType tp) k5
      in (tagFmts', set_options tp k6))"


section \<open>The argument string\<close>

primrec split_acc :: "char \<Rightarrow> string \<Rightarrow> string \<Rightarrow> string list" where
  "split_acc delimiter acc [] = (if acc = [] then [] else [acc])"
| "split_acc delimiter acc (c # cs) =
     (if c = delimiter then acc # split_acc delimiter [] cs else split_acc delimiter (acc @ [c]) cs)"

definition Split :: "string \<Rightarrow> char \<Rightarrow> string list" where
  "Split str delimiter = split_acc delimiter [] str"

text \<open>\<^verbatim>\<open>RemoveUnSpace\<close> takes out the blank behind the first occurrence of the symbol, thirty times at most.\<close>

primrec unspace :: "nat \<Rightarrow> char \<Rightarrow> string \<Rightarrow> string" where
  "unspace 0 c args = args"
| "unspace (Suc n) c args =
     (case str_find args [c, CHR '' ''] 0 of None \<Rightarrow> args
      | Some index \<Rightarrow> unspace n c (take index args @ [c] @ drop (index + 2) args))"

definition RemoveUnSpace :: "char \<Rightarrow> string \<Rightarrow> string" where
  "RemoveUnSpace c args = unspace 30 c args"

definition SetCmdTraceIntParams :: "string \<Rightarrow> int" where
  "SetCmdTraceIntParams str = (case StringToInt str of None \<Rightarrow> 0 | Some v \<Rightarrow> if v \<le> 0 then 0 else v)"

definition TRACE_KEY_APP_PID :: string where "TRACE_KEY_APP_PID = ''debug.hitrace.app_pid''"

text \<open>One item; \<open>None\<close> is the result false. An item without a colon is passed over.\<close>

definition parse_item :: "string \<Rightarrow> TraceParams \<times> kernel \<Rightarrow> (TraceParams \<times> kernel) option" where
  "parse_item item s =
     (case str_find item '':'' 0 of None \<Rightarrow> Some s
      | Some pos \<Rightarrow>
          (let tp = fst s; k = snd s; itemName = substr item 0 pos; v = drop (pos + 1) item
           in if itemName = ''tags'' then Some (tp\<lparr>tp_tags := Split v (CHR '','')\<rparr>, k)
              else if itemName = ''tagGroups'' then Some (tp\<lparr>tp_tagGroups := Split v (CHR '','')\<rparr>, k)
              else if itemName = ''clockType'' then Some (tp\<lparr>tp_clockType := v\<rparr>, k)
              else if itemName = ''bufferSize'' then Some (tp\<lparr>tp_bufferSize := v\<rparr>, k)
              else if itemName = ''overwrite'' then Some (tp\<lparr>tp_isOverWrite := v\<rparr>, k)
              else if itemName = ''output'' then Some (tp\<lparr>tp_outputFile := v\<rparr>, k)
              else if itemName = ''fileSize'' then Some (tp\<lparr>tp_fileSize := SetCmdTraceIntParams v\<rparr>, k)
              else if itemName = ''fileLimit'' then Some (tp\<lparr>tp_fileLimit := SetCmdTraceIntParams v\<rparr>, k)
              else if itemName = ''appPid''
                then let pid = SetCmdTraceIntParams v
                     in if pid = 0 then None
                        else Some (tp\<lparr>tp_appPid := pid\<rparr>, snd (SetProperty TRACE_KEY_APP_PID v k))
              else if itemName = ''filterPids'' then Some (tp\<lparr>tp_filterPids := Split v (CHR '','')\<rparr>, k)
              else None))"

text \<open>
  The items in order. The parameters of the items before a refused one stay set, as the effects on
  the system parameters do.
\<close>

primrec parse_items :: "string list \<Rightarrow> TraceParams \<times> kernel \<Rightarrow> bool \<times> TraceParams \<times> kernel" where
  "parse_items [] s = (True, s)"
| "parse_items (i # is) s = (case parse_item i s of None \<Rightarrow> (False, s) | Some s' \<Rightarrow> parse_items is s')"

definition ParseArgs :: "string \<Rightarrow> TraceParams \<Rightarrow> tag_table \<Rightarrow> group_table \<Rightarrow> kernel \<Rightarrow> bool \<times> TraceParams \<times> kernel" where
  "ParseArgs args tp allTags tagGroupTable k =
     (let argList = Split (RemoveUnSpace (CHR '','') (RemoveUnSpace (CHR '':'') args)) (CHR '' '');
          (ok, tp', k') = parse_items argList (tp, k)
      in (ok \<and> CheckTags (tp_tags tp') allTags \<and> CheckTagGroup (tp_tagGroups tp') tagGroupTable, tp', k'))"

subsection \<open>Splitting undoes joining\<close>

fun join :: "char \<Rightarrow> string list \<Rightarrow> string" where
  "join d [] = []"
| "join d [x] = x"
| "join d (x # xs) = x @ d # join d xs"

lemma split_acc_word: "d \<notin> set x \<Longrightarrow> split_acc d acc (x @ r) = split_acc d (acc @ x) r"
  by (induction x arbitrary: acc) auto

lemma split_join:
  "xs \<noteq> [] \<Longrightarrow> list_all (\<lambda>x. d \<notin> set x) xs \<Longrightarrow> last xs \<noteq> [] \<Longrightarrow> Split (join d xs) d = xs"
proof (induction d xs rule: join.induct)
  case (2 d x)
  then show ?case using split_acc_word [of d x "[]" "[]"] by (simp add: Split_def)
next
  case (3 d x y zs)
  then show ?case using split_acc_word [of d x "[]" "d # join d (y # zs)"] by (simp add: Split_def)
qed simp

lemma set_join: "set (join d xs) \<subseteq> insert d (\<Union> (set ` set xs))"
  by (induction d xs rule: join.induct) auto

lemma find_pos_char: "c \<notin> set x \<Longrightarrow> find_pos [c] (x @ c # r) i = Some (i + length x)"
  by (induction x arbitrary: i) auto

lemma str_find_char: "c \<notin> set x \<Longrightarrow> str_find (x @ c # r) [c] 0 = Some (length x)"
  by (simp add: str_find_def find_pos_char)

text \<open>Whether the symbol is followed by a blank somewhere; a text where it is not is left alone.\<close>

fun followed :: "char \<Rightarrow> string \<Rightarrow> bool" where
  "followed c (a # b # s) = (a = c \<and> b = CHR '' '' \<or> followed c (b # s))"
| "followed c s = False"

lemma followed_occurs: "prefix [c, CHR '' ''] (drop k s) \<Longrightarrow> followed c s"
proof (induction c s arbitrary: k rule: followed.induct)
  case (1 c a b s)
  then show ?case by (cases k) auto
qed (auto simp: drop_Cons' prefix_def split: if_splits)

lemma unspace_same:
  assumes "\<not> followed c args"
  shows "RemoveUnSpace c args = args"
proof -
  have "find_pos [c, CHR '' ''] args 0 = None" using assms followed_occurs by (auto simp: find_pos_None)
  then show ?thesis by (simp add: RemoveUnSpace_def numeral_eq_Suc str_find_def)
qed

lemma not_followed_word: "CHR '' '' \<notin> set x \<Longrightarrow> \<not> followed c x"
  by (induction c x rule: followed.induct) auto

lemma followed_word: "CHR '' '' \<notin> set x \<Longrightarrow> x \<noteq> [] \<Longrightarrow> last x \<noteq> c \<Longrightarrow> c \<noteq> CHR '' '' \<Longrightarrow>
   followed c (x @ CHR '' '' # r) \<longleftrightarrow> followed c r"
  by (induction c x rule: followed.induct; cases r; auto)

lemma not_followed_join:
  "list_all (\<lambda>x. CHR '' '' \<notin> set x \<and> x \<noteq> [] \<and> last x \<noteq> c) xs \<Longrightarrow> c \<noteq> CHR '' '' \<Longrightarrow> \<not> followed c (join (CHR '' '') xs)"
  by (induction "CHR '' ''" xs rule: join.induct) (auto simp: not_followed_word followed_word)


text \<open>A word that can be an argument, and the argument string of given parameters.\<close>

definition clean :: "string \<Rightarrow> bool" where
  "clean s \<longleftrightarrow> s \<noteq> [] \<and> CHR '' '' \<notin> set s \<and> CHR '','' \<notin> set s \<and> CHR '':'' \<notin> set s"

definition args_items :: "TraceParams \<Rightarrow> string list" where
  "args_items tp =
     [''tags:'' @ join (CHR '','') (tp_tags tp), ''tagGroups:'' @ join (CHR '','') (tp_tagGroups tp),
      ''clockType:'' @ tp_clockType tp, ''bufferSize:'' @ tp_bufferSize tp, ''overwrite:'' @ tp_isOverWrite tp,
      ''output:'' @ tp_outputFile tp, ''fileSize:'' @ to_string_int (tp_fileSize tp), ''fileLimit:'' @ to_string_int (tp_fileLimit tp)]"

definition args_text :: "TraceParams \<Rightarrow> string" where
  "args_text tp = join (CHR '' '') (args_items tp)"

definition printable_params :: "TraceParams \<Rightarrow> bool" where
  "printable_params tp \<longleftrightarrow> tp_tags tp \<noteq> [] \<and> tp_tagGroups tp \<noteq> [] \<and> list_all clean (tp_tags tp) \<and> list_all clean (tp_tagGroups tp) \<and>
     clean (tp_clockType tp) \<and> clean (tp_bufferSize tp) \<and> clean (tp_isOverWrite tp) \<and> clean (tp_outputFile tp) \<and>
     0 < tp_fileSize tp \<and> tp_fileSize tp < 2 ^ 31 \<and> 0 < tp_fileLimit tp \<and> tp_fileLimit tp < 2 ^ 31 \<and>
     tp_filterPids tp = [] \<and> tp_appPid tp = 0 \<and> tp_totalSize tp = 0"

lemma int_param_roundtrip: "0 < v \<Longrightarrow> v < 2 ^ 31 \<Longrightarrow> SetCmdTraceIntParams (to_string_int v) = v"
  by (simp add: SetCmdTraceIntParams_def StringToInt_def strtoll_result_def to_string_int_def signed_value_def)

lemma digit_clean: "list_all is_digit s \<Longrightarrow> s \<noteq> [] \<Longrightarrow> clean s"
  by (auto simp: clean_def list_all_iff is_digit_def)

lemma number_clean: "0 < v \<Longrightarrow> clean (to_string_int v)"
  by (simp add: to_string_int_def digit_clean dec_digits_digits)

lemma clean_word:
  assumes "clean s"
  shows "s \<noteq> []" "CHR '' '' \<notin> set s" "last s \<noteq> CHR '',''" "last s \<noteq> CHR '':''"
  using assms unfolding clean_def by (metis last_in_set)+

lemma join_words:
  assumes "xs \<noteq> []" "list_all clean xs"
  shows "join (CHR '','') xs \<noteq> [] \<and> CHR '' '' \<notin> set (join (CHR '','') xs) \<and> last (join (CHR '','') xs) \<notin> {CHR '','', CHR '':''}"
  using assms by (induction "CHR '',''" xs rule: join.induct) (auto dest: clean_word)

lemma split_words: "xs \<noteq> [] \<Longrightarrow> list_all clean xs \<Longrightarrow> Split (join (CHR '','') xs) (CHR '','') = xs"
  by (rule split_join) (auto simp: clean_def list_all_iff)

lemma parse_item_named:
  assumes "CHR '':'' \<notin> set n"
  shows "str_find (n @ CHR '':'' # v) '':'' 0 = Some (length n)" "substr (n @ CHR '':'' # v) 0 (length n) = n"
    "drop (length n + 1) (n @ CHR '':'' # v) = v"
  using assms by (simp_all add: str_find_char substr_def)


lemma parse_items_args:
  assumes "printable_params tp"
  shows "parse_items (args_items tp) (TraceParams_default, k) = (True, tp, k)"
proof -
  have items: "parse_item (''tags:'' @ join (CHR '','') (tp_tags tp)) s = Some ((fst s)\<lparr>tp_tags := tp_tags tp\<rparr>, snd s)"
    "parse_item (''tagGroups:'' @ join (CHR '','') (tp_tagGroups tp)) s = Some ((fst s)\<lparr>tp_tagGroups := tp_tagGroups tp\<rparr>, snd s)"
    "parse_item (''clockType:'' @ tp_clockType tp) s = Some ((fst s)\<lparr>tp_clockType := tp_clockType tp\<rparr>, snd s)"
    "parse_item (''bufferSize:'' @ tp_bufferSize tp) s = Some ((fst s)\<lparr>tp_bufferSize := tp_bufferSize tp\<rparr>, snd s)"
    "parse_item (''overwrite:'' @ tp_isOverWrite tp) s = Some ((fst s)\<lparr>tp_isOverWrite := tp_isOverWrite tp\<rparr>, snd s)"
    "parse_item (''output:'' @ tp_outputFile tp) s = Some ((fst s)\<lparr>tp_outputFile := tp_outputFile tp\<rparr>, snd s)"
    "parse_item (''fileSize:'' @ to_string_int (tp_fileSize tp)) s = Some ((fst s)\<lparr>tp_fileSize := tp_fileSize tp\<rparr>, snd s)"
    "parse_item (''fileLimit:'' @ to_string_int (tp_fileLimit tp)) s = Some ((fst s)\<lparr>tp_fileLimit := tp_fileLimit tp\<rparr>, snd s)" for s
    using assms by (simp_all add: parse_item_def str_find_def substr_def split_words int_param_roundtrip printable_params_def)
  have "tp = TraceParams_default\<lparr>tp_tags := tp_tags tp, tp_tagGroups := tp_tagGroups tp, tp_clockType := tp_clockType tp,
      tp_bufferSize := tp_bufferSize tp, tp_isOverWrite := tp_isOverWrite tp, tp_outputFile := tp_outputFile tp,
      tp_fileSize := tp_fileSize tp, tp_fileLimit := tp_fileLimit tp\<rparr>"
    using assms by (simp add: TraceParams_default_def printable_params_def)
  then show ?thesis unfolding args_items_def by (simp only: parse_items.simps items option.case fst_conv snd_conv)
qed

text \<open>The argument string is read back: the parameters printed as an argument string, separated by
blanks and commas, are parsed to the same parameters, without any effect on the system, and accepted
exactly if all tags and groups are known.\<close>

theorem parse_args_roundtrip:
  assumes "printable_params tp"
  shows "ParseArgs (args_text tp) TraceParams_default allTags tagGroupTable k =
    (CheckTags (tp_tags tp) allTags \<and> CheckTagGroup (tp_tagGroups tp) tagGroupTable, tp, k)"
proof -
  have words: "list_all (\<lambda>x. CHR '' '' \<notin> set x \<and> x \<noteq> [] \<and> last x \<noteq> CHR '','' \<and> last x \<noteq> CHR '':'') (args_items tp)"
    using assms join_words [of "tp_tags tp"] join_words [of "tp_tagGroups tp"] number_clean [of "tp_fileSize tp"] number_clean [of "tp_fileLimit tp"]
    by (simp add: args_items_def printable_params_def clean_word)
  then have "\<not> followed (CHR '':'') (args_text tp)" "\<not> followed (CHR '','') (args_text tp)"
    unfolding args_text_def by (intro not_followed_join; auto simp: list_all_iff)+
  moreover have "Split (args_text tp) (CHR '' '') = args_items tp"
    unfolding args_text_def using words by (intro split_join) (auto simp: args_items_def)
  ultimately show ?thesis by (simp add: ParseArgs_def unspace_same parse_items_args [OF assms])
qed

definition sample_params :: TraceParams where
  "sample_params = TraceParams_default\<lparr>tp_tags := [''sched'', ''ohos''], tp_tagGroups := [''default''], tp_clockType := ''boot'',
     tp_bufferSize := ''1024'', tp_isOverWrite := ''1'', tp_outputFile := ''/data/local/tmp/a'', tp_fileSize := 5, tp_fileLimit := 2\<rparr>"

theorem parse_args_roundtrip_witness:
  "\<not> fst (ParseArgs (args_text sample_params) TraceParams_default [] [] \<lparr>k_nodes = Map.empty, k_accepts = (\<lambda>_ _. True), k_params = Map.empty, k_paramOk = (\<lambda>_. True)\<rparr>) \<and>
   take 15 (args_text sample_params) = ''tags:sched,ohos''"
proof -
  have "printable_params sample_params"
    by (simp add: printable_params_def sample_params_def TraceParams_default_def clean_def)
  from parse_args_roundtrip [OF this, of "[]" "[]"] show ?thesis
    by (simp add: sample_params_def CheckTags_def args_text_def args_items_def TraceParams_default_def)
qed


section \<open>Exactly the requested events\<close>

text \<open>
  The nodes of the kernel events, the nodes and formats of the chosen ones, and the bits of the chosen
  user tags.
\<close>

definition kernel_paths :: "tag_table \<Rightarrow> string list" where
  "kernel_paths allTags = concat (map (\<lambda>(n, t). if tag_type t = KERNEL then enablePath t else []) allTags)"

definition chosen :: "tag_table \<Rightarrow> string list \<Rightarrow> TraceTag list" where
  "chosen allTags ns = List.map_filter (map_of allTags) ns"

definition chosen_paths :: "TraceTag list \<Rightarrow> string list" where
  "chosen_paths ts = concat (map enablePath (filter (\<lambda>t. tag_type t = KERNEL) ts))"

definition chosen_formats :: "TraceTag list \<Rightarrow> string list" where
  "chosen_formats ts = concat (map formatPath (filter (\<lambda>t. tag_type t = KERNEL) ts))"

definition user_bits :: "TraceTag list \<Rightarrow> u64" where
  "user_bits ts = fold (\<lambda>t b. b OR tag_bits t) (filter (\<lambda>t. tag_type t = USER) ts) 0"

definition control_nodes :: "string set" where
  "control_nodes = {''tracing_on'', ''buffer_size_kb'', ''trace'', ''current_tracer'', ''trace_clock'', ''options/overwrite'',
     ''saved_cmdlines_size'', ''options/record-tgid'', ''options/record-cmd'', ''trace_pipe_raw''}"

text \<open>What a step does to the nodes outside of the control nodes, and to the tag parameter: nothing.\<close>

definition same_events :: "kernel \<Rightarrow> kernel \<Rightarrow> bool" where
  "same_events k k' \<longleftrightarrow> (\<forall>p. p \<notin> control_nodes \<longrightarrow> k_nodes k' p = k_nodes k p) \<and> k_accepts k' = k_accepts k \<and>
     k_params k' = k_params k \<and> k_paramOk k' = k_paramOk k"

lemma same_events_trans: "same_events a b \<Longrightarrow> same_events b c \<Longrightarrow> same_events a c"
  by (simp add: same_events_def)

lemma same_events_write: "p \<in> control_nodes \<Longrightarrow> same_events k (snd (WriteStrToFile p v k))"
  by (auto simp: same_events_def WriteStrToFile_def split: option.split)

lemma same_events_truncate: "p \<in> control_nodes \<Longrightarrow> same_events k (TruncateFile p k)"
  by (auto simp: same_events_def TruncateFile_def split: option.split)

lemma same_events_clock: "same_events k (SetClock c k)"
  by (auto simp: SetClock_def control_nodes_def intro!: same_events_write split: option.split) (simp add: same_events_def)

lemma same_events_options: "same_events k (set_options tp k)"
  unfolding set_options_def Let_def
  by (intro same_events_trans [OF same_events_write same_events_trans [OF same_events_write same_events_trans [OF same_events_write same_events_write]]])
    (simp_all add: control_nodes_def)

text \<open>Setting a list of nodes.\<close>

lemma set_nodes_eq:
  "set_nodes b ps k = k\<lparr>k_nodes := (\<lambda>p. if p \<in> set ps \<and> k_nodes k p \<noteq> None \<and> k_accepts k p (if b then ''1'' else ''0'')
     then Some (if b then ''1'' else ''0'') else k_nodes k p)\<rparr>"
proof (induction ps arbitrary: k)
  case Nil
  then show ?case by (simp add: set_nodes_def)
next
  case (Cons p ps)
  have "set_nodes b (p # ps) k = set_nodes b ps (snd (SetTraceNodeStatus p b k))" by (simp add: set_nodes_def)
  also have "\<dots> = k\<lparr>k_nodes := (\<lambda>q. if q \<in> set (p # ps) \<and> k_nodes k q \<noteq> None \<and> k_accepts k q (if b then ''1'' else ''0'')
     then Some (if b then ''1'' else ''0'') else k_nodes k q)\<rparr>"
    unfolding Cons.IH by (auto simp: SetTraceNodeStatus_def WriteStrToFile_def fun_eq_iff split: option.split)
  finally show ?case .
qed

lemma set_nodes_append: "set_nodes b (ps @ qs) k = set_nodes b qs (set_nodes b ps k)"
  by (simp add: set_nodes_def)

lemma close_events:
  "fold (\<lambda>(n, t) k. if tag_type t \<noteq> KERNEL then k else set_nodes False (enablePath t) k) allTags k = set_nodes False (kernel_paths allTags) k"
proof (induction allTags arbitrary: k)
  case (Cons a allTags)
  have "set_nodes False [] k = k" for k by (simp add: set_nodes_def)
  with Cons show ?case by (cases a) (simp add: kernel_paths_def set_nodes_append)
qed (simp add: kernel_paths_def set_nodes_def)

lemma enable_tags:
  "fold (enable_tag allTags) ns (bits, fmts, k) =
     (fold (\<lambda>t b. b OR tag_bits t) (filter (\<lambda>t. tag_type t = USER) (chosen allTags ns)) bits,
      fmts @ chosen_formats (chosen allTags ns), set_nodes True (chosen_paths (chosen allTags ns)) k)"
proof (induction ns arbitrary: bits fmts k)
  case Nil
  then show ?case by (simp add: chosen_def chosen_formats_def chosen_paths_def set_nodes_def map_filter_def)
next
  case (Cons n ns)
  have c: "chosen allTags (n # ns) = (case map_of allTags n of None \<Rightarrow> [] | Some t \<Rightarrow> [t]) @ chosen allTags ns"
    by (simp add: chosen_def map_filter_def split: option.split)
  show ?case
  proof (cases "map_of allTags n")
    case None
    then show ?thesis using Cons.IH c by (simp add: enable_tag_def)
  next
    case (Some t)
    then show ?thesis using Cons.IH c
      by (cases "tag_type t") (simp_all add: enable_tag_def chosen_formats_def chosen_paths_def set_nodes_append)
  qed
qed


lemma write_other: "q \<noteq> p \<Longrightarrow> k_nodes (snd (WriteStrToFile p v k)) q = k_nodes k q"
  by (auto simp: WriteStrToFile_def split: option.split)

lemma truncate_other: "q \<noteq> p \<Longrightarrow> k_nodes (TruncateFile p k) q = k_nodes k q"
  by (auto simp: TruncateFile_def split: option.split)

lemma property_nodes [simp]: "k_nodes (snd (SetProperty n v k)) = k_nodes k" "k_accepts (snd (SetProperty n v k)) = k_accepts k"
  "k_paramOk (snd (SetProperty n v k)) = k_paramOk k"
  by (simp_all add: SetProperty_def)

lemma init_nodes:
  fixes k :: kernel
  assumes "''saved_cmdlines_size'' \<notin> set (kernel_paths allTags)"
  defines "k2 \<equiv> TruncateFile TRACE_NODE (TraceInit allTags k)"
  shows "p \<notin> control_nodes \<Longrightarrow> k_nodes k2 p = k_nodes (set_nodes False (kernel_paths allTags) k) p"
    "k_accepts k2 = k_accepts k" "k_paramOk k2 = k_paramOk k" "read_node ''saved_cmdlines_size'' k2 = read_node ''saved_cmdlines_size'' k"
proof -
  let ?k1 = "snd (SetProperty TRACE_TAG_ENABLE_FLAGS (to_string_nat 0) (set_nodes False (kernel_paths allTags) k))"
  have k2: "k2 = TruncateFile TRACE_NODE (snd (WriteStrToFile ''buffer_size_kb'' ''1'' (snd (WriteStrToFile TRACING_ON_NODE ''0'' ?k1))))"
    by (simp add: k2_def TraceInit_def close_events SetTraceNodeStatus_def Let_def)
  have "same_events ?k1 k2"
    unfolding k2 by (intro same_events_trans [OF same_events_write same_events_trans [OF same_events_write same_events_truncate]])
      (simp_all add: control_nodes_def TRACE_NODE_def TRACING_ON_NODE_def)
  then show "p \<notin> control_nodes \<Longrightarrow> k_nodes k2 p = k_nodes (set_nodes False (kernel_paths allTags) k) p"
    "k_accepts k2 = k_accepts k" "k_paramOk k2 = k_paramOk k"
    by (simp_all add: same_events_def) (simp_all add: set_nodes_eq)
  show "read_node ''saved_cmdlines_size'' k2 = read_node ''saved_cmdlines_size'' k"
    using assms(1) by (simp add: read_node_def k2 truncate_other write_other TRACE_NODE_def TRACING_ON_NODE_def set_nodes_eq)
qed

text \<open>C4: Configuring a trace switches on exactly the kernel events of the chosen tags: every event node that
can be written holds 1 if one of the chosen tags has it and 0 otherwise, whatever was on before; the
parameter for the user tags is the union of the bits of the chosen user tags, and the formats to save
are those of the chosen kernel tags.\<close>

theorem trace_setting_enables_exactly:
  assumes "set (kernel_paths allTags) \<inter> control_nodes = {}" "tp_filterPids tp = []"
    and "p \<in> set (kernel_paths allTags)" "k_nodes k p \<noteq> None" "k_accepts k p ''0''" "k_accepts k p ''1''" "k_paramOk k TRACE_TAG_ENABLE_FLAGS"
    and "SetTraceSetting addFilterPids tp allTags tagGroupTable tagFmts k = (tagFmts', k')"
    and "ts = chosen allTags (readyEnableTagList tp tagGroupTable k)"
  shows "k_nodes k' p = Some (if p \<in> set (chosen_paths ts) then ''1'' else ''0'') \<and>
    k_params k' TRACE_TAG_ENABLE_FLAGS = Some (to_string_nat (unat (user_bits ts))) \<and> tagFmts' = tagFmts @ chosen_formats ts"
proof -
  define k2 where "k2 = TruncateFile TRACE_NODE (TraceInit allTags k)"
  have "''saved_cmdlines_size'' \<notin> set (kernel_paths allTags)" using assms(1) by (auto simp: control_nodes_def)
  note init = init_nodes [OF this, where k = k, folded k2_def]
  have "readyEnableTagList tp tagGroupTable k2 = readyEnableTagList tp tagGroupTable k"
    by (simp add: readyEnableTagList_def init(4))
  then have all: "SetAllTags tp allTags tagGroupTable tagFmts k2 =
      (tagFmts @ chosen_formats ts, snd (SetProperty TRACE_TAG_ENABLE_FLAGS (to_string_nat (unat (user_bits ts))) (set_nodes True (chosen_paths ts) k2)))"
    by (simp add: SetAllTags_def enable_tags user_bits_def assms(9))
  define k3 where "k3 = snd (SetProperty TRACE_TAG_ENABLE_FLAGS (to_string_nat (unat (user_bits ts))) (set_nodes True (chosen_paths ts) k2))"
  have k': "k' = set_options tp (SetClock (tp_clockType tp) (snd (WriteStrToFile ''buffer_size_kb'' (tp_bufferSize tp)
      (snd (WriteStrToFile ''current_tracer'' ''nop'' k3)))))" "tagFmts' = tagFmts @ chosen_formats ts"
    using assms(2,8) all by (auto simp: SetTraceSetting_def Let_def k2_def k3_def)
  have "same_events k3 k'"
    unfolding k' by (intro same_events_trans [OF same_events_write same_events_trans [OF same_events_write
          same_events_trans [OF same_events_clock same_events_options]]]) (simp_all add: control_nodes_def)
  moreover have p: "p \<notin> control_nodes" using assms(1,3) by auto
  moreover have "k_nodes k2 p = Some ''0''" using init(1) [OF p] assms(3-5) by (simp add: set_nodes_eq)
  ultimately have "k_nodes k' p = Some (if p \<in> set (chosen_paths ts) then ''1'' else ''0'')" "k_params k' = k_params k3"
    using init(2) assms(6) by (simp_all add: same_events_def k3_def set_nodes_eq)
  moreover have "k_params k3 TRACE_TAG_ENABLE_FLAGS = Some (to_string_nat (unat (user_bits ts)))"
    using init(3) assms(7) by (simp add: k3_def SetProperty_def set_nodes_eq)
  ultimately show ?thesis using k'(2) by simp
qed


lemma chosen_path_iff:
  "p \<in> set (chosen_paths (chosen allTags ns)) \<longleftrightarrow>
   (\<exists>n \<in> set ns. \<exists>t. map_of allTags n = Some t \<and> tag_type t = KERNEL \<and> p \<in> set (enablePath t))"
  by (force simp: chosen_paths_def chosen_def map_filter_def)

definition sample_tags :: tag_table where
  "sample_tags = [(''irq'', \<lparr>tag_description = [], tag_bits = 0, tag_type = KERNEL, enablePath = [''events/irq/enable''], formatPath = [''events/irq/format'']\<rparr>),
     (''ohos'', \<lparr>tag_description = [], tag_bits = 4, tag_type = USER, enablePath = [], formatPath = []\<rparr>),
     (''sched'', \<lparr>tag_description = [], tag_bits = 0, tag_type = KERNEL, enablePath = [''events/sched/enable''], formatPath = []\<rparr>)]"

definition sample_kernel :: kernel where
  "sample_kernel = \<lparr>k_nodes = [''events/irq/enable'' \<mapsto> ''1'', ''events/sched/enable'' \<mapsto> ''0''], k_accepts = (\<lambda>_ _. True),
     k_params = Map.empty, k_paramOk = (\<lambda>_. True)\<rparr>"

theorem trace_setting_enables_exactly_witness:
  "k_nodes (snd (SetTraceSetting (\<lambda>_ k. k) (TraceParams_default\<lparr>tp_tags := [''sched'', ''ohos'']\<rparr>) sample_tags [] [] sample_kernel)) ''events/sched/enable'' = Some ''1'' \<and>
   k_nodes (snd (SetTraceSetting (\<lambda>_ k. k) (TraceParams_default\<lparr>tp_tags := [''sched'', ''ohos'']\<rparr>) sample_tags [] [] sample_kernel)) ''events/irq/enable'' = Some ''0''"
proof -
  let ?tp = "TraceParams_default\<lparr>tp_tags := [''sched'', ''ohos'']\<rparr>"
  obtain f' k' where r: "SetTraceSetting (\<lambda>_ k. k) ?tp sample_tags [] [] sample_kernel = (f', k')"
    by (cases "SetTraceSetting (\<lambda>_ k. k) ?tp sample_tags [] [] sample_kernel")
  have d: "set (kernel_paths sample_tags) \<inter> control_nodes = {}" "tp_filterPids ?tp = []" "k_paramOk sample_kernel TRACE_TAG_ENABLE_FLAGS"
    by (simp_all add: kernel_paths_def sample_tags_def control_nodes_def TraceParams_default_def sample_kernel_def)
  have n: "set (readyEnableTagList ?tp [] sample_kernel) = {''sched'', ''ohos''}"
    by (auto simp: readyEnableTagList_def TraceParams_default_def)
  have "k_nodes k' p = Some (if p \<in> set (chosen_paths (chosen sample_tags (readyEnableTagList ?tp [] sample_kernel))) then ''1'' else ''0'')"
    if "p = ''events/irq/enable'' \<or> p = ''events/sched/enable''" for p
    using trace_setting_enables_exactly [OF d(1,2) _ _ _ _ d(3) r refl, of p] that
    by (auto simp: kernel_paths_def sample_tags_def sample_kernel_def)
  then show ?thesis unfolding r chosen_path_iff n by (auto simp: sample_tags_def)
qed

end
