(* ===== verification/Trace_Files.thy ===== *)
theory Trace_Files
  imports Common_Utils "HOL-Library.Signed_Division" "HOL-Library.Monad_Syntax"
begin

text \<open>
  The trace files: \<^verbatim>\<open>utils/trace_file_utils.cpp\<close>. Names that carry the time of a trace and are read
  back, the listing of the trace directory, renaming, removal, and the two cleaners of the cache. The
  file system is explicit: an association list from paths to nodes in directory order. The clocks, the
  time zone (\<^verbatim>\<open>localtime_r\<close>, \<^verbatim>\<open>mktime\<close>) and the outcome of \<^verbatim>\<open>rename\<close> are arguments.
\<close>

section \<open>The file system\<close>

datatype d_type = DT_REG | DT_DIR | DT_OTHER

text \<open>
  What the code asks of a file: its type, size and change time, whether it carries the link
  attribute, whether it can be opened for reading, whether another process holds its lock and
  whether \<^verbatim>\<open>remove\<close> succeeds.
\<close>

record fnode =
  node_type :: d_type
  st_size :: int
  st_ctime :: int
  has_link :: bool
  can_open :: bool
  is_locked :: bool
  can_remove :: bool

type_synonym fs = "(string \<times> fnode) list"

definition fs_remove :: "fs \<Rightarrow> string \<Rightarrow> fs" where
  "fs_remove fs p = filter (\<lambda>e. fst e \<noteq> p) fs"

text \<open>The C function \<^verbatim>\<open>remove\<close>, and \<^verbatim>\<open>RemoveFile\<close>, which takes the lock first.\<close>

definition c_remove :: "fs \<Rightarrow> string \<Rightarrow> bool \<times> fs" where
  "c_remove fs p = (case map_of fs p of None \<Rightarrow> (False, fs)
     | Some n \<Rightarrow> if can_remove n then (True, fs_remove fs p) else (False, fs))"

definition RemoveFile :: "fs \<Rightarrow> string \<Rightarrow> bool \<times> fs" where
  "RemoveFile fs fileName =
     (case map_of fs fileName of
        None \<Rightarrow> (False, fs)
      | Some n \<Rightarrow>
          if \<not> can_open n then (False, fs)
          else if is_locked n then (False, fs)
          else c_remove fs fileName)"

definition GetFileSize :: "fs \<Rightarrow> string \<Rightarrow> int" where
  "GetFileSize fs filePath = (case map_of fs filePath of None \<Rightarrow> -1 | Some n \<Rightarrow> st_size n)"

section \<open>Listing the directory\<close>

datatype TraceDumpType = TRACE_SNAPSHOT | TRACE_RECORDING | TRACE_CACHE | TRACE_ASYNC_READ | TRACE_ASYNC_WRITE

definition TRACE_SNAPSHOT_PREFIX :: string where "TRACE_SNAPSHOT_PREFIX = ''trace_''"
definition TRACE_RECORDING_PREFIX :: string where "TRACE_RECORDING_PREFIX = ''record_trace_''"
definition TRACE_CACHE_PREFIX :: string where "TRACE_CACHE_PREFIX = ''cache_trace_''"

fun tracePrefixMap :: "TraceDumpType \<Rightarrow> string" where
  "tracePrefixMap TRACE_SNAPSHOT = TRACE_SNAPSHOT_PREFIX"
| "tracePrefixMap TRACE_RECORDING = TRACE_RECORDING_PREFIX"
| "tracePrefixMap TRACE_CACHE = TRACE_CACHE_PREFIX"
| "tracePrefixMap TRACE_ASYNC_READ = TRACE_SNAPSHOT_PREFIX"
| "tracePrefixMap TRACE_ASYNC_WRITE = TRACE_SNAPSHOT_PREFIX"

record TraceFileInfo =
  filename :: string
  fi_startTime :: u64
  fi_endTime :: u64
  fi_size :: int
  ctime :: int
  isNewFile :: bool

definition TraceFileInfo_default :: TraceFileInfo where
  "TraceFileInfo_default = \<lparr>filename = '''', fi_startTime = 0, fi_endTime = 0, fi_size = 0, ctime = 0, isNewFile = True\<rparr>"

definition TraceFileInfo_of_name :: "fs \<Rightarrow> string \<Rightarrow> TraceFileInfo" where
  "TraceFileInfo_of_name fs name = TraceFileInfo_default\<lparr>filename := name,
     fi_size := (case map_of fs name of None \<Rightarrow> 0 | Some n \<Rightarrow> st_size n)\<rparr>"

definition TraceFileInfo_listed :: "string \<Rightarrow> int \<Rightarrow> int \<Rightarrow> bool \<Rightarrow> TraceFileInfo" where
  "TraceFileInfo_listed name t sizekB newFile = TraceFileInfo_default\<lparr>filename := name, ctime := t,
     fi_size := sizekB, isNewFile := newFile\<rparr>"

definition TrimTrailingSlashes :: "string \<Rightarrow> string" where
  "TrimTrailingSlashes path =
     (if path = [] then ''''
      else let t = rev (dropWhile (\<lambda>c. c = CHR ''/'') (rev path)) in if t = [] then ''/'' else t)"

text \<open>
  An entry of a directory is its name with the node. \<^verbatim>\<open>opendir\<close> succeeds on the directories of the
  file system, and \<^verbatim>\<open>readdir\<close> also gives the two dot entries.
\<close>

definition readdir :: "fs \<Rightarrow> string \<Rightarrow> (string \<times> d_type) list option" where
  "readdir fs dir =
     (case map_of fs dir of None \<Rightarrow> None
      | Some n \<Rightarrow>
          if node_type n = DT_DIR
          then Some ([(''.'', DT_DIR), (''..'', DT_DIR)] @
            map (\<lambda>e. (drop (length dir + 1) (fst e), node_type (snd e)))
              (filter (\<lambda>e. prefix (dir @ ''/'') (fst e) \<and> fst e \<noteq> dir @ ''/'' \<and>
                 CHR ''/'' \<notin> set (drop (length dir + 1) (fst e))) fs))
          else None)"

lemma readdir_entry:
  assumes "readdir fs dir = Some es" "e \<in> set es" "fst e \<noteq> ''.''" "fst e \<noteq> ''..''"
  shows "\<exists>n. (dir @ ''/'' @ fst e, n) \<in> set fs \<and> snd e = node_type n \<and> fst e \<noteq> '''' \<and> CHR ''/'' \<notin> set (fst e)"
  using assms by (force simp: readdir_def prefix_def split: option.splits if_splits)

text \<open>
  The traversal, as the sequence of calls of the handler: directory, name and type. It ends because a
  path below a directory is longer and every path is one of the file system.
\<close>

definition longest :: "fs \<Rightarrow> nat" where
  "longest fs = Max (insert 0 (length ` fst ` set fs))"

lemma longest_le: "(p, n) \<in> set fs \<Longrightarrow> length p \<le> longest fs"
  unfolding longest_def by (rule Max_ge) force+

function TraverseFilesInner :: "fs \<Rightarrow> bool \<Rightarrow> string \<Rightarrow> bool \<times> (string \<times> string \<times> d_type) list" where
  "TraverseFilesInner fs recursion dirPath =
     (case readdir fs dirPath of None \<Rightarrow> (False, [])
      | Some es \<Rightarrow>
          (True, concat (map (\<lambda>e.
             if fst e = ''.'' \<or> fst e = ''..'' then []
             else (if recursion \<and> snd e = DT_DIR
                   then snd (TraverseFilesInner fs recursion (dirPath @ ''/'' @ fst e)) else []) @
                  [(dirPath, fst e, snd e)]) es)))"
  by pat_completeness auto
termination
proof (relation "measure (\<lambda>(fs, r, d). Suc (longest fs) - length d)", goal_cases)
  case (2 fs recursion dirPath es e)
  then obtain n where "(dirPath @ ''/'' @ fst e, n) \<in> set fs" using readdir_entry [of fs dirPath es e] by auto
  then have "length (dirPath @ ''/'' @ fst e) \<le> longest fs" by (rule longest_le)
  then show ?case by simp
qed simp

declare TraverseFilesInner.simps [simp del]

definition TraverseFiles :: "fs \<Rightarrow> string \<Rightarrow> bool \<Rightarrow> bool \<times> (string \<times> string \<times> d_type) list" where
  "TraverseFiles fs dirPath recursion =
     (let trimmedDirPath = TrimTrailingSlashes dirPath
      in if trimmedDirPath = [] then (False, []) else TraverseFilesInner fs recursion trimmedDirPath)"

text \<open>
  \<^verbatim>\<open>std::sort\<close> leaves the order of files with the same change time open; the model keeps the
  directory order there.
\<close>

definition GetTraceFilesInDir :: "fs \<Rightarrow> TraceDumpType \<Rightarrow> TraceFileInfo list \<Rightarrow> TraceFileInfo list" where
  "GetTraceFilesInDir fs traceType fileList =
     (let target = tracePrefixMap traceType;
          found = List.map_filter (\<lambda>(dirPath, name, ty).
            if ty \<noteq> DT_REG then None
            else if take (length target) name \<noteq> target then None
            else let filePath = dirPath @ ''/'' @ name
                 in map_option (\<lambda>n. TraceFileInfo_listed filePath (st_ctime n) (st_size n) False) (map_of fs filePath))
            (snd (TraverseFiles fs TRACE_FILE_DEFAULT_DIR False))
      in sort_key ctime (fileList @ found))"

definition GetTraceFileNamesInDir :: "fs \<Rightarrow> TraceDumpType \<Rightarrow> string list" where
  "GetTraceFileNamesInDir fs traceType =
     (let target = tracePrefixMap traceType
      in List.map_filter (\<lambda>(dirPath, name, ty).
           if ty = DT_REG \<and> take (length target) name = target then Some (dirPath @ ''/'' @ name) else None)
           (snd (TraverseFiles fs TRACE_FILE_DEFAULT_DIR False)))"

section \<open>Where a trace may be written\<close>

definition TRACE_WRITABLE_PATH :: string where "TRACE_WRITABLE_PATH = ''/data/local/tmp''"

definition IsWritable :: "string \<Rightarrow> bool" where
  "IsWritable fileName =
     (let len = length TRACE_WRITABLE_PATH
      in if take len fileName \<noteq> TRACE_WRITABLE_PATH then False
         else if length fileName = len then True
         else if fileName ! len \<noteq> CHR ''/'' then False
         else str_find fileName ''../'' len = None \<and> str_find fileName (''..'' @ [char_of (92::nat)]) len = None \<and>
              str_find fileName ''./'' len = None \<and> str_find fileName (''.'' @ [char_of (92::nat)]) len = None)"

definition IsWritableDir :: "string \<Rightarrow> bool" where
  "IsWritableDir fileName =
     (let len = length TRACE_WRITABLE_PATH
      in if take len fileName \<noteq> TRACE_WRITABLE_PATH then False
         else length fileName = len \<or> length fileName = len + 1 \<and> fileName ! len = CHR ''/'')"

section \<open>Names that carry the time\<close>

record tm =
  tm_year :: int
  tm_mon :: int
  tm_mday :: int
  tm_hour :: int
  tm_min :: int
  tm_sec :: int

record file_env =
  unix_now :: int
  boot_sec :: int
  boot_nsec :: int
  localtime_r :: "int \<Rightarrow> tm option"
  mktime :: "tm \<Rightarrow> int"

definition S_TO_MS :: u64 where "S_TO_MS = 1000"
definition MS_TO_NS :: u64 where "MS_TO_NS = 1000000"

definition ConvertPageTraceTimeToUtTimeMs :: "file_env \<Rightarrow> u64 \<Rightarrow> u64" where
  "ConvertPageTraceTimeToUtTimeMs env pageTraceTime =
     (let btNowMs = of_int (boot_sec env) * S_TO_MS + of_int (boot_nsec env) div MS_TO_NS;
          utNowMs = of_int (unix_now env) * S_TO_MS
      in utNowMs - btNowMs + pageTraceTime div MS_TO_NS)"

text \<open>
  \<^verbatim>\<open>strftime\<close> with \<^verbatim>\<open>"%Y%m%d%H%M%S"\<close> into 16 bytes; a text that does not fit leaves the buffer of
  zeros. A year is printed without padding, the other fields with two digits.
\<close>

definition pad2 :: "int \<Rightarrow> string" where
  "pad2 i = (if i < 10 then CHR ''0'' # to_string_int i else to_string_int i)"

definition TIME_BUFFER_SIZE :: nat where "TIME_BUFFER_SIZE = 16"

definition strftime :: "tm \<Rightarrow> string" where
  "strftime t =
     (let s = to_string_int (tm_year t + 1900) @ pad2 (tm_mon t + 1) @ pad2 (tm_mday t) @ pad2 (tm_hour t) @
              pad2 (tm_min t) @ pad2 (tm_sec t)
      in if length s < TIME_BUFFER_SIZE then s else '''')"

definition time_suffix :: "string \<Rightarrow> u64 \<Rightarrow> u64 \<Rightarrow> string" where
  "time_suffix timeBuf firstPageTraceTime traceDuration =
     timeBuf @ ''@'' @ to_string_nat (unat (firstPageTraceTime div S_TO_NS)) @ ''-'' @
     to_string_nat (unat traceDuration) @ ''.sys''"

definition RegenerateTraceFileName :: "file_env \<Rightarrow> fs \<Rightarrow> string \<Rightarrow> u64 \<Rightarrow> u64 \<Rightarrow> string \<Rightarrow> string" where
  "RegenerateTraceFileName env fs fileName firstPageTraceTime traceDuration outputPath =
     (let index = str_find fileName TRACE_SNAPSHOT_PREFIX 0
      in if index = None \<and> outputPath = [] then ''''
         else if fileName = outputPath then fileName
         else
           (let utFirstPageTraceTimeMs = ConvertPageTraceTimeToUtTimeMs env firstPageTraceTime;
                utFirstPageTraceTimeSec = sint (utFirstPageTraceTimeMs div S_TO_MS)
            in case localtime_r env utFirstPageTraceTimeSec of None \<Rightarrow> ''''
               | Some timeInfo \<Rightarrow>
                   (case index of
                      Some i \<Rightarrow> substr fileName 0 i @ TRACE_SNAPSHOT_PREFIX @
                        time_suffix (strftime timeInfo) firstPageTraceTime traceDuration
                    | None \<Rightarrow>
                        (case map_of fs outputPath of
                           Some n \<Rightarrow>
                             if node_type n = DT_DIR
                             then outputPath @ time_suffix (strftime timeInfo) firstPageTraceTime traceDuration
                             else ''''
                         | None \<Rightarrow> ''''))))"

text \<open>
  \<^verbatim>\<open>sscanf_s\<close> with \<^verbatim>\<open>"trace_%4d%2d%2d%2d%2d%2d@%*[^-]-%u.sys"\<close>, which gives 7 when the number is read;
  what follows the number is not looked at.
\<close>

definition scan_lit :: "string \<Rightarrow> string \<Rightarrow> string option" where
  "scan_lit l s = (if prefix l s then Some (drop (length l) s) else None)"

definition scan_number :: "nat option \<Rightarrow> string \<Rightarrow> (int \<times> string) option" where
  "scan_number width s =
     (let t = dropWhile is_space s;
          sg = (t \<noteq> [] \<and> (hd t = CHR ''-'' \<or> hd t = CHR ''+''));
          u = (if sg then tl t else t);
          ds = takeWhile is_digit (case width of None \<Rightarrow> u | Some w \<Rightarrow> take (if sg then w - 1 else w) u)
      in if ds = [] then None
         else Some (signed_value (sg \<and> hd t = CHR ''-'') (dec_value ds), drop (length ds) u))"

definition scan_not_dash :: "string \<Rightarrow> string option" where
  "scan_not_dash s = (if takeWhile (\<lambda>c. c \<noteq> CHR ''-'') s = [] then None else Some (dropWhile (\<lambda>c. c \<noteq> CHR ''-'') s))"

definition scan_trace_name :: "string \<Rightarrow> (tm \<times> u32) option" where
  "scan_trace_name s = do {
     s0 \<leftarrow> scan_lit ''trace_'' s;
     (year, s1) \<leftarrow> scan_number (Some 4) s0;
     (mon, s2) \<leftarrow> scan_number (Some 2) s1;
     (mday, s3) \<leftarrow> scan_number (Some 2) s2;
     (hour, s4) \<leftarrow> scan_number (Some 2) s3;
     (minute, s5) \<leftarrow> scan_number (Some 2) s4;
     (sec, s6) \<leftarrow> scan_number (Some 2) s5;
     s7 \<leftarrow> scan_lit ''@'' s6;
     s8 \<leftarrow> scan_not_dash s7;
     s9 \<leftarrow> scan_lit ''-'' s8;
     (number, s10) \<leftarrow> scan_number None s9;
     Some (\<lparr>tm_year = year, tm_mon = mon, tm_mday = mday, tm_hour = hour, tm_min = minute, tm_sec = sec\<rparr>, of_int number)
   }"

definition TIME_INIT :: int where "TIME_INIT = 1900"

definition GetStartAndEndTraceUtTimeFromFileName :: "file_env \<Rightarrow> string \<Rightarrow> (u64 \<times> u64) option" where
  "GetStartAndEndTraceUtTimeFromFileName env fileName =
     (case str_find fileName TRACE_SNAPSHOT_PREFIX 0 of None \<Rightarrow> None
      | Some index \<Rightarrow>
          (case scan_trace_name (substr fileName index (length fileName - index)) of None \<Rightarrow> None
           | Some (timeInfo, number) \<Rightarrow>
               (let timestamp = mktime env (timeInfo\<lparr>tm_year := tm_year timeInfo - TIME_INIT,
                                                     tm_mon := tm_mon timeInfo - 1\<rparr>)
                in if timestamp = -1 then None
                   else let traceStartTime = of_int timestamp * S_TO_MS
                        in Some (traceStartTime, traceStartTime + ucast number))))"

text \<open>\<^verbatim>\<open>rename\<close>; \<open>ok\<close> is whether the system allows it.\<close>

definition fs_rename :: "bool \<Rightarrow> fs \<Rightarrow> string \<Rightarrow> string \<Rightarrow> bool \<times> fs" where
  "fs_rename ok fs old new =
     (case map_of fs old of None \<Rightarrow> (False, fs)
      | Some n \<Rightarrow> if \<not> ok then (False, fs)
                  else (True, if old = new then fs else (new, n) # fs_remove (fs_remove fs new) old))"

definition RenameTraceFile ::
  "file_env \<Rightarrow> bool \<Rightarrow> fs \<Rightarrow> string \<Rightarrow> u64 \<Rightarrow> u64 \<Rightarrow> string \<Rightarrow> string option \<times> fs" where
  "RenameTraceFile env ok fs fileName firstPageTraceTime lastPageTraceTime outputPath =
     (if firstPageTraceTime \<ge> lastPageTraceTime then (None, fs)
      else
        (let traceDuration = (lastPageTraceTime - firstPageTraceTime) div MS_TO_NS;
             newFileName = RegenerateTraceFileName env fs fileName firstPageTraceTime traceDuration outputPath
         in if newFileName = '''' then (None, fs)
            else let (renamed, fs') = fs_rename ok fs fileName newFileName
                 in if renamed then (Some newFileName, fs') else (None, fs')))"

text \<open>The fields of \<open>info\<close> that are not set keep their values; \<open>None\<close> is the result false.\<close>

definition SetFileInfo ::
  "file_env \<Rightarrow> bool \<Rightarrow> fs \<Rightarrow> bool \<Rightarrow> string \<Rightarrow> u64 \<times> u64 \<Rightarrow> TraceFileInfo \<Rightarrow> string \<Rightarrow> TraceFileInfo option \<times> fs" where
  "SetFileInfo env ok fs isFileExist outPath timestampRange info outputPath =
     (let (renamed, fs') =
        (if isFileExist then RenameTraceFile env ok fs outPath (fst timestampRange) (snd timestampRange) outputPath
         else (Some outPath, fs))
      in case renamed of None \<Rightarrow> (None, fs')
         | Some newFileName \<Rightarrow>
             (Some (info\<lparr>filename := newFileName,
                fi_startTime := ConvertPageTraceTimeToUtTimeMs env (fst timestampRange),
                fi_endTime := ConvertPageTraceTimeToUtTimeMs env (snd timestampRange),
                fi_size := (if isFileExist then GetFileSize fs' newFileName else 0)\<rparr>), fs'))"

definition GenerateTraceFileNameInner :: "file_env \<Rightarrow> TraceDumpType \<Rightarrow> string" where
  "GenerateTraceFileNameInner env traceType =
     (case localtime_r env (unix_now env) of None \<Rightarrow> ''''
      | Some timeInfo \<Rightarrow>
          tracePrefixMap traceType @ strftime timeInfo @ ''@'' @ to_string_int (boot_sec env) @ ''-'' @
          to_string_int (boot_nsec env) @ ''.sys'')"

definition GenerateTraceFileName :: "file_env \<Rightarrow> TraceDumpType \<Rightarrow> string \<Rightarrow> string" where
  "GenerateTraceFileName env traceType outputPath =
     (if outputPath = [] then TRACE_FILE_DEFAULT_DIR @ GenerateTraceFileNameInner env traceType
      else if IsWritable outputPath then
        if IsWritableDir outputPath
        then outputPath @ (if last outputPath = CHR ''/'' then '''' else ''/'') @ GenerateTraceFileNameInner env traceType
        else outputPath
      else '''')"

definition GenerateTraceFileNameByTraceTime :: "file_env \<Rightarrow> TraceDumpType \<Rightarrow> u64 \<Rightarrow> u64 \<Rightarrow> string" where
  "GenerateTraceFileNameByTraceTime env traceType firstPageTraceTime lastPageTraceTime =
     (if firstPageTraceTime \<ge> lastPageTraceTime then ''''
      else
        (let traceDuration = (lastPageTraceTime - firstPageTraceTime) div MS_TO_NS;
             utFirstPageTraceTimeMs = ConvertPageTraceTimeToUtTimeMs env firstPageTraceTime
         in case localtime_r env (sint (utFirstPageTraceTimeMs div S_TO_MS)) of None \<Rightarrow> ''''
            | Some timeInfo \<Rightarrow> TRACE_FILE_DEFAULT_DIR @ tracePrefixMap traceType @
                time_suffix (strftime timeInfo) firstPageTraceTime traceDuration))"

section \<open>Cleaning and refreshing\<close>

definition DelSavedEventsFormat :: "fs \<Rightarrow> fs" where
  "DelSavedEventsFormat fs =
     (let p = TRACE_FILE_DEFAULT_DIR @ ''saved_events_format''
      in if map_of fs p = None then fs else snd (c_remove fs p))"

definition DEFAULT_TRACE_DURATION :: u64 where "DEFAULT_TRACE_DURATION = 30"

definition cache_expired :: "u64 \<Rightarrow> TraceFileInfo \<Rightarrow> bool" where
  "cache_expired currentTime it \<longleftrightarrow>
     fi_endTime it < currentTime - DEFAULT_TRACE_DURATION \<or> fi_endTime it > currentTime"

primrec clear_duration_loop :: "u64 \<Rightarrow> fs \<Rightarrow> TraceFileInfo list \<Rightarrow> TraceFileInfo list \<times> fs" where
  "clear_duration_loop currentTime fs [] = ([], fs)"
| "clear_duration_loop currentTime fs (it # vec) =
     (if cache_expired currentTime it
      then clear_duration_loop currentTime (snd (c_remove fs (filename it))) vec
      else let (vec', fs') = clear_duration_loop currentTime fs vec in (it # vec', fs'))"

definition ClearCacheTraceFileByDuration :: "file_env \<Rightarrow> fs \<Rightarrow> TraceFileInfo list \<Rightarrow> TraceFileInfo list \<times> fs" where
  "ClearCacheTraceFileByDuration env fs cacheFileVec = clear_duration_loop (of_int (unix_now env)) fs cacheFileVec"

primrec clear_size_loop :: "int \<Rightarrow> int \<Rightarrow> fs \<Rightarrow> TraceFileInfo list \<Rightarrow> TraceFileInfo list \<times> fs" where
  "clear_size_loop limit sizes fs [] = ([], fs)"
| "clear_size_loop limit sizes fs (it # vec) =
     (if sizes > limit
      then let (ok, fs') = c_remove fs (filename it)
           in clear_size_loop limit (if ok then sizes - fi_size it else sizes) fs' vec
      else (it # vec, fs))"

definition ClearCacheTraceFileBySize :: "fs \<Rightarrow> u64 \<Rightarrow> TraceFileInfo list \<Rightarrow> TraceFileInfo list \<times> fs" where
  "ClearCacheTraceFileBySize fs fileSizeLimit cacheFileVec =
     clear_size_loop (sint fileSizeLimit) (sum_list (map fi_size cacheFileVec)) fs cacheFileVec"

definition RefreshTraceVec :: "file_env \<Rightarrow> fs \<Rightarrow> TraceDumpType \<Rightarrow> TraceFileInfo list" where
  "RefreshTraceVec env fs traceType =
     List.map_filter (\<lambda>f. map_option (\<lambda>(s, e). TraceFileInfo_default\<lparr>filename := filename f, fi_startTime := s,
           fi_endTime := e, fi_size := fi_size f\<rparr>) (GetStartAndEndTraceUtTimeFromFileName env (filename f)))
       (GetTraceFilesInDir fs traceType [])"

definition CACHE_FILE_PREFIX :: string where "CACHE_FILE_PREFIX = ''cache_''"

definition after_last_slash :: "string \<Rightarrow> nat" where
  "after_last_slash s = length s - length (takeWhile (\<lambda>c. c \<noteq> CHR ''/'') (rev s))"

definition RenameCacheFile :: "bool \<Rightarrow> fs \<Rightarrow> string \<Rightarrow> string \<times> fs" where
  "RenameCacheFile ok fs cacheFile =
     (let fileName = drop (after_last_slash cacheFile) cacheFile
      in case str_find fileName CACHE_FILE_PREFIX 0 of None \<Rightarrow> (cacheFile, fs)
         | Some pos \<Rightarrow>
             (let dirPath = take (after_last_slash cacheFile) cacheFile;
                  newFilePath = dirPath @ drop (pos + length CACHE_FILE_PREFIX) fileName;
                  (renamed, fs') = fs_rename ok fs cacheFile newFilePath
              in if renamed then (newFilePath, fs') else (cacheFile, fs')))"

section \<open>Names read back\<close>

definition tm_wf :: "tm \<Rightarrow> bool" where
  "tm_wf t \<longleftrightarrow> 1000 \<le> tm_year t + 1900 \<and> tm_year t + 1900 \<le> 9999 \<and> 0 \<le> tm_mon t \<and> tm_mon t \<le> 11 \<and>
     1 \<le> tm_mday t \<and> tm_mday t \<le> 31 \<and> 0 \<le> tm_hour t \<and> tm_hour t \<le> 23 \<and> 0 \<le> tm_min t \<and> tm_min t \<le> 59 \<and>
     0 \<le> tm_sec t \<and> tm_sec t \<le> 60"

text \<open>A text of \<open>w\<close> digits with the value \<open>i\<close>, the form in which every field of a name is printed.\<close>

definition field :: "nat \<Rightarrow> int \<Rightarrow> string \<Rightarrow> bool" where
  "field w i s \<longleftrightarrow> length s = w \<and> list_all is_digit s \<and> int (dec_value s) = i"

lemma field_pad2: "0 \<le> i \<Longrightarrow> i < 100 \<Longrightarrow> field 2 i (pad2 i)"
proof -
  assume "0 \<le> i" "i < 100"
  then obtain n where n: "i = int n" "n < 100" by (metis nat_less_iff nat_0_le numeral_less_iff of_nat_less_iff of_nat_numeral)
  show ?thesis
  proof (cases "n < 10")
    case True
    then show ?thesis using n
      by (simp add: field_def pad2_def to_string_int_def dec_digits.simps [of n] dec_value_def is_digit_def digit_value_def digit_char_def)
  next
    case False
    then have "n div 10 < 10" using n by simp
    then have d: "dec_digits n = [digit_char (n div 10), digit_char (n mod 10)]"
      using False by (simp add: dec_digits.simps [of n] dec_digits.simps [of "n div 10"])
    have "dec_value (dec_digits n) = n" by simp
    with d False n \<open>n div 10 < 10\<close> show ?thesis
      by (simp add: field_def pad2_def to_string_int_def)
  qed
qed

lemma field_year: "1000 \<le> i \<Longrightarrow> i \<le> 9999 \<Longrightarrow> field 4 i (to_string_int i)"
proof -
  assume a: "1000 \<le> i" "i \<le> 9999"
  define n where "n = nat i"
  have n: "i = int n" "1000 \<le> n" "n < 10 ^ 4" using a by (auto simp: n_def)
  have "n div 10 \<ge> 100" "n div 10 div 10 \<ge> 10" using n by auto
  then have "length (dec_digits n) \<ge> 4"
    using n by (subst dec_digits.simps, subst dec_digits.simps, subst dec_digits.simps, subst dec_digits.simps) simp
  moreover have "length (dec_digits n) \<le> 4" using n(3) by (rule length_dec_digits) simp
  ultimately show ?thesis using n by (simp add: field_def to_string_int_def dec_digits_digits)
qed

lemma scan_field: "field w i s \<Longrightarrow> 0 < w \<Longrightarrow> scan_number (Some w) (s @ rest) = Some (i, rest)"
proof -
  assume f: "field w i s" and w: "0 < w"
  then obtain c cs where s: "s = c # cs" by (cases s) (auto simp: field_def)
  have c: "is_digit c" "dropWhile is_space (s @ rest) = s @ rest" "hd (s @ rest) = c"
    using f s by (auto simp: field_def)
  have "takeWhile is_digit cs = cs" using f s by (simp add: field_def takeWhile_eq_all_conv list_all_iff)
  with f c s show ?thesis
    by (auto simp: scan_number_def Let_def field_def signed_value_def takeWhile_eq_all_conv [THEN iffD2])
qed

lemma scan_rest_number:
  "rest = [] \<or> \<not> is_digit (hd rest) \<Longrightarrow> scan_number None (dec_digits n @ rest) = Some (int n, rest)"
proof -
  assume r: "rest = [] \<or> \<not> is_digit (hd rest)"
  obtain c cs where d: "dec_digits n = c # cs" by (cases "dec_digits n") auto
  have "is_digit c" using dec_digits_hd [of n] d by simp
  then have c: "dropWhile is_space (dec_digits n @ rest) = dec_digits n @ rest" "hd (dec_digits n @ rest) = c" using d by auto
  have t: "takeWhile is_digit (dec_digits n @ rest) = dec_digits n"
    using r dec_digits_digits [of n] by (cases rest) (auto simp: list_all_iff takeWhile_tail takeWhile_eq_all_conv)
  show ?thesis using c t d \<open>is_digit c\<close> dec_value_dec_digits [of n]
    by (auto simp: scan_number_def Let_def signed_value_def)
qed

lemma scan_trace_name_printed:
  assumes "tm_wf t"
  shows "scan_trace_name (''trace_'' @ time_suffix (strftime t) first dur) =
    Some (t\<lparr>tm_year := tm_year t + 1900, tm_mon := tm_mon t + 1\<rparr>, of_nat (unat dur))"
proof -
  let ?y = "to_string_int (tm_year t + 1900)"
  have f: "field 4 (tm_year t + 1900) ?y" "field 2 (tm_mon t + 1) (pad2 (tm_mon t + 1))"
    "field 2 (tm_mday t) (pad2 (tm_mday t))" "field 2 (tm_hour t) (pad2 (tm_hour t))"
    "field 2 (tm_min t) (pad2 (tm_min t))" "field 2 (tm_sec t) (pad2 (tm_sec t))"
    using assms by (auto simp: tm_wf_def intro: field_year field_pad2)
  then have s: "strftime t = ?y @ pad2 (tm_mon t + 1) @ pad2 (tm_mday t) @ pad2 (tm_hour t) @ pad2 (tm_min t) @ pad2 (tm_sec t)"
    by (simp add: strftime_def Let_def field_def TIME_BUFFER_SIZE_def)
  let ?b = "dec_digits (unat (first div S_TO_NS))"
  have b: "takeWhile (\<lambda>c. c \<noteq> CHR ''-'') (?b @ ''-'' @ r) = ?b" "dropWhile (\<lambda>c. c \<noteq> CHR ''-'') (?b @ ''-'' @ r) = ''-'' @ r" for r
    using dec_digits_digits [of "unat (first div S_TO_NS)"]
    by (auto simp: list_all_iff takeWhile_tail dropWhile_append)
  have "scan_number None (dec_digits (unat dur) @ ''.sys'') = Some (int (unat dur), ''.sys'')"
    by (rule scan_rest_number) (simp add: is_digit_def)
  with b show ?thesis
    by (simp add: scan_trace_name_def time_suffix_def s scan_field [OF f(1)] scan_field [OF f(2)] scan_field [OF f(3)]
        scan_field [OF f(4)] scan_field [OF f(5)] scan_field [OF f(6)] scan_lit_def scan_not_dash_def to_string_nat_def)
qed

lemma find_pos_extend:
  "find_pos pat (p @ pat @ r) i = Some (i + length p) \<Longrightarrow> find_pos pat (p @ pat @ r') i = Some (i + length p)"
proof (induction p arbitrary: i)
  case Nil
  then show ?case by (cases pat; cases r') auto
next
  case (Cons c p)
  have np: "\<not> prefix pat (c # p @ pat @ r)" using Cons.prems by (auto split: if_splits)
  with Cons.prems have "find_pos pat (p @ pat @ r') (Suc i) = Some (Suc i + length p)" by (intro Cons.IH) simp
  moreover have "\<not> prefix pat (c # p @ pat @ r')"
  proof
    assume "prefix pat (c # p @ pat @ r')"
    then have "prefix pat ((c # p @ pat) @ r')" by simp
    then have "prefix pat (c # p @ pat)" by (rule prefix_length_prefix) auto
    then have "prefix pat ((c # p @ pat) @ r)" by (rule prefix_prefix)
    then have "prefix pat (c # p @ pat @ r)" by simp
    with np show False ..
  qed
  ultimately show ?case by simp
qed

lemma str_find_Some_split:
  assumes "str_find s pat 0 = Some i"
  obtains r where "s = take i s @ pat @ r" "i \<le> length s"
proof -
  from assms have "find_pos pat s 0 = Some i" by (simp add: str_find_def)
  from find_pos_Some [OF this] have "i \<le> length s" "prefix pat (drop i s)" by auto
  then show ?thesis by (metis append_take_drop_id prefix_def that)
qed

lemma str_find_extend:
  assumes "str_find s pat 0 = Some i"
  shows "str_find (take i s @ pat @ r') pat 0 = Some i"
proof -
  obtain r where r: "s = take i s @ pat @ r" "i \<le> length s" using assms by (rule str_find_Some_split)
  have "find_pos pat (take i s @ pat @ r) 0 = Some (0 + length (take i s))"
    using assms r by (simp add: str_find_def)
  from find_pos_extend [OF this, of r'] r(2) show ?thesis by (simp add: str_find_def)
qed

lemma secs_sint: "sint ((w :: u64) div 1000) = uint (w div 1000)" "(of_int (uint (w div 1000)) :: u64) = w div 1000"
proof -
  have "uint w < 2 ^ 64" using uint_lt2p [of w] by simp
  then have "uint w div 1000 < 2 ^ 63" by simp
  then have "uint (w div 1000) < 2 ^ 63" by (simp add: uint_div_distrib)
  then show "sint (w div 1000) = uint (w div 1000)"
    unfolding sint_uint by (intro signed_take_bit_int_eq_self) (simp_all add: order_trans [OF _ uint_ge_0])
qed simp

text \<open>C20: The name given to a trace file carries the time of the trace: reading the name back gives the
start, rounded down to the second, and the end, which is that start plus the duration in milliseconds.
The time zone conversion must be inverted by \<^verbatim>\<open>mktime\<close>, the year have four digits and the duration
fit into 32 bits.\<close>

theorem trace_name_roundtrip:
  assumes "str_find fileName TRACE_SNAPSHOT_PREFIX 0 = Some index" "fileName \<noteq> outputPath"
    and "localtime_r env (sint (ConvertPageTraceTimeToUtTimeMs env first div S_TO_MS)) = Some t" "tm_wf t"
    and "mktime env t = sint (ConvertPageTraceTimeToUtTimeMs env first div S_TO_MS)"
    and "unat traceDuration < 2 ^ 32"
  shows "GetStartAndEndTraceUtTimeFromFileName env
      (RegenerateTraceFileName env fs fileName first traceDuration outputPath) =
    Some (ConvertPageTraceTimeToUtTimeMs env first div S_TO_MS * S_TO_MS,
          ConvertPageTraceTimeToUtTimeMs env first div S_TO_MS * S_TO_MS + traceDuration)"
proof -
  let ?suffix = "time_suffix (strftime t) first traceDuration"
  let ?ms = "ConvertPageTraceTimeToUtTimeMs env first"
  have new: "RegenerateTraceFileName env fs fileName first traceDuration outputPath =
      take index fileName @ TRACE_SNAPSHOT_PREFIX @ ?suffix"
    using assms(1-3) by (simp add: RegenerateTraceFileName_def Let_def substr_def)
  have idx: "index \<le> length fileName" using assms(1) by (rule str_find_Some_split)
  have find: "str_find (take index fileName @ TRACE_SNAPSHOT_PREFIX @ ?suffix) TRACE_SNAPSHOT_PREFIX 0 = Some index"
    by (rule str_find_extend) (rule assms(1))
  have secs: "sint (?ms div S_TO_MS) = uint (?ms div S_TO_MS)" by (simp add: S_TO_MS_def secs_sint)
  have nn: "uint (w :: u64) \<noteq> - 1" for w using uint_ge_0 [of w] by linarith
  have dur: "(ucast (of_nat (unat traceDuration) :: u32) :: u64) = traceDuration"
    using assms(6) by (intro word_unat_eq_iff [THEN iffD2]) (simp add: unsigned_ucast_eq unsigned_take_bit_eq take_bit_nat_eq_self)
  have scan: "scan_trace_name (TRACE_SNAPSHOT_PREFIX @ ?suffix) =
      Some (t\<lparr>tm_year := tm_year t + 1900, tm_mon := tm_mon t + 1\<rparr>, of_nat (unat traceDuration))"
    using scan_trace_name_printed [OF assms(4)] by (simp add: TRACE_SNAPSHOT_PREFIX_def)
  have sub: "substr (take index fileName @ X) index (length (take index fileName @ X) - index) = X" for X
    using idx by (simp add: substr_def)
  have "t\<lparr>tm_year := tm_year t + 1900 - TIME_INIT, tm_mon := tm_mon t + 1 - 1\<rparr> = t" by (simp add: TIME_INIT_def)
  then show ?thesis
    using assms(5) dur unfolding GetStartAndEndTraceUtTimeFromFileName_def new find
    by (simp add: sub scan secs nn Let_def del: length_append)
qed

definition sample_tm :: tm where
  "sample_tm = \<lparr>tm_year = 124, tm_mon = 10, tm_mday = 5, tm_hour = 7, tm_min = 3, tm_sec = 9\<rparr>"

definition sample_file_env :: file_env where
  "sample_file_env = \<lparr>unix_now = 1730790189, boot_sec = 0, boot_nsec = 0,
     localtime_r = (\<lambda>s. if s = 1730790189 then Some sample_tm else None),
     mktime = (\<lambda>t. if t = sample_tm then 1730790189 else -1)\<rparr>"

theorem trace_name_roundtrip_witness:
  "GetStartAndEndTraceUtTimeFromFileName sample_file_env
     (RegenerateTraceFileName sample_file_env [] ''/data/log/hitrace/cache_trace_1.sys'' 0 1500 '''') =
   Some (1730790189000, 1730790190500)"
proof -
  have "ConvertPageTraceTimeToUtTimeMs sample_file_env 0 div S_TO_MS = 1730790189"
    by (simp add: ConvertPageTraceTimeToUtTimeMs_def sample_file_env_def S_TO_MS_def MS_TO_NS_def)
  then show ?thesis
    using trace_name_roundtrip [of "''/data/log/hitrace/cache_trace_1.sys''" 24 "''''" sample_file_env 0 sample_tm 1500 "[]"]
    by (simp add: sample_file_env_def str_find_def TRACE_SNAPSHOT_PREFIX_def tm_wf_def sample_tm_def S_TO_MS_def)
qed

section \<open>Where traces are written\<close>

lemma find_pos_None_sublist: "find_pos pat s i = None \<longleftrightarrow> \<not> sublist pat s"
proof -
  have "(\<exists>k \<le> length s. prefix pat (drop k s)) \<longleftrightarrow> sublist pat s"
    by (metis (no_types) append_take_drop_id drop_all le_cases prefix_def sublist_def sublist_appendI append_eq_conv_conj length_append le_add1)
  then show ?thesis by (auto simp: find_pos_None)
qed

lemma sublist_ConsD: "sublist (x # l) r \<Longrightarrow> sublist l r"
  by (auto simp: sublist_def) (metis append_Cons append_Nil append_assoc)

text \<open>Exactly which output paths are accepted: the directory for temporary files, and paths below it
in which no dot stands before a slash or a backslash. So no component but the last is a dot or two dots;
the last one may be, and the parent directory is accepted as a file name.\<close>

theorem writable_paths:
  "(IsWritable p \<longleftrightarrow> p = TRACE_WRITABLE_PATH \<or>
     (\<exists>r. p = TRACE_WRITABLE_PATH @ ''/'' @ r \<and> \<not> sublist ''./'' r \<and> \<not> sublist [CHR ''.'', char_of (92::nat)] r)) \<and>
   IsWritable (TRACE_WRITABLE_PATH @ ''/..'')"
proof
  have sub: "sublist (CHR ''.'' # CHR ''.'' # t) (CHR ''/'' # r) \<Longrightarrow> sublist (CHR ''.'' # t) r"
    "sublist (CHR ''.'' # t) (CHR ''/'' # r) \<longleftrightarrow> sublist (CHR ''.'' # t) r" for t r
    by (auto simp: sublist_Cons_right dest: sublist_ConsD)
  show "IsWritable p \<longleftrightarrow> p = TRACE_WRITABLE_PATH \<or>
     (\<exists>r. p = TRACE_WRITABLE_PATH @ ''/'' @ r \<and> \<not> sublist ''./'' r \<and> \<not> sublist [CHR ''.'', char_of (92::nat)] r)"
    (is "_ \<longleftrightarrow> ?rhs")
  proof (cases "prefix TRACE_WRITABLE_PATH p")
    case False
    then show ?thesis by (auto simp: IsWritable_def Let_def prefix_def) (metis append_take_drop_id)
  next
    case True
    then obtain q where q: "p = TRACE_WRITABLE_PATH @ q" by (auto simp: prefix_def)
    show ?thesis
    proof (cases q)
      case Nil
      then show ?thesis using q by (simp add: IsWritable_def)
    next
      case (Cons c r)
      then show ?thesis using q sub
        by (auto simp: IsWritable_def Let_def nth_append str_find_def find_pos_None_sublist)
    qed
  qed
  show "IsWritable (TRACE_WRITABLE_PATH @ ''/..'')" by code_simp
qed

section \<open>The cleaners of the cache\<close>

text \<open>Files that exist under different names and that the system lets the process delete.\<close>

definition removable :: "fs \<Rightarrow> TraceFileInfo list \<Rightarrow> bool" where
  "removable fs vec \<longleftrightarrow> distinct (map filename vec) \<and>
     list_all (\<lambda>f. case map_of fs (filename f) of None \<Rightarrow> False | Some n \<Rightarrow> can_remove n) vec"

definition without :: "string set \<Rightarrow> fs \<Rightarrow> fs" where
  "without ps fs = filter (\<lambda>e. fst e \<notin> ps) fs"

lemma without_empty [simp]: "without {} fs = fs"
  by (simp add: without_def)

lemma without_remove: "without ps (fs_remove fs p) = without (insert p ps) fs"
  by (auto simp: without_def fs_remove_def intro: filter_cong)

lemma map_of_fs_remove [simp]: "map_of (fs_remove fs p) q = (if p = q then None else map_of fs q)"
  by (induction fs) (auto simp: fs_remove_def)

lemma removable_Cons:
  assumes "removable fs (f # vec)"
  shows "c_remove fs (filename f) = (True, fs_remove fs (filename f))" "removable (fs_remove fs (filename f)) vec"
proof -
  show "c_remove fs (filename f) = (True, fs_remove fs (filename f))"
    using assms by (auto simp: removable_def c_remove_def split: option.splits)
  have "filename f \<notin> filename ` set vec" using assms by (simp add: removable_def)
  then have "\<forall>g \<in> set vec. filename g \<noteq> filename f" by (metis imageI)
  then show "removable (fs_remove fs (filename f)) vec"
    using assms by (auto simp: removable_def list_all_iff)
qed

lemma clear_size_loop_spec:
  assumes "removable fs vec" "0 \<le> limit"
  shows "\<exists>k \<le> length vec. clear_size_loop limit (sum_list (map fi_size vec)) fs vec =
      (drop k vec, without (filename ` set (take k vec)) fs) \<and>
    sum_list (map fi_size (drop k vec)) \<le> limit \<and> (\<forall>j < k. limit < sum_list (map fi_size (drop j vec)))"
  using assms(1)
proof (induction vec arbitrary: fs)
  case Nil
  then show ?case using assms(2) by simp
next
  case (Cons f vec)
  show ?case
  proof (cases "sum_list (map fi_size (f # vec)) > limit")
    case False
    then show ?thesis by (intro exI [of _ 0]) simp
  next
    case True
    note r = removable_Cons [OF Cons.prems]
    from Cons.IH [OF r(2)] obtain k where k: "k \<le> length vec"
      "clear_size_loop limit (sum_list (map fi_size vec)) (fs_remove fs (filename f)) vec =
        (drop k vec, without (filename ` set (take k vec)) (fs_remove fs (filename f)))"
      "sum_list (map fi_size (drop k vec)) \<le> limit" "\<forall>j < k. limit < sum_list (map fi_size (drop j vec))" by auto
    have "clear_size_loop limit (sum_list (map fi_size (f # vec))) fs (f # vec) =
        (drop (Suc k) (f # vec), without (filename ` set (take (Suc k) (f # vec))) fs)"
      using True r(1) k(2) by (simp add: without_remove)
    moreover have "\<forall>j < Suc k. limit < sum_list (map fi_size (drop j (f # vec)))"
      using True k(4) by (auto simp: less_Suc_eq_0_disj)
    ultimately show ?thesis using k(1,3) by (intro exI [of _ "Suc k"]) simp
  qed
qed

text \<open>Clearing the cache by size drops the oldest files, and only as many as necessary: what is kept
is the longest tail of the list whose sizes are within the limit, and exactly the dropped files are
deleted.\<close>

theorem clear_by_size_longest:
  assumes "removable fs vec" "0 \<le> sint fileSizeLimit"
  shows "\<exists>k \<le> length vec. ClearCacheTraceFileBySize fs fileSizeLimit vec =
      (drop k vec, without (filename ` set (take k vec)) fs) \<and>
    sum_list (map fi_size (drop k vec)) \<le> sint fileSizeLimit \<and>
    (\<forall>j < k. sint fileSizeLimit < sum_list (map fi_size (drop j vec)))"
  unfolding ClearCacheTraceFileBySize_def by (rule clear_size_loop_spec [OF assms])

definition sample_node :: "int \<Rightarrow> fnode" where
  "sample_node n = \<lparr>node_type = DT_REG, st_size = n, st_ctime = 0, has_link = False, can_open = True,
     is_locked = False, can_remove = True\<rparr>"

definition sample_file :: "string \<Rightarrow> int \<Rightarrow> TraceFileInfo" where
  "sample_file name n = TraceFileInfo_listed name 0 n False"

theorem clear_by_size_longest_witness:
  "\<exists>k \<le> 2. ClearCacheTraceFileBySize [(''a'', sample_node 5), (''b'', sample_node 7)] 8 [sample_file ''a'' 5, sample_file ''b'' 7] =
      (drop k [sample_file ''a'' 5, sample_file ''b'' 7],
       without (filename ` set (take k [sample_file ''a'' 5, sample_file ''b'' 7])) [(''a'', sample_node 5), (''b'', sample_node 7)])"
    (is "\<exists>k \<le> 2. ClearCacheTraceFileBySize ?fs 8 ?vec = _ k")
proof -
  have "removable ?fs ?vec" by (simp add: removable_def sample_file_def sample_node_def TraceFileInfo_listed_def)
  then obtain k where "k \<le> length ?vec" "ClearCacheTraceFileBySize ?fs 8 ?vec = (drop k ?vec, without (filename ` set (take k ?vec)) ?fs)"
    using clear_by_size_longest [of ?fs ?vec 8] by auto
  then show ?thesis by (intro exI [of _ k]) simp
qed

lemma clear_duration_all:
  "list_all (cache_expired now) vec \<Longrightarrow> removable fs vec \<Longrightarrow>
   clear_duration_loop now fs vec = ([], without (filename ` set vec) fs)"
proof (induction vec arbitrary: fs)
  case (Cons f vec)
  then show ?case using removable_Cons [OF Cons.prems(2)] by (simp add: without_remove)
qed simp

text \<open>The cleaning of the cache by age means to keep the files of the last thirty seconds, but compares
their end in milliseconds with the current time in seconds: it deletes every file whose trace ended at
second \<open>e\<close> of the epoch or later, for any \<open>e\<close> above a thousandth of now, however recent it is.\<close>

theorem clear_by_duration_deletes_recent:
  assumes "removable fs vec" "0 \<le> unix_now env" "unix_now env < 2 ^ 50"
    and "list_all (\<lambda>f. \<exists>e. unix_now env < 1000 * e \<and> e \<le> unix_now env \<and> fi_endTime f = of_int (1000 * e)) vec"
  shows "ClearCacheTraceFileByDuration env fs vec = ([], without (filename ` set vec) fs)"
proof -
  have "cache_expired (of_int (unix_now env)) f" if "f \<in> set vec" for f
  proof -
    obtain e where e: "unix_now env < 1000 * e" "e \<le> unix_now env" "fi_endTime f = of_int (1000 * e)"
      using assms(4) \<open>f \<in> set vec\<close> by (auto simp: list_all_iff)
    have "1000 * e < 2 ^ 64" using e(2) assms(3) by simp
    then have "uint (fi_endTime f) = 1000 * e" using e assms(2) by (simp add: e(3) word_of_int_inverse)
    moreover have "uint (of_int (unix_now env) :: u64) = unix_now env" using assms(2,3) by (simp add: word_of_int_inverse)
    ultimately show ?thesis using e(1) by (simp add: cache_expired_def word_less_def)
  qed
  then show ?thesis
    unfolding ClearCacheTraceFileByDuration_def by (intro clear_duration_all) (auto simp: list_all_iff assms(1))
qed

theorem clear_by_duration_deletes_recent_witness:
  "ClearCacheTraceFileByDuration sample_file_env [(''a'', sample_node 5)]
     [(sample_file ''a'' 5)\<lparr>fi_endTime := 1730790188000\<rparr>] = ([], [])"
proof -
  have "\<exists>e. unix_now sample_file_env < 1000 * e \<and> e \<le> unix_now sample_file_env \<and> (1730790188000 :: u64) = of_int (1000 * e)"
    by (intro exI [of _ 1730790188]) (simp add: sample_file_env_def)
  then show ?thesis
    using clear_by_duration_deletes_recent [of "[(''a'', sample_node 5)]" "[(sample_file ''a'' 5)\<lparr>fi_endTime := 1730790188000\<rparr>]" sample_file_env]
    by (simp add: removable_def sample_file_def sample_node_def TraceFileInfo_listed_def without_def sample_file_env_def)
qed

end
