(* ===== verification/Hitrace_Cmd.thy ===== *)
theory Hitrace_Cmd
  imports Trace_Setting Trace_Files
begin

text \<open>
  The command line tool, \<^verbatim>\<open>cmd/hitrace_cmd.cpp\<close>: the options, the arguments they fill, and the tasks they
  choose. \<^verbatim>\<open>getopt_long\<close> is the sequence of options it returns, after which it keeps answering -1 with
  \<^verbatim>\<open>optind\<close> at the operands. The trace collector is a service outside the repository: its answers, and what it
  does to the kernel, may depend on everything that happened before. What the tool prints, how long it
  sleeps and what it asks of the collector is one list of events in the order in which they happen; the time stamp in
  front of a message is left out. The boot trace is in the theory after this one.
\<close>

section \<open>Data\<close>

datatype RunningState =
    STATE_NULL
  | RECORDING_SHORT_TEXT | RECORDING_SHORT_RAW
  | RECORDING_LONG_BEGIN | RECORDING_LONG_DUMP | RECORDING_LONG_FINISH | RECORDING_LONG_FINISH_NODUMP
  | RECORDING_LONG_BEGIN_RECORD | RECORDING_LONG_FINISH_RECORD
  | SNAPSHOT_START | SNAPSHOT_DUMP | SNAPSHOT_STOP
  | SHOW_HELP | SHOW_LIST_CATEGORY
  | SET_TRACE_LEVEL | GET_TRACE_LEVEL | CONFIG_BOOT_TRACE

text \<open>\<^verbatim>\<open>TraceArgs\<close> of the tool.\<close>

record CmdArgs =
  ca_tags :: string
  ca_tagsVec :: "string list"
  ca_tagGroups :: string
  ca_clockType :: string
  ca_level :: string
  ca_bufferSize :: int
  ca_fileSize :: int
  ca_totalSize :: int
  ca_overwrite :: bool
  ca_output :: string
  ca_duration :: int
  ca_isCompress :: bool
  ca_remainingCount :: int
  ca_bootFilePrefix :: string
  ca_bootTraceOverwrite :: bool
  ca_bootTraceIncrement :: bool

definition CmdArgs_default :: CmdArgs where
  "CmdArgs_default = \<lparr>ca_tags = [], ca_tagsVec = [], ca_tagGroups = [], ca_clockType = [], ca_level = [], ca_bufferSize = 0,
     ca_fileSize = 0, ca_totalSize = 0, ca_overwrite = True, ca_output = [], ca_duration = 0, ca_isCompress = False,
     ca_remainingCount = 1, ca_bootFilePrefix = [], ca_bootTraceOverwrite = False, ca_bootTraceIncrement = False\<rparr>"

record TraceSysEventParams =
  se_opt :: string
  se_caller :: string
  se_tags :: string
  se_duration :: int
  se_bufferSize :: int
  se_fileSize :: int
  se_fileLimit :: int
  se_clockType :: string
  se_isCompress :: bool
  se_isRaw :: bool
  se_isOverwrite :: bool
  se_errorCode :: int
  se_errorMessage :: string

definition TraceSysEventParams_default :: TraceSysEventParams where
  "TraceSysEventParams_default = \<lparr>se_opt = [], se_caller = [], se_tags = [], se_duration = 0, se_bufferSize = 0, se_fileSize = 0,
     se_fileLimit = 0, se_clockType = [], se_isCompress = False, se_isRaw = False, se_isOverwrite = True, se_errorCode = 0,
     se_errorMessage = []\<rparr>"

definition OPEN_ROOT_PATH_FAILURE :: int where "OPEN_ROOT_PATH_FAILURE = 2001"
definition OPEN_FILE_PATH_FAILURE :: int where "OPEN_FILE_PATH_FAILURE = 2002"
definition TRACING_ON_CLOSED :: int where "TRACING_ON_CLOSED = 2003"

text \<open>What the tool asks of the collector.\<close>

record HiviewTraceParam =
  ht_bufferSize :: u32
  ht_clockType :: string
  ht_isOverWrite :: bool
  ht_fileSizeLimit :: u32
  ht_totalSize :: u64

datatype collector_call =
    ColOpen "string list" HiviewTraceParam
  | ColRecordingOn string
  | ColRecordingOff
  | ColClose
  | ColDumpSnapshot string

text \<open>
  The events: a message, a line without time stamp, the help text (with the part on the boot trace or
  without), the list of categories, a sleep in seconds, the marker with the clocks, bytes of the trace that were
  written to a file (or, for the empty name, to the standard output), the same through the compressor, a call of the
  collector, and the record for the event service.
\<close>

datatype cmd_event =
    Console string
  | Line string
  | HelpText string bool
  | Categories "string list"
  | Slept int
  | ClockSync
  | TraceBytes string bytes
  | Deflated string
  | Called collector_call
  | SysEvent TraceSysEventParams

record collector =
  col_success :: int
  col_totalSize :: u64
  col_answer :: "cmd_event list \<Rightarrow> collector_call \<Rightarrow> int \<times> string list"
  col_effect :: "cmd_event list \<Rightarrow> collector_call \<Rightarrow> kernel \<Rightarrow> kernel"

text \<open>
  The machine as the tool finds it. \<^verbatim>\<open>stat\<close> gives the mode bits of a path; the rounds of reading the trace are
  pairs of what \<^verbatim>\<open>read\<close> and \<^verbatim>\<open>write\<close> return, and after them \<^verbatim>\<open>read\<close> returns 0.
\<close>

record cmd_env =
  ce_developer :: bool
  ce_collectorOk :: bool
  ce_root :: string
  ce_hm :: bool
  ce_euid0 :: bool
  ce_initParent :: bool
  ce_debuggable :: bool
  ce_tags :: tag_table
  ce_groups :: group_table
  ce_stat :: "string \<Rightarrow> u32 option"
  ce_canon :: "string \<Rightarrow> string"
  ce_traceOpen :: bool
  ce_outOpen :: "string \<Rightarrow> bool"
  ce_errno :: int
  ce_rounds :: "(bytes option \<times> int) list"
  ce_sleep :: "int \<Rightarrow> kernel \<Rightarrow> kernel"
  ce_collector :: collector

text \<open>The globals, the kernel with the parameters, and the events so far.\<close>

record cmd_state =
  cm_args :: CmdArgs
  cm_state :: RunningState
  cm_event :: TraceSysEventParams
  cm_needSysEvent :: bool
  cm_suppress :: bool
  cm_kernel :: kernel
  cm_out :: "cmd_event list"

type_synonym 'a cmd = "cmd_state \<Rightarrow> 'a \<times> cmd_state"

definition emit :: "cmd_event \<Rightarrow> cmd_state \<Rightarrow> cmd_state" where
  "emit ev s = s\<lparr>cm_out := cm_out s @ [ev]\<rparr>"

definition ConsoleLog :: "string \<Rightarrow> cmd_state \<Rightarrow> cmd_state" where
  "ConsoleLog logInfo = emit (Console logInfo)"

definition set_args :: "(CmdArgs \<Rightarrow> CmdArgs) \<Rightarrow> cmd_state \<Rightarrow> cmd_state" where
  "set_args f s = s\<lparr>cm_args := f (cm_args s)\<rparr>"

section \<open>The running state\<close>

definition STATE_INFO :: "(RunningState \<times> string) list" where
  "STATE_INFO = [(STATE_NULL, ''STATE_NULL''), (RECORDING_SHORT_TEXT, ''RECORDING_SHORT_TEXT''),
     (RECORDING_SHORT_RAW, ''RECORDING_SHORT_RAW''), (RECORDING_LONG_BEGIN, ''RECORDING_LONG_BEGIN''),
     (RECORDING_LONG_DUMP, ''RECORDING_LONG_DUMP''), (RECORDING_LONG_FINISH_NODUMP, ''RECORDING_LONG_FINISH_NODUMP''),
     (RECORDING_LONG_BEGIN_RECORD, ''RECORDING_LONG_BEGIN_RECORD''), (RECORDING_LONG_FINISH_RECORD, ''RECORDING_LONG_FINISH_RECORD''),
     (SNAPSHOT_START, ''SNAPSHOT_START''), (SNAPSHOT_DUMP, ''SNAPSHOT_DUMP''), (SNAPSHOT_STOP, ''SNAPSHOT_STOP''),
     (SHOW_HELP, ''SHOW_HELP''), (SHOW_LIST_CATEGORY, ''SHOW_LIST_CATEGORY''), (SET_TRACE_LEVEL, ''SET_TRACE_LEVEL''),
     (GET_TRACE_LEVEL, ''GET_TRACE_LEVEL''), (CONFIG_BOOT_TRACE, ''CONFIG_BOOT_TRACE'')]"

definition GetStateInfo :: "RunningState \<Rightarrow> string cmd" where
  "GetStateInfo st s =
     (case map_of STATE_INFO st of None \<Rightarrow> ([], ConsoleLog ''error: running_state is invalid.'' s) | Some n \<Rightarrow> (n, s))"

definition SetRunningState :: "RunningState \<Rightarrow> bool cmd" where
  "SetRunningState setValue s =
     (if cm_state s \<noteq> STATE_NULL then
        let (a, s1) = GetStateInfo (cm_state s) s; (b, s2) = GetStateInfo setValue s1
        in (False, ConsoleLog (''error: the parameter is set incorrectly, '' @ a @ '' and '' @ b @ '' cannot coexist.'') s2)
      else (True, s\<lparr>cm_state := setValue\<rparr>))"

section \<open>The trace level\<close>

definition TRACE_LEVEL_THRESHOLD :: string where "TRACE_LEVEL_THRESHOLD = ''persist.hitrace.level.threshold''"

definition level_codes :: "(string \<times> string) list" where
  "level_codes = [(''D'', ''0''), (''Debug'', ''0''), (''I'', ''1''), (''Info'', ''1''), (''C'', ''2''), (''Critical'', ''2''),
     (''M'', ''3''), (''Commercial'', ''3'')]"

definition level_names :: "(string \<times> string) list" where
  "level_names = [(''0'', ''Debug''), (''1'', ''Info''), (''2'', ''Critical''), (''3'', ''Commercial'')]"

definition quoted :: "string \<Rightarrow> string" where
  "quoted t = [char_of (34::nat)] @ t @ [char_of (34::nat)]"

definition CheckTraceLevel :: "string \<Rightarrow> bool cmd" where
  "CheckTraceLevel arg s =
     (case map_of level_codes arg of
        Some c \<Rightarrow> (True, set_args (\<lambda>a. a\<lparr>ca_level := c\<rparr>) s)
      | None \<Rightarrow> (False, ConsoleLog (''error: trace level is illegal input. eg: '' @ quoted ''--trace_level I'' @ '', '' @
                   quoted ''--trace_level Info'' @ ''.'') s))"

definition SetTraceLevel :: "bool cmd" where
  "SetTraceLevel s =
     (let (ok, k) = SetProperty TRACE_LEVEL_THRESHOLD (ca_level (cm_args s)) (cm_kernel s); s1 = s\<lparr>cm_kernel := k\<rparr>
      in (ok, ConsoleLog (if ok then ''success to set trace level.'' else ''error: failed to set trace level.'') s1))"

definition GetTraceLevel :: "bool cmd" where
  "GetTraceLevel s =
     (let level = (case k_params (cm_kernel s) TRACE_LEVEL_THRESHOLD of None \<Rightarrow> [] | Some v \<Rightarrow> v)
      in case map_of level_names level of
           Some n \<Rightarrow> (True, ConsoleLog (''the current trace level threshold is '' @ n) s)
         | None \<Rightarrow> (False, ConsoleLog (''error: get trace level threshold failed, level('' @ level @ '') cannot be parsed.'') s))"

section \<open>Options\<close>

text \<open>
  \<^verbatim>\<open>iStream >> tX\<close> with \<^verbatim>\<open>eof()\<close>: white space, a sign, digits. Nothing but white space leaves the
  variable alone; otherwise it gets the number, the bound that was exceeded, or 0 when there is no number.
\<close>

definition StrToNum :: "string \<Rightarrow> int \<Rightarrow> bool \<times> int" where
  "StrToNum sString tX =
     (case strto_scan sString of
        None \<Rightarrow> (False, if dropWhile is_space sString = [] then tX else 0)
      | Some (neg, n, rest) \<Rightarrow>
          let v = signed_value neg n
          in if v > 2147483647 then (False, 2147483647)
             else if v < -2147483648 then (False, -2147483648)
             else (rest = [], v))"

definition KB_PER_MB :: int where "KB_PER_MB = 1024"
definition MIN_BUFFER_SIZE :: int where "MIN_BUFFER_SIZE = 256"
definition MAX_BUFFER_SIZE :: int where "MAX_BUFFER_SIZE = 307200"
definition HM_MAX_BUFFER_SIZE :: int where "HM_MAX_BUFFER_SIZE = 1024 * KB_PER_MB"
definition DEFAULT_BUFFER_SIZE :: u32 where "DEFAULT_BUFFER_SIZE = 18432"
definition MAX_OUTPUT_LEN :: nat where "MAX_OUTPUT_LEN = 255"
definition PAGE_SIZE_KB :: int where "PAGE_SIZE_KB = 4"
definition MIN_FILE_SIZE :: int where "MIN_FILE_SIZE = 51200"
definition CMD_MAX_FILE_SIZE :: int where "CMD_MAX_FILE_SIZE = 512000"
definition MAX_FILE_SIZE_MULTIPLIER :: int where "MAX_FILE_SIZE_MULTIPLIER = 10"
definition BOOT_TRACE_REPEAT_MIN :: int where "BOOT_TRACE_REPEAT_MIN = 1"
definition BOOT_TRACE_REPEAT_MAX :: int where "BOOT_TRACE_REPEAT_MAX = 100"

definition CLOCK_TYPE :: "string list" where
  "CLOCK_TYPE = [''boot'', ''mono'', ''global'', ''perf'', ''uptime'']"

text \<open>Division of integers truncates towards zero.\<close>

definition c_quot :: "int \<Rightarrow> int \<Rightarrow> int" where
  "c_quot a b = sgn a * sgn b * (\<bar>a\<bar> div \<bar>b\<bar>)"

text \<open>
  The handlers of the long options. \<^verbatim>\<open>optarg\<close> is \<open>None\<close> when the option has no argument; \<^verbatim>\<open>getopt_long\<close>
  never returns an option without the argument it requires. Numbers out of range are stored as well, but then
  the option is refused and the tool ends.
\<close>

type_synonym opt_handler = "cmd_env \<Rightarrow> string option \<Rightarrow> RunningState \<Rightarrow> bool cmd"

definition IsBootTraceEuidRoot :: "cmd_env \<Rightarrow> bool" where "IsBootTraceEuidRoot e = ce_euid0 e"
definition IsBootTraceLaunchedByInit :: "cmd_env \<Rightarrow> bool" where "IsBootTraceLaunchedByInit e = ce_initParent e"
definition IsBootTraceAllowedByConstDebuggable :: "cmd_env \<Rightarrow> bool" where "IsBootTraceAllowedByConstDebuggable e = ce_debuggable e"

definition ShouldShowBootTraceHelp :: "cmd_env \<Rightarrow> bool" where
  "ShouldShowBootTraceHelp e \<longleftrightarrow> IsBootTraceEuidRoot e \<and> IsBootTraceAllowedByConstDebuggable e"

definition set_state_opt :: opt_handler where
  "set_state_opt e optarg setValue = SetRunningState setValue"

definition HandleOptBootTrace :: opt_handler where
  "HandleOptBootTrace e optarg setValue s =
     (if \<not> IsBootTraceEuidRoot e then (False, ConsoleLog ''error: unrecognized option '--boot_trace'.'' (s\<lparr>cm_suppress := True\<rparr>))
      else SetRunningState setValue s)"

definition HandleOptRepeat :: opt_handler where
  "HandleOptRepeat e optarg setValue s =
     (case optarg of None \<Rightarrow> (False, s)
      | Some a \<Rightarrow>
          let (ok, val) = StrToNum a 0
          in if \<not> ok then (False, ConsoleLog (''error: repeat is illegal input. eg: '' @ quoted ''--repeat 5'' @ ''.'') s)
             else if val < BOOT_TRACE_REPEAT_MIN \<or> val > BOOT_TRACE_REPEAT_MAX
             then (False, ConsoleLog (''error: --repeat must be from 1 to 100. eg: '' @ quoted ''--repeat 5'' @ ''.'') s)
             else (True, set_args (\<lambda>a. a\<lparr>ca_remainingCount := val\<rparr>) s))"

definition HandleOptBootIncrement :: opt_handler where
  "HandleOptBootIncrement e optarg setValue s =
     (if cm_state s \<noteq> CONFIG_BOOT_TRACE then (False, ConsoleLog ''error: --increment only supports --boot_trace.'' s)
      else (True, set_args (\<lambda>a. a\<lparr>ca_bootTraceIncrement := True\<rparr>) s))"

definition HandleOptBootFilePrefix :: opt_handler where
  "HandleOptBootFilePrefix e optarg setValue s =
     (if setValue \<noteq> CONFIG_BOOT_TRACE then (False, ConsoleLog ''error: --file_prefix only supports --boot_trace.'' s)
      else case optarg of
             Some (c # cs) \<Rightarrow> (True, set_args (\<lambda>a. a\<lparr>ca_bootFilePrefix := c # cs\<rparr>) s)
           | _ \<Rightarrow> (False, ConsoleLog ''error: file_prefix must not be empty.'' s))"

text \<open>\<^verbatim>\<open>buf.st_mode & S_IFDIR\<close>, which also holds for block devices and sockets.\<close>

definition S_IFDIR :: u32 where "S_IFDIR = 0x4000"

definition CheckOutputFile :: "cmd_env \<Rightarrow> string \<Rightarrow> bool cmd" where
  "CheckOutputFile e path s =
     (if length path \<ge> MAX_OUTPUT_LEN \<or> length path < 1 \<or>
         (case ce_stat e path of None \<Rightarrow> False
          | Some m \<Rightarrow> m AND S_IFDIR \<noteq> 0 \<and> cm_state s \<noteq> RECORDING_LONG_BEGIN_RECORD \<and> cm_state s \<noteq> SNAPSHOT_DUMP)
      then (False, ConsoleLog ''error: output file is illegal'' s)
      else (True, set_args (\<lambda>a. a\<lparr>ca_output := path\<rparr>) s))"

definition HandleOptOutput :: opt_handler where
  "HandleOptOutput e optarg setValue s = (case optarg of None \<Rightarrow> (False, s) | Some p \<Rightarrow> CheckOutputFile e p s)"

definition CheckClock :: "string option \<Rightarrow> bool" where
  "CheckClock clock = (case clock of None \<Rightarrow> False | Some c \<Rightarrow> c \<in> set CLOCK_TYPE)"

definition SetBufferSize :: "cmd_env \<Rightarrow> string option \<Rightarrow> bool cmd" where
  "SetBufferSize e optarg s =
     (case optarg of None \<Rightarrow> (False, s)
      | Some a \<Rightarrow>
          let maxBufferSizeKB = (if ce_hm e then HM_MAX_BUFFER_SIZE else MAX_BUFFER_SIZE);
              (ok, bufferSizeKB) = StrToNum a 0;
              (isTrue, s1) =
                (if \<not> ok then (False, ConsoleLog (''error: buffer size is illegal input. eg: '' @ quoted ''--buffer_size 18432'' @ ''.'') s)
                 else if bufferSizeKB < MIN_BUFFER_SIZE \<or> bufferSizeKB > maxBufferSizeKB
                 then (False, ConsoleLog (''error: buffer size must be from 256 KB to '' @ to_string_int (c_quot maxBufferSizeKB KB_PER_MB) @
                        '' MB. eg: '' @ quoted ''--buffer_size 18432'' @ ''.'') s)
                 else (True, s))
          in (isTrue, set_args (\<lambda>a. a\<lparr>ca_bufferSize := c_quot bufferSizeKB PAGE_SIZE_KB * PAGE_SIZE_KB\<rparr>) s1))"

definition HandleOptBuffersize :: opt_handler where
  "HandleOptBuffersize e optarg setValue = SetBufferSize e optarg"

definition HandleOptTraceclock :: opt_handler where
  "HandleOptTraceclock e optarg setValue s =
     (if CheckClock optarg then (True, set_args (\<lambda>a. a\<lparr>ca_clockType := the optarg\<rparr>) s)
      else (False, ConsoleLog (''error: '' @ quoted ''--trace_clock'' @ '' is illegal input. eg: '' @ quoted ''--trace_clock boot'' @ ''.'') s))"

definition HandleOptTime :: opt_handler where
  "HandleOptTime e optarg setValue s =
     (case optarg of None \<Rightarrow> (False, s)
      | Some a \<Rightarrow>
          let (ok, d) = StrToNum a (ca_duration (cm_args s)); s1 = set_args (\<lambda>a. a\<lparr>ca_duration := d\<rparr>) s
          in if \<not> ok then (False, ConsoleLog (''error: the time is illegal input. eg: '' @ quoted ''--time 5'' @ ''.'') s1)
             else if d < 1
             then (False, ConsoleLog (''error: '' @ quoted (''-t '' @ a) @ '' to be greater than zero. eg: '' @ quoted ''--time 5'' @ ''.'') s1)
             else (True, s1))"

definition HandleOptOverwrite :: opt_handler where
  "HandleOptOverwrite e optarg setValue s =
     (True, set_args (\<lambda>a. if cm_state s = CONFIG_BOOT_TRACE then a\<lparr>ca_bootTraceOverwrite := True\<rparr> else a\<lparr>ca_overwrite := False\<rparr>) s)"

definition HandleOptRecord :: opt_handler where
  "HandleOptRecord e optarg setValue s =
     (if cm_state s = RECORDING_LONG_BEGIN then (True, s\<lparr>cm_state := RECORDING_LONG_BEGIN_RECORD\<rparr>)
      else if cm_state s = RECORDING_LONG_FINISH then (True, s\<lparr>cm_state := RECORDING_LONG_FINISH_RECORD\<rparr>)
      else (False, ConsoleLog (''error: '' @ quoted ''--record'' @ '' is set incorrectly. eg: '' @ quoted ''--trace_begin --record'' @ '', '' @
             quoted ''--trace_finish --record'' @ ''.'') s))"

definition size_option :: "int \<Rightarrow> int \<Rightarrow> string \<Rightarrow> string \<Rightarrow> string \<Rightarrow> bool \<times> int \<times> string list" where
  "size_option lo hi illegal outside a =
     (let (ok, v) = StrToNum a 0
      in if \<not> ok then (False, v, [illegal]) else if v < lo \<or> v > hi then (False, v, [outside]) else (True, v, []))"

definition HandleOptFilesize :: opt_handler where
  "HandleOptFilesize e optarg setValue s =
     (case optarg of None \<Rightarrow> (False, s)
      | Some a \<Rightarrow>
          let (isTrue, v, msgs) = size_option MIN_FILE_SIZE CMD_MAX_FILE_SIZE
                (''error: file size is illegal input. eg: '' @ quoted ''--file_size 102400'' @ ''.'')
                (''error: file size must be from 50 MB to 500 MB. eg: '' @ quoted ''--file_size 102400'' @ ''.'') a
          in (isTrue, set_args (\<lambda>a. a\<lparr>ca_fileSize := v\<rparr>) (fold ConsoleLog msgs s)))"

definition HandleOptTotalsize :: opt_handler where
  "HandleOptTotalsize e optarg setValue s =
     (case optarg of None \<Rightarrow> (False, s)
      | Some a \<Rightarrow>
          let (isTrue, v, msgs) = size_option CMD_MAX_FILE_SIZE (MAX_FILE_SIZE_MULTIPLIER * CMD_MAX_FILE_SIZE)
                (''error: total size is illegal input. eg: '' @ quoted ''--total_size 1024000'' @ ''.'')
                (''error: total size must be from 500 MB to 5000 MB. eg: '' @ quoted ''--total_size 1024000'' @ ''.'') a
          in (isTrue, set_args (\<lambda>a. a\<lparr>ca_totalSize := v\<rparr>) (fold ConsoleLog msgs s)))"

definition HandleOptTracelevel :: opt_handler where
  "HandleOptTracelevel e optarg setValue s =
     (case optarg of None \<Rightarrow> (False, s)
      | Some a \<Rightarrow> let (b1, s1) = SetRunningState setValue s; (b2, s2) = CheckTraceLevel a s1 in (b1 \<and> b2, s2))"

subsection \<open>The tables\<close>

definition OPT_TABLE :: "(string \<times> opt_handler \<times> RunningState) list" where
  "OPT_TABLE = [(''buffer_size'', HandleOptBuffersize, STATE_NULL), (''trace_clock'', HandleOptTraceclock, STATE_NULL),
     (''help'', set_state_opt, SHOW_HELP), (''time'', HandleOptTime, STATE_NULL), (''list_categories'', set_state_opt, SHOW_LIST_CATEGORY),
     (''output'', HandleOptOutput, STATE_NULL), (''overwrite'', HandleOptOverwrite, STATE_NULL), (''trace_begin'', set_state_opt, RECORDING_LONG_BEGIN),
     (''trace_finish'', set_state_opt, RECORDING_LONG_FINISH), (''trace_finish_nodump'', set_state_opt, RECORDING_LONG_FINISH_NODUMP),
     (''trace_dump'', set_state_opt, RECORDING_LONG_DUMP), (''record'', HandleOptRecord, STATE_NULL), (''start_bgsrv'', set_state_opt, SNAPSHOT_START),
     (''dump_bgsrv'', set_state_opt, SNAPSHOT_DUMP), (''stop_bgsrv'', set_state_opt, SNAPSHOT_STOP), (''text'', set_state_opt, RECORDING_SHORT_TEXT),
     (''raw'', set_state_opt, RECORDING_SHORT_RAW), (''file_size'', HandleOptFilesize, STATE_NULL), (''total_size'', HandleOptTotalsize, STATE_NULL),
     (''trace_level'', HandleOptTracelevel, SET_TRACE_LEVEL), (''get_level'', set_state_opt, GET_TRACE_LEVEL),
     (''boot_trace'', HandleOptBootTrace, CONFIG_BOOT_TRACE), (''repeat'', HandleOptRepeat, CONFIG_BOOT_TRACE),
     (''file_prefix'', HandleOptBootFilePrefix, CONFIG_BOOT_TRACE), (''increment'', HandleOptBootIncrement, CONFIG_BOOT_TRACE)]"

text \<open>\<^verbatim>\<open>COMMAND_TABLE\<close> and \<^verbatim>\<open>OPT_MAP\<close> have the same keys and are one table here.\<close>

definition ParseLongOpt :: "cmd_env \<Rightarrow> string \<Rightarrow> string option \<Rightarrow> bool cmd" where
  "ParseLongOpt e name optarg s =
     (case map_of OPT_TABLE name of None \<Rightarrow> (True, s) | Some (h, st) \<Rightarrow> h e optarg st s)"

text \<open>What \<^verbatim>\<open>getopt_long\<close> returns: a short option, a long option by its name, or the question mark.\<close>

datatype opt_item = Short char "string option" | Long string "string option" | Unknown

definition ParseOpt :: "cmd_env \<Rightarrow> opt_item \<Rightarrow> bool cmd" where
  "ParseOpt e i s =
     (case i of
        Unknown \<Rightarrow> (False, s)
      | Long name optarg \<Rightarrow> ParseLongOpt e name optarg s
      | Short c optarg \<Rightarrow>
          if c = CHR ''b'' then SetBufferSize e optarg s
          else if c = CHR ''h'' then SetRunningState SHOW_HELP s
          else if c = CHR ''l'' then SetRunningState SHOW_LIST_CATEGORY s
          else if c = CHR ''t'' then HandleOptTime e optarg STATE_NULL s
          else if c = CHR ''o'' then (case optarg of None \<Rightarrow> (False, s) | Some p \<Rightarrow> CheckOutputFile e p s)
          else if c = CHR ''z'' then (True, set_args (\<lambda>a. a\<lparr>ca_isCompress := True\<rparr>) s)
          else (True, s))"

fun add_tags :: "cmd_env \<Rightarrow> bool \<Rightarrow> string list \<Rightarrow> bool cmd" where
  "add_tags e first [] s = (True, s)"
| "add_tags e first (tag # ts) s =
     (if cm_state s = CONFIG_BOOT_TRACE \<and> map_of (ce_groups e) tag \<noteq> None
      then (False, ConsoleLog ''error: tag group is not supported in boot_trace. please use concrete tags.'' s)
      else if map_of (ce_tags e) tag = None
      then (False, ConsoleLog (''error: '' @ tag @ '' is not support category on this device.'') s)
      else add_tags e False ts
             (set_args (\<lambda>a. if first then a\<lparr>ca_tagsVec := [tag], ca_tags := tag\<rparr>
                            else a\<lparr>ca_tagsVec := ca_tagsVec a @ [tag], ca_tags := ca_tags a @ '','' @ tag\<rparr>) s))"

definition AddTagItems :: "cmd_env \<Rightarrow> string list \<Rightarrow> bool cmd" where
  "AddTagItems e operands s =
     (if cm_state s = CONFIG_BOOT_TRACE \<and> operands = [''off''] then (True, set_args (\<lambda>a. a\<lparr>ca_tagsVec := [''off''], ca_tags := []\<rparr>) s)
      else add_tags e True operands s)"

text \<open>The loop runs at most \<^verbatim>\<open>argc\<close> times; \<^verbatim>\<open>ParseOpt\<close> does nothing with -1.\<close>

fun opt_loop :: "cmd_env \<Rightarrow> nat \<Rightarrow> opt_item list \<Rightarrow> string list \<Rightarrow> bool cmd" where
  "opt_loop e 0 opts operands s = (True, s)"
| "opt_loop e (Suc n) [] operands s =
     (let (ok, s1) = AddTagItems e operands s in if ok then opt_loop e n [] operands s1 else (False, s1))"
| "opt_loop e (Suc n) (i # opts) operands s =
     (let (ok, s1) = ParseOpt e i s in if ok then opt_loop e n opts operands s1 else (False, s1))"

record cmd_line =
  cl_argv :: "string list"
  cl_opts :: "opt_item list"
  cl_operands :: "string list"

abbreviation cl_argc :: "cmd_line \<Rightarrow> nat" where "cl_argc l \<equiv> length (cl_argv l)"

definition HandleOpt :: "cmd_env \<Rightarrow> cmd_line \<Rightarrow> bool cmd" where
  "HandleOpt e l = opt_loop e (cl_argc l) (cl_opts l) (cl_operands l)"

section \<open>The tasks\<close>

definition collect :: "cmd_env \<Rightarrow> collector_call \<Rightarrow> (int \<times> string list) cmd" where
  "collect e c s =
     (let col = ce_collector e
      in (col_answer col (cm_out s) c, emit (Called c) (s\<lparr>cm_kernel := col_effect col (cm_out s) c (cm_kernel s)\<rparr>)))"

definition refused :: "cmd_env \<Rightarrow> int \<times> string list \<Rightarrow> bool" where
  "refused e r \<longleftrightarrow> fst r \<noteq> col_success (ce_collector e)"

definition error_code :: "string \<Rightarrow> int \<times> string list \<Rightarrow> cmd_state \<Rightarrow> cmd_state" where
  "error_code what r = ConsoleLog (''error: '' @ what @ '' failed, errorCode('' @ to_string_int (fst r) @ '')'')"

definition sleep_for :: "cmd_env \<Rightarrow> int \<Rightarrow> cmd_state \<Rightarrow> cmd_state" where
  "sleep_for e d s = emit (Slept d) (s\<lparr>cm_kernel := ce_sleep e d (cm_kernel s)\<rparr>)"

definition print_files :: "string list \<Rightarrow> cmd_state \<Rightarrow> cmd_state" where
  "print_files = fold (\<lambda>item. emit (Line (''    '' @ item)))"

definition cmd_WriteStrToFile :: "cmd_env \<Rightarrow> string \<Rightarrow> string \<Rightarrow> bool cmd" where
  "cmd_WriteStrToFile e fileName str s =
     (case k_nodes (cm_kernel s) fileName of
        None \<Rightarrow> (False, ConsoleLog (''error: open '' @ ce_canon e (ce_root e @ fileName) @ '' failed.'') s)
      | Some _ \<Rightarrow> (True, s\<lparr>cm_kernel := snd (WriteStrToFile fileName str (cm_kernel s))\<rparr>))"

definition SetFtraceEnabled :: "cmd_env \<Rightarrow> string \<Rightarrow> bool \<Rightarrow> bool cmd" where
  "SetFtraceEnabled e path enabled = cmd_WriteStrToFile e path (if enabled then ''1'' else ''0'')"

definition SetTraceTagsEnabled :: "u64 \<Rightarrow> bool cmd" where
  "SetTraceTagsEnabled tags s =
     (let (ok, k) = SetProperty TRACE_TAG_ENABLE_FLAGS (to_string_nat (unat tags)) (cm_kernel s) in (ok, s\<lparr>cm_kernel := k\<rparr>))"

definition StopTrace :: "cmd_env \<Rightarrow> cmd_state \<Rightarrow> cmd_state" where
  "StopTrace e s = snd (SetFtraceEnabled e TRACING_ON_NODE False (snd (SetTraceTagsEnabled 0 s)))"

text \<open>
  The copy of the kernel trace. The count of bytes is a 32-bit integer; a short write drops the rest of its block.
\<close>

definition int32_of :: "int \<Rightarrow> int" where
  "int32_of x = sint (of_int x :: i32)"

fun copy_trace :: "(bytes option \<times> int) list \<Rightarrow> int \<Rightarrow> bytes \<Rightarrow> int \<times> bytes" where
  "copy_trace [] sz w = (sz, w)"
| "copy_trace ((r, n) # rounds) sz w =
     (case r of None \<Rightarrow> (sz, w)
      | Some b \<Rightarrow> if b = [] then (sz, w)
                  else if n > 0 then copy_trace rounds (int32_of (sz + n)) (w @ take (nat n) b)
                  else (sz, w))"

definition event_error :: "int \<Rightarrow> string \<Rightarrow> cmd_state \<Rightarrow> cmd_state" where
  "event_error c msg s = s\<lparr>cm_event := (cm_event s)\<lparr>se_errorCode := c, se_errorMessage := msg\<rparr>\<rparr>"

definition DumpKernelTraceToOutput :: "cmd_env \<Rightarrow> cmd_state \<Rightarrow> cmd_state" where
  "DumpKernelTraceToOutput e s =
     (let out = ca_output (cm_args s); failed = (\<lambda>p. ''error: opening '' @ p @ '', errno: '' @ to_string_int (ce_errno e))
      in if \<not> ce_traceOpen e then
           event_error OPEN_ROOT_PATH_FAILURE (failed (ce_root e @ TRACE_NODE)) (ConsoleLog (failed (ce_root e @ TRACE_NODE)) s)
         else if out \<noteq> [] \<and> \<not> ce_outOpen e (ce_canon e out) then
           event_error OPEN_FILE_PATH_FAILURE (failed out) (ConsoleLog (failed out) s)
         else
           let (sz, s1) =
                 (if ca_isCompress (cm_args s) then (se_fileSize (cm_event s), emit (Deflated out) s)
                  else let (sz, w) = copy_trace (ce_rounds e) (se_fileSize (cm_event s)) [] in (sz, emit (TraceBytes out w) s));
               s2 = s1\<lparr>cm_event := (cm_event s1)\<lparr>se_fileSize := c_quot sz KB_PER_MB\<rparr>\<rparr>
           in if out \<noteq> [] then ConsoleLog (''trace read done, output: '' @ out) s2 else s2)"

text \<open>The part \<^verbatim>\<open>ReloadTraceArgs\<close> fills of the parameters, and its message.\<close>

definition ReloadTraceArgs :: "string list \<Rightarrow> HiviewTraceParam \<Rightarrow> (string list \<times> HiviewTraceParam) cmd" where
  "ReloadTraceArgs tagsVec p s =
     (let a = cm_args s; st = cm_state s
      in if ca_tags a = [] then ((tagsVec, p), ConsoleLog ''error: tag is empty, please add.'' s)
         else
           let args = ''tags:'' @ ca_tags a;
               (p, args) = (if ca_bufferSize a > 0 then (p\<lparr>ht_bufferSize := of_int (ca_bufferSize a)\<rparr>, args @ '' bufferSize:'' @ to_string_int (ca_bufferSize a))
                            else (p\<lparr>ht_bufferSize := DEFAULT_BUFFER_SIZE\<rparr>, args @ '' bufferSize:'' @ to_string_nat (unat DEFAULT_BUFFER_SIZE)));
               (p, args) = (if ca_clockType a \<noteq> [] then (p\<lparr>ht_clockType := ca_clockType a\<rparr>, args @ '' clockType:'' @ ca_clockType a) else (p, args));
               args = args @ '' overwrite:'' @ (if ca_overwrite a then ''1'' else ''0'');
               p = p\<lparr>ht_isOverWrite := ca_overwrite a\<rparr>;
               (p, args, s1) =
                 (if ca_fileSize a > 0 then
                    if st = RECORDING_SHORT_RAW \<or> st = RECORDING_LONG_BEGIN_RECORD
                    then (p\<lparr>ht_fileSizeLimit := of_int (ca_fileSize a)\<rparr>, args @ '' fileSize:'' @ to_string_int (ca_fileSize a), s)
                    else (p, args, ConsoleLog (''warning: The current state does not support specifying the file size, file size: '' @
                            to_string_int (ca_fileSize a) @ '' is invalid.'') s)
                  else (p, args, s));
               (p, args, s2) =
                 (if ca_totalSize a > 0 then
                    if st = RECORDING_LONG_BEGIN_RECORD
                    then (p\<lparr>ht_totalSize := of_int (ca_totalSize a)\<rparr>, args @ '' totalSize:'' @ to_string_int (ca_totalSize a), s1)
                    else (p, args, ConsoleLog (''warning: The current state does not support specifying the total size, total size: '' @
                            to_string_int (ca_totalSize a) @ '' is invalid.'') s1)
                  else (p, args, s1))
           in ((ca_tagsVec a, p), if st \<noteq> RECORDING_SHORT_TEXT then ConsoleLog (''args: '' @ args) s2 else s2))"

text \<open>
  The initial parameters of the recordings; \<^verbatim>\<open>totalSize\<close> is 0 where the code names it and the default of the
  collector where it does not.
\<close>

definition initial_param :: "u64 \<Rightarrow> HiviewTraceParam" where
  "initial_param totalKb = \<lparr>ht_bufferSize = 0, ht_clockType = ''boot'', ht_isOverWrite = True, ht_fileSizeLimit = 0, ht_totalSize = totalKb\<rparr>"

definition warn_output :: "cmd_state \<Rightarrow> cmd_state" where
  "warn_output s =
     (if ca_output (cm_args s) \<noteq> [] then
        ConsoleLog (''warning: The current state does not support specifying the output file path, '' @ ca_output (cm_args s) @ '' is invalid.'') s
      else s)"

definition HandleRecordingShortRaw :: "cmd_env \<Rightarrow> bool cmd" where
  "HandleRecordingShortRaw e s =
     (let ((tags, p), s1) = ReloadTraceArgs [] (initial_param (col_totalSize (ce_collector e))) s;
          (openRet, s2) = collect e (ColOpen tags p) (warn_output s1)
      in if refused e openRet then (False, error_code ''OpenRecording'' openRet s2)
         else
           let (recOnRet, s3) = collect e (ColRecordingOn []) s2
           in if refused e recOnRet then (False, snd (collect e ColClose (error_code ''RecordingOn'' recOnRet s3)))
              else
                let d = ca_duration (cm_args s3);
                    s4 = sleep_for e d (ConsoleLog (''start capture, please wait '' @ to_string_int d @ ''s ...'') s3);
                    (recOffRet, s5) = collect e ColRecordingOff s4
                in if refused e recOffRet then (False, snd (collect e ColClose (error_code ''RecordingOff'' recOffRet s5)))
                   else
                     let (closeRet, s6) = collect e ColClose (print_files (snd recOffRet) (ConsoleLog ''capture done, output files:'' s5))
                     in (True, if refused e closeRet then error_code ''Trace Close'' closeRet s6 else s6))"

definition set_opt :: "string \<Rightarrow> cmd_state \<Rightarrow> cmd_state" where
  "set_opt o' s = s\<lparr>cm_event := (cm_event s)\<lparr>se_opt := o'\<rparr>\<rparr>"

definition HandleRecordingShortText :: "cmd_env \<Rightarrow> bool cmd" where
  "HandleRecordingShortText e s =
     (let ((tags, p), s1) = ReloadTraceArgs [] (initial_param (col_totalSize (ce_collector e))) s;
          (openRet, s2) = collect e (ColOpen tags p) s1
      in if refused e openRet then (False, error_code ''OpenRecording'' openRet s2)
         else
           let d = ca_duration (cm_args s2);
               s3 = sleep_for e d (ConsoleLog (''start capture, please wait '' @ to_string_int d @ ''s ...'') s2);
               s4 = StopTrace e (emit ClockSync s3);
               s5 = (if ca_output (cm_args s4) \<noteq> [] then ConsoleLog ''capture done, start to read trace.'' s4 else s4);
               s6 = DumpKernelTraceToOutput e (set_opt ''DumpTextTrace'' s5);
               (closeRet, s7) = collect e ColClose s6
           in (True, if refused e closeRet then error_code ''TraceFinish'' closeRet s7 else ConsoleLog ''TraceFinish done.'' s7))"

definition HandleRecordingLongBegin :: "cmd_env \<Rightarrow> bool cmd" where
  "HandleRecordingLongBegin e s =
     (let ((tags, p), s1) = ReloadTraceArgs [] (initial_param 0) s;
          (openRet, s2) = collect e (ColOpen tags p) (warn_output s1)
      in if refused e openRet then (False, error_code ''OpenRecording'' openRet s2)
         else (True, ConsoleLog ''OpenRecording done.'' s2))"

definition tracing_on :: "cmd_state \<Rightarrow> bool" where
  "tracing_on s \<longleftrightarrow> take 1 (read_node TRACING_ON_NODE (cm_kernel s)) = ''1''"

definition tracing_closed :: "cmd_state \<Rightarrow> cmd_state" where
  "tracing_closed s =
     (let msg = ''Warning: tracing on is closed, no trace can be read.''
      in ConsoleLog msg (event_error TRACING_ON_CLOSED msg s))"

definition HandleRecordingLongDump :: "cmd_env \<Rightarrow> bool cmd" where
  "HandleRecordingLongDump e s =
     (let s1 = set_opt ''DumpTextTrace'' s
      in if \<not> tracing_on s1 then (False, tracing_closed s1)
         else (True, DumpKernelTraceToOutput e (ConsoleLog ''start to read trace.'' (emit ClockSync s1))))"

definition HandleRecordingLongFinish :: "cmd_env \<Rightarrow> bool cmd" where
  "HandleRecordingLongFinish e s =
     (let s1 = set_opt ''DumpTextTrace'' s
      in if \<not> tracing_on s1 then (False, tracing_closed s1)
         else
           let s2 = DumpKernelTraceToOutput e (ConsoleLog ''start to read trace.'' (StopTrace e (emit ClockSync s1)));
               (closeRet, s3) = collect e ColClose s2
           in (True, if refused e closeRet then error_code ''Trace Close'' closeRet s3 else ConsoleLog ''Trace Closed.'' s3))"

definition HandleRecordingLongFinishNodump :: "cmd_env \<Rightarrow> bool cmd" where
  "HandleRecordingLongFinishNodump e s =
     (let (closeRet, s1) = collect e ColClose s
      in (True, if refused e closeRet then error_code ''Trace Close'' closeRet s1 else ConsoleLog ''end capture trace.'' s1))"

definition HandleRecordingLongBeginRecord :: "cmd_env \<Rightarrow> bool cmd" where
  "HandleRecordingLongBeginRecord e s =
     (let ((tags, p), s1) = ReloadTraceArgs [] (initial_param 0) s; out = ca_output (cm_args s1)
      in if out \<noteq> [] \<and> \<not> IsWritableDir out then (False, ConsoleLog ''error: illegal path'' s1)
         else
           let (openRet, s2) = collect e (ColOpen tags p) s1
           in if refused e openRet then (False, error_code ''OpenRecording'' openRet s2)
              else
                let (recOnRet, s3) = collect e (ColRecordingOn out) s2
                in if refused e recOnRet then (False, snd (collect e ColClose (error_code ''RecordingOn'' recOnRet s3)))
                   else (True, ConsoleLog ''trace capturing.'' s3))"

definition HandleRecordingLongFinishRecord :: "cmd_env \<Rightarrow> bool cmd" where
  "HandleRecordingLongFinishRecord e s =
     (let (recOffRet, s1) = collect e ColRecordingOff s
      in if refused e recOffRet then (False, error_code ''RecordingOff'' recOffRet s1)
         else
           let (closeRet, s2) = collect e ColClose (print_files (snd recOffRet) (ConsoleLog ''capture done, output files:'' s1))
           in (True, if refused e closeRet then error_code ''Trace Close'' closeRet s2 else s2))"

definition CMD_DEFAULT_FILE_SIZE :: int where "CMD_DEFAULT_FILE_SIZE = 100 * 1024"

definition snapshot_tags :: "string list" where
  "snapshot_tags = [''net'', ''dsched'', ''graphic'', ''multimodalinput'', ''dinput'', ''ark'', ''ace'', ''window'',
     ''zaudio'', ''daudio'', ''zmedia'', ''dcamera'', ''zcamera'', ''dhfwk'', ''app'', ''gresource'',
     ''ability'', ''power'', ''samgr'', ''ffrt'', ''nweb'', ''hdf'', ''virse'', ''workq'', ''ipa'',
     ''sched'', ''freq'', ''disk'', ''sync'', ''binder'', ''mmc'', ''membus'', ''load'']"

definition HandleOpenSnapshot :: "cmd_env \<Rightarrow> bool cmd" where
  "HandleOpenSnapshot e s =
     (let p = (initial_param (col_totalSize (ce_collector e)))\<lparr>ht_fileSizeLimit := of_int CMD_DEFAULT_FILE_SIZE\<rparr>;
          (openRet, s1) = collect e (ColOpen snapshot_tags p) (s\<lparr>cm_needSysEvent := False\<rparr>)
      in if refused e openRet then (False, error_code ''OpenSnapshot'' openRet s1)
         else (True, ConsoleLog ''OpenSnapshot done.'' s1))"

definition HandleDumpSnapshot :: "cmd_env \<Rightarrow> bool cmd" where
  "HandleDumpSnapshot e s =
     (let s1 = s\<lparr>cm_needSysEvent := False\<rparr>; out = ca_output (cm_args s)
      in if out \<noteq> [] \<and> \<not> IsWritable out then (False, ConsoleLog ''error: illegal path'' s1)
         else
           let (dumpRet, s2) = collect e (ColDumpSnapshot out) s1
           in if refused e dumpRet then (False, error_code ''DumpSnapshot'' dumpRet s2)
              else (True, print_files (snd dumpRet) (ConsoleLog ''DumpSnapshot done, output:'' s2)))"

definition HandleCloseSnapshot :: "cmd_env \<Rightarrow> bool cmd" where
  "HandleCloseSnapshot e s =
     (let (closeRet, s1) = collect e ColClose (s\<lparr>cm_needSysEvent := False\<rparr>)
      in if refused e closeRet then (False, error_code ''CloseSnapshot'' closeRet s1)
         else (True, ConsoleLog ''CloseSnapshot done.'' s1))"

definition ShowHelp :: "cmd_env \<Rightarrow> string \<Rightarrow> cmd_state \<Rightarrow> cmd_state" where
  "ShowHelp e cmd s = emit (HelpText cmd (ShouldShowBootTraceHelp e)) (set_opt ''ShowHelp'' s)"

definition ShowListCategory :: "cmd_env \<Rightarrow> cmd_state \<Rightarrow> cmd_state" where
  "ShowListCategory e s = emit (Categories (map fst (ce_tags e))) (set_opt ''ShowListCategory'' s)"

definition SetTraceSysEventParams :: "cmd_state \<Rightarrow> cmd_state" where
  "SetTraceSysEventParams s = s\<lparr>cm_needSysEvent := True, cm_event := (cm_event s)\<lparr>se_caller := ''CMD''\<rparr>\<rparr>"

definition RecordSysEvent :: "cmd_state \<Rightarrow> cmd_state" where
  "RecordSysEvent s = (if cm_needSysEvent s then emit (SysEvent (cm_event s)) s else s)"

text \<open>The signal handlers are installed and do nothing to the state.\<close>

definition parsing_failed :: string where "parsing_failed = ''error: parsing args failed, exit.''"

definition InitAndCheckArgs :: "cmd_env \<Rightarrow> cmd_line \<Rightarrow> bool cmd" where
  "InitAndCheckArgs e l s =
     (if \<not> ce_developer e then (False, ConsoleLog ''error: not in developermode, exit'' s)
      else if cl_argc l > 256 then (False, ConsoleLog ''error: the number of input arguments exceeds the upper limit.'' s)
      else if \<not> ce_collectorOk e then (False, ConsoleLog ''error: traceCollector create failed, exit.'' s)
      else if ce_root e = [] then (False, ConsoleLog ''error: trace isn't mounted, exit.'' s)
      else
        let (ok, s1) = HandleOpt e l (s\<lparr>cm_suppress := False\<rparr>)
        in if \<not> ok then (False, (if cm_suppress s1 then s1 else ConsoleLog parsing_failed s1)\<lparr>cm_suppress := False\<rparr>)
           else if ca_totalSize (cm_args s1) \<noteq> 0 \<and> \<not> IsWritableDir (ca_output (cm_args s1))
           then (False, ConsoleLog ''error: can't set totalsize when output path is't /data/local/tmp, exit.'' s1)
           else
             let s2 = (if cm_state s1 = STATE_NULL then s1\<lparr>cm_state := RECORDING_SHORT_TEXT\<rparr> else s1);
                 s3 = (if cm_state s2 \<noteq> RECORDING_SHORT_TEXT \<and> cm_state s2 \<noteq> RECORDING_LONG_DUMP \<and> cm_state s2 \<noteq> RECORDING_LONG_FINISH
                       then let (n, s') = GetStateInfo (cm_state s2) s2
                            in ConsoleLog (hd (cl_argv l) @ '' enter, running_state is '' @ n) s'
                       else s2)
             in (True, SetTraceSysEventParams s3))"

end
