(* ===== verification/Trace_Content.thy ===== *)
theory Trace_Content
  imports Common_Utils
begin

text \<open>
  The sections of a raw trace file: \<^verbatim>\<open>frameworks/trace_factory/trace_content.cpp\<close>. A file starts with
  a header of twelve bytes and continues with sections, each a header of eight bytes (type and length,
  little endian, the padding zero) and its content. The open file is explicit: its bytes, the position,
  the room the file system has left, whether its name still exists, and the two thread-local counters.
  \<^verbatim>\<open>write\<close> stores as much as there is room for and fails when nothing can be stored; bytes that exist
  already are overwritten without new room, and seeking past the end leaves zeros. What is read from
  the kernel is a list of the results of \<^verbatim>\<open>read\<close>, an empty one or the end of the list for a result of
  at most zero.
\<close>

section \<open>The open trace file\<close>

record content_world =
  cw_data :: bytes
  cw_pos :: nat
  cw_room :: nat
  cw_exists :: bool
  g_writeFileLimit :: int
  g_outputFileSize :: int

definition file_write :: "bytes \<Rightarrow> content_world \<Rightarrow> int \<times> content_world" where
  "file_write bs w =
     (let old = length (cw_data w) - cw_pos w;
          k = min (length bs) (old + cw_room w)
      in if bs \<noteq> [] \<and> k = 0 then (-1, w)
         else if bs = [] then (0, w)
         else (int k, w\<lparr>cw_data := take (cw_pos w) (cw_data w) @ replicate (cw_pos w - length (cw_data w)) 0 @
                                   take k bs @ drop (cw_pos w + k) (cw_data w),
                        cw_pos := cw_pos w + k, cw_room := cw_room w - (k - old)\<rparr>))"

definition file_seek :: "nat \<Rightarrow> content_world \<Rightarrow> content_world" where
  "file_seek p w = w\<lparr>cw_pos := p\<rparr>"

definition file_truncate :: "nat \<Rightarrow> content_world \<Rightarrow> content_world" where
  "file_truncate n w = w\<lparr>cw_data := take n (cw_data w) @ replicate (n - length (cw_data w)) 0\<rparr>"

definition le16 :: "u16 \<Rightarrow> bytes" where "le16 x = [ucast x, ucast (drop_bit 8 x)]"
definition le32 :: "u32 \<Rightarrow> bytes" where
  "le32 x = [ucast x, ucast (drop_bit 8 x), ucast (drop_bit 16 x), ucast (drop_bit 24 x)]"

definition bytes_of_string :: "string \<Rightarrow> bytes" where
  "bytes_of_string s = map of_char s"

section \<open>Headers\<close>

record TraceFileHeader =
  magicNumber :: u16
  fileType :: u8
  versionNumber :: u16
  reserved :: u32

definition TraceFileHeader_default :: TraceFileHeader where
  "TraceFileHeader_default = \<lparr>magicNumber = 57161, fileType = 0, versionNumber = 1, reserved = 0\<rparr>"

definition file_header_bytes :: "TraceFileHeader \<Rightarrow> bytes" where
  "file_header_bytes h = le16 (magicNumber h) @ [fileType h, 0] @ le16 (versionNumber h) @ [0, 0] @ le32 (reserved h)"

record TraceFileContentHeader =
  hdr_type :: u8
  hdr_length :: u32

definition content_header_bytes :: "TraceFileContentHeader \<Rightarrow> bytes" where
  "content_header_bytes h = [hdr_type h, 0, 0, 0] @ le32 (hdr_length h)"

definition HDR :: nat where "HDR = 8"

definition CONTENT_TYPE_EVENTS_FORMAT :: u8 where "CONTENT_TYPE_EVENTS_FORMAT = 1"
definition CONTENT_TYPE_CMDLINES :: u8 where "CONTENT_TYPE_CMDLINES = 2"
definition CONTENT_TYPE_TGIDS :: u8 where "CONTENT_TYPE_TGIDS = 3"
definition CONTENT_TYPE_CPU_RAW :: u8 where "CONTENT_TYPE_CPU_RAW = 4"
definition CONTENT_TYPE_HEADER_PAGE :: u8 where "CONTENT_TYPE_HEADER_PAGE = 30"
definition CONTENT_TYPE_PRINTK_FORMATS :: u8 where "CONTENT_TYPE_PRINTK_FORMATS = 31"
definition CONTENT_TYPE_BASE_INFO :: u8 where "CONTENT_TYPE_BASE_INFO = 33"

definition HM_FILE_RAW_TRACE :: u8 where "HM_FILE_RAW_TRACE = 1"

text \<open>\<open>is64\<close> says whether pointers have 64 bits, \<open>cpus\<close> is the result of \<^verbatim>\<open>GetCpuProcessors\<close>.\<close>

definition InitTraceFileHdr :: "bool \<Rightarrow> int \<Rightarrow> TraceFileHeader \<Rightarrow> TraceFileHeader option" where
  "InitTraceFileHdr is64 cpus h =
     (let h1 = h\<lparr>reserved := reserved h OR (if is64 then 0 else 1)\<rparr>
      in if cpus > 24 \<or> cpus \<le> 0 then None
         else Some (h1\<lparr>reserved := reserved h1 OR ucast (push_bit 1 (of_int cpus :: u64))\<rparr>))"

definition write_file_header :: "TraceFileHeader option \<Rightarrow> content_world \<Rightarrow> bool \<times> content_world" where
  "write_file_header h w =
     (case h of None \<Rightarrow> (False, w)
      | Some hdr \<Rightarrow> let (r, w') = file_write (file_header_bytes hdr) w in (r = int (length (file_header_bytes hdr)), w'))"

definition TraceFileHdrLinux_Write :: "bool \<Rightarrow> int \<Rightarrow> content_world \<Rightarrow> bool \<times> content_world" where
  "TraceFileHdrLinux_Write is64 cpus w = write_file_header (InitTraceFileHdr is64 cpus TraceFileHeader_default) w"

definition TraceFileHdrHM_Write :: "bool \<Rightarrow> int \<Rightarrow> content_world \<Rightarrow> bool \<times> content_world" where
  "TraceFileHdrHM_Write is64 cpus w =
     write_file_header (map_option (\<lambda>h. h\<lparr>fileType := HM_FILE_RAW_TRACE\<rparr>) (InitTraceFileHdr is64 cpus TraceFileHeader_default)) w"

section \<open>Writing a section\<close>

definition JUDGE_FILE_EXIST :: int where "JUDGE_FILE_EXIST = 10"

definition IsFileExist :: "content_world \<Rightarrow> bool \<times> content_world" where
  "IsFileExist w =
     (let w1 = w\<lparr>g_writeFileLimit := g_writeFileLimit w + 1\<rparr>
      in if g_writeFileLimit w1 > JUDGE_FILE_EXIST
         then (cw_exists w1, w1\<lparr>g_writeFileLimit := 0\<rparr>)
         else (True, w1))"

definition GetCurrentFileSize :: "content_world \<Rightarrow> int" where
  "GetCurrentFileSize w = g_outputFileSize w"

definition ResetCurrentFileSize :: "content_world \<Rightarrow> content_world" where
  "ResetCurrentFileSize w = w\<lparr>g_outputFileSize := 0\<rparr>"

definition DoWriteTraceData :: "bytes \<Rightarrow> int \<Rightarrow> content_world \<Rightarrow> int \<times> content_world" where
  "DoWriteTraceData buffer writeLen w =
     (let (writeRet, w') = file_write buffer w
      in if writeRet < 0 then (writeLen, w') else (writeLen + writeRet, w'))"

definition DoWriteTraceContentHeader :: "u8 \<Rightarrow> content_world \<Rightarrow> bool \<times> content_world" where
  "DoWriteTraceContentHeader contentType w =
     (let (writeRet, w') = file_write (content_header_bytes \<lparr>hdr_type = contentType, hdr_length = 0\<rparr>) w
      in (writeRet = int HDR, w'))"

text \<open>
  The header of the section that ends at the position is written again with its length. \<^verbatim>\<open>offset\<close> has 32
  bits. A position before \<^verbatim>\<open>offset\<close> makes \<^verbatim>\<open>lseek\<close> fail.
\<close>

definition UpdateTraceContentHeader :: "u8 \<Rightarrow> u32 \<Rightarrow> content_world \<Rightarrow> content_world" where
  "UpdateTraceContentHeader contentType writeLen w =
     (let offset = unat (writeLen + of_nat HDR); pos = cw_pos w
      in if pos < offset then w
         else
           (let w1 = file_seek (pos - offset) w;
                (writeRet, w2) = file_write (content_header_bytes \<lparr>hdr_type = contentType, hdr_length = writeLen\<rparr>) w1
            in if writeRet \<noteq> int HDR then w2
               else let w3 = file_seek pos w2 in w3\<lparr>g_outputFileSize := g_outputFileSize w3 + int offset\<rparr>))"

text \<open>
  \<^verbatim>\<open>WriteTraceData\<close>, with \<^verbatim>\<open>WriteTraceDataContent\<close> of the class as an argument: the header is left
  open, the content written, then the header; a negative result takes the section back.
\<close>

definition WriteTraceData :: "(content_world \<Rightarrow> int \<times> content_world) \<Rightarrow> u8 \<Rightarrow> content_world \<Rightarrow> bool \<times> content_world" where
  "WriteTraceData writeContent contentType w0 =
     (let (exists, w) = IsFileExist w0
      in if \<not> exists then (False, w)
         else
           (let start = cw_pos w;
                (writeLength, w1) = writeContent (file_seek (start + HDR) w);
                w2 = file_seek start w1
            in if writeLength < 0 then (False, file_truncate start w2)
               else
                 (let len = of_int writeLength :: u32;
                      (writeRet, w3) = file_write (content_header_bytes \<lparr>hdr_type = contentType, hdr_length = len\<rparr>) w2
                  in if writeRet \<noteq> int HDR then (False, w3)
                     else let w4 = file_seek (cw_pos w3 + nat writeLength) w3
                          in (True, w4\<lparr>g_outputFileSize := g_outputFileSize w4 + int (unat len + HDR)\<rparr>))))"

section \<open>Copying from the kernel\<close>

definition PAGE_SIZE :: nat where "PAGE_SIZE = 4096"
definition BUFFER_SIZE :: nat where "BUFFER_SIZE = 256 * PAGE_SIZE"

text \<open>
  \<^verbatim>\<open>CheckPage\<close> casts the address of its pointer parameter, not the pointer, so that the size it
  compares is whatever word lies behind that parameter on the stack: \<open>stackWord\<close>.
\<close>

definition CheckPage :: "bool \<Rightarrow> u64 \<Rightarrow> bool" where
  "CheckPage isHm stackWord = (if isHm then True else \<not> stackWord < of_nat (PAGE_SIZE div 2))"

text \<open>
  One filling of the buffer: what is in it, the failed checks, whether reading is over, what is left
  to read. \<open>chk\<close> is the outcome of \<^verbatim>\<open>CheckPage\<close>.
\<close>

primrec read_chunk :: "(bytes \<Rightarrow> bool) \<Rightarrow> bytes \<Rightarrow> nat \<Rightarrow> bytes list \<Rightarrow> bytes \<times> nat \<times> bool \<times> bytes list" where
  "read_chunk chk acc failed [] =
     (if length acc \<le> BUFFER_SIZE - PAGE_SIZE then (acc, failed, True, []) else (acc, failed, False, []))"
| "read_chunk chk acc failed (p # ps) =
     (if length acc \<le> BUFFER_SIZE - PAGE_SIZE
      then if p = [] then (acc, failed, True, ps)
           else let failed' = (if chk p then failed else Suc failed)
                in if failed' \<ge> 2 then (acc @ p, failed', True, ps) else read_chunk chk (acc @ p) failed' ps
      else (acc, failed, False, p # ps))"

lemma read_chunk_shrinks:
  "read_chunk chk acc failed ps = (b, f, e, rest) \<Longrightarrow> length acc \<le> BUFFER_SIZE - PAGE_SIZE \<Longrightarrow>
   \<not> e \<Longrightarrow> length rest < length ps"
proof (induction ps arbitrary: acc failed)
  case (Cons p ps)
  show ?case
  proof (cases "length (acc @ p) \<le> BUFFER_SIZE - PAGE_SIZE")
    case True
    with Cons show ?thesis by (fastforce simp: Let_def split: if_splits)
  next
    case False
    then have "read_chunk chk (acc @ p) f' ps = (acc @ p, f', False, ps)" for f' by (cases ps) simp_all
    with Cons.prems show ?thesis by (auto simp: Let_def split: if_splits)
  qed
qed simp

text \<open>The outer loop ends because a filling that does not end the reading takes at least one page.\<close>

function copy_loop :: "(bytes \<Rightarrow> bool) \<Rightarrow> nat \<Rightarrow> bytes list \<Rightarrow> int \<Rightarrow> content_world \<Rightarrow> int \<times> content_world" where
  "copy_loop chk failed pages writeLen w =
     (let (buf, failed', endFlag, rest) = read_chunk chk [] failed pages;
          (writeLen', w') = DoWriteTraceData buf writeLen w
      in if endFlag then (writeLen', w') else copy_loop chk failed' rest writeLen' w')"
  by pat_completeness auto
termination
  by (relation "measure (\<lambda>(chk, f, pages, l, w). length pages)") (auto dest!: read_chunk_shrinks [OF sym])

declare copy_loop.simps [simp del]

text \<open>\<^verbatim>\<open>ITraceContent::WriteTraceDataContent\<close>; \<open>None\<close> stands for a source that could not be opened.\<close>

definition WriteTraceDataContent :: "(bytes \<Rightarrow> bool) \<Rightarrow> bytes list option \<Rightarrow> content_world \<Rightarrow> int \<times> content_world" where
  "WriteTraceDataContent chk src w = (case src of None \<Rightarrow> (-1, w) | Some pages \<Rightarrow> copy_loop chk 0 pages 0 w)"

section \<open>The sections\<close>

text \<open>
  The process list of \<^verbatim>\<open>/proc\<close>: \<open>None\<close> if it cannot be opened, else its entries (name and whether it is a
  directory). \<open>status\<close> gives the lines of a status file that can be opened.
\<close>

definition ReadProcessName :: "(string \<Rightarrow> string list option) \<Rightarrow> string \<Rightarrow> string" where
  "ReadProcessName status pid =
     (case status pid of None \<Rightarrow> ''''
      | Some ls \<Rightarrow>
          (case find (\<lambda>l. str_find l ''Name:'' 0 \<noteq> None) ls of None \<Rightarrow> ''''
           | Some l \<Rightarrow> (case str_find l '':'' 0 of None \<Rightarrow> l | Some i \<Rightarrow> drop (i + 1) l)))"

definition AppendToBuffer :: "bytes \<Rightarrow> bytes \<times> int \<times> content_world \<Rightarrow> bytes \<times> int \<times> content_world" where
  "AppendToBuffer d s =
     (case s of (buf, writeLen, w) \<Rightarrow>
        if length d > BUFFER_SIZE - length buf then s
        else let buf' = buf @ d
             in if length buf' > BUFFER_SIZE - PAGE_SIZE
                then let (writeLen', w') = DoWriteTraceData buf' writeLen w in ([], writeLen', w')
                else (buf', writeLen, w))"

definition process_line :: "(string \<Rightarrow> string list option) \<Rightarrow> string \<times> bool \<Rightarrow> bytes option" where
  "process_line status e =
     (if \<not> snd e \<or> fst e = ''.'' \<or> fst e = ''..'' then None
      else if \<not> list_all is_digit (fst e) then None
      else let name = ReadProcessName status (fst e)
           in if name = '''' then None else Some (bytes_of_string (fst e @ '' '' @ name @ [char_of (10::nat)])))"

definition WriteProcessLists ::
  "(string \<times> bool) list option \<Rightarrow> (string \<Rightarrow> string list option) \<Rightarrow> int \<Rightarrow> content_world \<Rightarrow> int \<times> content_world" where
  "WriteProcessLists proc status writeLen w =
     (case proc of None \<Rightarrow> (writeLen, w)
      | Some es \<Rightarrow>
          (let (buf, writeLen', w') = fold AppendToBuffer (List.map_filter (process_line status) es) ([], writeLen, w)
           in if buf \<noteq> [] then DoWriteTraceData buf writeLen' w' else (writeLen', w')))"

definition WriteKeyValue :: "string \<Rightarrow> string \<Rightarrow> content_world \<Rightarrow> int \<times> content_world" where
  "WriteKeyValue key value w =
     (if key = [] \<or> value = [] then (0, w)
      else let (writeRet, w') = file_write (bytes_of_string (key @ '': '' @ value @ [char_of (10::nat)])) w
           in (if writeRet < 0 then 0 else writeRet, w'))"

definition TraceBaseInfo_Write :: "string \<Rightarrow> u64 \<Rightarrow> u64 \<Rightarrow> content_world \<Rightarrow> bool \<times> content_world" where
  "TraceBaseInfo_Write kernelVersion unixTimeMs bootTimeNs w =
     (let (ok, w1) = DoWriteTraceContentHeader CONTENT_TYPE_BASE_INFO w
      in if \<not> ok then (False, w1)
         else
           (let (a, w2) = WriteKeyValue ''KERNEL_VERSION'' kernelVersion w1;
                (b, w3) = WriteKeyValue ''UNIX_TIME_MS'' (to_string_nat (unat unixTimeMs)) w2;
                (c, w4) = WriteKeyValue ''BOOT_TIME_MS'' (to_string_nat (unat (bootTimeNs div 1000000))) w3
            in (True, UpdateTraceContentHeader CONTENT_TYPE_BASE_INFO (of_int (a + b + c)) w4)))"

text \<open>\<^verbatim>\<open>WriteEventFile\<close> copies page by page until the end or a failing write; a short write goes on.\<close>

primrec WriteEventFile :: "bytes list \<Rightarrow> content_world \<Rightarrow> content_world" where
  "WriteEventFile [] w = w"
| "WriteEventFile (p # ps) w =
     (if p = [] then w
      else let (writeRet, w') = file_write p w in if writeRet < 0 then w' else WriteEventFile ps w')"

text \<open>
  The formats: one entry for each path of the configuration, \<open>None\<close> if it is not readable. They are
  saved once in a file of their own, which is then the source of the section, or written inline.
\<close>

definition PreWriteAllTraceEventsFormat :: "bytes list option list \<Rightarrow> content_world \<Rightarrow> content_world" where
  "PreWriteAllTraceEventsFormat traceFormats w =
     fold (\<lambda>f w. case f of None \<Rightarrow> w | Some pages \<Rightarrow> WriteEventFile pages w) traceFormats w"

definition TraceEventFmt_WriteInline :: "bytes list option list \<Rightarrow> content_world \<Rightarrow> bool \<times> content_world" where
  "TraceEventFmt_WriteInline traceFormats w0 =
     (let (exists, w) = IsFileExist w0
      in if \<not> exists then (False, w)
         else
           (let (ok, w1) = DoWriteTraceContentHeader CONTENT_TYPE_EVENTS_FORMAT w
            in if \<not> ok then (False, w1)
               else let w2 = PreWriteAllTraceEventsFormat traceFormats w1;
                        writeLen = int (cw_pos w2) - int (cw_pos w1)
                    in (True, UpdateTraceContentHeader CONTENT_TYPE_EVENTS_FORMAT (of_int writeLen) w2)))"

definition TraceEventFmt_Write ::
  "bool \<Rightarrow> bytes list option list \<Rightarrow> (bytes \<Rightarrow> bool) \<Rightarrow> bytes list option \<Rightarrow> content_world \<Rightarrow> bool \<times> content_world" where
  "TraceEventFmt_Write inlineEventFmt traceFormats chk src w =
     (if inlineEventFmt then TraceEventFmt_WriteInline traceFormats w
      else WriteTraceData (WriteTraceDataContent chk src) CONTENT_TYPE_EVENTS_FORMAT w)"

text \<open>
  With a filter the lines come from memory: each is put into the buffer, which is written when the next
  line would not fit.
\<close>

definition put_line :: "bytes \<Rightarrow> bytes \<times> int \<times> content_world \<Rightarrow> bytes \<times> int \<times> content_world" where
  "put_line l s =
     (case s of (buf, writeLen, w) \<Rightarrow>
        if length buf + length l > BUFFER_SIZE
        then let (writeLen', w') = DoWriteTraceData buf writeLen w in (l, writeLen', w')
        else (buf @ l, writeLen, w))"

definition write_lines :: "bytes list \<Rightarrow> content_world \<Rightarrow> int \<times> content_world" where
  "write_lines ls w =
     (let (buf, writeLen, w') = fold put_line ls ([], 0, w) in DoWriteTraceData buf writeLen w')"

record filter_context =
  fc_savedCmdLines :: "string list"
  fc_filterPids :: "string list"
  fc_tgids :: "(string \<times> string) list"

definition TraceCmdLines_Content ::
  "filter_context option \<Rightarrow> (bytes \<Rightarrow> bool) \<Rightarrow> bytes list option \<Rightarrow> (string \<times> bool) list option \<Rightarrow>
   (string \<Rightarrow> string list option) \<Rightarrow> content_world \<Rightarrow> int \<times> content_world" where
  "TraceCmdLines_Content fc chk src proc status w =
     (case fc of
        None \<Rightarrow> let (n, w1) = WriteTraceDataContent chk src w in WriteProcessLists proc status n w1
      | Some c \<Rightarrow>
          write_lines (map bytes_of_string (fc_savedCmdLines c) @
            map (\<lambda>pid. bytes_of_string (pid @ '' '' @ ReadProcessName status pid @ [char_of (10::nat)])) (fc_filterPids c)) w)"

definition TraceTgids_Content ::
  "filter_context option \<Rightarrow> (bytes \<Rightarrow> bool) \<Rightarrow> bytes list option \<Rightarrow> content_world \<Rightarrow> int \<times> content_world" where
  "TraceTgids_Content fc chk src w =
     (case fc of None \<Rightarrow> WriteTraceDataContent chk src w
      | Some c \<Rightarrow> write_lines (map (\<lambda>t. bytes_of_string (fst t @ '' '' @ snd t @ [char_of (10::nat)])) (fc_tgids c)) w)"

definition TraceCmdLines_Write ::
  "filter_context option \<Rightarrow> (bytes \<Rightarrow> bool) \<Rightarrow> bytes list option \<Rightarrow> (string \<times> bool) list option \<Rightarrow>
   (string \<Rightarrow> string list option) \<Rightarrow> content_world \<Rightarrow> bool \<times> content_world" where
  "TraceCmdLines_Write fc chk src proc status w =
     WriteTraceData (TraceCmdLines_Content fc chk src proc status) CONTENT_TYPE_CMDLINES w"

definition TraceTgids_Write ::
  "filter_context option \<Rightarrow> (bytes \<Rightarrow> bool) \<Rightarrow> bytes list option \<Rightarrow> content_world \<Rightarrow> bool \<times> content_world" where
  "TraceTgids_Write fc chk src w = WriteTraceData (TraceTgids_Content fc chk src) CONTENT_TYPE_TGIDS w"

text \<open>The header page and the formats of \<^verbatim>\<open>printk\<close> exist on Linux only.\<close>

definition TraceHeaderPage_Write :: "bool \<Rightarrow> (bytes \<Rightarrow> bool) \<Rightarrow> bytes list option \<Rightarrow> content_world \<Rightarrow> bool \<times> content_world" where
  "TraceHeaderPage_Write isHm chk src w =
     (if isHm then (True, w) else WriteTraceData (WriteTraceDataContent chk src) CONTENT_TYPE_HEADER_PAGE w)"

definition TracePrintkFmt_Write :: "bool \<Rightarrow> (bytes \<Rightarrow> bool) \<Rightarrow> bytes list option \<Rightarrow> content_world \<Rightarrow> bool \<times> content_world" where
  "TracePrintkFmt_Write isHm chk src w =
     (if isHm then (True, w) else WriteTraceData (WriteTraceDataContent chk src) CONTENT_TYPE_PRINTK_FORMATS w)"

section \<open>Reading the file back\<close>

text \<open>
  The format as a reader sees it: a section is its header with the true length and its content, and a
  list of sections can be taken apart again.
\<close>

definition section_bytes :: "u8 \<times> bytes \<Rightarrow> bytes" where
  "section_bytes s = content_header_bytes \<lparr>hdr_type = fst s, hdr_length = of_nat (length (snd s))\<rparr> @ snd s"

definition of_le32 :: "bytes \<Rightarrow> u32" where
  "of_le32 bs = ucast (bs ! 0) OR push_bit 8 (ucast (bs ! 1)) OR push_bit 16 (ucast (bs ! 2)) OR push_bit 24 (ucast (bs ! 3))"

function parse_sections :: "bytes \<Rightarrow> (u8 \<times> bytes) list option" where
  "parse_sections bs =
     (if bs = [] then Some []
      else if length bs < HDR then None
      else let n = unat (of_le32 (drop 4 bs))
           in if length bs < HDR + n then None
              else map_option ((#) (hd bs, take n (drop HDR bs))) (parse_sections (drop (HDR + n) bs)))"
  by pat_completeness auto
termination
  by (relation "measure length") (auto simp: HDR_def)

declare parse_sections.simps [simp del]

lemma length_content_header [simp]: "length (content_header_bytes h) = HDR"
  by (simp add: content_header_bytes_def le32_def HDR_def)

lemma content_header_not_Nil [simp]: "content_header_bytes h \<noteq> []"
  by (simp add: content_header_bytes_def)

lemma of_le32_le32: "of_le32 (le32 x @ r) = x"
proof (rule bit_word_eqI)
  fix n assume "n < LENGTH(32)"
  then consider "n < 8" | "8 \<le> n" "n < 16" | "16 \<le> n" "n < 24" | "24 \<le> n" "n < 32" by fastforce
  then show "bit (of_le32 (le32 x @ r)) n = bit x n"
    by cases (auto simp: of_le32_def le32_def bit_simps)
qed

lemma length_section_bytes [simp]: "length (section_bytes (t, c)) = HDR + length c"
  by (simp add: section_bytes_def)

lemma parse_section:
  assumes "length c < 2 ^ 32"
  shows "parse_sections (section_bytes (t, c) @ r) = map_option ((#) (t, c)) (parse_sections r)"
proof -
  let ?bs = "section_bytes (t, c) @ r"
  have h: "?bs = [t, 0, 0, 0] @ le32 (of_nat (length c)) @ c @ r" by (simp add: section_bytes_def content_header_bytes_def)
  then have "drop 4 ?bs = le32 (of_nat (length c)) @ c @ r" by simp
  then have "of_le32 (drop 4 ?bs) = of_nat (length c)" by (simp only: of_le32_le32)
  then have n: "unat (of_le32 (drop 4 ?bs)) = length c" using assms by (simp add: unsigned_of_nat take_bit_nat_eq_self)
  have d: "drop HDR ?bs = c @ r" "hd ?bs = t" "(?bs = []) = False" by (simp_all add: h HDR_def le32_def)
  then have r: "drop (HDR + length c) ?bs = r" by (metis append_eq_conv_conj drop_drop add.commute)
  have "(length ?bs < HDR + length c) = False" "(length ?bs < HDR) = False" by simp_all
  then show ?thesis unfolding parse_sections.simps [of ?bs] Let_def n d r by (simp only: if_False) simp
qed

lemma parse_concat:
  "list_all (\<lambda>s. length (snd s) < 2 ^ 32) ss \<Longrightarrow> parse_sections (concat (map section_bytes ss)) = Some ss"
proof (induction ss)
  case Nil
  then show ?case by (simp add: parse_sections.simps [of "[]"])
next
  case (Cons s ss)
  then show ?case using parse_section [of "snd s" "fst s" "concat (map section_bytes ss)"] by simp
qed

section \<open>Appending\<close>

text \<open>Storing bytes at or behind the end of the file.\<close>

definition put :: "bytes \<Rightarrow> content_world \<Rightarrow> content_world" where
  "put c w = (if c = [] then w
     else w\<lparr>cw_data := cw_data w @ replicate (cw_pos w - length (cw_data w)) 0 @ c,
            cw_pos := cw_pos w + length c, cw_room := cw_room w - length c\<rparr>)"

definition behind :: "content_world \<Rightarrow> bool" where
  "behind w \<longleftrightarrow> length (cw_data w) \<le> cw_pos w"

lemma put_Nil [simp]: "put [] w = w"
  by (simp add: put_def)

lemma behind_put [simp]: "behind w \<Longrightarrow> behind (put c w)"
  by (auto simp: behind_def put_def)

lemma put_put: "behind w \<Longrightarrow> put d (put c w) = put (c @ d) w"
  by (auto simp: behind_def put_def)

lemma put_fields [simp]: "cw_pos (put c w) = cw_pos w + length c" "cw_room (put c w) = cw_room w - length c"
  "cw_exists (put c w) = cw_exists w" "g_writeFileLimit (put c w) = g_writeFileLimit w"
  "g_outputFileSize (put c w) = g_outputFileSize w"
  by (simp_all add: put_def)

lemma file_write_behind:
  "behind w \<Longrightarrow> file_write bs w = (if bs \<noteq> [] \<and> cw_room w = 0 then -1 else int (length (take (cw_room w) bs)), put (take (cw_room w) bs) w)"
  by (auto simp: behind_def file_write_def put_def Let_def min_def)

lemma DoWrite_behind:
  "behind w \<Longrightarrow> DoWriteTraceData bs n w = (n + int (length (take (cw_room w) bs)), put (take (cw_room w) bs) w)"
  by (auto simp: DoWriteTraceData_def file_write_behind)

text \<open>Two writes in a row store what one write of both would, whatever the room.\<close>

lemma put_take_append:
  assumes "behind w"
  shows "put (take (cw_room w - length (take (cw_room w) a)) b) (put (take (cw_room w) a) w) = put (take (cw_room w) (a @ b)) w"
    "length (take (cw_room w) a) + length (take (cw_room w - length (take (cw_room w) a)) b) = length (take (cw_room w) (a @ b))"
  using assms by (auto simp: put_put)

lemma DoWrite_twice:
  assumes "behind w"
  shows "(case DoWriteTraceData a n w of (n', w') \<Rightarrow> DoWriteTraceData b n' w') = DoWriteTraceData (a @ b) n w"
  using assms put_take_append [OF assms, of a b] by (simp add: DoWrite_behind)

text \<open>
  What the writers of section contents promise: started behind the end, they store their text, or as
  much of it as there is room for, and return the number of bytes stored.
\<close>

locale content_writer =
  fixes f :: "content_world \<Rightarrow> int \<times> content_world"
    and text1 :: bytes
  assumes writes: "behind w \<Longrightarrow> f w = (int (length (take (cw_room w) text1)), put (take (cw_room w) text1) w)"
begin

lemma section_written:
  assumes "cw_pos w = length (cw_data w)" "IsFileExist w0 = (True, w)" "length text1 < 2 ^ 31"
    and "HDR \<le> cw_room w \<or> text1 \<noteq> [] \<and> 0 < cw_room w"
  shows "WriteTraceData f ty w0 =
    (True, let c = take (cw_room w) text1
           in w\<lparr>cw_data := cw_data w @ section_bytes (ty, c), cw_pos := cw_pos w + HDR + length c,
                cw_room := cw_room w - (if c = [] then HDR else length c),
                g_outputFileSize := g_outputFileSize w + int (length c + HDR)\<rparr>)"
proof -
  define c where "c = take (cw_room w) text1"
  have len: "length c < 2 ^ 32" "unat (of_nat (length c) :: u32) = length c"
    using assms(3) by (auto simp: c_def unsigned_of_nat take_bit_nat_eq_self)
  have content: "f (file_seek (cw_pos w + HDR) w) = (int (length c), put c (file_seek (cw_pos w + HDR) w))"
    using writes [of "file_seek (cw_pos w + HDR) w"] assms(1) by (simp add: behind_def file_seek_def c_def)
  let ?h = "content_header_bytes \<lparr>hdr_type = ty, hdr_length = of_nat (length c)\<rparr>"
  let ?w2 = "file_seek (cw_pos w) (put c (file_seek (cw_pos w + HDR) w))"
  have hdr: "file_write ?h ?w2 =
      (int HDR, w\<lparr>cw_data := cw_data w @ section_bytes (ty, c), cw_pos := cw_pos w + HDR,
          cw_room := cw_room w - (if c = [] then HDR else length c)\<rparr>)"
  proof (cases "c = []")
    case True
    then have "HDR \<le> cw_room w" using assms(4) by (auto simp: c_def)
    with True assms(1) show ?thesis
      by (simp add: file_write_def file_seek_def section_bytes_def Let_def HDR_def)
  next
    case False
    then show ?thesis using assms(1)
      by (simp add: file_write_def file_seek_def section_bytes_def Let_def put_def HDR_def)
  qed
  show ?thesis
    using assms(2) content hdr len
    by (simp add: WriteTraceData_def Let_def flip: c_def) (simp add: file_seek_def)
qed

end

section \<open>What the writers store\<close>

text \<open>The pages of a source in order, up to its end or the second page that fails the check.\<close>

primrec copied :: "(bytes \<Rightarrow> bool) \<Rightarrow> nat \<Rightarrow> bytes list \<Rightarrow> bytes" where
  "copied chk failed [] = []"
| "copied chk failed (p # ps) =
     (if p = [] then []
      else let failed' = (if chk p then failed else Suc failed)
           in if failed' \<ge> 2 then p else p @ copied chk failed' ps)"

lemma DoWrite_Nil [simp]: "DoWriteTraceData [] n w = (n, w)"
  by (simp add: DoWriteTraceData_def file_write_def)

lemma behind_DoWrite: "behind w \<Longrightarrow> DoWriteTraceData bs n w = (n', w') \<Longrightarrow> behind w'"
  by (auto simp: DoWrite_behind)

lemma read_chunk_copied:
  "read_chunk chk acc failed ps = (b, f', e, rest) \<Longrightarrow>
   b @ (if e then [] else copied chk f' rest) = acc @ copied chk failed ps"
proof (induction ps arbitrary: acc failed)
  case (Cons p ps)
  show ?case
  proof (cases "length acc \<le> BUFFER_SIZE - PAGE_SIZE \<and> p \<noteq> [] \<and> (if chk p then failed else Suc failed) < 2")
    case True
    then show ?thesis using Cons.IH [of "acc @ p" "if chk p then failed else Suc failed"] Cons.prems by (auto simp: Let_def)
  next
    case False
    then show ?thesis using Cons.prems by (auto simp: Let_def split: if_splits)
  qed
qed (auto split: if_splits)

lemma copy_loop_copied:
  "behind w \<Longrightarrow> copy_loop chk failed pages n w = DoWriteTraceData (copied chk failed pages) n w"
proof (induction chk failed pages n w rule: copy_loop.induct)
  case (1 chk failed pages n w)
  obtain b f' e rest where r: "read_chunk chk [] failed pages = (b, f', e, rest)" by (metis prod_cases4)
  obtain n' w' where d: "DoWriteTraceData b n w = (n', w')" by (cases "DoWriteTraceData b n w")
  have c: "b @ (if e then [] else copied chk f' rest) = copied chk failed pages"
    using read_chunk_copied [OF r] by simp
  show ?case
  proof (cases e)
    case True
    then show ?thesis using r d c by (simp add: copy_loop.simps [of chk failed])
  next
    case False
    have "copy_loop chk failed pages n w = copy_loop chk f' rest n' w'"
      using r d False by (simp add: copy_loop.simps [of chk failed])
    also have "\<dots> = DoWriteTraceData (copied chk f' rest) n' w'"
      using "1.IH" [of "(b, f', e, rest)" b "(f', e, rest)" f' "(e, rest)" e rest "(n', w')" n' w'] r d False
        behind_DoWrite [OF "1.prems" d] by simp
    also have "\<dots> = DoWriteTraceData (b @ copied chk f' rest) n w"
      using DoWrite_twice [OF "1.prems", where a = b and n = n] d by simp
    finally show ?thesis using c False by simp
  qed
qed

interpretation copying: content_writer "WriteTraceDataContent chk (Some pages)" "copied chk 0 pages" for chk pages
  by unfold_locales (simp add: WriteTraceDataContent_def copy_loop_copied DoWrite_behind)

lemma put_lines:
  "behind w \<Longrightarrow> (case fold put_line ls (buf, n, w) of (buf', n', w') \<Rightarrow> DoWriteTraceData buf' n' w') =
   DoWriteTraceData (buf @ concat ls) n w"
proof (induction ls arbitrary: buf n w)
  case (Cons l ls)
  obtain n' w' where d: "DoWriteTraceData buf n w = (n', w')" by (cases "DoWriteTraceData buf n w")
  have "behind w'" using behind_DoWrite [OF Cons.prems d] .
  then have "DoWriteTraceData (l @ concat ls) n' w' = DoWriteTraceData (buf @ l @ concat ls) n w"
    using DoWrite_twice [OF Cons.prems, where a = buf and n = n and b = "l @ concat ls"] d by simp
  then show ?case using Cons.IH [OF Cons.prems, of "buf @ l" n] Cons.IH [OF \<open>behind w'\<close>, of l n'] d
    by (auto simp: put_line_def)
qed simp

interpretation lines: content_writer "write_lines ls" "concat ls" for ls
  by unfold_locales (use put_lines [of _ ls "[]" 0] in \<open>simp add: write_lines_def DoWrite_behind\<close>)

lemma append_lines:
  "behind w \<Longrightarrow> length buf \<le> BUFFER_SIZE - PAGE_SIZE \<Longrightarrow> list_all (\<lambda>l. length l \<le> PAGE_SIZE) ls \<Longrightarrow>
   (case fold AppendToBuffer ls (buf, n, w) of (buf', n', w') \<Rightarrow> DoWriteTraceData buf' n' w') =
   DoWriteTraceData (buf @ concat ls) n w"
proof (induction ls arbitrary: buf n w)
  case (Cons l ls)
  have fits: "\<not> length l > BUFFER_SIZE - length buf" using Cons.prems(2,3) by (auto simp: BUFFER_SIZE_def)
  show ?case
  proof (cases "length (buf @ l) > BUFFER_SIZE - PAGE_SIZE")
    case True
    obtain n' w' where d: "DoWriteTraceData (buf @ l) n w = (n', w')" by (cases "DoWriteTraceData (buf @ l) n w")
    have b: "behind w'" using behind_DoWrite [OF Cons.prems(1) d] .
    have "fold AppendToBuffer (l # ls) (buf, n, w) = fold AppendToBuffer ls ([], n', w')"
      using fits True d by (simp add: AppendToBuffer_def)
    then show ?thesis using Cons.IH [OF b, of "[]" n'] Cons.prems(3) DoWrite_twice [OF Cons.prems(1), where a = "buf @ l" and n = n and b = "concat ls"] d
      by simp
  next
    case False
    then have "fold AppendToBuffer (l # ls) (buf, n, w) = fold AppendToBuffer ls (buf @ l, n, w)"
      using fits by (simp add: AppendToBuffer_def)
    then show ?thesis using Cons.IH [OF Cons.prems(1), of "buf @ l" n] Cons.prems(3) False by simp
  qed
qed simp

text \<open>The process list, when \<^verbatim>\<open>/proc\<close> can be read and every line is shorter than a page.\<close>

definition process_text :: "(string \<Rightarrow> string list option) \<Rightarrow> (string \<times> bool) list \<Rightarrow> bytes" where
  "process_text status es = concat (List.map_filter (process_line status) es)"

lemma WriteProcessLists_text:
  assumes "behind w" "list_all (\<lambda>l. length l \<le> PAGE_SIZE) (List.map_filter (process_line status) es)"
  shows "WriteProcessLists (Some es) status n w = DoWriteTraceData (process_text status es) n w"
proof -
  let ?r = "fold AppendToBuffer (List.map_filter (process_line status) es) ([], n, w)"
  obtain buf n' w' where r: "?r = (buf, n', w')" by (metis prod_cases3)
  then have "WriteProcessLists (Some es) status n w = DoWriteTraceData buf n' w'"
    by (simp add: WriteProcessLists_def)
  with append_lines [OF assms(1) _ assms(2), of "[]" n] r show ?thesis by (simp add: process_text_def)
qed

text \<open>
  The section of command lines without a filter: the saved ones followed by the process list, when
  the saved ones can be opened.
\<close>

lemma cmdlines_content:
  assumes "behind w" "list_all (\<lambda>l. length l \<le> PAGE_SIZE) (List.map_filter (process_line status) es)"
  shows "TraceCmdLines_Content None chk (Some pages) (Some es) status w =
    DoWriteTraceData (copied chk 0 pages @ process_text status es) 0 w"
proof -
  obtain n' w' where d: "DoWriteTraceData (copied chk 0 pages) 0 w = (n', w')" by (cases "DoWriteTraceData (copied chk 0 pages) 0 w")
  have "WriteTraceDataContent chk (Some pages) w = (n', w')"
    using d by (simp add: WriteTraceDataContent_def copy_loop_copied assms(1))
  then show ?thesis
    using WriteProcessLists_text [OF behind_DoWrite [OF assms(1) d] assms(2)] DoWrite_twice [OF assms(1), where a = "copied chk 0 pages" and n = 0] d
    by (simp add: TraceCmdLines_Content_def)
qed

section \<open>Sections with the header first\<close>

definition empty_header :: "u8 \<Rightarrow> bytes" where
  "empty_header ty = content_header_bytes \<lparr>hdr_type = ty, hdr_length = 0\<rparr>"

text \<open>The file with one more section at its end.\<close>

definition with_section :: "u8 \<Rightarrow> bytes \<Rightarrow> content_world \<Rightarrow> content_world" where
  "with_section ty c w = w\<lparr>cw_data := cw_data w @ section_bytes (ty, c), cw_pos := cw_pos w + HDR + length c,
     cw_room := cw_room w - (HDR + length c), g_outputFileSize := g_outputFileSize w + int (HDR + length c)\<rparr>"

lemma header_written:
  "behind w \<Longrightarrow> HDR \<le> cw_room w \<Longrightarrow> DoWriteTraceContentHeader ty w = (True, put (empty_header ty) w)"
  by (simp add: DoWriteTraceContentHeader_def file_write_behind empty_header_def HDR_def)

lemma update_header:
  assumes "cw_pos w = length (cw_data w)" "length c < 2 ^ 31"
  shows "UpdateTraceContentHeader ty (of_nat (length c)) (put c (put (empty_header ty) w)) = with_section ty c w"
proof -
  have behind: "behind w" using assms(1) by (simp add: behind_def)
  let ?w = "put (empty_header ty @ c) w"
  have w: "put c (put (empty_header ty) w) = ?w" using behind by (simp add: put_put)
  have off: "unat (of_nat (length c) + of_nat HDR :: u32) = HDR + length c"
    using assms(2) unfolding of_nat_add [symmetric] by (simp add: HDR_def unsigned_of_nat take_bit_nat_eq_self del: of_nat_add)
  have data: "cw_data ?w = cw_data w @ empty_header ty @ c" "cw_pos ?w = length (cw_data w) + (HDR + length c)"
    using assms(1) by (simp_all add: put_def empty_header_def)
  have "file_write (content_header_bytes \<lparr>hdr_type = ty, hdr_length = of_nat (length c)\<rparr>) (file_seek (length (cw_data w)) ?w) =
      (int HDR, ?w\<lparr>cw_data := cw_data w @ section_bytes (ty, c), cw_pos := length (cw_data w) + HDR\<rparr>)"
    using assms(1) by (simp add: file_write_def file_seek_def Let_def data section_bytes_def empty_header_def put_def HDR_def)
  then have "UpdateTraceContentHeader ty (of_nat (length c)) ?w =
      (file_seek (length (cw_data w) + (HDR + length c)) (?w\<lparr>cw_data := cw_data w @ section_bytes (ty, c), cw_pos := length (cw_data w) + HDR\<rparr>))
        \<lparr>g_outputFileSize := g_outputFileSize w + int (HDR + length c)\<rparr>"
    unfolding UpdateTraceContentHeader_def Let_def off data(2) by (simp add: file_seek_def)
  then show ?thesis unfolding w using assms(1)
    by (simp add: with_section_def file_seek_def put_def empty_header_def)
qed

lemma WriteKeyValue_room:
  assumes "behind w" "key \<noteq> []" "value \<noteq> []" "length key + length value + 3 \<le> cw_room w"
  shows "WriteKeyValue key value w =
    (int (length key + length value + 3), put (bytes_of_string (key @ '': '' @ value @ [char_of (10::nat)])) w)"
  using assms by (simp add: WriteKeyValue_def file_write_behind bytes_of_string_def)

text \<open>The text of the base information.\<close>

definition base_info_text :: "string \<Rightarrow> u64 \<Rightarrow> u64 \<Rightarrow> bytes" where
  "base_info_text kernelVersion unixTimeMs bootTimeNs =
     bytes_of_string (''KERNEL_VERSION: '' @ kernelVersion @ [char_of (10::nat)] @
       ''UNIX_TIME_MS: '' @ to_string_nat (unat unixTimeMs) @ [char_of (10::nat)] @
       ''BOOT_TIME_MS: '' @ to_string_nat (unat (bootTimeNs div 1000000)) @ [char_of (10::nat)])"

lemma base_info_written:
  assumes "cw_pos w = length (cw_data w)" "kernelVersion \<noteq> []"
    and "HDR + length (base_info_text kernelVersion unixTimeMs bootTimeNs) \<le> cw_room w"
    and "length (base_info_text kernelVersion unixTimeMs bootTimeNs) < 2 ^ 31"
  shows "TraceBaseInfo_Write kernelVersion unixTimeMs bootTimeNs w =
    (True, with_section CONTENT_TYPE_BASE_INFO (base_info_text kernelVersion unixTimeMs bootTimeNs) w)"
proof -
  let ?t = "CONTENT_TYPE_BASE_INFO" and ?u = "to_string_nat (unat unixTimeMs)" and ?b = "to_string_nat (unat (bootTimeNs div 1000000))"
  let ?nl = "[char_of (10::nat)]"
  define A where "A = bytes_of_string (''KERNEL_VERSION'' @ '': '' @ kernelVersion @ ?nl)"
  define B where "B = bytes_of_string (''UNIX_TIME_MS'' @ '': '' @ ?u @ ?nl)"
  define C where "C = bytes_of_string (''BOOT_TIME_MS'' @ '': '' @ ?b @ ?nl)"
  have ABC: "base_info_text kernelVersion unixTimeMs bootTimeNs = A @ B @ C"
    by (simp add: base_info_text_def A_def B_def C_def bytes_of_string_def)
  have len: "length A = 17 + length kernelVersion" "length B = 15 + length ?u" "length C = 15 + length ?b"
    by (simp_all add: A_def B_def C_def bytes_of_string_def)
  have room: "HDR + (length A + (length B + length C)) \<le> cw_room w" using assms(3) by (simp add: ABC)
  have behind: "behind w" using assms(1) by (simp add: behind_def)
  let ?w1 = "put (empty_header ?t) w"
  have w1: "DoWriteTraceContentHeader ?t w = (True, ?w1)" "cw_room ?w1 = cw_room w - HDR" "behind ?w1"
    using header_written [OF behind] room behind by (simp_all add: empty_header_def)
  have a: "WriteKeyValue ''KERNEL_VERSION'' kernelVersion ?w1 = (int (length A), put A ?w1)"
    using WriteKeyValue_room [OF w1(3), of "''KERNEL_VERSION''" kernelVersion] assms(2) room w1(2) len by (simp add: A_def)
  have b: "WriteKeyValue ''UNIX_TIME_MS'' ?u (put A ?w1) = (int (length B), put B (put A ?w1))"
    using WriteKeyValue_room [of "put A ?w1" "''UNIX_TIME_MS''" ?u] w1(2,3) room len by (simp add: B_def to_string_nat_def)
  have c: "WriteKeyValue ''BOOT_TIME_MS'' ?b (put B (put A ?w1)) = (int (length C), put C (put B (put A ?w1)))"
    using WriteKeyValue_room [of "put B (put A ?w1)" "''BOOT_TIME_MS''" ?b] w1(2,3) room len by (simp add: C_def to_string_nat_def)
  have "(of_int (int (length A) + int (length B) + int (length C)) :: u32) = of_nat (length (A @ B @ C))" by simp
  then show ?thesis
    using update_header [OF assms(1), of "A @ B @ C" ?t] assms(4) w1(3)
    by (simp add: TraceBaseInfo_Write_def w1(1) a b c ABC del: length_append of_nat_add of_int_add) (simp add: put_put)
qed

section \<open>The file as a whole\<close>

lemma parse_append:
  "parse_sections a = Some ss \<Longrightarrow> parse_sections (a @ b) = map_option ((@) ss) (parse_sections b)"
proof (induction a arbitrary: ss rule: parse_sections.induct)
  case (1 a)
  show ?case
  proof (cases "a = []")
    case True
    then show ?thesis using "1.prems" by (simp add: parse_sections.simps [of "[]"] option.map_ident)
  next
    case False
    let ?n = "unat (of_le32 (drop 4 a))"
    have len: "HDR \<le> length a" "HDR + ?n \<le> length a"
      using "1.prems" False by (auto simp: parse_sections.simps [of a] Let_def split: if_splits)
    obtain ss' where ss: "parse_sections (drop (HDR + ?n) a) = Some ss'" "ss = (hd a, take ?n (drop HDR a)) # ss'"
      using "1.prems" False len by (auto simp: parse_sections.simps [of a] Let_def split: if_splits)
    have n: "of_le32 (drop 4 (a @ b)) = of_le32 (drop 4 a)" "hd (a @ b) = hd a" "a @ b \<noteq> []"
      "take ?n (drop HDR (a @ b)) = take ?n (drop HDR a)" "drop (HDR + ?n) (a @ b) = drop (HDR + ?n) a @ b"
      using len False by (simp_all add: of_le32_def nth_append HDR_def)
    have "parse_sections (a @ b) = map_option ((#) (hd a, take ?n (drop HDR a))) (parse_sections (drop (HDR + ?n) a @ b))"
      unfolding parse_sections.simps [of "a @ b"] Let_def n using len False by simp
    also have "parse_sections (drop (HDR + ?n) a @ b) = map_option ((@) ss') (parse_sections b)"
      using "1.IH" False len ss(1) by (simp add: Let_def)
    finally show ?thesis by (simp add: ss(2) option.map_comp comp_def)
  qed
qed

lemma parse_one: "length c < 2 ^ 32 \<Longrightarrow> parse_sections (section_bytes (t, c)) = Some [(t, c)]"
  using parse_section [of c t "[]"] by (simp add: parse_sections.simps [of "[]"])

definition FILE_HDR :: nat where "FILE_HDR = 12"

text \<open>What a reader finds behind the file header.\<close>

definition file_sections :: "content_world \<Rightarrow> (u8 \<times> bytes) list option" where
  "file_sections w = parse_sections (drop FILE_HDR (cw_data w))"

lemma file_sections_append:
  assumes "FILE_HDR \<le> length (cw_data w)" "file_sections w = Some ss" "cw_data w' = cw_data w @ section_bytes (t, c)" "length c < 2 ^ 32"
  shows "file_sections w' = Some (ss @ [(t, c)])"
  using assms parse_append [of "drop FILE_HDR (cw_data w)" ss "section_bytes (t, c)"] by (simp add: file_sections_def parse_one)

text \<open>C22: Copying a kernel file through the megabyte buffer adds exactly one section to the trace file: a
reader finds the earlier sections unchanged, then the pages of the source in order, cut at the space
that is left on the device, and the file is ready for the next section.\<close>

theorem copied_section_read_back:
  assumes "cw_pos w = length (cw_data w)" "FILE_HDR \<le> length (cw_data w)" "file_sections w = Some ss"
    and "IsFileExist w0 = (True, w)" "length (copied chk 0 pages) < 2 ^ 31" "HDR \<le> cw_room w"
    and "WriteTraceData (WriteTraceDataContent chk (Some pages)) ty w0 = (ok, w')"
  shows "ok \<and> file_sections w' = Some (ss @ [(ty, take (cw_room w) (copied chk 0 pages))]) \<and>
    cw_pos w' = length (cw_data w')"
proof -
  let ?c = "take (cw_room w) (copied chk 0 pages)"
  have r: "ok" "cw_data w' = cw_data w @ section_bytes (ty, ?c)" "cw_pos w' = cw_pos w + HDR + length ?c"
    using copying.section_written [OF assms(1,4,5)] assms(6,7) by (auto simp: Let_def)
  have "length ?c < 2 ^ 32" using assms(5) by simp
  from file_sections_append [OF assms(2,3) r(2) this] r assms(1) show ?thesis by simp
qed

definition sample_content :: content_world where
  "sample_content = \<lparr>cw_data = file_header_bytes TraceFileHeader_default, cw_pos = 12, cw_room = 100, cw_exists = True,
     g_writeFileLimit = 1, g_outputFileSize = 0\<rparr>"

theorem copied_section_read_back_witness:
  "file_sections (snd (WriteTraceData (WriteTraceDataContent (\<lambda>_. True) (Some [[1, 2], [3]])) 30 (sample_content\<lparr>g_writeFileLimit := 0\<rparr>))) =
   Some [(30, [1, 2, 3])]"
proof -
  have s: "cw_pos sample_content = length (cw_data sample_content)" "FILE_HDR \<le> length (cw_data sample_content)"
    "file_sections sample_content = Some []" "IsFileExist (sample_content\<lparr>g_writeFileLimit := 0\<rparr>) = (True, sample_content)"
    "length (copied (\<lambda>_. True) 0 [[1, 2], [3]]) < 2 ^ 31" "HDR \<le> cw_room sample_content"
    by (simp_all add: sample_content_def file_header_bytes_def TraceFileHeader_default_def le16_def le32_def FILE_HDR_def
        file_sections_def parse_sections.simps [of "[]"] IsFileExist_def JUDGE_FILE_EXIST_def HDR_def)
  obtain ok w' where r: "WriteTraceData (WriteTraceDataContent (\<lambda>_. True) (Some [[1, 2], [3]])) 30 (sample_content\<lparr>g_writeFileLimit := 0\<rparr>) = (ok, w')"
    by (cases "WriteTraceData (WriteTraceDataContent (\<lambda>_. True) (Some [[1, 2], [3]])) 30 (sample_content\<lparr>g_writeFileLimit := 0\<rparr>)")
  show ?thesis using copied_section_read_back [OF s r] r by (simp add: sample_content_def)
qed

text \<open>When the saved command lines cannot be opened, the result \<open>-1\<close> of the copy is taken as a length
and the process list is counted from there: the section holds the process list, but its header says
one byte less and the next section starts on the last byte.\<close>

theorem cmdlines_missing_source_short:
  assumes "cw_pos w = length (cw_data w)" "IsFileExist w0 = (True, w)"
    and "list_all (\<lambda>l. length l \<le> PAGE_SIZE) (List.map_filter (process_line status) es)"
    and "process_text status es = c" "c \<noteq> []" "length c \<le> cw_room w" "length c < 2 ^ 31"
    and "TraceCmdLines_Write None chk None (Some es) status w0 = (ok, w')"
  shows "ok \<and> cw_data w' = cw_data w @ content_header_bytes \<lparr>hdr_type = CONTENT_TYPE_CMDLINES, hdr_length = of_nat (length c - 1)\<rparr> @ c \<and>
    cw_pos w' = length (cw_data w') - 1"
proof -
  let ?s = "file_seek (cw_pos w + HDR) w"
  have b: "behind ?s" using assms(1) by (simp add: behind_def file_seek_def)
  have "TraceCmdLines_Content None chk None (Some es) status ?s = DoWriteTraceData c (-1) ?s"
    using WriteProcessLists_text [OF b assms(3)] assms(4) by (simp add: TraceCmdLines_Content_def WriteTraceDataContent_def)
  then have content: "TraceCmdLines_Content None chk None (Some es) status ?s = (int (length c - 1), put c ?s)"
    using b assms(5,6) by (cases c) (simp_all add: DoWrite_behind file_seek_def)
  let ?h = "content_header_bytes \<lparr>hdr_type = CONTENT_TYPE_CMDLINES, hdr_length = of_nat (length c - 1)\<rparr>"
  have hdr: "file_write ?h (file_seek (cw_pos w) (put c ?s)) =
      (int HDR, w\<lparr>cw_data := cw_data w @ ?h @ c, cw_pos := cw_pos w + HDR, cw_room := cw_room w - length c\<rparr>)"
    using assms(1,5) by (simp add: file_write_def file_seek_def Let_def put_def HDR_def)
  have "WriteTraceData (TraceCmdLines_Content None chk None (Some es) status) CONTENT_TYPE_CMDLINES w0 =
    (True, (w\<lparr>cw_data := cw_data w @ ?h @ c, cw_pos := cw_pos w + HDR + (length c - 1), cw_room := cw_room w - length c,
       g_outputFileSize := g_outputFileSize w + int (unat (of_nat (length c - 1) :: u32) + HDR)\<rparr>))"
    using assms(2) content hdr by (simp add: WriteTraceData_def Let_def) (simp add: file_seek_def)
  with assms(1,5,8) show ?thesis by (cases c) (auto simp: TraceCmdLines_Write_def)
qed

definition sample_status :: "string \<Rightarrow> string list option" where
  "sample_status pid = (if pid = ''1'' then Some [''Name: init''] else None)"

theorem cmdlines_missing_source_short_witness:
  "cw_pos (snd (TraceCmdLines_Write None (\<lambda>_. True) None (Some [(''1'', True)]) sample_status (sample_content\<lparr>g_writeFileLimit := 0\<rparr>))) = 27"
proof -
  let ?c = "bytes_of_string (''1 '' @ '' init'' @ [char_of (10::nat)])"
  have c: "List.map_filter (process_line sample_status) [(''1'', True)] = [?c]"
    by (simp add: map_filter_def process_line_def sample_status_def ReadProcessName_def str_find_def is_digit_def Let_def)
  have s: "cw_pos sample_content = length (cw_data sample_content)" "IsFileExist (sample_content\<lparr>g_writeFileLimit := 0\<rparr>) = (True, sample_content)"
    by (simp_all add: sample_content_def file_header_bytes_def TraceFileHeader_default_def le16_def le32_def IsFileExist_def JUDGE_FILE_EXIST_def)
  obtain ok w' where r: "TraceCmdLines_Write None (\<lambda>_. True) None (Some [(''1'', True)]) sample_status (sample_content\<lparr>g_writeFileLimit := 0\<rparr>) = (ok, w')"
    by (cases "TraceCmdLines_Write None (\<lambda>_. True) None (Some [(''1'', True)]) sample_status (sample_content\<lparr>g_writeFileLimit := 0\<rparr>)")
  have "list_all (\<lambda>l. length l \<le> PAGE_SIZE) (List.map_filter (process_line sample_status) [(''1'', True)])"
    "process_text sample_status [(''1'', True)] = ?c" "?c \<noteq> []" "length ?c \<le> cw_room sample_content" "length ?c < 2 ^ 31"
    unfolding process_text_def c by (simp_all add: PAGE_SIZE_def bytes_of_string_def sample_content_def)
  from cmdlines_missing_source_short [OF s this r]
  have "cw_pos w' = 27" by (simp add: bytes_of_string_def sample_content_def file_header_bytes_def TraceFileHeader_default_def
      le16_def le32_def HDR_def)
  then show ?thesis using r by simp
qed

end
