(* ===== verification/Trace_Filter.thy ===== *)
theory Trace_Filter
  imports Trace_Setting Trace_Content
begin

text \<open>
  Which threads a trace keeps: \<^verbatim>\<open>interfaces/native/innerkits/src/hitrace_option/trace_context.cpp\<close>, the
  functions of \<^verbatim>\<open>hitrace_option.cpp\<close> and the helpers of \<^verbatim>\<open>hitrace_option_util.cpp\<close> they use. The kernel
  keeps the traced threads in \<^verbatim>\<open>set_event_pid\<close>, the thread groups in \<^verbatim>\<open>saved_tgids\<close> and the names in
  \<^verbatim>\<open>saved_cmdlines\<close>; each is given by its lines, \<open>None\<close> for a file that cannot be opened.
\<close>

section \<open>Lines\<close>

definition ParseNumberStr :: "string \<Rightarrow> string option" where
  "ParseNumberStr lineContent =
     (let d = takeWhile is_digit lineContent in if d = [] then None else Some d)"

definition ParseTGid :: "string \<Rightarrow> (string \<times> string) option" where
  "ParseTGid lineContent =
     (case ParseNumberStr lineContent of None \<Rightarrow> None
      | Some t \<Rightarrow>
          (case drop (length t) lineContent of [] \<Rightarrow> None
           | c # r \<Rightarrow> if \<not> is_space c then None else map_option (Pair t) (ParseNumberStr r)))"

record filter_files =
  ff_set_event_pid :: "string list option"
  ff_saved_tgids :: "string list option"
  ff_saved_cmdlines :: "string list option"

text \<open>\<^verbatim>\<open>TraverseFileLineByLine\<close> with a handler that never stops.\<close>

definition TraverseFileLineByLine :: "string list option \<Rightarrow> (string \<Rightarrow> 'a \<Rightarrow> 'a) \<Rightarrow> 'a \<Rightarrow> bool \<times> 'a" where
  "TraverseFileLineByLine file lineHandler s = (case file of None \<Rightarrow> (False, s) | Some ls \<Rightarrow> (True, fold lineHandler ls s))"

definition GetSetEventPid :: "bool \<Rightarrow> filter_files \<Rightarrow> bool \<times> string list" where
  "GetSetEventPid rootEmpty ff =
     (if rootEmpty then (False, [])
      else TraverseFileLineByLine (ff_set_event_pid ff)
        (\<lambda>l ts. case ParseNumberStr l of None \<Rightarrow> ts | Some t \<Rightarrow> List.insert t ts) [])"

section \<open>The filter\<close>

text \<open>\<^verbatim>\<open>originTGids_\<close> is the group a thread had when it was added, the thread \<open>standIn\<close> belongs to the filter itself.\<close>

record TraceFilterContext =
  standInTid :: int
  originTGids :: "string \<rightharpoonup> string"
  filterPids :: "string list"
  filterTGidsContent :: "(string \<times> string) list"
  filterCmdLines :: "string list"

definition TraceFilterContext_new :: "int \<Rightarrow> TraceFilterContext" where
  "TraceFilterContext_new tid = \<lparr>standInTid = tid, originTGids = Map.empty, filterPids = [], filterTGidsContent = [], filterCmdLines = []\<rparr>"

text \<open>
  \<^verbatim>\<open>AddFilterPids\<close>: the text written first, then one write for each entry of the task directories.
  \<open>tasks\<close> lists a directory, \<open>wok\<close> says whether a write succeeds; the third part of the result are the
  writes to \<^verbatim>\<open>set_event_pid\<close>.
\<close>

primrec add_tids ::
  "(string \<Rightarrow> bool) \<Rightarrow> string \<Rightarrow> string list \<Rightarrow> TraceFilterContext \<times> string list \<Rightarrow> bool \<times> TraceFilterContext \<times> string list" where
  "add_tids wok pid [] s = (True, s)"
| "add_tids wok pid (e # es) s =
     (if e = ''.'' \<or> e = ''..'' then add_tids wok pid es s
      else let c = (fst s)\<lparr>originTGids := (originTGids (fst s))(e \<mapsto> pid)\<rparr>
           in if wok e then add_tids wok pid es (c, snd s @ [e]) else (False, c, snd s))"

primrec add_pids ::
  "(string \<Rightarrow> bool) \<Rightarrow> (string \<Rightarrow> string list option) \<Rightarrow> string list \<Rightarrow> TraceFilterContext \<times> string list \<Rightarrow>
   bool \<times> TraceFilterContext \<times> string list" where
  "add_pids wok tasks [] s = (True, s)"
| "add_pids wok tasks (p # ps) s =
     (case tasks p of None \<Rightarrow> add_pids wok tasks ps s
      | Some es \<Rightarrow> let (ok, s') = add_tids wok p es s in if ok then add_pids wok tasks ps s' else (False, s'))"

definition AddFilterPids ::
  "(string \<Rightarrow> bool) \<Rightarrow> (string \<Rightarrow> string list option) \<Rightarrow> string list \<Rightarrow> TraceFilterContext \<Rightarrow> bool \<times> TraceFilterContext \<times> string list" where
  "AddFilterPids wok tasks pids c =
     (if pids = [] then (False, c, [])
      else let initContent = to_string_int (standInTid c) @ concat (map (\<lambda>t. '' '' @ t) pids)
           in if wok initContent then add_pids wok tasks pids (c, [initContent]) else (False, c, []))"

text \<open>A line of \<^verbatim>\<open>saved_tgids\<close> adds the group of a traced thread, unless the thread has left the group it had.\<close>

definition traced_group :: "string list \<Rightarrow> TraceFilterContext \<Rightarrow> string \<times> string \<Rightarrow> bool" where
  "traced_group traced c tg \<longleftrightarrow> fst tg \<in> set traced \<and> fst tg \<noteq> to_string_int (standInTid c) \<and>
     (case originTGids c (fst tg) of None \<Rightarrow> True | Some g \<Rightarrow> g = snd tg)"

definition FilterTGidsContent :: "bool \<Rightarrow> filter_files \<Rightarrow> TraceFilterContext \<Rightarrow> TraceFilterContext" where
  "FilterTGidsContent rootEmpty ff c =
     (let c0 = c\<lparr>filterTGidsContent := [], filterPids := []\<rparr>; (ok, traced) = GetSetEventPid rootEmpty ff
      in if rootEmpty \<or> \<not> ok then c0
         else
           (let c1 = snd (TraverseFileLineByLine (ff_saved_tgids ff)
                  (\<lambda>l c. case ParseTGid l of None \<Rightarrow> c
                     | Some tg \<Rightarrow> if traced_group traced c tg then c\<lparr>filterPids := List.insert (snd tg) (filterPids c)\<rparr> else c) c0)
            in snd (TraverseFileLineByLine (ff_saved_tgids ff)
                  (\<lambda>l c. case ParseTGid l of None \<Rightarrow> c
                     | Some tg \<Rightarrow> if snd tg \<in> set (filterPids c) \<and> fst tg \<noteq> to_string_int (standInTid c)
                                  then c\<lparr>filterTGidsContent := filterTGidsContent c @ [tg]\<rparr> else c) c1)))"

definition FilterSavedCmdLine :: "bool \<Rightarrow> filter_files \<Rightarrow> TraceFilterContext \<Rightarrow> TraceFilterContext" where
  "FilterSavedCmdLine rootEmpty ff c =
     (let c0 = c\<lparr>filterCmdLines := []\<rparr>
      in if rootEmpty then c0
         else snd (TraverseFileLineByLine (ff_saved_cmdlines ff)
           (\<lambda>l c. case ParseNumberStr l of None \<Rightarrow> c
              | Some tid \<Rightarrow> if tid \<in> fst ` set (filterTGidsContent c) then c\<lparr>filterCmdLines := filterCmdLines c @ [l]\<rparr> else c) c0))"

definition FilterTraceContent :: "bool \<Rightarrow> filter_files \<Rightarrow> TraceFilterContext \<Rightarrow> TraceFilterContext" where
  "FilterTraceContent rootEmpty ff c = FilterSavedCmdLine rootEmpty ff (FilterTGidsContent rootEmpty ff c)"

text \<open>What the section writers see of the filter; \<^verbatim>\<open>filterPids_\<close> is a set, passed through in order.\<close>

definition content_view :: "TraceFilterContext \<Rightarrow> filter_context" where
  "content_view c = \<lparr>fc_savedCmdLines = filterCmdLines c, fc_filterPids = sort (filterPids c), fc_tgids = filterTGidsContent c\<rparr>"

section \<open>The options\<close>

definition TELEMETRY_APP_PARAM :: string where "TELEMETRY_APP_PARAM = ''debug.hitrace.telemetry.app''"
definition TAB :: char where "TAB = char_of (9 :: nat)"

definition SetFilterAppName :: "string list \<Rightarrow> kernel \<Rightarrow> bool \<times> kernel" where
  "SetFilterAppName apps k =
     (if length apps > 10 then (False, k) else SetProperty TELEMETRY_APP_PARAM (join TAB apps) k)"

text \<open>The search for the name between tabs; a search that does not end is \<open>None\<close>.\<close>

partial_function (option) filter_app_loop :: "string \<Rightarrow> string \<Rightarrow> nat \<Rightarrow> bool option" where
  "filter_app_loop paramApp app pos0 =
     (case str_find paramApp app pos0 of None \<Rightarrow> Some False
      | Some pos \<Rightarrow>
          if 0 < pos \<and> paramApp ! (pos - 1) \<noteq> TAB \<or> pos + length app < length paramApp \<and> paramApp ! (pos + length app) \<noteq> TAB
          then filter_app_loop paramApp app (pos + length app)
          else Some True)"

text \<open>\<^verbatim>\<open>FilterAppTrace\<close>: whether \<^verbatim>\<open>AddFilterPid\<close> is called.\<close>

definition FilterAppTrace :: "string \<Rightarrow> kernel \<Rightarrow> bool option" where
  "FilterAppTrace app k = filter_app_loop (case k_params k TELEMETRY_APP_PARAM of None \<Rightarrow> [] | Some s \<Rightarrow> s) app 0"

text \<open>
  \<^verbatim>\<open>AddNoFilterEvents\<close>: the stream starts with a blank, which the first event overwrites, since the stream
  writes from its beginning.
\<close>

definition SET_NO_FILTER_EVENT :: string where "SET_NO_FILTER_EVENT = ''no_filter_events''"

definition AddNoFilterEvents :: "bool \<Rightarrow> string list \<Rightarrow> kernel \<Rightarrow> bool \<times> kernel" where
  "AddNoFilterEvents rootEmpty events k =
     (if rootEmpty then (False, k)
      else WriteStrToFile SET_NO_FILTER_EVENT (if events = [] then '' '' else concat (map (\<lambda>e. e @ '' '') events)) k)"

definition ClearNoFilterEvents :: "bool \<Rightarrow> kernel \<Rightarrow> kernel" where
  "ClearNoFilterEvents rootEmpty k = (if rootEmpty then k else TruncateFile SET_NO_FILTER_EVENT k)"


section \<open>The filter as a set of threads\<close>

definition tgid_lines :: "filter_files \<Rightarrow> (string \<times> string) list" where
  "tgid_lines ff = (case ff_saved_tgids ff of None \<Rightarrow> [] | Some ls \<Rightarrow> List.map_filter ParseTGid ls)"

definition traced_tids :: "filter_files \<Rightarrow> string list" where
  "traced_tids ff = (case ff_set_event_pid ff of None \<Rightarrow> [] | Some ls \<Rightarrow> List.map_filter ParseNumberStr ls)"

lemma fold_map_filter:
  "fold (\<lambda>l s. case f l of None \<Rightarrow> s | Some x \<Rightarrow> g x s) ls s = fold g (List.map_filter f ls) s"
  by (induction ls arbitrary: s) (auto simp: map_filter_def split: option.split)

lemma set_fold_insert: "set (fold List.insert xs ys) = set xs \<union> set ys"
  by (induction xs arbitrary: ys) (auto simp: List.insert_def)

lemma GetSetEventPid_set:
  "GetSetEventPid False ff = (ok, ts) \<Longrightarrow> ok = (ff_set_event_pid ff \<noteq> None) \<and> set ts = set (traced_tids ff)"
  by (auto simp: GetSetEventPid_def TraverseFileLineByLine_def traced_tids_def fold_map_filter set_fold_insert split: option.splits)

text \<open>The first pass over the groups collects the groups of the traced threads.\<close>

lemma groups_pass:
  "fold (\<lambda>tg c. if traced_group traced c tg then c\<lparr>filterPids := List.insert (snd tg) (filterPids c)\<rparr> else c) tgs c =
   c\<lparr>filterPids := fold List.insert (map snd (filter (traced_group traced c) tgs)) (filterPids c)\<rparr>"
proof (induction tgs arbitrary: c)
  case (Cons tg tgs)
  have "traced_group traced (c\<lparr>filterPids := x\<rparr>) = traced_group traced c" for x by (rule ext) (simp add: traced_group_def)
  with Cons show ?case by simp
qed simp

lemma content_pass:
  "fold (\<lambda>tg c. if snd tg \<in> set (filterPids c) \<and> fst tg \<noteq> to_string_int (standInTid c)
     then c\<lparr>filterTGidsContent := filterTGidsContent c @ [tg]\<rparr> else c) tgs c =
   c\<lparr>filterTGidsContent := filterTGidsContent c @ filter (\<lambda>tg. snd tg \<in> set (filterPids c) \<and> fst tg \<noteq> to_string_int (standInTid c)) tgs\<rparr>"
  by (induction tgs arbitrary: c) simp_all

lemma cmdline_pass:
  "fold (\<lambda>l c. case ParseNumberStr l of None \<Rightarrow> c
     | Some tid \<Rightarrow> if tid \<in> fst ` set (filterTGidsContent c) then c\<lparr>filterCmdLines := filterCmdLines c @ [l]\<rparr> else c) ls c =
   c\<lparr>filterCmdLines := filterCmdLines c @
      filter (\<lambda>l. case ParseNumberStr l of None \<Rightarrow> False | Some tid \<Rightarrow> tid \<in> fst ` set (filterTGidsContent c)) ls\<rparr>"
  by (induction ls arbitrary: c) (auto split: option.split)

lemma FilterTGids_result:
  assumes "ff_set_event_pid ff = Some es"
  shows "set (filterPids (FilterTGidsContent False ff c)) = snd ` {tg \<in> set (tgid_lines ff). traced_group (traced_tids ff) c tg}"
    and "filterTGidsContent (FilterTGidsContent False ff c) =
      filter (\<lambda>tg. snd tg \<in> set (filterPids (FilterTGidsContent False ff c)) \<and> fst tg \<noteq> to_string_int (standInTid c)) (tgid_lines ff)"
    and "standInTid (FilterTGidsContent False ff c) = standInTid c"
proof -
  obtain ts where g: "GetSetEventPid False ff = (True, ts)" "set ts = set (traced_tids ff)"
    using GetSetEventPid_set [of ff] assms by (cases "GetSetEventPid False ff") auto
  have t: "traced_group ts c' = traced_group (traced_tids ff) c'" for c' by (rule ext) (simp add: traced_group_def g(2))
  have c0: "traced_group xs (c\<lparr>filterTGidsContent := [], filterPids := []\<rparr>) = traced_group xs c" for xs
    by (rule ext) (simp add: traced_group_def)
  define ps where "ps = fold List.insert (map snd (filter (traced_group (traced_tids ff) c) (tgid_lines ff))) []"
  have r: "FilterTGidsContent False ff c = c\<lparr>filterPids := ps, filterTGidsContent :=
      filter (\<lambda>tg. snd tg \<in> set ps \<and> fst tg \<noteq> to_string_int (standInTid c)) (tgid_lines ff)\<rparr>"
    by (simp add: FilterTGidsContent_def g(1) TraverseFileLineByLine_def fold_map_filter groups_pass content_pass t c0 ps_def
        tgid_lines_def Let_def split: option.split)
  have "set ps = snd ` {tg \<in> set (tgid_lines ff). traced_group (traced_tids ff) c tg}"
    by (auto simp: ps_def set_fold_insert)
  with r show "set (filterPids (FilterTGidsContent False ff c)) = snd ` {tg \<in> set (tgid_lines ff). traced_group (traced_tids ff) c tg}"
    "filterTGidsContent (FilterTGidsContent False ff c) =
      filter (\<lambda>tg. snd tg \<in> set (filterPids (FilterTGidsContent False ff c)) \<and> fst tg \<noteq> to_string_int (standInTid c)) (tgid_lines ff)"
    "standInTid (FilterTGidsContent False ff c) = standInTid c" by simp_all
qed

text \<open>Filtering keeps whole processes: a name that the kernel saved stays in the trace exactly if its thread
is not the helper thread of the filter and belongs to a thread group of which some thread is traced
and still in the group it was added with.\<close>

theorem filter_keeps_traced_groups:
  assumes "ff_set_event_pid ff = Some es" "ff_saved_cmdlines ff = Some ls" "c' = FilterTraceContent False ff c"
  shows "filterCmdLines c' =
    filter (\<lambda>l. \<exists>t g. ParseNumberStr l = Some t \<and> (t, g) \<in> set (tgid_lines ff) \<and> t \<noteq> to_string_int (standInTid c) \<and>
      (\<exists>t'. (t', g) \<in> set (tgid_lines ff) \<and> traced_group (traced_tids ff) c (t', g))) ls"
proof -
  let ?d = "FilterTGidsContent False ff c"
  note r = FilterTGids_result [OF assms(1), of c]
  have "filterCmdLines c' = filter (\<lambda>l. case ParseNumberStr l of None \<Rightarrow> False | Some tid \<Rightarrow> tid \<in> fst ` set (filterTGidsContent ?d)) ls"
    using assms(2,3) by (simp add: FilterTraceContent_def FilterSavedCmdLine_def TraverseFileLineByLine_def cmdline_pass cong: option.case_cong)
  also have "\<dots> = filter (\<lambda>l. \<exists>t g. ParseNumberStr l = Some t \<and> (t, g) \<in> set (tgid_lines ff) \<and> t \<noteq> to_string_int (standInTid c) \<and>
      (\<exists>t'. (t', g) \<in> set (tgid_lines ff) \<and> traced_group (traced_tids ff) c (t', g))) ls"
    unfolding r(2) r(1) by (intro filter_cong refl) (force split: option.split)
  finally show ?thesis .
qed


definition sample_filter_files :: filter_files where
  "sample_filter_files = \<lparr>ff_set_event_pid = Some [''7''], ff_saved_tgids = Some [''7 5'', ''8 5'', ''9 6''], ff_saved_cmdlines = Some [''8 worker'', ''9 other'']\<rparr>"

theorem filter_keeps_traced_groups_witness:
  "filterCmdLines (FilterTraceContent False sample_filter_files (TraceFilterContext_new 3)) = [''8 worker'']"
proof -
  have l: "tgid_lines sample_filter_files = [(''7'', ''5''), (''8'', ''5''), (''9'', ''6'')]" "traced_tids sample_filter_files = [''7'']"
    by (simp_all add: tgid_lines_def traced_tids_def sample_filter_files_def ParseTGid_def ParseNumberStr_def is_digit_def is_space_def map_filter_def Let_def)
  have "digit_char 3 = CHR ''3''" by code_simp
  then have "to_string_int 3 = ''3''" by (simp add: to_string_int_def dec_digits.simps [of 3])
  then have g: "traced_group [''7''] (TraceFilterContext_new 3) (t, g) \<longleftrightarrow> t = ''7''" for t g
    by (auto simp: traced_group_def TraceFilterContext_new_def)
  show ?thesis
    using filter_keeps_traced_groups [of sample_filter_files "[''7'']" "[''8 worker'', ''9 other'']" _ "TraceFilterContext_new 3", OF _ _ refl]
    unfolding l g using \<open>to_string_int 3 = ''3''\<close>
    by (simp add: sample_filter_files_def ParseNumberStr_def is_digit_def Let_def TraceFilterContext_new_def)
qed

section \<open>Names between tabs\<close>

text \<open>A name stands between tabs at a position.\<close>

definition between_tabs :: "string \<Rightarrow> string \<Rightarrow> nat \<Rightarrow> bool" where
  "between_tabs s app i \<longleftrightarrow> prefix app (drop i s) \<and> i \<le> length s \<and> (i = 0 \<or> s ! (i - 1) = TAB) \<and> (i + length app < length s \<longrightarrow> s ! (i + length app) = TAB)"

lemma prefix_drop_nth:
  assumes "prefix p (drop i s)" "j < length p"
  shows "s ! (i + j) = p ! j"
proof -
  obtain r where r: "drop i s = p @ r" using assms(1) by (auto simp: prefix_def)
  with assms(2) have "i \<le> length s" by (cases "i \<le> length s") auto
  then have "s ! (i + j) = drop i s ! j" by simp
  with r assms(2) show ?thesis by (simp add: nth_append)
qed

lemma str_find_Some:
  assumes "str_find s p i = Some k"
  shows "i \<le> k \<and> k \<le> length s \<and> prefix p (drop k s)"
proof -
  have i: "i \<le> length s" "find_pos p (drop i s) i = Some k" using assms by (auto simp: str_find_def split: if_splits)
  then have "i \<le> k \<and> k \<le> i + length (drop i s) \<and> prefix p (drop (k - i) (drop i s))" using find_pos_Some by blast
  with i(1) show ?thesis by (metis drop_drop le_add_diff_inverse length_drop le_add_diff_inverse2)
qed


lemma str_find_first:
  assumes "str_find s p i = Some k" "i \<le> j" "j < k"
  shows "\<not> prefix p (drop j s)"
proof
  assume j: "prefix p (drop j s)"
  have "find_pos p xs n = Some k \<Longrightarrow> n \<le> j \<Longrightarrow> j < k \<Longrightarrow> prefix p (drop (j - n) xs) \<Longrightarrow> False" for xs n
  proof (induction xs arbitrary: n)
    case (Cons x xs)
    then have "j \<noteq> n" "find_pos p xs (Suc n) = Some k" by (auto split: if_splits)
    with Cons.prems have "Suc n \<le> j" "prefix p (drop (j - Suc n) xs)" by (auto simp: drop_Cons' Suc_diff_Suc)
    with Cons show False using \<open>find_pos p xs (Suc n) = Some k\<close> by blast
  qed (auto split: if_splits)
  moreover have "find_pos p (drop i s) i = Some k" using assms(1) by (auto simp: str_find_def split: if_splits)
  moreover have "prefix p (drop (j - i) (drop i s))" using j assms(2) by simp
  ultimately show False using assms(2,3) by blast
qed

lemma str_find_none: "str_find s p i = None \<Longrightarrow> i \<le> j \<Longrightarrow> j \<le> length s \<Longrightarrow> \<not> prefix p (drop j s)"
  by (auto simp: str_find_def find_pos_None split: if_splits) (metis drop_drop le_add_diff_inverse2 diff_le_mono length_drop)

text \<open>
  For a name that is not empty and has no tab the search ends, and finds the name if it stands between
  tabs at or after the start: a place that is skipped would have its tab inside the name.
\<close>

lemma filter_app_loop_result:
  assumes "app \<noteq> []" "TAB \<notin> set app"
  shows "filter_app_loop s app i = Some (\<exists>j \<ge> i. between_tabs s app j)"
proof (induction "Suc (length s) - i" arbitrary: i rule: less_induct)
  case less
  show ?case
  proof (cases "str_find s app i")
    case None
    then have "\<not> (\<exists>j \<ge> i. between_tabs s app j)" using str_find_none by (auto simp: between_tabs_def)
    with None show ?thesis by (subst filter_app_loop.simps) simp
  next
    case (Some pos)
    then have pos: "i \<le> pos" "pos \<le> length s" "prefix app (drop pos s)" using str_find_Some by auto
    let ?r = "pos + length app"
    show ?thesis
    proof (cases "between_tabs s app pos")
      case True
      then have "\<exists>j \<ge> i. between_tabs s app j" using pos(1) by blast
      moreover have "filter_app_loop s app i = Some True"
        using Some True by (subst filter_app_loop.simps) (auto simp: between_tabs_def)
      ultimately show ?thesis by simp
    next
      case False
      have "0 < length app" using assms(1) by simp
      then have "i < ?r" using pos(1) by linarith
      then have "filter_app_loop s app ?r = Some (\<exists>j \<ge> ?r. between_tabs s app j)"
        using less pos by simp
      moreover have "filter_app_loop s app i = filter_app_loop s app ?r"
        using Some False pos by (subst filter_app_loop.simps) (auto simp: between_tabs_def)
      moreover have "?r \<le> j" if j: "i \<le> j" "between_tabs s app j" for j
      proof (rule ccontr)
        assume r: "\<not> ?r \<le> j"
        have "\<not> j < pos" using str_find_first [OF Some j(1)] j(2) by (auto simp: between_tabs_def)
        then have "pos \<le> j" by simp
        moreover have "pos \<noteq> j" using False j(2) by auto
        ultimately have "pos < j" by simp
        then have "s ! (pos + (j - 1 - pos)) = app ! (j - 1 - pos)" using r by (intro prefix_drop_nth [OF pos(3)]) simp
        then have "app ! (j - 1 - pos) = TAB" using j(2) \<open>pos < j\<close> by (auto simp: between_tabs_def)
        moreover have "j - 1 - pos < length app" using r \<open>pos < j\<close> by simp
        ultimately show False using assms(2) nth_mem by metis
      qed
      then have "(\<exists>j \<ge> i. between_tabs s app j) \<longleftrightarrow> (\<exists>j \<ge> ?r. between_tabs s app j)"
        using \<open>i < ?r\<close> by (meson le_trans less_imp_le)
      ultimately show ?thesis by simp
    qed
  qed
qed


text \<open>The places between tabs are the parts that were joined.\<close>

lemma no_tab_nth: "TAB \<notin> set x \<Longrightarrow> i < length x \<Longrightarrow> x ! i \<noteq> TAB"
  by (metis nth_mem)

lemma takeWhile_tab: "TAB \<notin> set y \<Longrightarrow> takeWhile (\<lambda>c. c \<noteq> TAB) (y @ TAB # z) = y"
  by (induction y) auto

lemma between_tabs_Cons:
  assumes "TAB \<notin> set x" "TAB \<notin> set app" "app \<noteq> []"
  shows "(\<exists>j. between_tabs (x @ TAB # r) app j) \<longleftrightarrow> app = x \<or> (\<exists>j. between_tabs r app j)"
proof
  assume "\<exists>j. between_tabs (x @ TAB # r) app j"
  then obtain j where j: "between_tabs (x @ TAB # r) app j" ..
  show "app = x \<or> (\<exists>j. between_tabs r app j)"
  proof (cases "j = 0")
    case True
    obtain v where v: "x @ TAB # r = app @ v" using j True by (auto simp: between_tabs_def prefix_def)
    have "v \<noteq> []" using v assms(1,2) by (metis append_Nil2 in_set_conv_decomp)
    moreover have "length (x @ TAB # r) = length app + length v" using v by simp
    ultimately have "(app @ v) ! length app = TAB" using j True v by (simp add: between_tabs_def)
    then have "v = TAB # tl v" using \<open>v \<noteq> []\<close> by (cases v) (auto simp: nth_append)
    then have "x @ TAB # r = app @ TAB # tl v" using v by metis
    then have "app = x" using takeWhile_tab assms(1,2) by metis
    then show ?thesis ..
  next
    case False
    then have t: "(x @ TAB # r) ! (j - 1) = TAB" "prefix app (drop j (x @ TAB # r))" using j by (auto simp: between_tabs_def)
    have "\<not> j - 1 < length x" using t(1) no_tab_nth [OF assms(1), of "j - 1"] by (auto simp: nth_append)
    then have "length x < j" using False by simp
    then obtain i where i: "j = Suc (length x) + i" using less_iff_Suc_add by auto
    have "between_tabs r app i"
      using j i by (cases i) (auto simp: between_tabs_def nth_append)
    then show ?thesis by blast
  qed
next
  assume "app = x \<or> (\<exists>j. between_tabs r app j)"
  then show "\<exists>j. between_tabs (x @ TAB # r) app j"
  proof
    assume "app = x"
    then show ?thesis by (intro exI [of _ 0]) (simp add: between_tabs_def nth_append)
  next
    assume "\<exists>j. between_tabs r app j"
    then obtain j where j: "between_tabs r app j" ..
    have "between_tabs (x @ TAB # r) app (Suc (length x) + j)"
      using j by (cases j) (auto simp: between_tabs_def nth_append)
    then show ?thesis by blast
  qed
qed

lemma between_tabs_join:
  "TAB \<notin> set app \<Longrightarrow> app \<noteq> [] \<Longrightarrow> list_all (\<lambda>x. TAB \<notin> set x) apps \<Longrightarrow> apps \<noteq> [] \<Longrightarrow>
   (\<exists>j. between_tabs (join TAB apps) app j) \<longleftrightarrow> app \<in> set apps"
proof (induction TAB apps rule: join.induct)
  case (2 x)
  have "app = x" if j: "between_tabs x app j" for j
  proof -
    have "j = 0"
    proof (rule ccontr)
      assume "j \<noteq> 0"
      then have "j - 1 < length x" "x ! (j - 1) = TAB" using j by (auto simp: between_tabs_def)
      then show False using "2.prems"(3) nth_mem [of "j - 1" x] by simp
    qed
    moreover have "length app \<le> length x" using j calculation prefix_length_le [of app x] by (auto simp: between_tabs_def)
    moreover have "\<not> length app < length x"
    proof
      assume "length app < length x"
      then have "x ! length app = TAB" using j \<open>j = 0\<close> by (auto simp: between_tabs_def)
      then show False using "2.prems"(3) no_tab_nth [of x "length app"] \<open>length app < length x\<close> by simp
    qed
    ultimately show ?thesis using j by (auto simp: between_tabs_def prefix_def)
  qed
  moreover have "between_tabs x x 0" by (simp add: between_tabs_def)
  ultimately show ?case by auto
next
  case (3 x y zs)
  then show ?case using between_tabs_Cons [of x app "join TAB (y # zs)"] by auto
qed simp


text \<open>C12: The application filter is exact: after the names of up to ten applications have been stored, an
application that starts is added to the filter exactly if its name is one of them, also when a name is
part of another; the search always ends for a name that is not empty.\<close>

theorem app_filter_exact:
  assumes "apps \<noteq> []" "length apps \<le> 10" "list_all (\<lambda>x. TAB \<notin> set x) apps" "app \<noteq> []" "TAB \<notin> set app"
    and "k_paramOk k TELEMETRY_APP_PARAM" "SetFilterAppName apps k = (ok, k')"
  shows "ok \<and> FilterAppTrace app k' = Some (app \<in> set apps)"
proof -
  have "ok" "k_params k' TELEMETRY_APP_PARAM = Some (join TAB apps)"
    using assms(2,6,7) by (auto simp: SetFilterAppName_def SetProperty_def)
  then show ?thesis
    using filter_app_loop_result [OF assms(4,5), of "join TAB apps" 0] between_tabs_join [OF assms(5,4,3,1)]
    by (simp add: FilterAppTrace_def)
qed

theorem app_filter_exact_witness:
  "FilterAppTrace ''com.a'' (snd (SetFilterAppName [''com.ab'', ''com.a''] sample_kernel)) = Some True \<and>
   FilterAppTrace ''com.a'' (snd (SetFilterAppName [''com.ab'', ''xcom.a''] sample_kernel)) = Some False"
proof -
  have t: "TAB \<notin> set ''com.a''" "list_all (\<lambda>x. TAB \<notin> set x) [''com.ab'', ''com.a'']" "list_all (\<lambda>x. TAB \<notin> set x) [''com.ab'', ''xcom.a'']"
    by (simp_all add: TAB_def char_of_def)
  have "k_paramOk sample_kernel TELEMETRY_APP_PARAM" by (simp add: sample_kernel_def)
  then show ?thesis
    using app_filter_exact [of "[''com.ab'', ''com.a'']" "''com.a''" sample_kernel, OF _ _ t(2) _ t(1)]
      app_filter_exact [of "[''com.ab'', ''xcom.a'']" "''com.a''" sample_kernel, OF _ _ t(3) _ t(1)]
    by (cases "SetFilterAppName [''com.ab'', ''com.a''] sample_kernel"; cases "SetFilterAppName [''com.ab'', ''xcom.a''] sample_kernel") auto
qed

text \<open>For the empty name the search does not end, unless the stored names are empty or start with a tab.\<close>

lemma filter_app_empty_hangs:
  assumes "k_params k TELEMETRY_APP_PARAM = Some (c # s)" "c \<noteq> TAB"
  shows "FilterAppTrace [] k = None"
proof -
  have "\<not> (app = [] \<and> i = 0 \<and> p = c # s)" if "filter_app_loop p app i = Some y" for p app i y
  proof (rule filter_app_loop.raw_induct [where P = "\<lambda>p app i y. \<not> (app = [] \<and> i = 0 \<and> p = c # s)", OF _ that])
    fix loop p app i y
    assume "\<And>p app i y. loop p app i = Some y \<Longrightarrow> \<not> (app = [] \<and> i = 0 \<and> p = c # s)"
      and "(case str_find p app i of None \<Rightarrow> Some False
        | Some pos \<Rightarrow> if 0 < pos \<and> p ! (pos - 1) \<noteq> TAB \<or> pos + length app < length p \<and> p ! (pos + length app) \<noteq> TAB
            then loop p app (pos + length app) else Some True) = Some y"
    then show "\<not> (app = [] \<and> i = 0 \<and> p = c # s)" using assms(2) by (fastforce simp: str_find_def)
  qed
  then have "filter_app_loop (c # s) [] 0 = None" by (metis not_Some_eq)
  with assms(1) show ?thesis by (simp add: FilterAppTrace_def)
qed

end
