(* ===== verification/Trace_Buffer.thy ===== *)
theory Trace_Buffer
  imports Hitrace_Prelude
begin

text \<open>
  The memory of the asynchronous dump: \<^verbatim>\<open>frameworks/trace_factory/trace_buffer_manager.cpp\<close>. Each task
  owns a list of blocks of fixed size, and one atomic counter bounds the memory of all tasks together.
  The operations are given as a whole; the steps of \<^verbatim>\<open>AllocateBlock\<close> and \<^verbatim>\<open>ReleaseTaskBlocks\<close> that
  other threads can interleave with (the load, the compare and exchange, the insertion under the lock,
  the removal under the lock, the subtraction) are the rules of a step relation.
\<close>

section \<open>Blocks\<close>

record BufferBlock =
  block_cpu :: int
  block_data :: bytes
  usedBytes :: nat

definition BufferBlock_new :: "int \<Rightarrow> nat \<Rightarrow> BufferBlock" where
  "BufferBlock_new cpuIdx n = \<lparr>block_cpu = cpuIdx, block_data = replicate n 0, usedBytes = 0\<rparr>"

definition FreeBytes :: "BufferBlock \<Rightarrow> nat" where
  "FreeBytes b = length (block_data b) - usedBytes b"

text \<open>\<^verbatim>\<open>memcpy_s\<close> cannot fail once the size has been compared, except for a source of no bytes.\<close>

definition Append :: "bytes \<Rightarrow> BufferBlock \<Rightarrow> bool \<times> BufferBlock" where
  "Append src b =
     (if FreeBytes b < length src then (False, b)
      else (True, b\<lparr>block_data := take (usedBytes b) (block_data b) @ src @ drop (usedBytes b + length src) (block_data b),
                    usedBytes := usedBytes b + length src\<rparr>))"

text \<open>What a block holds, and that its counter is within its array.\<close>

definition block_content :: "BufferBlock \<Rightarrow> bytes" where
  "block_content b = take (usedBytes b) (block_data b)"

definition block_wf :: "nat \<Rightarrow> BufferBlock \<Rightarrow> bool" where
  "block_wf n b \<longleftrightarrow> length (block_data b) = n \<and> usedBytes b \<le> n"

lemma block_new [simp]: "block_wf n (BufferBlock_new c n)" "block_content (BufferBlock_new c n) = []"
  "block_cpu (BufferBlock_new c n) = c"
  by (simp_all add: block_wf_def BufferBlock_new_def block_content_def)

lemma length_block_content: "block_wf n b \<Longrightarrow> length (block_content b) = usedBytes b"
  by (simp add: block_wf_def block_content_def)

lemma Append_refines:
  assumes "block_wf n b"
  shows "Append src b = (ok, b') \<Longrightarrow> block_wf n b' \<and> block_cpu b' = block_cpu b \<and>
    (ok \<longleftrightarrow> length (block_content b) + length src \<le> n) \<and>
    block_content b' = (if ok then block_content b @ src else block_content b)"
  using assms by (auto simp: Append_def FreeBytes_def block_wf_def block_content_def split: if_splits)

section \<open>The manager\<close>

record TraceBufferManager =
  maxTotalSz :: nat
  blockSz :: nat
  curTotalSz :: nat
  taskBuffers :: "u64 \<rightharpoonup> BufferBlock list"

definition DEFAULT_BLOCK_SZ :: nat where "DEFAULT_BLOCK_SZ = 10 * 1024 * 1024"
definition DEFAULT_MAX_TOTAL_SZ :: nat where "DEFAULT_MAX_TOTAL_SZ = 300 * 1024 * 1024"

definition TraceBufferManager_new :: TraceBufferManager where
  "TraceBufferManager_new = \<lparr>maxTotalSz = DEFAULT_MAX_TOTAL_SZ, blockSz = DEFAULT_BLOCK_SZ, curTotalSz = 0,
     taskBuffers = Map.empty\<rparr>"

text \<open>Without interference the compare and exchange succeeds at the first try.\<close>

definition TryAllocateMemorySpace :: "TraceBufferManager \<Rightarrow> bool \<times> TraceBufferManager" where
  "TryAllocateMemorySpace m =
     (if curTotalSz m + blockSz m > maxTotalSz m then (False, m)
      else (True, m\<lparr>curTotalSz := curTotalSz m + blockSz m\<rparr>))"

definition task_list :: "TraceBufferManager \<Rightarrow> u64 \<Rightarrow> BufferBlock list" where
  "task_list m taskId = (case taskBuffers m taskId of None \<Rightarrow> [] | Some bs \<Rightarrow> bs)"

text \<open>
  The block is shared between the caller and the list: appending to it (\<open>put_last\<close>) changes the last
  block of the task.
\<close>

definition push_block :: "u64 \<Rightarrow> BufferBlock \<Rightarrow> TraceBufferManager \<Rightarrow> TraceBufferManager" where
  "push_block taskId b m = m\<lparr>taskBuffers := (taskBuffers m)(taskId \<mapsto> task_list m taskId @ [b])\<rparr>"

definition AllocateBlock :: "u64 \<Rightarrow> int \<Rightarrow> TraceBufferManager \<Rightarrow> BufferBlock option \<times> TraceBufferManager" where
  "AllocateBlock taskId cpu m =
     (if curTotalSz m + blockSz m > maxTotalSz m then (None, m)
      else let b = BufferBlock_new cpu (blockSz m); (ok, m1) = TryAllocateMemorySpace m
           in if \<not> ok then (None, m1) else (Some b, push_block taskId b m1))"

definition ReleaseTaskBlocks :: "u64 \<Rightarrow> TraceBufferManager \<Rightarrow> TraceBufferManager" where
  "ReleaseTaskBlocks taskId m =
     (case taskBuffers m taskId of None \<Rightarrow> m
      | Some bs \<Rightarrow> m\<lparr>taskBuffers := (taskBuffers m)(taskId := None), curTotalSz := curTotalSz m - length bs * blockSz m\<rparr>)"

definition GetTaskBuffers :: "u64 \<Rightarrow> TraceBufferManager \<Rightarrow> BufferBlock list" where
  "GetTaskBuffers taskId m = task_list m taskId"

definition GetTaskTotalUsedBytes :: "u64 \<Rightarrow> TraceBufferManager \<Rightarrow> nat" where
  "GetTaskTotalUsedBytes taskId m = sum_list (map usedBytes (task_list m taskId))"

definition GetCurrentTotalSize :: "TraceBufferManager \<Rightarrow> nat" where
  "GetCurrentTotalSize m = curTotalSz m"

definition GetBlockSize :: "TraceBufferManager \<Rightarrow> nat" where
  "GetBlockSize m = blockSz m"

definition put_last :: "u64 \<Rightarrow> BufferBlock \<Rightarrow> TraceBufferManager \<Rightarrow> TraceBufferManager" where
  "put_last taskId b m = m\<lparr>taskBuffers := (taskBuffers m)(taskId \<mapsto> butlast (task_list m taskId) @ [b])\<rparr>"

text \<open>All bytes of a task, in the order in which they were stored.\<close>

definition task_content :: "u64 \<Rightarrow> TraceBufferManager \<Rightarrow> bytes" where
  "task_content taskId m = concat (map block_content (task_list m taskId))"

section \<open>Interleaved allocation and release\<close>

text \<open>
  Where a thread is: about to try the compare and exchange with the value it loaded, holding the space
  but not yet in the list, or having taken a task out of the list but not yet given the space back.
\<close>

datatype alloc_pc = AIdle | ALoaded u64 int nat | AReserved u64 int | AErased nat

record alloc_world =
  manager :: TraceBufferManager
  pcs :: "nat \<Rightarrow> alloc_pc"

definition alloc_init :: alloc_world where
  "alloc_init = \<lparr>manager = TraceBufferManager_new, pcs = (\<lambda>_. AIdle)\<rparr>"

inductive alloc_step :: "alloc_world \<Rightarrow> alloc_world \<Rightarrow> bool" where
  al_load: "pcs w t = AIdle \<Longrightarrow> curTotalSz (manager w) + blockSz (manager w) \<le> maxTotalSz (manager w) \<Longrightarrow>
    alloc_step w (w\<lparr>pcs := (pcs w)(t := ALoaded taskId cpu (curTotalSz (manager w)))\<rparr>)"
| al_cas: "pcs w t = ALoaded taskId cpu cur \<Longrightarrow> curTotalSz (manager w) = cur \<Longrightarrow>
    alloc_step w (w\<lparr>manager := (manager w)\<lparr>curTotalSz := cur + blockSz (manager w)\<rparr>,
      pcs := (pcs w)(t := AReserved taskId cpu)\<rparr>)"
| al_retry: "pcs w t = ALoaded taskId cpu cur \<Longrightarrow>
    curTotalSz (manager w) + blockSz (manager w) \<le> maxTotalSz (manager w) \<Longrightarrow>
    alloc_step w (w\<lparr>pcs := (pcs w)(t := ALoaded taskId cpu (curTotalSz (manager w)))\<rparr>)"
| al_give_up: "pcs w t = ALoaded taskId cpu cur \<Longrightarrow>
    maxTotalSz (manager w) < curTotalSz (manager w) + blockSz (manager w) \<Longrightarrow>
    alloc_step w (w\<lparr>pcs := (pcs w)(t := AIdle)\<rparr>)"
| al_push: "pcs w t = AReserved taskId cpu \<Longrightarrow>
    alloc_step w (w\<lparr>manager := push_block taskId (BufferBlock_new cpu (blockSz (manager w))) (manager w), pcs := (pcs w)(t := AIdle)\<rparr>)"
| al_erase: "pcs w t = AIdle \<Longrightarrow> taskBuffers (manager w) taskId = Some bs \<Longrightarrow>
    alloc_step w (w\<lparr>manager := (manager w)\<lparr>taskBuffers := (taskBuffers (manager w))(taskId := None)\<rparr>,
      pcs := (pcs w)(t := AErased (length bs))\<rparr>)"
| al_sub: "pcs w t = AErased n \<Longrightarrow>
    alloc_step w (w\<lparr>manager := (manager w)\<lparr>curTotalSz := curTotalSz (manager w) - n * blockSz (manager w)\<rparr>,
      pcs := (pcs w)(t := AIdle)\<rparr>)"
| al_append: "task_list (manager w) taskId \<noteq> [] \<Longrightarrow> Append src (last (task_list (manager w) taskId)) = (ok, b) \<Longrightarrow>
    alloc_step w (w\<lparr>manager := put_last taskId b (manager w)\<rparr>)"

section \<open>The accounting\<close>

definition total_blocks :: "TraceBufferManager \<Rightarrow> nat" where
  "total_blocks m = (\<Sum>i \<in> dom (taskBuffers m). length (the (taskBuffers m i)))"

fun pc_blocks :: "alloc_pc \<Rightarrow> nat" where
  "pc_blocks AIdle = 0"
| "pc_blocks (ALoaded i c n) = 0"
| "pc_blocks (AReserved i c) = 1"
| "pc_blocks (AErased n) = n"

text \<open>The blocks that threads between two steps account for, \<open>T\<close> containing every thread that is busy.\<close>

definition pending_blocks :: "nat set \<Rightarrow> (nat \<Rightarrow> alloc_pc) \<Rightarrow> nat" where
  "pending_blocks T p = (\<Sum>t \<in> T. pc_blocks (p t))"

lemma pending_update:
  assumes "finite T" "t \<in> T"
  shows "pending_blocks T (p(t := v)) + pc_blocks (p t) = pending_blocks T p + pc_blocks v"
proof -
  have "(\<Sum>x \<in> T - {t}. pc_blocks ((p(t := v)) x)) = (\<Sum>x \<in> T - {t}. pc_blocks (p x))" by (rule sum.cong) auto
  with assms show ?thesis by (simp add: pending_blocks_def sum.remove [of T t])
qed

lemma total_blocks_upd:
  assumes "finite (dom (taskBuffers m))"
  shows "total_blocks (m\<lparr>taskBuffers := (taskBuffers m)(i \<mapsto> bs)\<rparr>) + length (task_list m i) = total_blocks m + length bs"
    "total_blocks (m\<lparr>taskBuffers := (taskBuffers m)(i := None)\<rparr>) + length (task_list m i) = total_blocks m"
proof -
  let ?f = "\<lambda>j. length (the (taskBuffers m j))" and ?D = "dom (taskBuffers m) - {i}"
  have old: "total_blocks m = length (task_list m i) + sum ?f ?D"
  proof (cases "i \<in> dom (taskBuffers m)")
    case True
    then show ?thesis using assms by (auto simp: total_blocks_def task_list_def sum.remove)
  next
    case False
    then show ?thesis by (auto simp: total_blocks_def task_list_def domIff)
  qed
  have "(\<Sum>j \<in> ?D. length (the (((taskBuffers m)(i \<mapsto> bs)) j))) = sum ?f ?D" by (rule sum.cong) auto
  then show "total_blocks (m\<lparr>taskBuffers := (taskBuffers m)(i \<mapsto> bs)\<rparr>) + length (task_list m i) = total_blocks m + length bs"
    using assms old by (simp add: total_blocks_def sum.insert_remove)
  have "(\<Sum>j \<in> ?D. length (the (((taskBuffers m)(i := None)) j))) = sum ?f ?D" by (rule sum.cong) auto
  then show "total_blocks (m\<lparr>taskBuffers := (taskBuffers m)(i := None)\<rparr>) + length (task_list m i) = total_blocks m"
    using old by (simp add: total_blocks_def)
qed

definition alloc_inv :: "alloc_world \<Rightarrow> bool" where
  "alloc_inv w \<longleftrightarrow> finite (dom (taskBuffers (manager w))) \<and>
     maxTotalSz (manager w) = DEFAULT_MAX_TOTAL_SZ \<and> blockSz (manager w) = DEFAULT_BLOCK_SZ \<and>
     curTotalSz (manager w) \<le> DEFAULT_MAX_TOTAL_SZ \<and>
     (\<forall>t i c n. pcs w t = ALoaded i c n \<longrightarrow> n + DEFAULT_BLOCK_SZ \<le> DEFAULT_MAX_TOTAL_SZ) \<and>
     (\<exists>T. finite T \<and> (\<forall>t. t \<notin> T \<longrightarrow> pcs w t = AIdle) \<and>
       curTotalSz (manager w) = DEFAULT_BLOCK_SZ * (total_blocks (manager w) + pending_blocks T (pcs w)))"

lemma alloc_inv_init: "alloc_inv alloc_init"
  by (auto simp: alloc_inv_def alloc_init_def TraceBufferManager_new_def total_blocks_def pending_blocks_def
      DEFAULT_MAX_TOTAL_SZ_def intro: exI [of _ "{}"])

text \<open>
  Every step changes the counter, the lists and the pending blocks of one thread so that the balance is
  kept; this is the one fact about the balance that the cases of the step relation use.
\<close>

lemma balance_step:
  assumes "finite T" "\<forall>t. t \<notin> T \<longrightarrow> pcs w t = AIdle"
    and "curTotalSz (manager w) = DEFAULT_BLOCK_SZ * (total_blocks (manager w) + pending_blocks T (pcs w))"
    and "curTotalSz m' + DEFAULT_BLOCK_SZ * (total_blocks (manager w) + pc_blocks (pcs w t)) =
      curTotalSz (manager w) + DEFAULT_BLOCK_SZ * (total_blocks m' + pc_blocks v)"
  shows "\<exists>T'. finite T' \<and> (\<forall>s. s \<notin> T' \<longrightarrow> ((pcs w)(t := v)) s = AIdle) \<and>
    curTotalSz m' = DEFAULT_BLOCK_SZ * (total_blocks m' + pending_blocks T' ((pcs w)(t := v)))"
proof -
  let ?T = "insert t T"
  have same: "pending_blocks ?T (pcs w) = pending_blocks T (pcs w)"
    using assms(1,2) by (cases "t \<in> T") (auto simp: pending_blocks_def insert_absorb)
  have "pending_blocks ?T ((pcs w)(t := v)) + pc_blocks (pcs w t) = pending_blocks T (pcs w) + pc_blocks v"
    using pending_update [of ?T t "pcs w" v] assms(1) same by simp
  then have "DEFAULT_BLOCK_SZ * pending_blocks ?T ((pcs w)(t := v)) + DEFAULT_BLOCK_SZ * pc_blocks (pcs w t) =
      DEFAULT_BLOCK_SZ * pending_blocks T (pcs w) + DEFAULT_BLOCK_SZ * pc_blocks v"
    by (metis distrib_left)
  with assms(3,4) have "curTotalSz m' = DEFAULT_BLOCK_SZ * (total_blocks m' + pending_blocks ?T ((pcs w)(t := v)))"
    by (simp add: distrib_left)
  with assms(1,2) show ?thesis by (intro exI [of _ ?T]) auto
qed

lemma put_last_total:
  "finite (dom (taskBuffers m)) \<Longrightarrow> task_list m i \<noteq> [] \<Longrightarrow> total_blocks (put_last i b m) = total_blocks m"
  using total_blocks_upd(1) [of m i "butlast (task_list m i) @ [b]"] by (simp add: put_last_def)

lemma alloc_inv_step:
  assumes "alloc_step w w'" "alloc_inv w"
  shows "alloc_inv w'"
proof -
  obtain T where T: "finite T" "\<forall>t. t \<notin> T \<longrightarrow> pcs w t = AIdle"
    "curTotalSz (manager w) = DEFAULT_BLOCK_SZ * (total_blocks (manager w) + pending_blocks T (pcs w))"
    using assms(2) by (auto simp: alloc_inv_def)
  have i: "finite (dom (taskBuffers (manager w)))" "maxTotalSz (manager w) = DEFAULT_MAX_TOTAL_SZ" "blockSz (manager w) = DEFAULT_BLOCK_SZ"
    "curTotalSz (manager w) \<le> DEFAULT_MAX_TOTAL_SZ" "\<forall>t i c n. pcs w t = ALoaded i c n \<longrightarrow> n + DEFAULT_BLOCK_SZ \<le> DEFAULT_MAX_TOTAL_SZ"
    using assms(2) by (auto simp: alloc_inv_def)
  note bal = balance_step [OF T]
  show ?thesis using assms(1)
  proof cases
    case (al_load t taskId cpu)
    then show ?thesis using i bal [of "manager w" t "ALoaded taskId cpu (curTotalSz (manager w))"]
      by (auto simp: alloc_inv_def)
  next
    case (al_cas t taskId cpu cur)
    have "total_blocks ((manager w)\<lparr>curTotalSz := c\<rparr>) = total_blocks (manager w)" for c by (simp add: total_blocks_def)
    then show ?thesis using al_cas i bal [of "(manager w)\<lparr>curTotalSz := cur + blockSz (manager w)\<rparr>" t "AReserved taskId cpu"]
      by (auto simp: alloc_inv_def)
  next
    case (al_retry t taskId cpu cur)
    then show ?thesis using i bal [of "manager w" t "ALoaded taskId cpu (curTotalSz (manager w))"]
      by (auto simp: alloc_inv_def)
  next
    case (al_give_up t taskId cpu cur)
    then show ?thesis using i bal [of "manager w" t AIdle] by (auto simp: alloc_inv_def)
  next
    case (al_push t taskId cpu)
    let ?m = "push_block taskId (BufferBlock_new cpu (blockSz (manager w))) (manager w)"
    have "total_blocks ?m = Suc (total_blocks (manager w))"
      using total_blocks_upd(1) [OF i(1), of taskId "task_list (manager w) taskId @ [BufferBlock_new cpu (blockSz (manager w))]"]
      by (simp add: push_block_def)
    then show ?thesis using al_push i bal [of ?m t AIdle] by (auto simp: alloc_inv_def push_block_def)
  next
    case (al_erase t taskId bs)
    let ?m = "(manager w)\<lparr>taskBuffers := (taskBuffers (manager w))(taskId := None)\<rparr>"
    have "total_blocks ?m + length bs = total_blocks (manager w)"
      using total_blocks_upd(2) [OF i(1), of taskId] al_erase by (simp add: task_list_def)
    then show ?thesis using al_erase i bal [of ?m t "AErased (length bs)"] by (auto simp: alloc_inv_def)
  next
    case (al_sub t n)
    let ?m = "(manager w)\<lparr>curTotalSz := curTotalSz (manager w) - n * blockSz (manager w)\<rparr>"
    have "t \<in> T \<or> n = 0" using T(2) al_sub by auto
    then have "n \<le> pending_blocks T (pcs w)"
      using member_le_sum [of t T "\<lambda>t. pc_blocks (pcs w t)"] T(1) al_sub by (auto simp: pending_blocks_def)
    then have "n * DEFAULT_BLOCK_SZ \<le> curTotalSz (manager w)" using T(3) by (simp add: distrib_left mult.commute trans_le_add2)
    moreover have "total_blocks ?m = total_blocks (manager w)" by (simp add: total_blocks_def)
    ultimately have "curTotalSz ?m + DEFAULT_BLOCK_SZ * (total_blocks (manager w) + pc_blocks (pcs w t)) =
        curTotalSz (manager w) + DEFAULT_BLOCK_SZ * (total_blocks ?m + pc_blocks AIdle)"
      using al_sub i(3) by (simp add: distrib_left mult.commute)
    from bal [OF this] show ?thesis using al_sub(1,2) i by (auto simp: alloc_inv_def)
  next
    case (al_append taskId src ok b)
    then have "total_blocks (put_last taskId b (manager w)) = total_blocks (manager w)" by (intro put_last_total i(1))
    with al_append i T show ?thesis by (auto simp: alloc_inv_def put_last_def)
  qed
qed

lemma alloc_inv_reachable: "alloc_step\<^sup>*\<^sup>* alloc_init w \<Longrightarrow> alloc_inv w"
  by (induction rule: rtranclp_induct) (auto intro: alloc_inv_init alloc_inv_step)

text \<open>C17: Whatever the interleaving of allocations and releases, the tasks never hold more than 30 blocks
of 10 megabytes together, the counter never exceeds 300 megabytes, and when no thread is inside an
operation it is exactly the memory of the blocks that are held.\<close>

theorem buffer_memory_bounded:
  assumes "alloc_step\<^sup>*\<^sup>* alloc_init w"
  shows "total_blocks (manager w) \<le> 30 \<and> curTotalSz (manager w) \<le> DEFAULT_MAX_TOTAL_SZ \<and>
    ((\<forall>t. pcs w t = AIdle) \<longrightarrow> curTotalSz (manager w) = DEFAULT_BLOCK_SZ * total_blocks (manager w))"
proof -
  have inv: "alloc_inv w" using assms by (rule alloc_inv_reachable)
  then obtain T where T: "curTotalSz (manager w) \<le> DEFAULT_MAX_TOTAL_SZ"
    "curTotalSz (manager w) = DEFAULT_BLOCK_SZ * (total_blocks (manager w) + pending_blocks T (pcs w))"
    by (auto simp: alloc_inv_def)
  then have "DEFAULT_BLOCK_SZ * total_blocks (manager w) \<le> DEFAULT_MAX_TOTAL_SZ" by (simp add: distrib_left)
  then have "total_blocks (manager w) \<le> 30" by (simp add: DEFAULT_BLOCK_SZ_def DEFAULT_MAX_TOTAL_SZ_def)
  moreover have "(\<forall>t. pcs w t = AIdle) \<Longrightarrow> pending_blocks T (pcs w) = 0" by (simp add: pending_blocks_def)
  ultimately show ?thesis using T by auto
qed

theorem buffer_memory_bounded_witness:
  "\<exists>w. alloc_step\<^sup>*\<^sup>* alloc_init w \<and> pcs w 1 = AReserved 7 0 \<and> total_blocks (manager w) \<le> 30"
proof -
  define w1 where "w1 = alloc_init\<lparr>pcs := (pcs alloc_init)(1 := ALoaded 7 0 0)\<rparr>"
  define w2 where "w2 = w1\<lparr>manager := (manager w1)\<lparr>curTotalSz := 0 + blockSz (manager w1)\<rparr>, pcs := (pcs w1)(1 := AReserved 7 0)\<rparr>"
  have "alloc_step alloc_init w1"
    using al_load [of alloc_init 1 7 0] by (simp add: w1_def alloc_init_def TraceBufferManager_new_def DEFAULT_BLOCK_SZ_def DEFAULT_MAX_TOTAL_SZ_def)
  moreover have "alloc_step w1 w2"
    unfolding w2_def by (rule al_cas) (simp_all add: w1_def alloc_init_def TraceBufferManager_new_def)
  ultimately have "alloc_step\<^sup>*\<^sup>* alloc_init w2" by auto
  with buffer_memory_bounded [OF this] show ?thesis by (intro exI [of _ w2]) (simp add: w2_def)
qed

end
