(* ===== verification/Dump_State.thy ===== *)
theory Dump_State
  imports Hitrace_Prelude
begin

text \<open>
  The state machine of the loop dump, class \<^verbatim>\<open>TraceDumpState\<close> of
  \<^verbatim>\<open>frameworks/tracedump_executor/trace_dump_state.cpp\<close>: each method first as one operation on the
  atomic state, then as the atomic accesses it performs, which other threads may interleave. The
  wait of \<^verbatim>\<open>EndLoopDump\<close> has no effect on the state and ends by its time limit, so only its store
  matters.
\<close>

section \<open>Operations\<close>

datatype DumpState = IDLE | RUNNING | INTERRUPT | STOPPING

record TraceDumpState =
  dstate :: DumpState
  asyncReadFlag :: bool
  asyncWriteFlag :: bool

definition dump_state_init :: TraceDumpState where
  "dump_state_init = \<lparr>dstate = IDLE, asyncReadFlag = True, asyncWriteFlag = True\<rparr>"

definition compare_exchange :: "DumpState \<Rightarrow> DumpState \<Rightarrow> TraceDumpState \<Rightarrow> bool \<times> TraceDumpState" where
  "compare_exchange expected desired s =
     (if dstate s = expected then (True, s\<lparr>dstate := desired\<rparr>) else (False, s))"

definition StartLoopDump :: "TraceDumpState \<Rightarrow> bool \<times> TraceDumpState" where
  "StartLoopDump s = compare_exchange IDLE RUNNING s"

definition EndLoopDumpSelf :: "TraceDumpState \<Rightarrow> TraceDumpState" where
  "EndLoopDumpSelf s = s\<lparr>dstate := IDLE\<rparr>"

definition EndLoopDump :: "TraceDumpState \<Rightarrow> TraceDumpState" where
  "EndLoopDump s = (if dstate s = IDLE then s else s\<lparr>dstate := STOPPING\<rparr>)"

definition IsLoopDumpRunning :: "TraceDumpState \<Rightarrow> bool" where
  "IsLoopDumpRunning s \<longleftrightarrow> dstate s = RUNNING \<or> dstate s = INTERRUPT"

definition InterruptCache :: "TraceDumpState \<Rightarrow> bool \<times> TraceDumpState" where
  "InterruptCache s = compare_exchange RUNNING INTERRUPT s"

definition ContinueCache :: "TraceDumpState \<Rightarrow> bool \<times> TraceDumpState" where
  "ContinueCache s = compare_exchange INTERRUPT RUNNING s"

definition IsInterruptCache :: "TraceDumpState \<Rightarrow> bool" where
  "IsInterruptCache s \<longleftrightarrow> dstate s = INTERRUPT"

definition EndAsyncReadWrite :: "TraceDumpState \<Rightarrow> TraceDumpState" where
  "EndAsyncReadWrite s = s\<lparr>asyncReadFlag := False, asyncWriteFlag := False\<rparr>"

definition IsAsyncReadContinue :: "TraceDumpState \<Rightarrow> bool" where
  "IsAsyncReadContinue s = asyncReadFlag s"

definition IsAsyncWriteContinue :: "TraceDumpState \<Rightarrow> bool" where
  "IsAsyncWriteContinue s = asyncWriteFlag s"

lemmas dump_state_defs = compare_exchange_def StartLoopDump_def EndLoopDumpSelf_def EndLoopDump_def
  IsLoopDumpRunning_def InterruptCache_def ContinueCache_def IsInterruptCache_def

section \<open>The loop and its controllers\<close>

text \<open>
  A loop exists from a successful start until it ends itself. The other thread controls it: it
  interrupts and continues, and stops it.
\<close>

record loop_world =
  machine :: TraceDumpState
  loop_alive :: bool

definition loop_world_init :: loop_world where
  "loop_world_init = \<lparr>machine = dump_state_init, loop_alive = False\<rparr>"

text \<open>Whole operations, one after the other.\<close>

inductive loop_step :: "loop_world \<Rightarrow> loop_world \<Rightarrow> bool" where
  ls_start: "StartLoopDump (machine w) = (ok, s) \<Longrightarrow>
    loop_step w (w\<lparr>machine := s, loop_alive := loop_alive w \<or> ok\<rparr>)"
| ls_finish: "loop_alive w \<Longrightarrow> loop_step w (w\<lparr>machine := EndLoopDumpSelf (machine w), loop_alive := False\<rparr>)"
| ls_stop: "loop_step w (w\<lparr>machine := EndLoopDump (machine w)\<rparr>)"
| ls_interrupt: "InterruptCache (machine w) = (ok, s) \<Longrightarrow> loop_step w (w\<lparr>machine := s\<rparr>)"
| ls_continue: "ContinueCache (machine w) = (ok, s) \<Longrightarrow> loop_step w (w\<lparr>machine := s\<rparr>)"
| ls_async: "loop_step w (w\<lparr>machine := EndAsyncReadWrite (machine w)\<rparr>)"

definition loop_inv :: "loop_world \<Rightarrow> bool" where
  "loop_inv w \<longleftrightarrow> (dstate (machine w) = IDLE \<longleftrightarrow> \<not> loop_alive w)"

lemma loop_inv_step: "loop_step w w' \<Longrightarrow> loop_inv w \<Longrightarrow> loop_inv w'"
  by (induction rule: loop_step.induct)
    (auto simp: loop_inv_def dump_state_defs EndAsyncReadWrite_def split: if_splits)

lemma loop_inv_reachable: "loop_step\<^sup>*\<^sup>* loop_world_init w \<Longrightarrow> loop_inv w"
proof (induction rule: rtranclp_induct)
  case base
  show ?case by (simp add: loop_inv_def loop_world_init_def dump_state_init_def)
next
  case (step y z)
  then show ?case using loop_inv_step by blast
qed

text \<open>As long as the operations do not overlap, the machine is idle exactly when no loop exists,
so that a start succeeds exactly then, and after a stop the loop no longer counts as running.\<close>

theorem loop_start_iff_no_loop:
  assumes "loop_step\<^sup>*\<^sup>* loop_world_init w"
  shows "fst (StartLoopDump (machine w)) = (\<not> loop_alive w) \<and>
    \<not> IsLoopDumpRunning (EndLoopDump (machine w)) \<and>
    (loop_alive w \<longrightarrow> fst (StartLoopDump (EndLoopDumpSelf (machine w))))"
  using loop_inv_reachable [OF assms] by (auto simp: loop_inv_def dump_state_defs)

theorem loop_start_iff_no_loop_witness: "fst (StartLoopDump (machine loop_world_init))"
  using loop_start_iff_no_loop [OF rtranclp.rtrancl_refl] by (simp add: loop_world_init_def)

section \<open>Overlapping accesses\<close>

text \<open>
  \<^verbatim>\<open>EndLoopDump\<close> loads the state, tests it, and stores \<^verbatim>\<open>STOPPING\<close> later; the loop may end
  itself in between. \<open>stopping\<close> counts the stoppers between their load and their store.
\<close>

record race_world = loop_world +
  stoppers :: nat

definition race_world_init :: race_world where
  "race_world_init = \<lparr>machine = dump_state_init, loop_alive = False, stoppers = 0\<rparr>"

inductive race_step :: "race_world \<Rightarrow> race_world \<Rightarrow> bool" where
  rs_start: "StartLoopDump (machine w) = (ok, s) \<Longrightarrow>
    race_step w (w\<lparr>machine := s, loop_alive := loop_alive w \<or> ok\<rparr>)"
| rs_finish: "loop_alive w \<Longrightarrow> race_step w (w\<lparr>machine := EndLoopDumpSelf (machine w), loop_alive := False\<rparr>)"
| rs_stop_load: "dstate (machine w) \<noteq> IDLE \<Longrightarrow> race_step w (w\<lparr>stoppers := Suc (stoppers w)\<rparr>)"
| rs_stop_store: "stoppers w = Suc n \<Longrightarrow>
    race_step w (w\<lparr>machine := (machine w)\<lparr>dstate := STOPPING\<rparr>, stoppers := n\<rparr>)"
| rs_interrupt: "InterruptCache (machine w) = (ok, s) \<Longrightarrow> race_step w (w\<lparr>machine := s\<rparr>)"
| rs_continue: "ContinueCache (machine w) = (ok, s) \<Longrightarrow> race_step w (w\<lparr>machine := s\<rparr>)"

definition stuck :: "race_world \<Rightarrow> bool" where
  "stuck w \<longleftrightarrow> dstate (machine w) = STOPPING \<and> \<not> loop_alive w"

lemma stuck_step: "race_step w w' \<Longrightarrow> stuck w \<Longrightarrow> stuck w'"
  by (induction rule: race_step.induct) (auto simp: stuck_def dump_state_defs split: if_splits)

lemma stuck_forever: "race_step\<^sup>*\<^sup>* w w' \<Longrightarrow> stuck w \<Longrightarrow> stuck w'"
  by (induction rule: rtranclp_induct) (auto intro: stuck_step)

text \<open>Start, load by a stopper, end of the loop, store by the stopper.\<close>

definition race_end :: race_world where
  "race_end = race_world_init\<lparr>machine := dump_state_init\<lparr>dstate := STOPPING\<rparr>\<rparr>"

lemma race_run: "race_step\<^sup>*\<^sup>* race_world_init race_end"
proof -
  let ?run = "race_world_init\<lparr>machine := dump_state_init\<lparr>dstate := RUNNING\<rparr>, loop_alive := True\<rparr>"
  have a: "race_step race_world_init ?run"
    using rs_start [of race_world_init True "dump_state_init\<lparr>dstate := RUNNING\<rparr>"]
    by (simp add: race_world_init_def dump_state_init_def dump_state_defs)
  have b: "race_step ?run (?run\<lparr>stoppers := 1\<rparr>)"
    using rs_stop_load [of ?run] by (simp add: race_world_init_def)
  have c: "race_step (?run\<lparr>stoppers := 1\<rparr>) (race_world_init\<lparr>stoppers := 1\<rparr>)"
    using rs_finish [of "?run\<lparr>stoppers := 1\<rparr>"]
    by (simp add: race_world_init_def dump_state_init_def dump_state_defs)
  have d: "race_step (race_world_init\<lparr>stoppers := 1\<rparr>) race_end"
    using rs_stop_store [of "race_world_init\<lparr>stoppers := 1\<rparr>" 0]
    by (simp add: race_end_def race_world_init_def)
  show ?thesis using a b c d by (meson converse_rtranclp_into_rtranclp rtranclp.rtrancl_refl)
qed

text \<open>C29: A stop that overlaps the end of the loop leaves the machine in the stopping state with no
loop left, and no start ever succeeds again: the state after the stop stays as it is whatever
happens later.\<close>

theorem stop_race_blocks_start:
  "\<exists>w. race_step\<^sup>*\<^sup>* race_world_init w \<and> \<not> loop_alive w \<and> stoppers w = 0 \<and>
     {w'. race_step\<^sup>*\<^sup>* w w'} \<subseteq> {w'. \<not> fst (StartLoopDump (machine w'))}"
proof -
  have s: "stuck race_end" by (simp add: stuck_def race_end_def race_world_init_def)
  then have "\<not> fst (StartLoopDump (machine w'))" if "race_step\<^sup>*\<^sup>* race_end w'" for w'
    using stuck_forever [OF that s] by (simp add: stuck_def dump_state_defs)
  then show ?thesis using race_run by (intro exI [of _ race_end]) (auto simp: race_end_def race_world_init_def)
qed

end
