(* ===== verification/Dump_Tasks.thy ===== *)
theory Dump_Tasks
  imports Dump_State
begin

text \<open>
  The asynchronous dump: the task list of \<^verbatim>\<open>TraceDumpExecutor\<close> in
  \<^verbatim>\<open>frameworks/tracedump_executor/trace_dump_executor.cpp\<close> with its reader, writer and monitor
  threads, and the pipe of \<^verbatim>\<open>trace_dump_pipe.cpp\<close> that answers the submitting process. What
  \<^verbatim>\<open>ExecuteDumpTrace\<close> returns is an argument of the reader's and the writer's step, and so are the
  clock and the outcomes of the pipe. The list is protected by one mutex, so that each access under it is
  one step, while reading and writing raw trace happens on a copy outside it.
\<close>

section \<open>Tasks\<close>

datatype TraceErrorCode = SUCCESS | TRACE_NOT_SUPPORTED | TRACE_IS_OCCUPIED | TAG_ERROR | FILE_ERROR
  | WRITE_TRACE_INFO_ERROR | WRONG_TRACE_MODE | OUT_OF_TIME | FORK_ERROR | INVALID_MAX_DURATION
  | EPOLL_WAIT_ERROR | PIPE_CREATE_ERROR | ASYNC_DUMP | TRACE_TASK_SUBMIT_ERROR
  | TRACE_TASK_DUMP_TIMEOUT | UNKNOWN_TRACE_DUMP_TYPE | BOOT_TRACE_ACTIVE | UNSET

datatype TraceDumpStatus = START | READ_DONE | WAIT_WRITE | WRITE_DONE | FINISH

record TraceDumpTask =
  time :: u64
  traceStartTime :: u64
  traceEndTime :: u64
  outputFile :: string
  fileSize :: int
  fileSizeLimit :: int
  hasSyncReturn :: bool
  writeRetry :: u8
  code :: TraceErrorCode
  isFileSizeOverLimit :: bool
  status :: TraceDumpStatus

record TraceDumpRet =
  ret_code :: TraceErrorCode
  ret_outputFile :: string
  ret_fileSize :: int
  ret_traceStartTime :: u64
  ret_traceEndTime :: u64

definition AddTraceDumpTask :: "TraceDumpTask \<Rightarrow> TraceDumpTask list \<Rightarrow> TraceDumpTask list" where
  "AddTraceDumpTask t vec = vec @ [t]"

definition RemoveTraceDumpTask :: "u64 \<Rightarrow> TraceDumpTask list \<Rightarrow> TraceDumpTask list" where
  "RemoveTraceDumpTask i vec = filter (\<lambda>t. time t \<noteq> i) vec"

definition ClearTraceDumpTask :: "TraceDumpTask list \<Rightarrow> TraceDumpTask list" where
  "ClearTraceDumpTask vec = []"

definition IsTraceDumpTaskEmpty :: "TraceDumpTask list \<Rightarrow> bool" where
  "IsTraceDumpTaskEmpty vec = (vec = [])"

definition GetTraceDumpTaskCount :: "TraceDumpTask list \<Rightarrow> nat" where
  "GetTraceDumpTaskCount vec = length vec"

text \<open>The first task with the id takes over code, status, sizes, times and file, nothing else.\<close>

definition copy_result :: "TraceDumpTask \<Rightarrow> TraceDumpTask \<Rightarrow> TraceDumpTask" where
  "copy_result src dst = dst\<lparr>code := code src, status := status src, fileSize := fileSize src,
     traceStartTime := traceStartTime src, traceEndTime := traceEndTime src, outputFile := outputFile src\<rparr>"

primrec UpdateTraceDumpTask :: "TraceDumpTask \<Rightarrow> TraceDumpTask list \<Rightarrow> bool \<times> TraceDumpTask list" where
  "UpdateTraceDumpTask t [] = (False, [])"
| "UpdateTraceDumpTask t (d # ds) =
     (if time d = time t then (True, copy_result t d # ds)
      else let (ok, ds') = UpdateTraceDumpTask t ds in (ok, d # ds'))"

definition ASYNC_DUMP_FILE_SIZE_ADDITION :: int where "ASYNC_DUMP_FILE_SIZE_ADDITION = 1024 * 1024"
definition TRACE_FILE_LEN :: nat where "TRACE_FILE_LEN = 128"

text \<open>
  Reading into memory and writing to the file, on the copy \<open>t\<close> taken from the list; \<open>None\<close> for the
  result means that the trace file system is not mounted. The new list and the return value. The
  names fit their 128 byte arrays.
\<close>

definition read_result :: "TraceDumpRet \<Rightarrow> TraceDumpTask \<Rightarrow> TraceDumpTask" where
  "read_result ret t =
     (let t1 = t\<lparr>code := ret_code ret, fileSize := ret_fileSize ret + ASYNC_DUMP_FILE_SIZE_ADDITION,
                 outputFile := take (TRACE_FILE_LEN - 1) (ret_outputFile ret), status := READ_DONE\<rparr>
      in if code t1 = SUCCESS \<and> fileSize t1 > fileSizeLimit t1 then t1\<lparr>isFileSizeOverLimit := True\<rparr> else t1)"

definition DoReadRawTrace ::
  "TraceDumpRet option \<Rightarrow> TraceDumpTask \<Rightarrow> TraceDumpTask list \<Rightarrow> bool \<times> TraceDumpTask list" where
  "DoReadRawTrace r t vec =
     (case r of None \<Rightarrow> (False, vec)
      | Some ret \<Rightarrow>
          (let (ok, vec') = UpdateTraceDumpTask (read_result ret t) vec
           in (ok \<and> ret_code ret = SUCCESS, vec')))"

definition write_result :: "TraceDumpRet \<Rightarrow> int \<Rightarrow> TraceDumpTask \<Rightarrow> TraceDumpTask" where
  "write_result ret fsize t =
     (let t1 = t\<lparr>code := ret_code ret, fileSize := fsize, status := WRITE_DONE\<rparr>
      in if code t1 = SUCCESS \<and> fileSize t1 > fileSizeLimit t1 then t1\<lparr>isFileSizeOverLimit := True\<rparr> else t1)"

definition DoWriteRawTrace ::
  "(TraceDumpRet \<times> int) option \<Rightarrow> TraceDumpTask \<Rightarrow> TraceDumpTask list \<Rightarrow> bool \<times> TraceDumpTask list" where
  "DoWriteRawTrace r t vec =
     (case r of None \<Rightarrow> (False, vec)
      | Some (ret, fsize) \<Rightarrow>
          (let (ok, vec') = UpdateTraceDumpTask (write_result ret fsize t) vec
           in (ok \<and> ret_code ret = SUCCESS, vec')))"

definition read_ready :: "TraceDumpTask \<Rightarrow> bool" where
  "read_ready t \<longleftrightarrow> status t = START \<and> code t = UNSET"

definition write_ready :: "TraceDumpTask \<Rightarrow> bool" where
  "write_ready t \<longleftrightarrow> status t = READ_DONE \<or> status t = WAIT_WRITE"

section \<open>The pipe\<close>

datatype pipe_outcome = PipeOk | PipeWriteError | PipeFdInvalid

datatype pipe_msg = SyncReturn TraceDumpTask | AsyncReturn TraceDumpTask

text \<open>
  The child's end: an invalid descriptor is refused before anything is written, a failing
  \<^verbatim>\<open>write\<close> counts as a retry.
\<close>

definition WriteToPipe :: "pipe_outcome \<Rightarrow> TraceDumpTask \<Rightarrow> bool \<times> TraceDumpTask" where
  "WriteToPipe out t =
     (case out of PipeOk \<Rightarrow> (True, t)
      | PipeWriteError \<Rightarrow> (False, t\<lparr>writeRetry := writeRetry t + 1\<rparr>)
      | PipeFdInvalid \<Rightarrow> (False, t))"

definition WriteSyncReturn ::
  "pipe_outcome \<Rightarrow> TraceDumpTask \<Rightarrow> bool \<times> TraceDumpTask \<times> pipe_msg list" where
  "WriteSyncReturn out t =
     (let (ok, t') = WriteToPipe out t in (ok, t', if ok then [SyncReturn t] else []))"

definition WriteAsyncReturn ::
  "pipe_outcome \<Rightarrow> TraceDumpTask \<Rightarrow> bool \<times> TraceDumpTask \<times> pipe_msg list" where
  "WriteAsyncReturn out t =
     (let (ok, t') = WriteToPipe out t in (ok, t', if ok then [AsyncReturn t] else []))"

text \<open>
  The reading loop of \<^verbatim>\<open>ReadFromPipe\<close> over what successive waits bring, each with the
  milliseconds elapsed since the start; \<open>None\<close> when the given waits do not decide.
\<close>

datatype epoll_event = EpollTask TraceDumpTask | EpollReadError | EpollNothingRead | EpollOther
  | EpollTimeout | EpollError | EpollInterrupted

primrec ReadFromPipe :: "int \<Rightarrow> int \<Rightarrow> (epoll_event \<times> int) list \<Rightarrow> TraceDumpTask option option" where
  "ReadFromPipe timeoutMs remaining [] = (if remaining \<le> 0 then Some None else None)"
| "ReadFromPipe timeoutMs remaining (w # ws) =
     (if remaining \<le> 0 then Some None
      else case fst w of
             EpollTask t \<Rightarrow> Some (Some t)
           | EpollReadError \<Rightarrow> Some None
           | EpollTimeout \<Rightarrow> Some None
           | EpollError \<Rightarrow> Some None
           | _ \<Rightarrow> ReadFromPipe timeoutMs (timeoutMs - snd w) ws)"

section \<open>The monitor\<close>

definition SYNC_RETURN_TIMEOUT_NS :: u64 where "SYNC_RETURN_TIMEOUT_NS = 5000000000"
definition MAX_WRITE_RETRY :: u8 where "MAX_WRITE_RETRY = 10"

text \<open>
  One task in one pass: the task afterwards, what went into the pipe, and whether it was put among
  the completed ones. Every branch writes to the pipe at most once.
\<close>

definition DoProcessTraceDumpTask ::
  "u64 \<Rightarrow> pipe_outcome \<Rightarrow> TraceDumpTask \<Rightarrow> TraceDumpTask \<times> pipe_msg list \<times> bool" where
  "DoProcessTraceDumpTask curBootTime out t =
     (let (t', msgs, done1) =
        (if status t = WRITE_DONE then
           if hasSyncReturn t then
             (let (ok, t1, ms) = WriteAsyncReturn out t in (t1, ms, ok))
           else
             (let (ok, t1, ms) = WriteSyncReturn out t
              in if ok then (t1\<lparr>hasSyncReturn := True\<rparr>, ms, curBootTime - time t \<le> SYNC_RETURN_TIMEOUT_NS)
                 else (t1, ms, False))
         else if status t = READ_DONE then
           if code t \<noteq> SUCCESS then
             (let t0 = t\<lparr>status := WRITE_DONE\<rparr>;
                  (ok, t1, ms) = (if \<not> hasSyncReturn t0 then WriteSyncReturn out t0 else WriteAsyncReturn out t0)
              in (t1, ms, ok))
           else if \<not> hasSyncReturn t \<and> curBootTime - time t > SYNC_RETURN_TIMEOUT_NS then
             (let (ok, t1, ms) = WriteSyncReturn out t
              in if ok then (t1\<lparr>hasSyncReturn := True, status := WAIT_WRITE\<rparr>, ms, False) else (t1, ms, False))
           else (t, [], False)
         else (t, [], False))
      in (t', msgs, done1 \<or> MAX_WRITE_RETRY \<le> writeRetry t'))"

text \<open>
  One pass over the list under the lock: all tasks, then the removal of the completed ones by id.
  \<open>env\<close> gives the clock and the pipe outcome for each task of the pass.
\<close>

definition pass_task :: "(u64 \<Rightarrow> u64 \<times> pipe_outcome) \<Rightarrow> TraceDumpTask \<Rightarrow> TraceDumpTask \<times> pipe_msg list \<times> bool" where
  "pass_task env t = DoProcessTraceDumpTask (fst (env (time t))) (snd (env (time t))) t"

definition monitor_pass ::
  "(u64 \<Rightarrow> u64 \<times> pipe_outcome) \<Rightarrow> TraceDumpTask list \<Rightarrow> TraceDumpTask list \<times> pipe_msg list" where
  "monitor_pass env vec =
     (let rs = map (pass_task env) vec;
          completed = map fst (filter (\<lambda>r. snd (snd r)) rs)
      in (fold (\<lambda>c v. RemoveTraceDumpTask (time c) v) completed (map fst rs),
          concat (map (\<lambda>r. fst (snd r)) rs)))"

definition MONITOR_EMPTY_LOOP_COUNT :: int where "MONITOR_EMPTY_LOOP_COUNT = 15"

text \<open>
  \<^verbatim>\<open>TraceDumpTaskMonitor\<close>: pass, new task, one more round unless the list has been empty for fifteen
  rounds. Each round is one element: its pass environment and the task read from the pipe, if any.
  \<open>None\<close> means that the given rounds do not end it.
\<close>

definition monitor_round ::
  "(u64 \<Rightarrow> u64 \<times> pipe_outcome) \<Rightarrow> TraceDumpTask option \<Rightarrow> TraceDumpTask list \<times> int
     \<Rightarrow> (TraceDumpTask list \<times> int) \<times> pipe_msg list" where
  "monitor_round env new s =
     (let (vec1, msgs) = monitor_pass env (fst s);
          cnt1 = (if vec1 \<noteq> [] then 0 else snd s)
      in case new of None \<Rightarrow> ((vec1, cnt1 + 1), msgs)
         | Some t \<Rightarrow> ((AddTraceDumpTask t vec1, 1), msgs))"

primrec TraceDumpTaskMonitor ::
  "((u64 \<Rightarrow> u64 \<times> pipe_outcome) \<times> TraceDumpTask option) list \<Rightarrow> TraceDumpTask list \<times> int
     \<Rightarrow> TraceDumpTask list option" where
  "TraceDumpTaskMonitor [] s = None"
| "TraceDumpTaskMonitor (r # rs) s =
     (let s' = fst (monitor_round (fst r) (snd r) s)
      in if snd s' < MONITOR_EMPTY_LOOP_COUNT \<or> \<not> IsTraceDumpTaskEmpty (fst s')
         then TraceDumpTaskMonitor rs s' else Some (fst s'))"

section \<open>One task in one pass\<close>

fun sync_of :: "u64 \<Rightarrow> pipe_msg \<Rightarrow> bool" where
  "sync_of i (SyncReturn t) = (time t = i)"
| "sync_of i (AsyncReturn t) = False"

fun async_of :: "u64 \<Rightarrow> pipe_msg \<Rightarrow> bool" where
  "async_of i (SyncReturn t) = False"
| "async_of i (AsyncReturn t) = (time t = i)"

definition syncs :: "u64 \<Rightarrow> pipe_msg list \<Rightarrow> nat" where "syncs i ms = length (filter (sync_of i) ms)"
definition asyncs :: "u64 \<Rightarrow> pipe_msg list \<Rightarrow> nat" where "asyncs i ms = length (filter (async_of i) ms)"

lemma syncs_simps [simp]:
  "syncs i [] = 0" "syncs i (m # ms) = (if sync_of i m then 1 else 0) + syncs i ms"
  "syncs i (ms @ ns) = syncs i ms + syncs i ns"
  "asyncs i [] = 0" "asyncs i (m # ms) = (if async_of i m then 1 else 0) + asyncs i ms"
  "asyncs i (ms @ ns) = asyncs i ms + asyncs i ns"
  by (simp_all add: syncs_def asyncs_def)

lemmas process_defs = DoProcessTraceDumpTask_def WriteSyncReturn_def WriteAsyncReturn_def WriteToPipe_def Let_def

text \<open>
  What one processing does to the counts: the id stays, messages are about the task itself, a
  synchronous answer is only given without the flag, an asynchronous one only with it, a given
  answer either sets the flag or completes the task, and an asynchronous answer completes it.
\<close>

lemma process_counts:
  assumes "DoProcessTraceDumpTask cur out t = (t', ms, fin)"
  shows "time t' = time t" "syncs (time t) ms + asyncs (time t) ms \<le> 1"
    "i \<noteq> time t \<Longrightarrow> syncs i ms = 0 \<and> asyncs i ms = 0"
    "syncs (time t) ms \<noteq> 0 \<Longrightarrow> \<not> hasSyncReturn t" "asyncs (time t) ms \<noteq> 0 \<Longrightarrow> hasSyncReturn t"
    "\<not> fin \<Longrightarrow> asyncs (time t) ms = 0"
    "\<not> fin \<Longrightarrow> (if hasSyncReturn t' then 1 else 0) = (if hasSyncReturn t then 1 else 0) + syncs (time t) ms"
  using assms
  by (auto simp: process_defs split: if_splits pipe_outcome.splits)

lemma pass_task_process:
  "DoProcessTraceDumpTask (fst (env (time t))) (snd (env (time t))) t =
     (fst (pass_task env t), fst (snd (pass_task env t)), snd (snd (pass_task env t)))"
  by (simp add: pass_task_def)

lemmas pass_task_counts = process_counts [OF pass_task_process]

lemma pass_task_time [simp]: "time (fst (pass_task env t)) = time t"
  by (rule pass_task_counts(1))

lemma fold_remove:
  "fold (\<lambda>c v. RemoveTraceDumpTask (time c) v) cs vec = filter (\<lambda>t. time t \<notin> time ` set cs) vec"
  by (induction cs arbitrary: vec) (simp_all add: RemoveTraceDumpTask_def)

text \<open>With distinct ids the pass keeps exactly the tasks that it did not complete.\<close>

lemma monitor_pass_tasks:
  assumes "distinct (map time vec)"
  shows "fst (monitor_pass env vec) =
    map (\<lambda>t. fst (pass_task env t)) (filter (\<lambda>t. \<not> snd (snd (pass_task env t))) vec)"
proof -
  let ?rs = "map (pass_task env) vec"
  let ?done = "time ` set (map fst (filter (\<lambda>r. snd (snd r)) ?rs))"
  have mem: "time t \<in> ?done \<longleftrightarrow> snd (snd (pass_task env t))" if "t \<in> set vec" for t
  proof
    assume "time t \<in> ?done"
    then obtain u where "u \<in> set vec" "snd (snd (pass_task env u))" "time t = time u" by auto
    with assms that show "snd (snd (pass_task env t))" by (metis distinct_map inj_onD)
  next
    assume "snd (snd (pass_task env t))"
    then have "fst (pass_task env t) \<in> set (map fst (filter (\<lambda>r. snd (snd r)) ?rs))" using that by auto
    then show "time t \<in> ?done" by (metis image_eqI pass_task_time)
  qed
  have "fst (monitor_pass env vec) = filter (\<lambda>t. time t \<notin> ?done) (map fst ?rs)"
    by (simp only: monitor_pass_def Let_def fst_conv fold_remove)
  also have "\<dots> = map (\<lambda>t. fst (pass_task env t)) (filter (\<lambda>t. \<not> snd (snd (pass_task env t))) vec)"
    using mem by (simp add: filter_map comp_def) (metis (mono_tags, lifting) filter_cong)
  finally show ?thesis .
qed

lemma pass_msgs: "snd (monitor_pass env vec) = concat (map (\<lambda>t. fst (snd (pass_task env t))) vec)"
  by (simp add: monitor_pass_def Let_def comp_def)

lemma pass_counts:
  assumes "distinct (map time vec)"
  shows "t \<in> set vec \<Longrightarrow> syncs (time t) (snd (monitor_pass env vec)) = syncs (time t) (fst (snd (pass_task env t)))"
    "t \<in> set vec \<Longrightarrow> asyncs (time t) (snd (monitor_pass env vec)) = asyncs (time t) (fst (snd (pass_task env t)))"
    "i \<notin> time ` set vec \<Longrightarrow> syncs i (snd (monitor_pass env vec)) = 0 \<and> asyncs i (snd (monitor_pass env vec)) = 0"
proof -
  have other: "i \<noteq> time t \<Longrightarrow> syncs i (fst (snd (pass_task env t))) = 0 \<and> asyncs i (fst (snd (pass_task env t))) = 0" for i t
    by (rule pass_task_counts(3))
  have none: "i \<notin> time ` set vec \<Longrightarrow> syncs i (snd (monitor_pass env vec)) = 0 \<and>
      asyncs i (snd (monitor_pass env vec)) = 0" for i vec
    unfolding pass_msgs by (induction vec) (auto simp: other)
  show "i \<notin> time ` set vec \<Longrightarrow> syncs i (snd (monitor_pass env vec)) = 0 \<and> asyncs i (snd (monitor_pass env vec)) = 0"
    by (rule none)
  have "t \<in> set vec \<Longrightarrow> syncs (time t) (snd (monitor_pass env vec)) = syncs (time t) (fst (snd (pass_task env t))) \<and>
      asyncs (time t) (snd (monitor_pass env vec)) = asyncs (time t) (fst (snd (pass_task env t)))"
    using assms
  proof (induction vec)
    case (Cons a vec)
    show ?case
    proof (cases "t = a")
      case True
      have "time a \<notin> time ` set vec" using Cons.prems(2) by simp
      then show ?thesis using none [of "time a" vec] True by (simp add: pass_msgs)
    next
      case False
      then have t: "t \<in> set vec" using Cons.prems by auto
      then have "time t \<noteq> time a" using Cons.prems(2) by (metis distinct.simps(2) image_eqI list.set_map list.simps(9))
      with t show ?thesis using Cons other [of "time t" a] by (simp add: pass_msgs)
    qed
  qed simp
  then show "t \<in> set vec \<Longrightarrow> syncs (time t) (snd (monitor_pass env vec)) = syncs (time t) (fst (snd (pass_task env t)))"
    "t \<in> set vec \<Longrightarrow> asyncs (time t) (snd (monitor_pass env vec)) = asyncs (time t) (fst (snd (pass_task env t)))"
    by blast+
qed

section \<open>The threads together\<close>

text \<open>
  The reader and the writer hold at most one copy each. \<open>used\<close> are the ids submitted so far: the id is
  the boot time in nanoseconds of the submission, so that it is new.
\<close>

record executor =
  tasks :: "TraceDumpTask list"
  reading :: "TraceDumpTask option"
  writing :: "TraceDumpTask option"
  answers :: "pipe_msg list"
  used :: "u64 set"

definition executor_init :: executor where
  "executor_init = \<lparr>tasks = [], reading = None, writing = None, answers = [], used = {}\<rparr>"

inductive executor_step :: "executor \<Rightarrow> executor \<Rightarrow> bool" where
  ex_new: "time t \<notin> used s \<Longrightarrow> status t = START \<Longrightarrow> \<not> hasSyncReturn t \<Longrightarrow>
    executor_step s (s\<lparr>tasks := AddTraceDumpTask t (tasks s), used := insert (time t) (used s)\<rparr>)"
| ex_read_pick: "reading s = None \<Longrightarrow> find read_ready (tasks s) = Some t \<Longrightarrow>
    executor_step s (s\<lparr>reading := Some t\<rparr>)"
| ex_read_done: "reading s = Some t \<Longrightarrow> DoReadRawTrace r t (tasks s) = (ok, v) \<Longrightarrow>
    executor_step s (s\<lparr>tasks := v, reading := None\<rparr>)"
| ex_write_pick: "writing s = None \<Longrightarrow> find write_ready (tasks s) = Some t \<Longrightarrow>
    executor_step s (s\<lparr>writing := Some t\<rparr>)"
| ex_write_done: "writing s = Some t \<Longrightarrow> DoWriteRawTrace q t (tasks s) = (ok, v) \<Longrightarrow>
    executor_step s (s\<lparr>tasks := v, writing := None\<rparr>)"
| ex_monitor: "monitor_pass env (tasks s) = (v, ms) \<Longrightarrow>
    executor_step s (s\<lparr>tasks := v, answers := answers s @ ms\<rparr>)"

definition key :: "TraceDumpTask \<Rightarrow> u64 \<times> bool" where "key t = (time t, hasSyncReturn t)"

definition answers_inv :: "(u64 \<times> bool) list \<Rightarrow> pipe_msg list \<Rightarrow> u64 set \<Rightarrow> bool" where
  "answers_inv ks ms us \<longleftrightarrow> distinct (map fst ks) \<and> (\<forall>(i, b) \<in> set ks. i \<in> us) \<and>
     (\<forall>(i, b) \<in> set ks. syncs i ms = (if b then 1 else 0) \<and> asyncs i ms = 0) \<and>
     (\<forall>i. syncs i ms \<le> 1 \<and> asyncs i ms \<le> syncs i ms) \<and>
     (\<forall>i. i \<notin> us \<longrightarrow> syncs i ms = 0)"

definition executor_inv :: "executor \<Rightarrow> bool" where
  "executor_inv s \<longleftrightarrow> answers_inv (map key (tasks s)) (answers s) (used s)"

lemma Update_key [simp]: "map key (snd (UpdateTraceDumpTask t vec)) = map key vec"
  by (induction vec) (auto simp: key_def copy_result_def split: prod.splits)

lemma DoRead_key: "DoReadRawTrace r t vec = (ok, v) \<Longrightarrow> map key v = map key vec"
  by (auto simp: DoReadRawTrace_def Let_def case_prod_beta split: option.splits)

lemma DoWrite_key: "DoWriteRawTrace q t vec = (ok, v) \<Longrightarrow> map key v = map key vec"
  by (auto simp: DoWriteRawTrace_def Let_def case_prod_beta split: option.splits)

lemma monitor_answers_inv:
  assumes "answers_inv (map key vec) ms us"
  shows "answers_inv (map key (fst (monitor_pass env vec))) (ms @ snd (monitor_pass env vec)) us"
proof -
  have d: "distinct (map time vec)" using assms by (simp add: answers_inv_def key_def comp_def)
  let ?out = "snd (monitor_pass env vec)"
  let ?kept = "filter (\<lambda>t. \<not> snd (snd (pass_task env t))) vec"
  have now: "syncs (time t) ms = (if hasSyncReturn t then 1 else 0)" "asyncs (time t) ms = 0"
    if "t \<in> set vec" for t
    using assms that by (auto simp: answers_inv_def key_def)
  note c = pass_counts [OF d, of _ env]
  have bound: "syncs i (ms @ ?out) \<le> 1 \<and> asyncs i (ms @ ?out) \<le> syncs i (ms @ ?out)" for i
  proof (cases "i \<in> time ` set vec")
    case True
    then obtain t where t: "t \<in> set vec" "i = time t" by auto
    have "syncs (time t) (fst (snd (pass_task env t))) = 0 \<or> \<not> hasSyncReturn t"
      "asyncs (time t) (fst (snd (pass_task env t))) = 0 \<or> hasSyncReturn t"
      using pass_task_counts(4,5) [where env = env and t = t] by blast+
    then show ?thesis
      using now [OF t(1)] c(1,2) [OF t(1)] pass_task_counts(2) [where env = env and t = t] t(2)
      by (auto split: if_splits)
  next
    case False
    then show ?thesis using c(3) [of i] assms by (auto simp: answers_inv_def)
  qed
  have keys: "syncs i (ms @ ?out) = (if b then 1 else 0) \<and> asyncs i (ms @ ?out) = 0"
    if "(i, b) \<in> set (map key (map (\<lambda>t. fst (pass_task env t)) ?kept))" for i b
  proof -
    obtain t where t: "t \<in> set vec" "\<not> snd (snd (pass_task env t))" "i = time t"
      "b = hasSyncReturn (fst (pass_task env t))" using \<open>(i, b) \<in> _\<close> by (auto simp: key_def)
    show ?thesis
      using now [OF t(1)] c(1,2) [OF t(1)] pass_task_counts(6,7) [OF t(2)] t(3,4) by (simp split: if_splits)
  qed
  have fresh: "syncs i (ms @ ?out) = 0" if "i \<notin> us" for i
  proof -
    have "i \<notin> time ` set vec" using assms that by (auto simp: answers_inv_def key_def)
    then show ?thesis using c(3) [of i] assms that by (simp add: answers_inv_def)
  qed
  let ?ks = "map key (map (\<lambda>t. fst (pass_task env t)) ?kept)"
  have "distinct (map fst ?ks)" using d by (simp add: distinct_map_filter key_def comp_def)
  moreover have "\<forall>(i, b) \<in> set ?ks. i \<in> us" using assms by (auto simp: answers_inv_def key_def)
  moreover have "\<forall>(i, b) \<in> set ?ks. syncs i (ms @ ?out) = (if b then 1 else 0) \<and> asyncs i (ms @ ?out) = 0"
    using keys by (intro ballI) (simp only: split_paired_all prod.case)
  moreover have "\<forall>i. syncs i (ms @ ?out) \<le> 1 \<and> asyncs i (ms @ ?out) \<le> syncs i (ms @ ?out)"
    using bound by blast
  moreover have "\<forall>i. i \<notin> us \<longrightarrow> syncs i (ms @ ?out) = 0" using fresh by blast
  ultimately show ?thesis unfolding answers_inv_def monitor_pass_tasks [OF d] by (intro conjI)
qed

lemma executor_inv_step: "executor_step s s' \<Longrightarrow> executor_inv s \<Longrightarrow> executor_inv s'"
proof (induction rule: executor_step.induct)
  case (ex_new t s)
  then have z: "syncs (time t) (answers s) = 0" "asyncs (time t) (answers s) = 0"
    by (auto simp: executor_inv_def answers_inv_def dest: spec [of _ "time t"])
  with ex_new show ?case
    by (auto simp: executor_inv_def answers_inv_def AddTraceDumpTask_def key_def)
next
  case (ex_monitor env s v ms)
  then show ?case using monitor_answers_inv [of "tasks s" "answers s" "used s" env] by (simp add: executor_inv_def)
qed (auto simp: executor_inv_def dest: DoRead_key DoWrite_key)

lemma executor_inv_reachable: "executor_step\<^sup>*\<^sup>* executor_init s \<Longrightarrow> executor_inv s"
proof (induction rule: rtranclp_induct)
  case base
  show ?case by (simp add: executor_inv_def executor_init_def answers_inv_def)
next
  case (step y z)
  then show ?case using executor_inv_step by blast
qed

text \<open>C14: However reader, writer, monitor and submissions interleave, every dump task is answered
synchronously at most once and asynchronously at most once, and an asynchronous answer is only
given after the synchronous one; task ids in the list stay distinct.\<close>

theorem answers_at_most_once:
  assumes "executor_step\<^sup>*\<^sup>* executor_init s"
  shows "syncs i (answers s) \<le> 1 \<and> asyncs i (answers s) \<le> syncs i (answers s) \<and> distinct (map time (tasks s))"
  using executor_inv_reachable [OF assms] by (auto simp: executor_inv_def answers_inv_def key_def comp_def)

definition sample_task :: TraceDumpTask where
  "sample_task = \<lparr>time = 100, traceStartTime = 0, traceEndTime = 50, outputFile = '''', fileSize = 0,
     fileSizeLimit = 10, hasSyncReturn = False, writeRetry = 0, code = UNSET, isFileSizeOverLimit = False,
     status = START\<rparr>"

theorem answers_at_most_once_witness:
  "syncs 100 (answers (executor_init\<lparr>tasks := [sample_task], used := {100}\<rparr>)) \<le> 1"
proof -
  have "executor_step executor_init (executor_init\<lparr>tasks := [sample_task], used := {100}\<rparr>)"
    using ex_new [of sample_task executor_init]
    by (simp add: executor_init_def sample_task_def AddTraceDumpTask_def)
  then show ?thesis using answers_at_most_once [OF r_into_rtranclp, of _ 100] by blast
qed

subsection \<open>Progress\<close>

text \<open>A task through successive passes, \<open>None\<close> once it is completed and removed.\<close>

primrec run_task :: "(u64 \<times> pipe_outcome) list \<Rightarrow> TraceDumpTask \<Rightarrow> TraceDumpTask option" where
  "run_task [] t = Some t"
| "run_task (p # ps) t =
     (let (t', ms, fin) = DoProcessTraceDumpTask (fst p) (snd p) t in if fin then None else run_task ps t')"

definition tries_left :: "TraceDumpTask \<Rightarrow> nat" where
  "tries_left t = 10 - unat (writeRetry t) + (if hasSyncReturn t then 0 else 1)"

lemma process_progress:
  assumes "status t = WRITE_DONE" "unat (writeRetry t) \<le> 10" "out \<noteq> PipeFdInvalid"
    "DoProcessTraceDumpTask cur out t = (t', ms, False)"
  shows "status t' = WRITE_DONE" "unat (writeRetry t') < 10" "tries_left t' < tries_left t"
proof -
  have nine: "unat (writeRetry t') < 10"
    using assms(4) by (auto simp: DoProcessTraceDumpTask_def Let_def MAX_WRITE_RETRY_def word_le_nat_alt
        split: prod.splits if_splits)
  show "unat (writeRetry t') < 10" by (rule nine)
  have "unat (writeRetry t + 1) = Suc (unat (writeRetry t))"
    using assms(2) by (simp add: unat_word_ariths)
  with assms nine show "status t' = WRITE_DONE" "tries_left t' < tries_left t"
    by (auto simp: process_defs tries_left_def split: if_splits pipe_outcome.splits)
qed

text \<open>C24: A task whose trace is written leaves the list within eleven passes of the monitor, whether
the pipe accepts the answers or keeps failing, as long as its descriptors are valid.\<close>

theorem written_task_leaves:
  assumes "status t = WRITE_DONE" "unat (writeRetry t) \<le> 10" "PipeFdInvalid \<notin> snd ` set ps" "11 \<le> length ps"
  shows "run_task ps t = None"
proof -
  have "tries_left t \<le> length ps \<Longrightarrow> ps \<noteq> [] \<Longrightarrow> run_task ps t = None"
    using assms(1-3)
  proof (induction ps arbitrary: t)
    case (Cons p ps)
    obtain t' ms fin where r: "DoProcessTraceDumpTask (fst p) (snd p) t = (t', ms, fin)"
      by (metis surj_pair)
    show ?case
    proof (cases fin)
      case True
      with r show ?thesis by simp
    next
      case False
      with r have r': "DoProcessTraceDumpTask (fst p) (snd p) t = (t', ms, False)" by simp
      have "snd p \<noteq> PipeFdInvalid" using Cons.prems(5) by auto
      note pr = process_progress [OF Cons.prems(3,4) this r']
      have "tries_left t' \<le> length ps" "1 \<le> tries_left t'"
        using pr(2,3) Cons.prems(1) by (simp_all add: tries_left_def)
      then have "run_task ps t' = None"
        using pr(1,2) Cons.prems(5) by (intro Cons.IH) auto
      then show ?thesis by (simp add: r')
    qed
  qed simp
  moreover have "tries_left t \<le> length ps" "ps \<noteq> []" using assms(4) by (auto simp: tries_left_def)
  ultimately show ?thesis by blast
qed

theorem written_task_leaves_witness:
  "run_task (replicate 11 (7, PipeWriteError)) (sample_task\<lparr>status := WRITE_DONE\<rparr>) = None"
  by (rule written_task_leaves) (auto simp: sample_task_def)

text \<open>With an invalid return descriptor the retry counter is not touched, so that a written task
is kept in the list for ever and the monitor, which only ends with an empty list, never ends.\<close>

theorem invalid_pipe_keeps_task:
  assumes "status t = WRITE_DONE" "writeRetry t < MAX_WRITE_RETRY"
  shows "run_task (map (\<lambda>c. (c, PipeFdInvalid)) cs) t = Some t"
proof (induction cs)
  case (Cons c cs)
  have "DoProcessTraceDumpTask c PipeFdInvalid t = (t, [], False)"
    using assms by (simp add: process_defs not_le)
  with Cons show ?case by simp
qed simp

theorem invalid_pipe_keeps_task_witness:
  "run_task (map (\<lambda>c. (c, PipeFdInvalid)) (replicate 1000 5)) (sample_task\<lparr>status := WRITE_DONE\<rparr>) =
   Some (sample_task\<lparr>status := WRITE_DONE\<rparr>)"
  by (rule invalid_pipe_keeps_task) (simp_all add: sample_task_def MAX_WRITE_RETRY_def)

text \<open>The over-limit mark that reading and writing compute never reaches the task list: updating
copies six fields, and this one and the synchronous-return flag are not among them.\<close>

theorem over_limit_mark_lost:
  assumes "distinct (map time vec)" "t \<in> set vec" "ret_code ret = SUCCESS"
    "ret_fileSize ret + 1024 * 1024 > fileSizeLimit t"
  shows "isFileSizeOverLimit (read_result ret t) \<and>
    map isFileSizeOverLimit (snd (DoReadRawTrace (Some ret) t vec)) = map isFileSizeOverLimit vec \<and>
    map hasSyncReturn (snd (DoReadRawTrace (Some ret) t vec)) = map hasSyncReturn vec \<and>
    fst (DoReadRawTrace (Some ret) t vec)"
proof -
  have upd: "map isFileSizeOverLimit (snd (UpdateTraceDumpTask u v)) = map isFileSizeOverLimit v \<and>
      map hasSyncReturn (snd (UpdateTraceDumpTask u v)) = map hasSyncReturn v \<and>
      fst (UpdateTraceDumpTask u v) = (time u \<in> time ` set v)" for u v
    by (induction v) (auto simp: copy_result_def case_prod_beta Let_def)
  have "time (read_result ret t) = time t" by (simp add: read_result_def Let_def)
  then show ?thesis
    using upd [of "read_result ret t" vec] assms
    by (auto simp: DoReadRawTrace_def Let_def case_prod_beta)
      (simp add: read_result_def Let_def ASYNC_DUMP_FILE_SIZE_ADDITION_def)
qed

definition sample_ret :: TraceDumpRet where
  "sample_ret = \<lparr>ret_code = SUCCESS, ret_outputFile = ''f.sys'', ret_fileSize = 100,
     ret_traceStartTime = 1, ret_traceEndTime = 2\<rparr>"

theorem over_limit_mark_lost_witness:
  "isFileSizeOverLimit (read_result sample_ret sample_task) \<and>
   map isFileSizeOverLimit (snd (DoReadRawTrace (Some sample_ret) sample_task [sample_task])) = [False]"
  using over_limit_mark_lost [of "[sample_task]" sample_task sample_ret]
  by (simp add: sample_task_def sample_ret_def)

end
