(* ===== verification/Raw_Trace.thy ===== *)
theory Raw_Trace
  imports Trace_Content Trace_Buffer Trace_Files Dump_Tasks
begin

text \<open>
  The raw pages of the kernel's ring buffer: the classes \<^verbatim>\<open>ITraceCpuRawContent\<close>, \<^verbatim>\<open>ITraceCpuRawRead\<close>
  and \<^verbatim>\<open>ITraceCpuRawWrite\<close> of \<^verbatim>\<open>frameworks/trace_factory/trace_content.cpp\<close>. A dump either copies the pages
  of the requested time window straight into the file, or, for an asynchronous task, first into the
  blocks of the buffer manager and from there into the file. The pages are the results of \<^verbatim>\<open>read\<close> on
  \<^verbatim>\<open>trace_pipe_raw\<close>; each starts with its time stamp, eight bytes in little endian order. \<open>chk\<close> is the
  outcome of \<^verbatim>\<open>CheckPage\<close>, true for every page on HongMeng.
\<close>

section \<open>Requests and pages\<close>

record TraceDumpRequest =
  rq_type :: TraceDumpType
  rq_fileSize :: int
  rq_limitFileSz :: bool
  rq_start :: u64
  rq_end :: u64
  rq_taskId :: u64
  rq_slice :: u64

definition TraceDumpRequest_default :: TraceDumpRequest where
  "TraceDumpRequest_default = \<lparr>rq_type = TRACE_SNAPSHOT, rq_fileSize = 0, rq_limitFileSz = False, rq_start = 0,
     rq_end = - 1, rq_taskId = 0, rq_slice = 0\<rparr>"

definition page_time :: "bytes \<Rightarrow> u64" where
  "page_time p = foldr (\<lambda>b x. ucast b OR push_bit 8 x) (take 8 p) 0"

definition IsCurrentTracePageValid :: "u64 \<Rightarrow> u64 \<Rightarrow> u64 \<Rightarrow> int" where
  "IsCurrentTracePageValid pageTraceTime startTime endTime =
     (if pageTraceTime > endTime then -1 else if pageTraceTime < startTime then 0 else 1)"

text \<open>The members of the class that a run changes.\<close>

record raw_state =
  dumpStatus :: TraceErrorCode
  firstPageTimeStamp :: u64
  lastPageTimeStamp :: u64
  isOverFlow :: bool

definition raw_state_init :: raw_state where
  "raw_state_init = \<lparr>dumpStatus = UNSET, firstPageTimeStamp = - 1, lastPageTimeStamp = 0, isOverFlow = False\<rparr>"

definition UpdateFirstLastPageTimeStamp :: "u64 \<Rightarrow> bool \<Rightarrow> raw_state \<Rightarrow> bool \<times> raw_state" where
  "UpdateFirstLastPageTimeStamp t printFirstPageTime st =
     (let st1 = st\<lparr>lastPageTimeStamp := max (lastPageTimeStamp st) t\<rparr>
      in if \<not> printFirstPageTime then (True, st1\<lparr>firstPageTimeStamp := min (firstPageTimeStamp st1) t\<rparr>) else (printFirstPageTime, st1))"

section \<open>Straight into the file\<close>

text \<open>
  One filling of the buffer: the buffer, whether reading is over, the failed checks, whether a page of
  the window has been seen, the members, and the pages that are left.
\<close>

primrec ReadTracePipeRawLoop ::
  "(bytes \<Rightarrow> bool) \<Rightarrow> TraceDumpRequest \<Rightarrow> bytes \<Rightarrow> nat \<Rightarrow> bool \<Rightarrow> raw_state \<Rightarrow> bytes list \<Rightarrow>
   bytes \<times> bool \<times> nat \<times> bool \<times> raw_state \<times> bytes list" where
  "ReadTracePipeRawLoop chk rq buf failed printFirst st [] =
     (if length buf \<le> BUFFER_SIZE - PAGE_SIZE then (buf, True, failed, printFirst, st\<lparr>dumpStatus := SUCCESS\<rparr>, [])
      else (buf, False, failed, printFirst, st, []))"
| "ReadTracePipeRawLoop chk rq buf failed printFirst st (p # ps) =
     (if length buf \<le> BUFFER_SIZE - PAGE_SIZE
      then if p = [] then (buf, True, failed, printFirst, st\<lparr>dumpStatus := SUCCESS\<rparr>, ps)
           else
             (let pageValid = IsCurrentTracePageValid (page_time p) (rq_start rq) (rq_end rq)
              in if pageValid < 0
                 then (buf @ (if printFirst then p else []), True, failed, printFirst, st\<lparr>dumpStatus := OUT_OF_TIME\<rparr>, ps)
                 else if pageValid = 0 then ReadTracePipeRawLoop chk rq buf failed printFirst st ps
                 else
                   (let (printFirst', st') = UpdateFirstLastPageTimeStamp (page_time p) printFirst st;
                        failed' = (if chk p then failed else Suc failed)
                    in if failed' \<ge> 2 then (buf @ p, True, failed', printFirst', st', ps)
                       else ReadTracePipeRawLoop chk rq (buf @ p) failed' printFirst' st' ps))
      else (buf, False, failed, printFirst, st, p # ps))"

lemma raw_loop_full:
  "\<not> length buf \<le> BUFFER_SIZE - PAGE_SIZE \<Longrightarrow>
   ReadTracePipeRawLoop chk rq buf failed pf st ps = (buf, False, failed, pf, st, ps)"
  by (cases ps) simp_all

lemma raw_loop_length:
  "ReadTracePipeRawLoop chk rq buf failed pf st ps = (b, e, f, pf', st', rest) \<Longrightarrow> length rest \<le> length ps"
proof (induction ps arbitrary: buf failed pf st)
  case (Cons p ps)
  then show ?case by (fastforce simp: Let_def split: if_splits prod.splits)
qed (auto split: if_splits)

lemma raw_loop_shrinks:
  assumes "ReadTracePipeRawLoop chk rq buf failed pf st ps = (b, e, f, pf', st', rest)"
    and "length buf \<le> BUFFER_SIZE - PAGE_SIZE" "\<not> e"
  shows "length rest < length ps"
proof (cases ps)
  case Nil
  then show ?thesis using assms by auto
next
  case (Cons p qs)
  with assms have "\<exists>buf failed pf st. ReadTracePipeRawLoop chk rq buf failed pf st qs = (b, e, f, pf', st', rest)"
    by (auto simp: Let_def split: if_splits prod.splits)
  then show ?thesis using raw_loop_length Cons by (auto simp: le_imp_less_Suc)
qed

definition DEFAULT_FILE_SIZE :: int where "DEFAULT_FILE_SIZE = 100 * 1024"
definition KB_PER_MB :: int where "KB_PER_MB = 1024"

definition IsWriteFileOverflow :: "TraceDumpRequest \<Rightarrow> int \<Rightarrow> int \<Rightarrow> int \<Rightarrow> bool" where
  "IsWriteFileOverflow rq outputFileSize writeLen fileSizeThreshold =
     (if rq_type rq \<noteq> TRACE_RECORDING \<and> rq_type rq \<noteq> TRACE_CACHE \<or> \<not> rq_limitFileSz rq then False
      else if outputFileSize + writeLen + int HDR \<ge> fileSizeThreshold then True
      else writeLen > 2147483647 - int BUFFER_SIZE)"

definition file_threshold :: "TraceDumpRequest \<Rightarrow> int" where
  "file_threshold rq = (if rq_fileSize rq \<noteq> 0 then rq_fileSize rq else DEFAULT_FILE_SIZE * KB_PER_MB)"

text \<open>The loop over fillings: the bytes read, the bytes written, the members, and the file.\<close>

function pipe_loop ::
  "(bytes \<Rightarrow> bool) \<Rightarrow> TraceDumpRequest \<Rightarrow> nat \<Rightarrow> bool \<Rightarrow> raw_state \<Rightarrow> bytes list \<Rightarrow> int \<Rightarrow> int \<Rightarrow> content_world \<Rightarrow>
   int \<times> int \<times> raw_state \<times> content_world" where
  "pipe_loop chk rq failed printFirst st pages readLen writeLen w =
     (let (buf, endFlag, failed', printFirst', st', rest) = ReadTracePipeRawLoop chk rq [] failed printFirst st pages;
          readLen' = readLen + int (length buf);
          (writeLen', w') = DoWriteTraceData buf writeLen w
      in if IsWriteFileOverflow rq (g_outputFileSize w') writeLen' (file_threshold rq)
         then (readLen', writeLen', st'\<lparr>isOverFlow := True\<rparr>, w')
         else if endFlag then (readLen', writeLen', st', w')
         else pipe_loop chk rq failed' printFirst' st' rest readLen' writeLen' w')"
  by pat_completeness auto
termination
  by (relation "measure (\<lambda>(chk, rq, f, pf, st, pages, r). length pages)") (auto dest!: raw_loop_shrinks [OF sym])

declare pipe_loop.simps [simp del]

text \<open>\<open>src\<close> is the pipe of the cpu, \<open>None\<close> if it cannot be opened.\<close>

definition WriteTracePipeRawData ::
  "(bytes \<Rightarrow> bool) \<Rightarrow> TraceDumpRequest \<Rightarrow> bytes list option \<Rightarrow> nat \<Rightarrow> raw_state \<times> content_world \<Rightarrow>
   bool \<times> raw_state \<times> content_world" where
  "WriteTracePipeRawData chk rq src cpuIdx s =
     (let st = fst s; (exists, w) = IsFileExist (snd s)
      in if \<not> exists then (False, st, w)
         else case src of None \<Rightarrow> (False, st, w)
         | Some pages \<Rightarrow>
             (let ty = CONTENT_TYPE_CPU_RAW + of_nat cpuIdx; (ok, w1) = DoWriteTraceContentHeader ty w
              in if \<not> ok then (False, st, w1)
                 else
                   (let (readLen, writeLen, st1, w2) = pipe_loop chk rq 0 False st pages 0 0 w1;
                        w3 = UpdateTraceContentHeader ty (of_int writeLen) w2;
                        st2 = (if readLen > 0
                               then st1\<lparr>dumpStatus := if writeLen > 0 then SUCCESS else WRITE_TRACE_INFO_ERROR\<rparr> else st1)
                    in (True, st2, w3))))"

primrec raw_cpus ::
  "(bytes \<Rightarrow> bool) \<Rightarrow> TraceDumpRequest \<Rightarrow> bytes list option list \<Rightarrow> nat \<Rightarrow> raw_state \<times> content_world \<Rightarrow>
   bool \<times> raw_state \<times> content_world" where
  "raw_cpus chk rq [] cpuIdx s = (True, s)"
| "raw_cpus chk rq (src # srcs) cpuIdx s =
     (let (ok, s') = WriteTracePipeRawData chk rq src cpuIdx s
      in if \<not> ok then (False, s') else raw_cpus chk rq srcs (Suc cpuIdx) s')"

definition TraceCpuRawLinux_Write ::
  "(bytes \<Rightarrow> bool) \<Rightarrow> TraceDumpRequest \<Rightarrow> bytes list option list \<Rightarrow> raw_state \<times> content_world \<Rightarrow>
   bool \<times> raw_state \<times> content_world" where
  "TraceCpuRawLinux_Write chk rq srcs s =
     (let (ok, s') = raw_cpus chk rq srcs 0 s in (ok \<and> dumpStatus (fst s') = SUCCESS, s'))"

definition TraceCpuRawHM_Write ::
  "TraceDumpRequest \<Rightarrow> bytes list option \<Rightarrow> raw_state \<times> content_world \<Rightarrow> bool \<times> raw_state \<times> content_world" where
  "TraceCpuRawHM_Write rq src s =
     (let (ok, s') = WriteTracePipeRawData (\<lambda>_. True) rq src 0 s in (ok \<and> dumpStatus (fst s') = SUCCESS, s'))"

section \<open>Through memory\<close>

text \<open>Filling one block: the block, the bytes counted, whether reading is over, and the rest as above.\<close>

primrec copy_block ::
  "(bytes \<Rightarrow> bool) \<Rightarrow> TraceDumpRequest \<Rightarrow> nat \<Rightarrow> BufferBlock \<Rightarrow> nat \<Rightarrow> nat \<Rightarrow> bool \<Rightarrow> raw_state \<Rightarrow> bytes list \<Rightarrow>
   BufferBlock \<times> nat \<times> bool \<times> nat \<times> bool \<times> raw_state \<times> bytes list" where
  "copy_block chk rq bufferSz b blockReadSz failed printFirst st [] =
     (b, blockReadSz, blockReadSz \<le> bufferSz - PAGE_SIZE, failed, printFirst, st, [])"
| "copy_block chk rq bufferSz b blockReadSz failed printFirst st (p # ps) =
     (if blockReadSz \<le> bufferSz - PAGE_SIZE
      then if p = [] then (b, blockReadSz, True, failed, printFirst, st, ps)
           else
             (let pageValid = IsCurrentTracePageValid (page_time p) (rq_start rq) (rq_end rq)
              in if pageValid < 0
                 then (snd (Append p b), blockReadSz + (if printFirst then length p else 0), True, failed, printFirst,
                       st\<lparr>dumpStatus := OUT_OF_TIME\<rparr>, ps)
                 else if pageValid = 0 then copy_block chk rq bufferSz b blockReadSz failed printFirst st ps
                 else
                   (let (printFirst', st') = UpdateFirstLastPageTimeStamp (page_time p) printFirst st;
                        failed' = (if chk p then failed else Suc failed)
                    in if failed' \<ge> 2 then (snd (Append p b), blockReadSz + length p, True, failed', printFirst', st', ps)
                       else copy_block chk rq bufferSz (snd (Append p b)) (blockReadSz + length p) failed' printFirst' st' ps))
      else (b, blockReadSz, False, failed, printFirst, st, p # ps))"

text \<open>
  \<^verbatim>\<open>CopyTracePipeRawLoop\<close>: a block that cannot be allocated ends the reading. The block is the last one
  of the task, so that filling it changes the manager.
\<close>

definition CopyTracePipeRawLoop ::
  "(bytes \<Rightarrow> bool) \<Rightarrow> TraceDumpRequest \<Rightarrow> int \<Rightarrow> int \<Rightarrow> nat \<Rightarrow> bool \<Rightarrow> raw_state \<Rightarrow> bytes list \<Rightarrow> TraceBufferManager \<Rightarrow>
   bool \<times> int \<times> nat \<times> bool \<times> raw_state \<times> bytes list \<times> TraceBufferManager" where
  "CopyTracePipeRawLoop chk rq cpu writeLen failed printFirst st pages m =
     (case AllocateBlock (rq_taskId rq) cpu m of
        (None, m1) \<Rightarrow> (True, writeLen, failed, printFirst, st, pages, m1)
      | (Some b, m1) \<Rightarrow>
          (let (b', blockReadSz, isStopRead, failed', printFirst', st', rest) =
                 copy_block chk rq (GetBlockSize m) b 0 failed printFirst st pages
           in (isStopRead, writeLen + int blockReadSz, failed', printFirst', st', rest, put_last (rq_taskId rq) b' m1)))"

lemma copy_block_full:
  "\<not> n \<le> sz - PAGE_SIZE \<Longrightarrow> copy_block chk rq sz b n f pf st ps = (b, n, False, f, pf, st, ps)"
  by (cases ps) simp_all

lemma copy_block_length:
  "copy_block chk rq sz b n f pf st ps = (b', n', e, f', pf', st', rest) \<Longrightarrow> length rest \<le> length ps"
proof (induction ps arbitrary: b n f pf st)
  case (Cons p ps)
  then show ?case by (fastforce simp: Let_def split: if_splits prod.splits)
qed (auto split: if_splits)

lemma copy_block_shrinks:
  assumes "copy_block chk rq sz b 0 f pf st ps = (b', n', e, f', pf', st', rest)" "\<not> e"
  shows "length rest < length ps"
proof (cases ps)
  case Nil
  then show ?thesis using assms by auto
next
  case (Cons p qs)
  with assms have "\<exists>b n f pf st. copy_block chk rq sz b n f pf st qs = (b', n', e, f', pf', st', rest)"
    by (auto simp: Let_def split: if_splits prod.splits; blast)
  then show ?thesis using copy_block_length Cons by (auto simp: le_imp_less_Suc)
qed

lemma CopyLoop_shrinks:
  "CopyTracePipeRawLoop chk rq cpu l f pf st pages m = (e, l', f', pf', st', rest, m') \<Longrightarrow> \<not> e \<Longrightarrow> length rest < length pages"
  by (auto simp: CopyTracePipeRawLoop_def split: prod.splits option.splits dest!: copy_block_shrinks)

function cache_loop ::
  "(bytes \<Rightarrow> bool) \<Rightarrow> TraceDumpRequest \<Rightarrow> int \<Rightarrow> int \<Rightarrow> nat \<Rightarrow> bool \<Rightarrow> raw_state \<Rightarrow> bytes list \<Rightarrow> TraceBufferManager \<Rightarrow>
   int \<times> raw_state \<times> TraceBufferManager" where
  "cache_loop chk rq cpu writeLen failed printFirst st pages m =
     (let (isStopRead, writeLen', failed', printFirst', st', rest, m') =
            CopyTracePipeRawLoop chk rq cpu writeLen failed printFirst st pages m
      in if isStopRead then (writeLen', st', m') else cache_loop chk rq cpu writeLen' failed' printFirst' st' rest m')"
  by pat_completeness auto
termination
  by (relation "measure (\<lambda>(chk, rq, cpu, l, f, pf, st, pages, m). length pages)") (auto dest!: CopyLoop_shrinks [OF sym])

declare cache_loop.simps [simp del]

definition CacheTracePipeRawData ::
  "(bytes \<Rightarrow> bool) \<Rightarrow> TraceDumpRequest \<Rightarrow> bytes list option \<Rightarrow> nat \<Rightarrow> raw_state \<times> TraceBufferManager \<Rightarrow>
   bool \<times> raw_state \<times> TraceBufferManager" where
  "CacheTracePipeRawData chk rq src cpuIdx s =
     (case src of None \<Rightarrow> (False, s)
      | Some pages \<Rightarrow>
          (let (writeLen, st, m) = cache_loop chk rq (int cpuIdx) 0 0 False (fst s) pages (snd s)
           in (True, if writeLen > 0 then st\<lparr>dumpStatus := SUCCESS\<rparr> else st, m)))"

primrec cache_cpus ::
  "(bytes \<Rightarrow> bool) \<Rightarrow> TraceDumpRequest \<Rightarrow> bytes list option list \<Rightarrow> nat \<Rightarrow> raw_state \<times> TraceBufferManager \<Rightarrow>
   bool \<times> raw_state \<times> TraceBufferManager" where
  "cache_cpus chk rq [] cpuIdx s = (True, s)"
| "cache_cpus chk rq (src # srcs) cpuIdx s =
     (let (ok, s') = CacheTracePipeRawData chk rq src cpuIdx s
      in if \<not> ok then (False, s') else cache_cpus chk rq srcs (Suc cpuIdx) s')"

definition release_on_failure ::
  "TraceDumpRequest \<Rightarrow> bool \<times> raw_state \<times> TraceBufferManager \<Rightarrow> bool \<times> raw_state \<times> TraceBufferManager" where
  "release_on_failure rq r =
     (case r of (ok, st, m) \<Rightarrow>
        if \<not> ok then (False, st, m)
        else if dumpStatus st \<noteq> SUCCESS then (False, st, ReleaseTaskBlocks (rq_taskId rq) m)
        else (True, st, m))"

definition TraceCpuRawReadLinux_Write ::
  "(bytes \<Rightarrow> bool) \<Rightarrow> TraceDumpRequest \<Rightarrow> bytes list option list \<Rightarrow> raw_state \<times> TraceBufferManager \<Rightarrow>
   bool \<times> raw_state \<times> TraceBufferManager" where
  "TraceCpuRawReadLinux_Write chk rq srcs s = release_on_failure rq (cache_cpus chk rq srcs 0 s)"

definition TraceCpuRawReadHM_Write ::
  "TraceDumpRequest \<Rightarrow> bytes list option \<Rightarrow> raw_state \<times> TraceBufferManager \<Rightarrow> bool \<times> raw_state \<times> TraceBufferManager" where
  "TraceCpuRawReadHM_Write rq src s = release_on_failure rq (CacheTracePipeRawData (\<lambda>_. True) rq src 0 s)"

section \<open>From memory into the file\<close>

text \<open>The blocks of one cpu follow each other; a new cpu starts a new section.\<close>

primrec write_blocks_linux :: "BufferBlock list \<Rightarrow> int \<Rightarrow> u8 \<Rightarrow> int \<Rightarrow> content_world \<Rightarrow> bool \<times> content_world" where
  "write_blocks_linux [] prevCpu ty writeLen w = (True, w)"
| "write_blocks_linux (b # bs) prevCpu ty writeLen w =
     (let newCpu = (block_cpu b \<noteq> prevCpu);
          ty' = (if newCpu then CONTENT_TYPE_CPU_RAW + of_int (block_cpu b) else ty);
          writeLen' = (if newCpu then 0 else writeLen);
          (ok, w1) = (if newCpu then DoWriteTraceContentHeader ty' w else (True, w))
      in if \<not> ok then (False, w1)
         else let (writeLen'', w2) = DoWriteTraceData (block_content b) writeLen' w1;
                  w3 = UpdateTraceContentHeader ty' (of_int writeLen'') w2
              in write_blocks_linux bs prevCpu ty' writeLen'' w3)"


definition TraceCpuRawWriteLinux_Write ::
  "u64 \<Rightarrow> content_world \<times> TraceBufferManager \<Rightarrow> bool \<times> content_world \<times> TraceBufferManager" where
  "TraceCpuRawWriteLinux_Write taskId s =
     (let (exists, w) = IsFileExist (fst s); m = snd s
      in if \<not> exists then (False, w, m)
         else let (ok, w1) = write_blocks_linux (GetTaskBuffers taskId m) (- 1) 0 0 w
              in if \<not> ok then (False, w1, m) else (True, w1, ReleaseTaskBlocks taskId m))"

text \<open>The loop of \<^verbatim>\<open>TraceCpuRawWriteHM\<close>: one header for all blocks.\<close>

definition write_blocks_hm :: "BufferBlock list \<Rightarrow> content_world \<Rightarrow> int \<times> content_world" where
  "write_blocks_hm bs w = fold (\<lambda>b (n, w). DoWriteTraceData (block_content b) n w) bs (0, w)"

definition TraceCpuRawWriteHM_Write ::
  "u64 \<Rightarrow> content_world \<times> TraceBufferManager \<Rightarrow> bool \<times> content_world \<times> TraceBufferManager" where
  "TraceCpuRawWriteHM_Write taskId s =
     (let (exists, w) = IsFileExist (fst s); m = snd s
      in if \<not> exists then (False, w, m)
         else
           (let (ok, w1) = DoWriteTraceContentHeader CONTENT_TYPE_CPU_RAW w
            in if \<not> ok then (False, w1, m)
               else let (writeLen, w2) = write_blocks_hm (GetTaskBuffers taskId m) w1
                    in (True, UpdateTraceContentHeader CONTENT_TYPE_CPU_RAW (of_int writeLen) w2,
                        ReleaseTaskBlocks taskId m)))"


section \<open>What is captured\<close>

text \<open>
  The pages that a run takes over, page by page and without the buffer: \<open>captured\<close> for the direct way,
  \<open>cached\<close> for the way through memory, which keeps the page after the window even if no page was inside.
\<close>

primrec captured :: "(bytes \<Rightarrow> bool) \<Rightarrow> TraceDumpRequest \<Rightarrow> nat \<Rightarrow> bool \<Rightarrow> bytes list \<Rightarrow> bytes" where
  "captured chk rq failed hit [] = []"
| "captured chk rq failed hit (p # ps) =
     (if p = [] then []
      else if page_time p > rq_end rq then (if hit then p else [])
      else if page_time p < rq_start rq then captured chk rq failed hit ps
      else let failed' = (if chk p then failed else Suc failed)
           in if failed' \<ge> 2 then p else p @ captured chk rq failed' True ps)"

primrec cached :: "(bytes \<Rightarrow> bool) \<Rightarrow> TraceDumpRequest \<Rightarrow> nat \<Rightarrow> bytes list \<Rightarrow> bytes" where
  "cached chk rq failed [] = []"
| "cached chk rq failed (p # ps) =
     (if p = [] then []
      else if page_time p > rq_end rq then p
      else if page_time p < rq_start rq then cached chk rq failed ps
      else let failed' = (if chk p then failed else Suc failed)
           in if failed' \<ge> 2 then p else p @ cached chk rq failed' ps)"

text \<open>
  The window of a request: the pages up to the first one after its end, of these the ones not before its
  start, and, if there are any, the page that follows them.
\<close>

definition window_hits :: "TraceDumpRequest \<Rightarrow> bytes list \<Rightarrow> bytes list" where
  "window_hits rq pages = filter (\<lambda>p. rq_start rq \<le> page_time p) (takeWhile (\<lambda>p. page_time p \<le> rq_end rq) pages)"

definition window :: "TraceDumpRequest \<Rightarrow> bytes list \<Rightarrow> bytes" where
  "window rq pages =
     (if window_hits rq pages = [] then []
      else concat (window_hits rq pages @ take 1 (dropWhile (\<lambda>p. page_time p \<le> rq_end rq) pages)))"

lemma cached_captured: "cached chk rq failed ps = captured chk rq failed True ps"
  by (induction ps arbitrary: failed) (simp_all add: Let_def)

lemma captured_hit:
  "[] \<notin> set ps \<Longrightarrow> captured (\<lambda>_. True) rq 0 True ps =
   concat (window_hits rq ps @ take 1 (dropWhile (\<lambda>p. page_time p \<le> rq_end rq) ps))"
proof (induction ps)
  case (Cons p ps)
  then show ?case by (auto simp: window_hits_def not_less not_le)
qed (simp add: window_hits_def)

lemma captured_window: "[] \<notin> set ps \<Longrightarrow> captured (\<lambda>_. True) rq 0 False ps = window rq ps"
proof (induction ps)
  case (Cons p ps)
  then show ?case using captured_hit [of ps rq]
    by (auto simp: window_def window_hits_def not_less not_le)
qed (simp add: window_def window_hits_def)

lemma cached_window: "[] \<notin> set ps \<Longrightarrow> window_hits rq ps \<noteq> [] \<Longrightarrow> cached (\<lambda>_. True) rq 0 ps = window rq ps"
  by (simp add: cached_captured captured_hit window_def)

lemmas page_valid = IsCurrentTracePageValid_def UpdateFirstLastPageTimeStamp_def

lemma raw_loop_captured:
  "ReadTracePipeRawLoop chk rq buf failed pf st ps = (b, e, f', pf', st', rest) \<Longrightarrow>
   b @ (if e then [] else captured chk rq f' pf' rest) = buf @ captured chk rq failed pf ps"
proof (induction ps arbitrary: buf failed pf st)
  case (Cons p ps)
  show ?case
  proof (cases "length buf \<le> BUFFER_SIZE - PAGE_SIZE \<and> p \<noteq> [] \<and> \<not> page_time p > rq_end rq")
    case True
    then show ?thesis using Cons.prems by (auto simp: page_valid Let_def split: if_splits prod.splits dest!: Cons.IH)
  next
    case False
    then show ?thesis using Cons.prems by (auto simp: page_valid Let_def split: if_splits)
  qed
qed (auto split: if_splits)


text \<open>A request whose file has no size limit.\<close>

definition unlimited :: "TraceDumpRequest \<Rightarrow> bool" where
  "unlimited rq \<longleftrightarrow> rq_type rq \<noteq> TRACE_RECORDING \<and> rq_type rq \<noteq> TRACE_CACHE \<or> \<not> rq_limitFileSz rq"

lemma unlimited_no_overflow [simp]: "unlimited rq \<Longrightarrow> \<not> IsWriteFileOverflow rq s n t"
  by (auto simp: unlimited_def IsWriteFileOverflow_def)

lemma pipe_loop_unfold:
  assumes "unlimited rq" "ReadTracePipeRawLoop chk rq [] failed pf st pages = (b, e, f1, pf1, st1, rest)"
    and "DoWriteTraceData b n w = (n1, w1)"
  shows "pipe_loop chk rq failed pf st pages r n w =
    (if e then (r + int (length b), n1, st1, w1) else pipe_loop chk rq f1 pf1 st1 rest (r + int (length b)) n1 w1)"
  using assms by (subst pipe_loop.simps) (simp add: Let_def)

lemma pipe_loop_captured:
  "unlimited rq \<Longrightarrow> behind w \<Longrightarrow> pipe_loop chk rq failed pf st pages r n w = (r', n', st', w') \<Longrightarrow>
    (n', w') = DoWriteTraceData (captured chk rq failed pf pages) n w \<and> r' = r + int (length (captured chk rq failed pf pages))"
proof (induction chk rq failed pf st pages r n w rule: pipe_loop.induct)
  case (1 chk rq failed pf st pages r n w)
  obtain b e f1 pf1 st1 rest where rd: "ReadTracePipeRawLoop chk rq [] failed pf st pages = (b, e, f1, pf1, st1, rest)"
    by (metis prod_cases6)
  obtain n1 w1 where d: "DoWriteTraceData b n w = (n1, w1)" by (cases "DoWriteTraceData b n w")
  have c: "b @ (if e then [] else captured chk rq f1 pf1 rest) = captured chk rq failed pf pages"
    using raw_loop_captured [OF rd] by simp
  show ?case
  proof (cases e)
    case True
    then show ?thesis using "1.prems"(3) pipe_loop_unfold [OF "1.prems"(1) rd d] c d by simp
  next
    case False
    have "pipe_loop chk rq f1 pf1 st1 rest (r + int (length b)) n1 w1 = (r', n', st', w')"
      using "1.prems"(3) pipe_loop_unfold [OF "1.prems"(1) rd d] False by simp
    then have "(n', w') = DoWriteTraceData (captured chk rq f1 pf1 rest) n1 w1 \<and>
        r' = r + int (length b) + int (length (captured chk rq f1 pf1 rest))"
      using "1.IH" [OF rd [symmetric] refl refl refl refl refl refl d [symmetric] refl] "1.prems"(1) False behind_DoWrite [OF "1.prems"(2) d] by simp
    moreover have "DoWriteTraceData (captured chk rq f1 pf1 rest) n1 w1 = DoWriteTraceData (b @ captured chk rq f1 pf1 rest) n w"
      using DoWrite_twice [OF "1.prems"(2), where a = b and n = n] d by simp
    moreover have "captured chk rq failed pf pages = b @ captured chk rq f1 pf1 rest" using c False by simp
    ultimately show ?thesis by simp
  qed
qed


text \<open>Without failing checks a run ends at the first page after the window or at the end of the pipe.\<close>

definition late_page :: "TraceDumpRequest \<Rightarrow> bytes list \<Rightarrow> bool" where
  "late_page rq pages = list_ex (\<lambda>p. rq_end rq < page_time p) pages"

lemma raw_loop_status:
  "ReadTracePipeRawLoop (\<lambda>_. True) rq buf 0 pf st ps = (b, e, f', pf', st', rest) \<Longrightarrow> [] \<notin> set ps \<Longrightarrow>
   f' = 0 \<and> (if e then dumpStatus st' = (if late_page rq ps then OUT_OF_TIME else SUCCESS)
      else [] \<notin> set rest \<and> late_page rq rest = late_page rq ps)"
proof (induction ps arbitrary: buf pf st)
  case (Cons p ps)
  show ?case
  proof (cases "length buf \<le> BUFFER_SIZE - PAGE_SIZE \<and> \<not> page_time p > rq_end rq")
    case True
    then show ?thesis using Cons.prems
      by (auto simp: late_page_def page_valid Let_def split: if_splits dest!: Cons.IH)
  next
    case False
    then show ?thesis using Cons.prems by (auto simp: late_page_def page_valid Let_def split: if_splits)
  qed
qed (auto simp: late_page_def split: if_splits)

lemma pipe_loop_status:
  "chk = (\<lambda>_. True) \<Longrightarrow> unlimited rq \<Longrightarrow> [] \<notin> set pages \<Longrightarrow> failed = 0 \<Longrightarrow>
   pipe_loop chk rq failed pf st pages r n w = (r', n', st', w') \<Longrightarrow>
   dumpStatus st' = (if late_page rq pages then OUT_OF_TIME else SUCCESS)"
proof (induction chk rq failed pf st pages r n w rule: pipe_loop.induct)
  case (1 chk rq failed pf st pages r n w)
  obtain b e f1 pf1 st1 rest where rd: "ReadTracePipeRawLoop chk rq [] failed pf st pages = (b, e, f1, pf1, st1, rest)"
    by (metis prod_cases6)
  obtain n1 w1 where d: "DoWriteTraceData b n w = (n1, w1)" by (cases "DoWriteTraceData b n w")
  note s = raw_loop_status [OF rd [unfolded \<open>chk = (\<lambda>_. True)\<close> \<open>failed = 0\<close>] "1.prems"(3)]
  show ?case
  proof (cases e)
    case True
    then show ?thesis using "1.prems"(5) pipe_loop_unfold [OF "1.prems"(2) rd d] s by simp
  next
    case False
    have "pipe_loop chk rq f1 pf1 st1 rest (r + int (length b)) n1 w1 = (r', n', st', w')"
      using "1.prems"(5) pipe_loop_unfold [OF "1.prems"(2) rd d] False by simp
    then show ?thesis
      using "1.IH" [OF rd [symmetric] refl refl refl refl refl refl d [symmetric] refl _ False] "1.prems"(1,2) False s by simp
  qed
qed

lemma IsFileExist_fields:
  "IsFileExist w0 = (e, w) \<Longrightarrow> cw_data w = cw_data w0 \<and> cw_pos w = cw_pos w0 \<and> cw_room w = cw_room w0"
  by (auto simp: IsFileExist_def Let_def split: if_splits)

text \<open>The direct way writes one section that holds the window, or as much of it as there is room for.\<close>

lemma raw_hm_written:
  assumes "cw_pos w = length (cw_data w)" "IsFileExist w0 = (True, w)" "HDR \<le> cw_room w"
    and "unlimited rq" "[] \<notin> set pages" "length (window rq pages) < 2 ^ 31"
  defines "c \<equiv> take (cw_room w - HDR) (window rq pages)"
  shows "\<exists>st'. TraceCpuRawHM_Write rq (Some pages) (st, w0) = (dumpStatus st' = SUCCESS, st', with_section CONTENT_TYPE_CPU_RAW c w) \<and>
    dumpStatus st' = (if window rq pages = [] then if late_page rq pages then OUT_OF_TIME else SUCCESS
      else if c = [] then WRITE_TRACE_INFO_ERROR else SUCCESS)"
proof -
  let ?t = CONTENT_TYPE_CPU_RAW
  have b: "behind w" "behind (put (empty_header ?t) w)" using assms(1) by (simp_all add: behind_def) (simp add: put_def empty_header_def)
  obtain r n st1 w2 where l: "pipe_loop (\<lambda>_. True) rq 0 False st pages 0 0 (put (empty_header ?t) w) = (r, n, st1, w2)"
    by (metis prod_cases4)
  have "captured (\<lambda>_. True) rq 0 False pages = window rq pages" using assms(5) by (rule captured_window)
  moreover have "cw_room (put (empty_header ?t) w) = cw_room w - HDR" by (simp add: empty_header_def)
  ultimately have p: "n = int (length c)" "w2 = put c (put (empty_header ?t) w)" "r = int (length (window rq pages))"
    using pipe_loop_captured [OF assms(4) b(2) l] DoWrite_behind [OF b(2), of "window rq pages" 0] by (simp_all add: c_def)
  have s: "dumpStatus st1 = (if late_page rq pages then OUT_OF_TIME else SUCCESS)"
    using pipe_loop_status [OF refl assms(4,5) refl l] .
  have "length c < 2 ^ 31" using assms(6) by (simp add: c_def)
  then have u: "UpdateTraceContentHeader ?t (of_int n) w2 = with_section ?t c w"
    using update_header [OF assms(1), of c ?t] p by simp
  show ?thesis
    using assms(2) header_written [OF b(1) assms(3), of ?t] l u s
    by (auto simp: TraceCpuRawHM_Write_def WriteTracePipeRawData_def Let_def p c_def split: if_splits)
qed


section \<open>What is kept in memory\<close>

lemma Append_fits:
  assumes "block_wf sz b" "length (block_content b) + length p \<le> sz"
  shows "block_wf sz (snd (Append p b)) \<and> block_content (snd (Append p b)) = block_content b @ p"
  using Append_refines [OF assms(1), of p "fst (Append p b)" "snd (Append p b)"] assms(2) by simp

text \<open>
  A block takes the pages of \<open>cached\<close> and counts the bytes of \<open>captured\<close>; it is left only when it has no
  room for another page.
\<close>

lemma copy_block_spec:
  assumes "PAGE_SIZE \<le> sz"
  shows "copy_block chk rq sz b n f pf st ps = (b', n', e, f', pf', st', rest) \<Longrightarrow>
    block_wf sz b \<Longrightarrow> n = length (block_content b) \<Longrightarrow> list_all (\<lambda>p. length p \<le> PAGE_SIZE) ps \<Longrightarrow>
    block_wf sz b' \<and> block_content b' @ (if e then [] else cached chk rq f' rest) = block_content b @ cached chk rq f ps \<and>
    n' + (if e then 0 else length (captured chk rq f' pf' rest)) = n + length (captured chk rq f pf ps) \<and>
    (e \<or> sz - PAGE_SIZE < length (block_content b') \<and> list_all (\<lambda>p. length p \<le> PAGE_SIZE) rest)"
proof (induction ps arbitrary: b n f pf st)
  case (Cons p ps)
  show ?case
  proof (cases "n \<le> sz - PAGE_SIZE \<and> p \<noteq> []")
    case True
    have fits: "block_wf sz (snd (Append p b))" "block_content (snd (Append p b)) = block_content b @ p"
      using Append_fits [OF Cons.prems(2), of p] Cons.prems(3,4) True assms by auto
    obtain st1 where u: "UpdateFirstLastPageTimeStamp (page_time p) pf st = (True, st1)"
      by (cases pf) (auto simp: UpdateFirstLastPageTimeStamp_def Let_def)
    let ?f = "if chk p then f else Suc f"
    consider (late) "rq_end rq < page_time p" | (early) "\<not> rq_end rq < page_time p" "page_time p < rq_start rq"
      | (stop) "\<not> rq_end rq < page_time p" "\<not> page_time p < rq_start rq" "?f \<ge> 2"
      | (more) "\<not> rq_end rq < page_time p" "\<not> page_time p < rq_start rq" "\<not> ?f \<ge> 2" by blast
    then show ?thesis
    proof cases
      case late
      then show ?thesis using Cons.prems(1) True fits by (auto simp: page_valid)
    next
      case early
      then show ?thesis using Cons.prems True Cons.IH [of b n f pf st] by (simp add: page_valid)
    next
      case stop
      then show ?thesis using Cons.prems(1) True fits u by (auto simp: IsCurrentTracePageValid_def Let_def)
    next
      case more
      have "copy_block chk rq sz (snd (Append p b)) (n + length p) ?f True st1 ps = (b', n', e, f', pf', st', rest)"
        using Cons.prems(1) True more u by (auto simp: IsCurrentTracePageValid_def Let_def)
      moreover have "n + length p = length (block_content (snd (Append p b)))" "list_all (\<lambda>p. length p \<le> PAGE_SIZE) ps"
        using Cons.prems(3,4) fits(2) by simp_all
      ultimately have ih: "block_wf sz b' \<and>
          block_content b' @ (if e then [] else cached chk rq f' rest) = block_content b @ p @ cached chk rq ?f ps \<and>
          n' + (if e then 0 else length (captured chk rq f' pf' rest)) = n + length p + length (captured chk rq ?f True ps) \<and>
          (e \<or> sz - PAGE_SIZE < length (block_content b') \<and> list_all (\<lambda>p. length p \<le> PAGE_SIZE) rest)"
        using Cons.IH [OF _ fits(1)] fits(2) by (metis append_assoc)
      have "cached chk rq f (p # ps) = p @ cached chk rq ?f ps" "captured chk rq f pf (p # ps) = p @ captured chk rq ?f True ps"
        using True more by (simp_all add: Let_def)
      then show ?thesis using ih by (simp only: length_append add.assoc)
    qed
  next
    case False
    show ?thesis
    proof (cases "n \<le> sz - PAGE_SIZE")
      case True
      then show ?thesis using Cons.prems(1,2) False by auto
    next
      case False
      then have "b' = b" "n' = n" "\<not> e" "f' = f" "pf' = pf" "rest = p # ps"
        using Cons.prems(1) copy_block_full [OF False, of chk rq b f pf st "p # ps"] by auto
      then show ?thesis using Cons.prems(2-4) False by (simp only: if_False simp_thms not_le)
    qed
  qed
next
  case Nil
  then show ?case by (cases "n \<le> sz - PAGE_SIZE") auto
qed


text \<open>The manager with more blocks for a task.\<close>

definition with_blocks :: "u64 \<Rightarrow> BufferBlock list \<Rightarrow> TraceBufferManager \<Rightarrow> TraceBufferManager" where
  "with_blocks i bs m = m\<lparr>curTotalSz := curTotalSz m + length bs * blockSz m,
     taskBuffers := (taskBuffers m)(i \<mapsto> task_list m i @ bs)\<rparr>"

lemma with_blocks_twice: "with_blocks i bs (with_blocks i as m) = with_blocks i (as @ bs) m"
  by (simp add: with_blocks_def task_list_def algebra_simps)

lemma with_blocks_sizes [simp]: "blockSz (with_blocks i bs m) = blockSz m" "maxTotalSz (with_blocks i bs m) = maxTotalSz m"
  "curTotalSz (with_blocks i bs m) = curTotalSz m + length bs * blockSz m"
  by (simp_all add: with_blocks_def)

lemma with_blocks_task: "task_list (with_blocks i bs m) i = task_list m i @ bs"
  by (simp add: with_blocks_def task_list_def)

lemma release_with_blocks: "taskBuffers m i = None \<Longrightarrow> ReleaseTaskBlocks i (with_blocks i bs m) = m"
  by (simp add: ReleaseTaskBlocks_def with_blocks_def task_list_def fun_upd_idem)

lemma CopyLoop_spec:
  assumes "PAGE_SIZE \<le> blockSz m" "curTotalSz m + blockSz m \<le> maxTotalSz m" "list_all (\<lambda>p. length p \<le> PAGE_SIZE) pages"
    and "CopyTracePipeRawLoop chk rq cpu l f pf st pages m = (e, l', f', pf', st', rest, m')"
  shows "\<exists>b. m' = with_blocks (rq_taskId rq) [b] m \<and> block_wf (blockSz m) b \<and>
    block_content b @ (if e then [] else cached chk rq f' rest) = cached chk rq f pages \<and>
    l' + int (if e then 0 else length (captured chk rq f' pf' rest)) = l + int (length (captured chk rq f pf pages)) \<and>
    (e \<or> blockSz m - PAGE_SIZE < length (block_content b) \<and> list_all (\<lambda>p. length p \<le> PAGE_SIZE) rest)"
proof -
  let ?b = "BufferBlock_new cpu (blockSz m)"
  obtain b n where c: "copy_block chk rq (blockSz m) ?b 0 f pf st pages = (b, n, e, f', pf', st', rest)" "l' = l + int n"
    "m' = with_blocks (rq_taskId rq) [b] m"
    using assms(2,4) by (auto simp: CopyTracePipeRawLoop_def AllocateBlock_def TryAllocateMemorySpace_def Let_def GetBlockSize_def
        put_last_def push_block_def with_blocks_def task_list_def split: prod.splits)
  then show ?thesis using copy_block_spec [OF assms(1) c(1)] assms(3) by (intro exI [of _ b]) auto
qed

text \<open>The number of blocks that surely suffice: all but the last hold more than a block less a page.\<close>

definition blocks_needed :: "nat \<Rightarrow> bytes \<Rightarrow> nat" where
  "blocks_needed sz c = length c div Suc (sz - PAGE_SIZE) + 1"

lemma blocks_needed_less:
  assumes "sz - PAGE_SIZE < length a"
  shows "blocks_needed sz c + 1 \<le> blocks_needed sz (a @ c)"
proof -
  define k where "k = Suc (sz - PAGE_SIZE)"
  have "(k + length c) div k \<le> length (a @ c) div k" using assms by (intro div_le_mono) (simp add: k_def)
  moreover have "(k + length c) div k = length c div k + 1" by (subst div_add_self1) (simp_all add: k_def)
  ultimately show ?thesis by (simp add: blocks_needed_def flip: k_def)
qed

lemma cache_loop_spec:
  "PAGE_SIZE \<le> blockSz m \<Longrightarrow> list_all (\<lambda>p. length p \<le> PAGE_SIZE) pages \<Longrightarrow>
   curTotalSz m + blocks_needed (blockSz m) (cached chk rq f pages) * blockSz m \<le> maxTotalSz m \<Longrightarrow>
   cache_loop chk rq cpu l f pf st pages m = (l', st', m') \<Longrightarrow>
   l' = l + int (length (captured chk rq f pf pages)) \<and>
   (\<exists>bs. m' = with_blocks (rq_taskId rq) bs m \<and> concat (map block_content bs) = cached chk rq f pages)"
proof (induction chk rq cpu l f pf st pages m rule: cache_loop.induct)
  case (1 chk rq cpu l f pf st pages m)
  obtain e l1 f1 pf1 st1 rest m1 where c: "CopyTracePipeRawLoop chk rq cpu l f pf st pages m = (e, l1, f1, pf1, st1, rest, m1)"
    by (metis prod_cases7)
  have "curTotalSz m + blockSz m \<le> maxTotalSz m" using "1.prems"(3) by (simp add: blocks_needed_def)
  from CopyLoop_spec [OF "1.prems"(1) this "1.prems"(2) c]
  obtain b where b: "m1 = with_blocks (rq_taskId rq) [b] m"
    "block_content b @ (if e then [] else cached chk rq f1 rest) = cached chk rq f pages"
    "l1 + int (if e then 0 else length (captured chk rq f1 pf1 rest)) = l + int (length (captured chk rq f pf pages))"
    "e \<or> blockSz m - PAGE_SIZE < length (block_content b) \<and> list_all (\<lambda>p. length p \<le> PAGE_SIZE) rest" by blast
  have unfold: "cache_loop chk rq cpu l f pf st pages m = (if e then (l1, st1, m1) else cache_loop chk rq cpu l1 f1 pf1 st1 rest m1)"
    using c by (subst cache_loop.simps) simp
  show ?case
  proof (cases e)
    case True
    then show ?thesis using unfold b "1.prems"(4) by (intro conjI exI [of _ "[b]"]) auto
  next
    case False
    then have "blocks_needed (blockSz m) (cached chk rq f1 rest) + 1 \<le> blocks_needed (blockSz m) (cached chk rq f pages)"
      using blocks_needed_less [of "blockSz m" "block_content b" "cached chk rq f1 rest"] b(2,4) by simp
    then have "(blocks_needed (blockSz m) (cached chk rq f1 rest) + 1) * blockSz m \<le> blocks_needed (blockSz m) (cached chk rq f pages) * blockSz m"
      by (rule mult_le_mono1)
    then have "curTotalSz m1 + blocks_needed (blockSz m1) (cached chk rq f1 rest) * blockSz m1 \<le> maxTotalSz m1"
      using "1.prems"(3) b(1) by simp
    then obtain bs where "l' = l1 + int (length (captured chk rq f1 pf1 rest))" "m' = with_blocks (rq_taskId rq) bs m1"
      "concat (map block_content bs) = cached chk rq f1 rest"
      using "1.IH" [OF c [symmetric] refl refl refl refl refl refl False] "1.prems"(1,4) b(1,4) unfold False by auto
    then show ?thesis using b False by (intro conjI exI [of _ "b # bs"]) (auto simp: with_blocks_twice)
  qed
qed


lemma write_blocks_hm_concat:
  "behind w \<Longrightarrow> fold (\<lambda>b (n, w). DoWriteTraceData (block_content b) n w) bs (n, w) =
   DoWriteTraceData (concat (map block_content bs)) n w"
proof (induction bs arbitrary: n w)
  case (Cons b bs)
  obtain n' w' where d: "DoWriteTraceData (block_content b) n w = (n', w')" by (cases "DoWriteTraceData (block_content b) n w")
  then show ?case
    using Cons.IH [OF behind_DoWrite [OF Cons.prems d], of n']
      DoWrite_twice [OF Cons.prems, where a = "block_content b" and n = n and b = "concat (map block_content bs)"] by simp
qed simp

lemma write_hm_written:
  assumes "cw_pos w = length (cw_data w)" "IsFileExist w0 = (True, w)" "HDR \<le> cw_room w" "length (task_content taskId m) < 2 ^ 31"
  shows "TraceCpuRawWriteHM_Write taskId (w0, m) =
    (True, with_section CONTENT_TYPE_CPU_RAW (take (cw_room w - HDR) (task_content taskId m)) w, ReleaseTaskBlocks taskId m)"
proof -
  let ?t = CONTENT_TYPE_CPU_RAW and ?c = "take (cw_room w - HDR) (task_content taskId m)"
  have b: "behind w" "behind (put (empty_header ?t) w)" using assms(1) by (simp_all add: behind_def) (simp add: put_def empty_header_def)
  have "write_blocks_hm (GetTaskBuffers taskId m) (put (empty_header ?t) w) = (int (length ?c), put ?c (put (empty_header ?t) w))"
    using write_blocks_hm_concat [OF b(2), of "task_list m taskId" 0] DoWrite_behind [OF b(2), of "task_content taskId m" 0]
    by (simp add: write_blocks_hm_def GetTaskBuffers_def task_content_def empty_header_def)
  moreover have "length ?c < 2 ^ 31" using assms(4) by simp
  ultimately show ?thesis using assms(2) header_written [OF b(1) assms(3), of ?t] update_header [OF assms(1), of ?c ?t]
    by (simp add: TraceCpuRawWriteHM_Write_def)
qed

lemma read_hm_stored:
  assumes "PAGE_SIZE \<le> blockSz m" "list_all (\<lambda>p. length p \<le> PAGE_SIZE) pages" "[] \<notin> set pages" "window_hits rq pages \<noteq> []"
    and "curTotalSz m + blocks_needed (blockSz m) (window rq pages) * blockSz m \<le> maxTotalSz m"
  shows "\<exists>st' bs. TraceCpuRawReadHM_Write rq (Some pages) (st, m) = (True, st', with_blocks (rq_taskId rq) bs m) \<and>
    concat (map block_content bs) = window rq pages"
proof -
  obtain l st1 m1 where c: "cache_loop (\<lambda>_. True) rq 0 0 0 False st pages m = (l, st1, m1)" by (metis prod_cases3)
  have w: "cached (\<lambda>_. True) rq 0 pages = window rq pages" using assms(3,4) by (rule cached_window)
  obtain p where "p \<in> set (window_hits rq pages)" using assms(4) by (cases "window_hits rq pages") auto
  then have "p \<noteq> []" "set p \<subseteq> set (window rq pages)" using assms(3,4) by (auto simp: window_hits_def window_def dest: set_takeWhileD)
  then have "window rq pages \<noteq> []" by auto
  moreover obtain bs where "l = int (length (window rq pages))" "m1 = with_blocks (rq_taskId rq) bs m" "concat (map block_content bs) = window rq pages"
    using cache_loop_spec [OF assms(1,2) _ c] assms(5) captured_window [OF assms(3), of rq] w by auto
  ultimately show ?thesis using c by (simp add: TraceCpuRawReadHM_Write_def CacheTracePipeRawData_def release_on_failure_def) blast
qed


section \<open>The two ways agree\<close>

text \<open>C18: On HongMeng a dump without size limit adds one section of raw pages to the file: the pages whose
time lies in the requested window, in order, up to the first page after the window, which is added as
well if any page was inside; all cut only by the space on the device. The dump reports success exactly
if some page was inside or the pipe ended without a page after the window.\<close>

theorem raw_window_section:
  assumes "cw_pos w = length (cw_data w)" "FILE_HDR \<le> length (cw_data w)" "file_sections w = Some ss"
    and "IsFileExist w0 = (True, w)" "HDR < cw_room w"
    and "unlimited rq" "[] \<notin> set pages" "length (window rq pages) < 2 ^ 31"
    and "TraceCpuRawHM_Write rq (Some pages) (st, w0) = (ok, st', w')"
  shows "file_sections w' = Some (ss @ [(CONTENT_TYPE_CPU_RAW, take (cw_room w - HDR) (window rq pages))]) \<and>
    cw_pos w' = length (cw_data w') \<and> (ok \<longleftrightarrow> window rq pages \<noteq> [] \<or> \<not> late_page rq pages)"
proof -
  let ?c = "take (cw_room w - HDR) (window rq pages)"
  have h: "HDR \<le> cw_room w" using assms(5) by simp
  obtain st1 where "TraceCpuRawHM_Write rq (Some pages) (st, w0) = (dumpStatus st1 = SUCCESS, st1, with_section CONTENT_TYPE_CPU_RAW ?c w)"
    "dumpStatus st1 = (if window rq pages = [] then if late_page rq pages then OUT_OF_TIME else SUCCESS
      else if ?c = [] then WRITE_TRACE_INFO_ERROR else SUCCESS)"
    using raw_hm_written [OF assms(1,4) h assms(6-8), of st] by blast
  then have w': "w' = with_section CONTENT_TYPE_CPU_RAW ?c w" "ok \<longleftrightarrow> window rq pages \<noteq> [] \<or> \<not> late_page rq pages"
    using assms(5,9) by (auto split: if_splits)
  have "length ?c < 2 ^ 32" using assms(8) by simp
  from file_sections_append [OF assms(2,3) _ this, of w'] w' assms(1) show ?thesis by (simp add: with_section_def)
qed

definition sample_page :: "u8 \<Rightarrow> bytes" where "sample_page t = [t, 0, 0, 0, 0, 0, 0, 0, 9]"

definition sample_request :: TraceDumpRequest where
  "sample_request = TraceDumpRequest_default\<lparr>rq_start := 4, rq_end := 6, rq_taskId := 1\<rparr>"

lemma sample_window:
  "window sample_request [sample_page 3, sample_page 5, sample_page 7, sample_page 8] = sample_page 5 @ sample_page 7"
  "window_hits sample_request [sample_page 3, sample_page 5, sample_page 7, sample_page 8] = [sample_page 5]"
  by (simp_all add: window_def window_hits_def sample_page_def sample_request_def page_time_def TraceDumpRequest_default_def
      push_bit_eq_mult)

lemma sample_world:
  "cw_pos sample_content = length (cw_data sample_content)" "FILE_HDR \<le> length (cw_data sample_content)"
  "file_sections sample_content = Some []" "IsFileExist (sample_content\<lparr>g_writeFileLimit := 0\<rparr>) = (True, sample_content)"
  "HDR < cw_room sample_content" "cw_room sample_content - HDR = 92"
  by (simp_all add: sample_content_def file_header_bytes_def TraceFileHeader_default_def le16_def le32_def FILE_HDR_def
      file_sections_def parse_sections.simps [of "[]"] IsFileExist_def JUDGE_FILE_EXIST_def HDR_def)

theorem raw_window_section_witness:
  "file_sections (snd (snd (TraceCpuRawHM_Write sample_request (Some [sample_page 3, sample_page 5, sample_page 7, sample_page 8])
     (raw_state_init, sample_content\<lparr>g_writeFileLimit := 0\<rparr>)))) = Some [(4, sample_page 5 @ sample_page 7)]"
proof -
  let ?ps = "[sample_page 3, sample_page 5, sample_page 7, sample_page 8]"
  obtain ok st' w' where r: "TraceCpuRawHM_Write sample_request (Some ?ps) (raw_state_init, sample_content\<lparr>g_writeFileLimit := 0\<rparr>) = (ok, st', w')"
    by (metis prod_cases3)
  have "unlimited sample_request" "[] \<notin> set ?ps" "length (window sample_request ?ps) < 2 ^ 31"
    unfolding sample_window by (simp_all add: unlimited_def sample_request_def TraceDumpRequest_default_def sample_page_def)
  from raw_window_section [OF sample_world(1-5) this r] r show ?thesis
    unfolding sample_window sample_world by (simp add: CONTENT_TYPE_CPU_RAW_def sample_page_def)
qed

text \<open>C5: An asynchronous dump writes what a direct dump writes: reading the pages into memory and writing
the memory to the file later leaves the same file as writing straight from the pipe, provided a page
is inside the window and the memory suffices, and afterwards the memory is as it was before.\<close>

theorem async_dump_equals_sync:
  assumes "cw_pos w = length (cw_data w)" "IsFileExist w0 = (True, w)" "HDR < cw_room w"
    and "unlimited rq" "[] \<notin> set pages" "list_all (\<lambda>p. length p \<le> PAGE_SIZE) pages" "length (window rq pages) < 2 ^ 31"
    and "window_hits rq pages \<noteq> []" "PAGE_SIZE \<le> blockSz m" "taskBuffers m (rq_taskId rq) = None"
    and "curTotalSz m + blocks_needed (blockSz m) (window rq pages) * blockSz m \<le> maxTotalSz m"
    and "TraceCpuRawReadHM_Write rq (Some pages) (st, m) = (ok1, st1, m1)"
    and "TraceCpuRawWriteHM_Write (rq_taskId rq) (w0, m1) = (ok2, w2, m2)"
  shows "ok1 \<and> ok2 \<and> m2 = m \<and> w2 = snd (snd (TraceCpuRawHM_Write rq (Some pages) (st, w0)))"
proof -
  have h: "HDR \<le> cw_room w" using assms(3) by simp
  obtain bs where bs: "ok1" "m1 = with_blocks (rq_taskId rq) bs m" "concat (map block_content bs) = window rq pages"
    using read_hm_stored [OF assms(9,6,5,8,11), of st] assms(12) by auto
  have "task_content (rq_taskId rq) m1 = window rq pages"
    using bs assms(10) by (simp add: task_content_def with_blocks_task) (simp add: task_list_def)
  then have "ok2" "w2 = with_section CONTENT_TYPE_CPU_RAW (take (cw_room w - HDR) (window rq pages)) w" "m2 = ReleaseTaskBlocks (rq_taskId rq) m1"
    using write_hm_written [OF assms(1,2) h, of "rq_taskId rq" m1] assms(7,13) by auto
  moreover have "m2 = m" using calculation(3) bs(2) release_with_blocks [OF assms(10)] by simp
  ultimately show ?thesis using bs(1) raw_hm_written [OF assms(1,2) h assms(4,5,7), of st] by auto
qed

theorem async_dump_equals_sync_witness:
  "fst (snd (TraceCpuRawWriteHM_Write 1 (sample_content\<lparr>g_writeFileLimit := 0\<rparr>,
     snd (snd (TraceCpuRawReadHM_Write sample_request (Some [sample_page 3, sample_page 5, sample_page 7, sample_page 8])
       (raw_state_init, TraceBufferManager_new)))))) =
   snd (snd (TraceCpuRawHM_Write sample_request (Some [sample_page 3, sample_page 5, sample_page 7, sample_page 8])
     (raw_state_init, sample_content\<lparr>g_writeFileLimit := 0\<rparr>)))"
proof -
  let ?ps = "[sample_page 3, sample_page 5, sample_page 7, sample_page 8]"
  obtain ok1 st1 m1 where r: "TraceCpuRawReadHM_Write sample_request (Some ?ps) (raw_state_init, TraceBufferManager_new) = (ok1, st1, m1)"
    by (metis prod_cases3)
  obtain ok2 w2 m2 where r2: "TraceCpuRawWriteHM_Write (rq_taskId sample_request) (sample_content\<lparr>g_writeFileLimit := 0\<rparr>, m1) = (ok2, w2, m2)"
    by (metis prod_cases3)
  have "unlimited sample_request" "[] \<notin> set ?ps" "list_all (\<lambda>p. length p \<le> PAGE_SIZE) ?ps" "length (window sample_request ?ps) < 2 ^ 31"
    "window_hits sample_request ?ps \<noteq> []" "PAGE_SIZE \<le> blockSz TraceBufferManager_new"
    "taskBuffers TraceBufferManager_new (rq_taskId sample_request) = None"
    "curTotalSz TraceBufferManager_new + blocks_needed (blockSz TraceBufferManager_new) (window sample_request ?ps) * blockSz TraceBufferManager_new
      \<le> maxTotalSz TraceBufferManager_new"
    unfolding sample_window by (simp_all add: unlimited_def sample_request_def TraceDumpRequest_default_def sample_page_def
      PAGE_SIZE_def TraceBufferManager_new_def DEFAULT_BLOCK_SZ_def DEFAULT_MAX_TOTAL_SZ_def blocks_needed_def)
  from async_dump_equals_sync [OF sample_world(1,4,5) this r r2] r r2 show ?thesis by (simp add: sample_request_def)
qed

end
