(* ===== verification/Dump_Strategy.thy ===== *)
theory Dump_Strategy
  imports Raw_Trace Dump_State
begin

text \<open>
  How a trace file is put together: the source factories of
  \<^verbatim>\<open>frameworks/trace_factory/trace_source_factory.cpp\<close>, the strategies of
  \<^verbatim>\<open>frameworks/tracedump_executor/trace_dump_strategy.cpp\<close> and their registry
  \<^verbatim>\<open>trace_strategy_factory.cpp\<close>. The template method \<^verbatim>\<open>Execute\<close> writes the file header, the base
  information and the event formats, then the raw pages by the core of the strategy, then the command
  lines, thread groups, header page and print formats, and starts again with a new file when the file has
  disappeared, at most five times.
\<close>

section \<open>What one pass finds\<close>

text \<open>
  The kernel and the clock as one pass of the loop in \<^verbatim>\<open>Execute\<close> sees them. \<open>de_raw\<close> has one pipe for each
  cpu, of which HongMeng uses the first; \<open>de_rounds\<close> are the rounds of a recording or caching loop until
  the loop is ended from outside. \<open>de_exists\<close>, \<open>de_after\<close> and \<open>de_again\<close> say whether the file can be
  found by its path during the pass, after a failed core, and at the loop condition; \<open>de_open1\<close> and
  \<open>de_open2\<close> give the space for the new file that is opened there, if it can be opened.
\<close>

record raw_round =
  rd_srcs :: "bytes list option list"
  rd_start :: u64
  rd_end :: u64
  rd_interrupt :: bool

record dump_env =
  de_is64 :: bool
  de_cpus :: int
  de_chk :: "bytes \<Rightarrow> bool"
  de_kernel :: string
  de_unixMs :: u64
  de_bootNs :: u64
  de_inline :: bool
  de_formats :: "bytes list option list"
  de_savedFormats :: "bytes list option"
  de_filter :: "filter_context option"
  de_cmdlines :: "bytes list option"
  de_proc :: "(string \<times> bool) list option"
  de_status :: "string \<Rightarrow> string list option"
  de_tgids :: "bytes list option"
  de_headerPage :: "bytes list option"
  de_printk :: "bytes list option"
  de_raw :: "bytes list option list"
  de_rounds :: "raw_round list"
  de_files :: file_env
  de_exists :: bool
  de_after :: bool
  de_again :: bool
  de_open1 :: "nat option"
  de_open2 :: "nat option"

section \<open>The source factory\<close>

text \<open>
  \<^verbatim>\<open>ITraceSourceFactory\<close>: the file that is being written and its path. A file that could not be opened is
  one without room: every write to it fails and nothing is stored.
\<close>

record source_factory =
  sf_hm :: bool
  sf_path :: string
  sf_file :: content_world

definition fresh_file :: "nat \<Rightarrow> content_world \<Rightarrow> content_world" where
  "fresh_file room w = w\<lparr>cw_data := [], cw_pos := 0, cw_room := room, cw_exists := True\<rparr>"

definition ITraceSourceFactory :: "bool \<Rightarrow> string \<Rightarrow> nat option \<Rightarrow> content_world \<Rightarrow> source_factory" where
  "ITraceSourceFactory hm path opened globals =
     \<lparr>sf_hm = hm, sf_path = path,
      sf_file = fresh_file (if path = [] then 0 else case opened of None \<Rightarrow> 0 | Some room \<Rightarrow> room) globals\<rparr>"

text \<open>\<^verbatim>\<open>UpdateTraceFile\<close> keeps the old file and path when the new one cannot be opened.\<close>

definition UpdateTraceFile :: "nat option \<Rightarrow> string \<Rightarrow> source_factory \<Rightarrow> bool \<times> source_factory" where
  "UpdateTraceFile opened path f =
     (case opened of None \<Rightarrow> (False, f)
      | Some room \<Rightarrow> (True, f\<lparr>sf_path := path, sf_file := fresh_file room (sf_file f)\<rparr>))"

definition GetTraceFilePath :: "source_factory \<Rightarrow> string" where
  "GetTraceFilePath f = sf_path f"

text \<open>The writers the two factories hand out, on the file of the factory.\<close>

definition GetTraceFileHeader :: "dump_env \<Rightarrow> source_factory \<Rightarrow> bool \<times> source_factory" where
  "GetTraceFileHeader e f =
     (let (ok, w) = (if sf_hm f then TraceFileHdrHM_Write (de_is64 e) (de_cpus e) (sf_file f)
                     else TraceFileHdrLinux_Write (de_is64 e) (de_cpus e) (sf_file f)) in (ok, f\<lparr>sf_file := w\<rparr>))"

definition GetTraceBaseInfo :: "dump_env \<Rightarrow> source_factory \<Rightarrow> bool \<times> source_factory" where
  "GetTraceBaseInfo e f =
     (let (ok, w) = TraceBaseInfo_Write (de_kernel e) (de_unixMs e) (de_bootNs e) (sf_file f) in (ok, f\<lparr>sf_file := w\<rparr>))"

text \<open>\<^verbatim>\<open>CheckPage\<close> always holds on HongMeng.\<close>

definition page_check :: "dump_env \<Rightarrow> source_factory \<Rightarrow> bytes \<Rightarrow> bool" where
  "page_check e f = (if sf_hm f then (\<lambda>_. True) else de_chk e)"

definition GetTraceEventFmt :: "dump_env \<Rightarrow> source_factory \<Rightarrow> bool \<times> source_factory" where
  "GetTraceEventFmt e f =
     (let (ok, w) = TraceEventFmt_Write (de_inline e) (de_formats e) (page_check e f) (de_savedFormats e) (sf_file f)
      in (ok, f\<lparr>sf_file := w\<rparr>))"

definition GetTraceCmdLines :: "dump_env \<Rightarrow> source_factory \<Rightarrow> bool \<times> source_factory" where
  "GetTraceCmdLines e f =
     (let (ok, w) = TraceCmdLines_Write (de_filter e) (page_check e f) (de_cmdlines e) (de_proc e) (de_status e) (sf_file f)
      in (ok, f\<lparr>sf_file := w\<rparr>))"

definition GetTraceTgids :: "dump_env \<Rightarrow> source_factory \<Rightarrow> bool \<times> source_factory" where
  "GetTraceTgids e f =
     (let (ok, w) = TraceTgids_Write (de_filter e) (page_check e f) (de_tgids e) (sf_file f) in (ok, f\<lparr>sf_file := w\<rparr>))"

definition GetTraceHeaderPage :: "dump_env \<Rightarrow> source_factory \<Rightarrow> bool \<times> source_factory" where
  "GetTraceHeaderPage e f =
     (let (ok, w) = TraceHeaderPage_Write (sf_hm f) (page_check e f) (de_headerPage e) (sf_file f) in (ok, f\<lparr>sf_file := w\<rparr>))"

definition GetTracePrintkFmt :: "dump_env \<Rightarrow> source_factory \<Rightarrow> bool \<times> source_factory" where
  "GetTracePrintkFmt e f =
     (let (ok, w) = TracePrintkFmt_Write (sf_hm f) (page_check e f) (de_printk e) (sf_file f) in (ok, f\<lparr>sf_file := w\<rparr>))"

definition hm_pipe :: "bytes list option list \<Rightarrow> bytes list option" where
  "hm_pipe srcs = (case srcs of [] \<Rightarrow> None | s # _ \<Rightarrow> s)"

definition GetTraceCpuRaw ::
  "dump_env \<Rightarrow> TraceDumpRequest \<Rightarrow> bytes list option list \<Rightarrow> raw_state \<times> source_factory \<Rightarrow> bool \<times> raw_state \<times> source_factory" where
  "GetTraceCpuRaw e rq srcs s =
     (let (st, f) = s;
          (ok, st', w) = (if sf_hm f then TraceCpuRawHM_Write rq (hm_pipe srcs) (st, sf_file f)
                          else TraceCpuRawLinux_Write (page_check e f) rq srcs (st, sf_file f))
      in (ok, st', f\<lparr>sf_file := w\<rparr>))"

definition GetTraceCpuRawRead ::
  "dump_env \<Rightarrow> TraceDumpRequest \<Rightarrow> bool \<Rightarrow> raw_state \<times> TraceBufferManager \<Rightarrow> bool \<times> raw_state \<times> TraceBufferManager" where
  "GetTraceCpuRawRead e rq hm s =
     (if hm then TraceCpuRawReadHM_Write rq (hm_pipe (de_raw e)) s else TraceCpuRawReadLinux_Write (de_chk e) rq (de_raw e) s)"

definition GetTraceCpuRawWrite :: "u64 \<Rightarrow> source_factory \<times> TraceBufferManager \<Rightarrow> bool \<times> source_factory \<times> TraceBufferManager" where
  "GetTraceCpuRawWrite taskId s =
     (let (f, m) = s;
          (ok, w, m') = (if sf_hm f then TraceCpuRawWriteHM_Write taskId (sf_file f, m)
                         else TraceCpuRawWriteLinux_Write taskId (sf_file f, m))
      in (ok, f\<lparr>sf_file := w\<rparr>, m'))"


section \<open>Before and after the raw pages\<close>

text \<open>\<^verbatim>\<open>SafeWriteTraceContent\<close> logs a failure and goes on.\<close>

definition SafeWriteTraceContent :: "(source_factory \<Rightarrow> bool \<times> source_factory) \<Rightarrow> source_factory \<Rightarrow> source_factory" where
  "SafeWriteTraceContent component f = snd (component f)"

definition OnPre :: "dump_env \<Rightarrow> source_factory \<Rightarrow> source_factory" where
  "OnPre e f =
     (let f1 = f\<lparr>sf_file := ResetCurrentFileSize (sf_file f)\<rparr>;
          f2 = SafeWriteTraceContent (GetTraceFileHeader e) f1;
          f3 = SafeWriteTraceContent (GetTraceBaseInfo e) f2
      in SafeWriteTraceContent (GetTraceEventFmt e) f3)"

definition OnPost :: "dump_env \<Rightarrow> source_factory \<Rightarrow> source_factory" where
  "OnPost e f =
     (let f1 = SafeWriteTraceContent (GetTraceCmdLines e) f;
          f2 = SafeWriteTraceContent (GetTraceTgids e) f1;
          f3 = SafeWriteTraceContent (GetTraceHeaderPage e) f2
      in SafeWriteTraceContent (GetTracePrintkFmt e) f3)"

section \<open>The cores\<close>

definition TraceDumpRet_default :: TraceDumpRet where
  "TraceDumpRet_default = \<lparr>ret_code = UNSET, ret_outputFile = [], ret_fileSize = 0, ret_traceStartTime = 0, ret_traceEndTime = 0\<rparr>"

text \<open>\<^verbatim>\<open>strncpy_s\<close> into the array of \<^verbatim>\<open>TRACE_FILE_LEN\<close> bytes cuts a longer name and does not fail.\<close>

definition core_result :: "raw_state \<Rightarrow> source_factory \<Rightarrow> TraceDumpRet \<Rightarrow> TraceDumpRet" where
  "core_result st f ret = ret\<lparr>ret_code := dumpStatus st, ret_traceStartTime := firstPageTimeStamp st,
     ret_traceEndTime := lastPageTimeStamp st, ret_outputFile := take (TRACE_FILE_LEN - 1) (sf_path f)\<rparr>"

definition Snapshot_DoCore ::
  "dump_env \<Rightarrow> TraceDumpRequest \<Rightarrow> source_factory \<Rightarrow> TraceDumpRet \<Rightarrow> bool \<times> TraceDumpRet \<times> source_factory" where
  "Snapshot_DoCore e rq f ret =
     (let (ok, st, f') = GetTraceCpuRaw e rq (de_raw e) (raw_state_init, f)
      in if \<not> ok then (False, ret\<lparr>ret_code := dumpStatus st\<rparr>, f') else (True, core_result st f' ret, f'))"

text \<open>
  \<^verbatim>\<open>RecordTraceDumpStrategy::DoCore\<close>, one round after the other while the loop is running. The request
  with the new end time is not used by the code: the writer keeps the request it was created with.
\<close>

primrec record_rounds ::
  "dump_env \<Rightarrow> TraceDumpRequest \<Rightarrow> raw_round list \<Rightarrow> raw_state \<times> source_factory \<Rightarrow> TraceDumpRet \<Rightarrow>
   bool \<times> TraceDumpRet \<times> source_factory" where
  "record_rounds e rq [] s ret = (True, ret, snd s)"
| "record_rounds e rq (r # rs) s ret =
     (let (ok, st, f) = GetTraceCpuRaw e rq (rd_srcs r) s
      in if \<not> ok then (False, ret\<lparr>ret_code := dumpStatus st\<rparr>, f)
         else let ret' = core_result st f ret
              in if isOverFlow st then (True, ret', f) else record_rounds e rq rs (st, f) ret')"

definition Record_DoCore ::
  "dump_env \<Rightarrow> TraceDumpRequest \<Rightarrow> source_factory \<Rightarrow> TraceDumpRet \<Rightarrow> bool \<times> TraceDumpRet \<times> source_factory" where
  "Record_DoCore e rq f ret = record_rounds e rq (de_rounds e) (raw_state_init, f) ret"

text \<open>\<^verbatim>\<open>CacheTraceDumpStrategy::DoCore\<close> leaves the result of the round before when a round fails.\<close>

primrec cache_rounds ::
  "dump_env \<Rightarrow> TraceDumpRequest \<Rightarrow> raw_round list \<Rightarrow> u64 \<Rightarrow> raw_state \<times> source_factory \<Rightarrow> TraceDumpRet \<Rightarrow>
   bool \<times> TraceDumpRet \<times> source_factory" where
  "cache_rounds e rq [] sliceDuration s ret = (True, ret, snd s)"
| "cache_rounds e rq (r # rs) sliceDuration s ret =
     (let (ok, st, f) = GetTraceCpuRaw e rq (rd_srcs r) s
      in if \<not> ok then (False, ret, f)
         else let ret' = core_result st f ret;
                  sliceDuration' = sliceDuration + (rd_end r - rd_start r) div S_TO_NS
              in if sliceDuration' \<ge> rq_slice rq \<or> rd_interrupt r then (True, ret', f)
                 else cache_rounds e rq rs sliceDuration' (st, f) ret')"

definition Cache_DoCore ::
  "dump_env \<Rightarrow> TraceDumpRequest \<Rightarrow> source_factory \<Rightarrow> TraceDumpRet \<Rightarrow> bool \<times> TraceDumpRet \<times> source_factory" where
  "Cache_DoCore e rq f ret = cache_rounds e rq (de_rounds e) 0 (raw_state_init, f) ret"

definition AsyncRead_DoCore ::
  "dump_env \<Rightarrow> TraceDumpRequest \<Rightarrow> source_factory \<times> TraceBufferManager \<Rightarrow> TraceDumpRet \<Rightarrow>
   bool \<times> TraceDumpRet \<times> source_factory \<times> TraceBufferManager" where
  "AsyncRead_DoCore e rq s ret =
     (let (f, m) = s; (ok, st, m') = GetTraceCpuRawRead e rq (sf_hm f) (raw_state_init, m)
      in if \<not> ok then (False, ret\<lparr>ret_code := dumpStatus st\<rparr>, f, m')
         else (True, ret\<lparr>ret_code := dumpStatus st, ret_fileSize := int (GetTaskTotalUsedBytes (rq_taskId rq) m'),
                 ret_traceStartTime := firstPageTimeStamp st, ret_traceEndTime := lastPageTimeStamp st,
                 ret_outputFile := take (TRACE_FILE_LEN - 1)
                   (GenerateTraceFileNameByTraceTime (de_files e) (rq_type rq) (firstPageTimeStamp st) (lastPageTimeStamp st))\<rparr>, f, m'))"

definition AsyncWrite_DoCore ::
  "dump_env \<Rightarrow> TraceDumpRequest \<Rightarrow> source_factory \<times> TraceBufferManager \<Rightarrow> TraceDumpRet \<Rightarrow>
   bool \<times> TraceDumpRet \<times> source_factory \<times> TraceBufferManager" where
  "AsyncWrite_DoCore e rq s ret =
     (let (ok, s') = GetTraceCpuRawWrite (rq_taskId rq) s
      in (ok, ret\<lparr>ret_code := if ok then SUCCESS else WRITE_TRACE_INFO_ERROR\<rparr>, s'))"

section \<open>Registry and template method\<close>

text \<open>The registry maps each type to the class that registered first; here the core and the three hooks.\<close>

type_synonym core = "dump_env \<Rightarrow> TraceDumpRequest \<Rightarrow> source_factory \<times> TraceBufferManager \<Rightarrow> TraceDumpRet \<Rightarrow>
   bool \<times> TraceDumpRet \<times> source_factory \<times> TraceBufferManager"

record strategy =
  DoCore :: core
  NeedDoPreAndPost :: bool
  NeedCreateTraceContentPtr :: bool
  NeedCheckFileExist :: bool

definition Strategy_Register :: "TraceDumpType \<Rightarrow> strategy \<Rightarrow> (TraceDumpType \<rightharpoonup> strategy) \<Rightarrow> bool \<times> (TraceDumpType \<rightharpoonup> strategy)" where
  "Strategy_Register ty s reg = (if reg ty = None then (True, reg(ty \<mapsto> s)) else (False, reg))"

definition Strategy_Create :: "(TraceDumpType \<rightharpoonup> strategy) \<Rightarrow> TraceDumpType \<Rightarrow> strategy option" where
  "Strategy_Create reg ty = reg ty"

text \<open>A core that does not touch the memory of the asynchronous tasks.\<close>

definition on_file ::
  "(dump_env \<Rightarrow> TraceDumpRequest \<Rightarrow> source_factory \<Rightarrow> TraceDumpRet \<Rightarrow> bool \<times> TraceDumpRet \<times> source_factory) \<Rightarrow> core" where
  "on_file c e rq s ret = (let (ok, ret', f) = c e rq (fst s) ret in (ok, ret', f, snd s))"

definition registered_strategies :: "(TraceDumpType \<times> strategy) list" where
  "registered_strategies =
     [(TRACE_SNAPSHOT, \<lparr>DoCore = on_file Snapshot_DoCore, NeedDoPreAndPost = True, NeedCreateTraceContentPtr = True, NeedCheckFileExist = False\<rparr>),
      (TRACE_RECORDING, \<lparr>DoCore = on_file Record_DoCore, NeedDoPreAndPost = True, NeedCreateTraceContentPtr = True, NeedCheckFileExist = True\<rparr>),
      (TRACE_CACHE, \<lparr>DoCore = on_file Cache_DoCore, NeedDoPreAndPost = True, NeedCreateTraceContentPtr = True, NeedCheckFileExist = True\<rparr>),
      (TRACE_ASYNC_READ, \<lparr>DoCore = AsyncRead_DoCore, NeedDoPreAndPost = False, NeedCreateTraceContentPtr = False, NeedCheckFileExist = False\<rparr>),
      (TRACE_ASYNC_WRITE, \<lparr>DoCore = AsyncWrite_DoCore, NeedDoPreAndPost = True, NeedCreateTraceContentPtr = True, NeedCheckFileExist = False\<rparr>)]"

definition strategy_registry :: "TraceDumpType \<rightharpoonup> strategy" where
  "strategy_registry = fold (\<lambda>(ty, s) reg. snd (Strategy_Register ty s reg)) registered_strategies Map.empty"

definition MAX_NEW_TRACE_FILE_LIMIT :: nat where "MAX_NEW_TRACE_FILE_LIMIT = 5"

definition IsGenerateNewFile ::
  "dump_env \<Rightarrow> bool \<Rightarrow> nat option \<Rightarrow> TraceDumpType \<Rightarrow> nat \<Rightarrow> source_factory \<Rightarrow> bool \<times> nat \<times> source_factory" where
  "IsGenerateNewFile e found opened traceType count f =
     (if found then (False, count, f)
      else if count > MAX_NEW_TRACE_FILE_LIMIT then (False, count, f)
      else (True, Suc count, snd (UpdateTraceFile opened (GenerateTraceFileName (de_files e) traceType []) f)))"

text \<open>
  One pass; the file can be found as the environment says. Creating the writers does not fail, since
  \<^verbatim>\<open>make_unique\<close> does not return a null pointer.
\<close>

definition HandleCoreFailure ::
  "strategy \<Rightarrow> dump_env \<Rightarrow> TraceDumpRequest \<Rightarrow> nat \<Rightarrow> source_factory \<Rightarrow> bool \<times> nat \<times> source_factory" where
  "HandleCoreFailure sg e rq count f =
     (if \<not> NeedCheckFileExist sg then (False, count, f)
      else IsGenerateNewFile e (de_after e) (de_open1 e) (rq_type rq) count f)"

definition ProcessTraceDumpIteration ::
  "strategy \<Rightarrow> dump_env \<Rightarrow> TraceDumpRequest \<Rightarrow> TraceDumpRet \<Rightarrow> nat \<Rightarrow> source_factory \<times> TraceBufferManager \<Rightarrow>
   bool \<times> TraceDumpRet \<times> nat \<times> source_factory \<times> TraceBufferManager" where
  "ProcessTraceDumpIteration sg e rq ret count s =
     (let f0 = (fst s)\<lparr>sf_file := (sf_file (fst s))\<lparr>cw_exists := de_exists e\<rparr>\<rparr>;
          f1 = (if NeedDoPreAndPost sg then OnPre e f0 else f0);
          (ok, ret', f2, m) = DoCore sg e rq (f1, snd s) ret
      in if \<not> ok then let (again, count', f3) = HandleCoreFailure sg e rq count f2 in (again, ret', count', f3, m)
         else (True, ret', count, if NeedDoPreAndPost sg then OnPost e f2 else f2, m))"

definition ShouldContinueWithNewFile ::
  "strategy \<Rightarrow> dump_env \<Rightarrow> TraceDumpRequest \<Rightarrow> nat \<Rightarrow> source_factory \<Rightarrow> bool \<times> nat \<times> source_factory" where
  "ShouldContinueWithNewFile sg e rq count f =
     (if NeedCheckFileExist sg then IsGenerateNewFile e (de_again e) (de_open2 e) (rq_type rq) count f else (False, count, f))"


text \<open>
  The loop of \<^verbatim>\<open>Execute\<close>; \<open>env k\<close> is what the pass with number \<open>k\<close> finds, its filter as
  \<^verbatim>\<open>FilterTraceContent\<close> left it. The count grows with every new file.
\<close>

lemma IsGenerateNewFile_count:
  "IsGenerateNewFile e found opened ty count f = (True, count', f') \<Longrightarrow> count' = Suc count \<and> count \<le> MAX_NEW_TRACE_FILE_LIMIT"
  "IsGenerateNewFile e found opened ty count f = (again, count', f') \<Longrightarrow> count \<le> count' \<and> (count \<le> Suc MAX_NEW_TRACE_FILE_LIMIT \<longrightarrow> count' \<le> Suc MAX_NEW_TRACE_FILE_LIMIT)"
  by (auto simp: IsGenerateNewFile_def split: if_splits)

lemma Process_count:
  "ProcessTraceDumpIteration sg e rq ret count s = (go, ret', count', s') \<Longrightarrow>
   count \<le> count' \<and> (count \<le> Suc MAX_NEW_TRACE_FILE_LIMIT \<longrightarrow> count' \<le> Suc MAX_NEW_TRACE_FILE_LIMIT)"
  by (auto simp: ProcessTraceDumpIteration_def HandleCoreFailure_def Let_def split: prod.splits if_splits dest: IsGenerateNewFile_count(2))

lemma Should_count:
  "ShouldContinueWithNewFile sg e rq count f = (True, count', f') \<Longrightarrow> count' = Suc count \<and> count \<le> MAX_NEW_TRACE_FILE_LIMIT"
  "ShouldContinueWithNewFile sg e rq count f = (again, count', f') \<Longrightarrow> count \<le> Suc MAX_NEW_TRACE_FILE_LIMIT \<Longrightarrow> count' \<le> Suc MAX_NEW_TRACE_FILE_LIMIT"
  by (auto simp: ShouldContinueWithNewFile_def split: if_splits dest: IsGenerateNewFile_count)

function execute_loop ::
  "strategy \<Rightarrow> (nat \<Rightarrow> dump_env) \<Rightarrow> TraceDumpRequest \<Rightarrow> nat \<Rightarrow> TraceDumpRet \<Rightarrow> nat \<Rightarrow> source_factory \<times> TraceBufferManager \<Rightarrow>
   TraceDumpRet \<times> nat \<times> source_factory \<times> TraceBufferManager" where
  "execute_loop sg env rq k ret count s =
     (let (go, ret', count1, f, m) = ProcessTraceDumpIteration sg (env k) rq ret count s
      in if \<not> go then (ret', count1, f, m)
         else let (again, count2, f') = ShouldContinueWithNewFile sg (env k) rq count1 f
              in if again then execute_loop sg env rq (Suc k) ret' count2 (f', m) else (ret', count2, f', m))"
  by pat_completeness auto
termination
proof (relation "measure (\<lambda>(sg, env, rq, k, ret, count, s). Suc MAX_NEW_TRACE_FILE_LIMIT - count)")
  fix sg rq ret count s x go y ret' z count1 v f m a again b count2 f' and env :: "nat \<Rightarrow> dump_env" and k :: nat
  assume "x = ProcessTraceDumpIteration sg (env k) rq ret count s" "(go, y) = x" "(ret', z) = y" "(count1, v) = z" "(f, m) = v"
    "a = ShouldContinueWithNewFile sg (env k) rq count1 f" "(again, b) = a" "(count2, f') = b" again
  then have "ProcessTraceDumpIteration sg (env k) rq ret count s = (go, ret', count1, f, m)"
    "ShouldContinueWithNewFile sg (env k) rq count1 f = (True, count2, f')" by auto
  then have "count \<le> count1" "count2 = Suc count1" "count1 \<le> MAX_NEW_TRACE_FILE_LIMIT"
    using Process_count Should_count(1) by blast+
  then show "((sg, env, rq, Suc k, ret', count2, f', m), sg, env, rq, k, ret, count, s)
    \<in> measure (\<lambda>(sg, env, rq, k, ret, count, s). Suc MAX_NEW_TRACE_FILE_LIMIT - count)" by simp
qed simp

declare execute_loop.simps [simp del]

definition Execute ::
  "strategy \<Rightarrow> (nat \<Rightarrow> dump_env) \<Rightarrow> TraceDumpRequest \<Rightarrow> source_factory \<times> TraceBufferManager \<Rightarrow>
   TraceDumpRet \<times> source_factory \<times> TraceBufferManager" where
  "Execute sg env rq s = (let (ret, count, s') = execute_loop sg env rq 0 TraceDumpRet_default 1 s in (ret, s'))"

definition ExecuteDumpTrace ::
  "(nat \<Rightarrow> dump_env) \<Rightarrow> TraceDumpRequest \<Rightarrow> source_factory \<times> TraceBufferManager \<Rightarrow>
   TraceDumpRet \<times> source_factory \<times> TraceBufferManager" where
  "ExecuteDumpTrace env rq s =
     (case Strategy_Create strategy_registry (rq_type rq) of
        None \<Rightarrow> (TraceDumpRet_default\<lparr>ret_code := UNKNOWN_TRACE_DUMP_TYPE\<rparr>, s)
      | Some sg \<Rightarrow> Execute sg env rq s)"

lemma execute_step:
  assumes "ProcessTraceDumpIteration sg (env k) rq ret count s = (go, ret', count1, f, m)"
    and "ShouldContinueWithNewFile sg (env k) rq count1 f = (again, count2, f')"
  shows "execute_loop sg env rq k ret count s =
    (if \<not> go then (ret', count1, f, m) else if again then execute_loop sg env rq (Suc k) ret' count2 (f', m) else (ret', count2, f', m))"
  using assms by (subst execute_loop.simps) simp

text \<open>What the passes beyond the sixth would find does not matter: there are at most six.\<close>

lemma execute_loop_passes:
  "(\<And>j. j < k + (7 - count) \<Longrightarrow> env j = env' j) \<Longrightarrow> count \<le> Suc MAX_NEW_TRACE_FILE_LIMIT \<Longrightarrow>
   execute_loop sg env rq k ret count s = execute_loop sg env' rq k ret count s"
proof (induction sg env rq k ret count s rule: execute_loop.induct)
  case (1 sg env rq k ret count s)
  obtain go ret' count1 f m where p: "ProcessTraceDumpIteration sg (env k) rq ret count s = (go, ret', count1, f, m)"
    by (metis prod_cases5)
  obtain again count2 f' where c: "ShouldContinueWithNewFile sg (env k) rq count1 f = (again, count2, f')" by (metis prod_cases3)
  have "k < k + (7 - count)" using "1.prems"(2) by (simp add: MAX_NEW_TRACE_FILE_LIMIT_def)
  then have e: "env' k = env k" using "1.prems"(1) by simp
  show ?case
  proof (cases "go \<and> again")
    case True
    then have n: "count \<le> count1" "count2 = Suc count1" "count1 \<le> MAX_NEW_TRACE_FILE_LIMIT"
      using Process_count [OF p] Should_count(1) [of sg "env k" rq count1 f] c by auto
    then have "env j = env' j" if "j < Suc k + (7 - count2)" for j
      using "1.prems"(1) [of j] that by (simp add: MAX_NEW_TRACE_FILE_LIMIT_def)
    with n have "execute_loop sg env rq (Suc k) ret' count2 (f', m) = execute_loop sg env' rq (Suc k) ret' count2 (f', m)"
      using "1.IH" [OF p [symmetric] refl refl refl refl _ c [symmetric] refl refl] True by simp
    then show ?thesis using execute_step [of sg env k, OF p c] execute_step [of sg env' k, unfolded e, OF p c] True by simp
  next
    case False
    then show ?thesis using execute_step [of sg env k, OF p c] execute_step [of sg env' k, unfolded e, OF p c] by auto
  qed
qed

lemma execute_loop_count:
  "execute_loop sg env rq k ret count s = (ret', count', s') \<Longrightarrow> count \<le> Suc MAX_NEW_TRACE_FILE_LIMIT \<Longrightarrow>
   count' \<le> Suc MAX_NEW_TRACE_FILE_LIMIT"
proof (induction sg env rq k ret count s rule: execute_loop.induct)
  case (1 sg env rq k ret count s)
  obtain go ret1 count1 f m where p: "ProcessTraceDumpIteration sg (env k) rq ret count s = (go, ret1, count1, f, m)"
    by (metis prod_cases5)
  obtain again count2 f' where c: "ShouldContinueWithNewFile sg (env k) rq count1 f = (again, count2, f')" by (metis prod_cases3)
  have n: "count1 \<le> Suc MAX_NEW_TRACE_FILE_LIMIT" "count2 \<le> Suc MAX_NEW_TRACE_FILE_LIMIT"
    using Process_count [OF p] Should_count(2) [OF c] "1.prems"(2) by auto
  show ?case
  proof (cases "go \<and> again")
    case True
    then show ?thesis using "1.IH" [OF p [symmetric] refl refl refl refl _ c [symmetric] refl refl] "1.prems"(1) execute_step [of sg env k, OF p c] n
      by simp
  next
    case False
    then show ?thesis using "1.prems"(1) execute_step [of sg env k, OF p c] n by (auto split: if_splits)
  qed
qed


lemma registry_entries:
  "strategy_registry TRACE_SNAPSHOT = Some \<lparr>DoCore = on_file Snapshot_DoCore, NeedDoPreAndPost = True, NeedCreateTraceContentPtr = True, NeedCheckFileExist = False\<rparr>"
  "strategy_registry TRACE_RECORDING = Some \<lparr>DoCore = on_file Record_DoCore, NeedDoPreAndPost = True, NeedCreateTraceContentPtr = True, NeedCheckFileExist = True\<rparr>"
  "strategy_registry TRACE_CACHE = Some \<lparr>DoCore = on_file Cache_DoCore, NeedDoPreAndPost = True, NeedCreateTraceContentPtr = True, NeedCheckFileExist = True\<rparr>"
  "strategy_registry TRACE_ASYNC_READ = Some \<lparr>DoCore = AsyncRead_DoCore, NeedDoPreAndPost = False, NeedCreateTraceContentPtr = False, NeedCheckFileExist = False\<rparr>"
  "strategy_registry TRACE_ASYNC_WRITE = Some \<lparr>DoCore = AsyncWrite_DoCore, NeedDoPreAndPost = True, NeedCreateTraceContentPtr = True, NeedCheckFileExist = False\<rparr>"
  by (simp_all add: strategy_registry_def registered_strategies_def Strategy_Register_def)

definition sample_env :: dump_env where
  "sample_env = \<lparr>de_is64 = True, de_cpus = 4, de_chk = (\<lambda>_. True), de_kernel = ''k'', de_unixMs = 5, de_bootNs = 2000000,
     de_inline = False, de_formats = [], de_savedFormats = Some [[7]], de_filter = None, de_cmdlines = Some [[8]], de_proc = Some [],
     de_status = (\<lambda>_. None), de_tgids = Some [[9]], de_headerPage = None, de_printk = None,
     de_raw = [Some [sample_page 3, sample_page 5, sample_page 7, sample_page 8]],
     de_rounds = [\<lparr>rd_srcs = [], rd_start = 0, rd_end = 0, rd_interrupt = False\<rparr>],
     de_files = sample_file_env, de_exists = True, de_after = False, de_again = True, de_open1 = Some 500, de_open2 = None\<rparr>"

definition sample_factory :: source_factory where
  "sample_factory = ITraceSourceFactory True ''/data/log/hitrace/trace_1.sys'' (Some 500) sample_content"

text \<open>C21: A dump always ends: whatever happens to the file in between, the loop makes at most six passes and
so opens at most five further files. What later passes would find has no influence.\<close>

theorem execute_at_most_six_passes:
  assumes "\<forall>k<6. env k = env' k"
  shows "ExecuteDumpTrace env rq s = ExecuteDumpTrace env' rq s"
proof -
  have "execute_loop sg env rq 0 TraceDumpRet_default 1 s = execute_loop sg env' rq 0 TraceDumpRet_default 1 s" for sg
    by (rule execute_loop_passes) (use assms in \<open>simp_all add: MAX_NEW_TRACE_FILE_LIMIT_def\<close>)
  then show ?thesis by (simp add: ExecuteDumpTrace_def Execute_def split: option.split)
qed

theorem execute_at_most_six_passes_witness:
  "ExecuteDumpTrace ((\<lambda>_. sample_env)(6 := sample_env\<lparr>de_cpus := 0\<rparr>)) sample_request (sample_factory, TraceBufferManager_new) =
   ExecuteDumpTrace (\<lambda>_. sample_env) sample_request (sample_factory, TraceBufferManager_new)"
  by (rule execute_at_most_six_passes) simp

text \<open>C27: When a recording fails because its file has been deleted, a new file is opened to start again, but
the loop ends there, since that file can be found: nothing is written to it, not even a file header,
and the caller gets the result of the failed pass with the empty file.\<close>

theorem lost_record_not_restarted:
  assumes "rq_type rq = TRACE_RECORDING" "f0 = f\<lparr>sf_file := (sf_file f)\<lparr>cw_exists := de_exists (env 0)\<rparr>\<rparr>"
    and "Record_DoCore (env 0) rq (OnPre (env 0) f0) TraceDumpRet_default = (False, ret1, f1)"
    and "\<not> de_after (env 0)" "de_open1 (env 0) = Some room" "de_again (env 0)"
    and "ExecuteDumpTrace env rq (f, m) = (ret, f', m')"
  shows "ret = ret1 \<and> sf_path f' = GenerateTraceFileName (de_files (env 0)) TRACE_RECORDING [] \<and> cw_data (sf_file f') = []"
proof -
  let ?sg = "\<lparr>DoCore = on_file Record_DoCore, NeedDoPreAndPost = True, NeedCreateTraceContentPtr = True, NeedCheckFileExist = True\<rparr>"
  let ?f = "f1\<lparr>sf_path := GenerateTraceFileName (de_files (env 0)) TRACE_RECORDING [], sf_file := fresh_file room (sf_file f1)\<rparr>"
  have p: "ProcessTraceDumpIteration ?sg (env 0) rq TraceDumpRet_default 1 (f, m) = (True, ret1, 2, ?f, m)"
    using assms(1-5) by (simp add: ProcessTraceDumpIteration_def on_file_def HandleCoreFailure_def IsGenerateNewFile_def
        MAX_NEW_TRACE_FILE_LIMIT_def UpdateTraceFile_def Let_def)
  have c: "ShouldContinueWithNewFile ?sg (env 0) rq 2 ?f = (False, 2, ?f)"
    using assms(6) by (simp add: ShouldContinueWithNewFile_def IsGenerateNewFile_def)
  have "execute_loop ?sg env rq 0 TraceDumpRet_default 1 (f, m) = (ret1, 2, ?f, m)"
    using execute_step [of ?sg env 0, OF p c] by simp
  then show ?thesis
    using assms(1,7) by (simp add: ExecuteDumpTrace_def Strategy_Create_def registry_entries Execute_def)
      (auto simp: fresh_file_def)
qed

theorem lost_record_not_restarted_witness:
  "cw_data (sf_file (fst (snd (ExecuteDumpTrace (\<lambda>_. sample_env) (sample_request\<lparr>rq_type := TRACE_RECORDING\<rparr>)
     (sample_factory, TraceBufferManager_new))))) = []"
proof -
  let ?rq = "sample_request\<lparr>rq_type := TRACE_RECORDING\<rparr>"
  let ?f0 = "sample_factory\<lparr>sf_file := (sf_file sample_factory)\<lparr>cw_exists := de_exists sample_env\<rparr>\<rparr>"
  have hm: "sf_hm (OnPre sample_env ?f0)"
    by (simp add: OnPre_def SafeWriteTraceContent_def GetTraceFileHeader_def GetTraceBaseInfo_def GetTraceEventFmt_def Let_def
        sample_factory_def ITraceSourceFactory_def split: prod.split)
  have "\<not> fst (Record_DoCore sample_env ?rq (OnPre sample_env ?f0) TraceDumpRet_default)"
    using hm by (simp add: Record_DoCore_def sample_env_def [THEN arg_cong [of _ _ de_rounds]] GetTraceCpuRaw_def hm_pipe_def
        TraceCpuRawHM_Write_def WriteTracePipeRawData_def Let_def split: prod.split)
  then obtain ret1 f1 where core: "Record_DoCore sample_env ?rq (OnPre sample_env ?f0) TraceDumpRet_default = (False, ret1, f1)"
    by (metis prod_cases3 fst_conv)
  obtain ret f' m' where r: "ExecuteDumpTrace (\<lambda>_. sample_env) ?rq (sample_factory, TraceBufferManager_new) = (ret, f', m')"
    by (metis prod_cases3)
  have "rq_type ?rq = TRACE_RECORDING" "\<not> de_after sample_env" "de_open1 sample_env = Some 500" "de_again sample_env"
    by (simp_all add: sample_env_def)
  then show ?thesis using lost_record_not_restarted [where env = "\<lambda>_. sample_env" and f = sample_factory, OF _ refl core _ _ _ r] r by simp
qed


section \<open>The file as a whole\<close>

text \<open>
  The file holds a file header and the sections \<open>ss\<close>, the position is at its end, it can be found and
  there is room for \<open>r\<close> more bytes.
\<close>

definition holds :: "bytes \<Rightarrow> (u8 \<times> bytes) list \<Rightarrow> nat \<Rightarrow> content_world \<Rightarrow> bool" where
  "holds h ss r w \<longleftrightarrow> cw_data w = h @ concat (map section_bytes ss) \<and> cw_pos w = length (cw_data w) \<and> cw_exists w \<and> r \<le> cw_room w"

lemma holds_with_section:
  assumes "holds h ss (HDR + length c + r) w"
  shows "holds h (ss @ [(ty, c)]) r (with_section ty c w)"
  using assms by (auto simp: holds_def with_section_def)

text \<open>A file that can be found passes the test, which changes nothing but its counter.\<close>

lemma holds_exist:
  assumes "holds h ss r w0"
  obtains w where "IsFileExist w0 = (True, w)" "holds h ss r w"
proof
  show "IsFileExist w0 = (True, snd (IsFileExist w0))" "holds h ss r (snd (IsFileExist w0))"
    using assms by (auto simp: IsFileExist_def holds_def Let_def)
qed

lemma holds_write:
  assumes "content_writer f c" "holds h ss (HDR + length c + r) w0" "length c < 2 ^ 31"
  shows "\<exists>w. WriteTraceData f ty w0 = (True, w) \<and> holds h (ss @ [(ty, c)]) r w"
proof -
  obtain w where w: "IsFileExist w0 = (True, w)" "holds h ss (HDR + length c + r) w" using holds_exist [OF assms(2)] .
  then have "WriteTraceData f ty w0 = (True, w\<lparr>cw_data := cw_data w @ section_bytes (ty, c), cw_pos := cw_pos w + HDR + length c,
      cw_room := cw_room w - (if c = [] then HDR else length c), g_outputFileSize := g_outputFileSize w + int (length c + HDR)\<rparr>)"
    using content_writer.section_written [OF assms(1) _ w(1) assms(3)] by (simp add: holds_def Let_def)
  then show ?thesis using w(2) by (auto simp: holds_def)
qed


lemma cmdlines_writer:
  assumes "list_all (\<lambda>l. length l \<le> PAGE_SIZE) (List.map_filter (process_line stat) es)"
  shows "content_writer (TraceCmdLines_Content None chk (Some pages) (Some es) stat) (copied chk 0 pages @ process_text stat es)"
  by unfold_locales (simp add: cmdlines_content [OF _ assms] DoWrite_behind)

lemma tgids_writer: "content_writer (TraceTgids_Content None chk (Some pages)) (copied chk 0 pages)"
  by unfold_locales (simp add: TraceTgids_Content_def copying.writes)

text \<open>What a snapshot on HongMeng finds when nothing is missing, and the sections it then writes.\<close>

record snapshot_input =
  si_formats :: "bytes list"
  si_pages :: "bytes list"
  si_cmdlines :: "bytes list"
  si_procs :: "(string \<times> bool) list"
  si_tgids :: "bytes list"

definition complete_env :: "snapshot_input \<Rightarrow> dump_env \<Rightarrow> bool" where
  "complete_env i e \<longleftrightarrow> de_exists e \<and> de_kernel e \<noteq> [] \<and> \<not> de_inline e \<and> de_filter e = None \<and>
     de_savedFormats e = Some (si_formats i) \<and> hm_pipe (de_raw e) = Some (si_pages i) \<and> de_cmdlines e = Some (si_cmdlines i) \<and>
     de_proc e = Some (si_procs i) \<and> de_tgids e = Some (si_tgids i) \<and> [] \<notin> set (si_pages i) \<and>
     list_all (\<lambda>l. length l \<le> PAGE_SIZE) (List.map_filter (process_line (de_status e)) (si_procs i))"

definition snapshot_sections :: "snapshot_input \<Rightarrow> dump_env \<Rightarrow> TraceDumpRequest \<Rightarrow> (u8 \<times> bytes) list" where
  "snapshot_sections i e rq =
     [(CONTENT_TYPE_BASE_INFO, base_info_text (de_kernel e) (de_unixMs e) (de_bootNs e)),
      (CONTENT_TYPE_EVENTS_FORMAT, copied (\<lambda>_. True) 0 (si_formats i)),
      (CONTENT_TYPE_CPU_RAW, window rq (si_pages i)),
      (CONTENT_TYPE_CMDLINES, copied (\<lambda>_. True) 0 (si_cmdlines i) @ process_text (de_status e) (si_procs i)),
      (CONTENT_TYPE_TGIDS, copied (\<lambda>_. True) 0 (si_tgids i))]"

definition hm_file_header :: "TraceFileHeader \<Rightarrow> bytes" where
  "hm_file_header h = file_header_bytes (h\<lparr>fileType := HM_FILE_RAW_TRACE\<rparr>)"

lemma length_file_header [simp]: "length (file_header_bytes h) = FILE_HDR"
  by (simp add: file_header_bytes_def le16_def le32_def FILE_HDR_def)

lemma on_pre_layout:
  assumes "complete_env i e" "sf_hm f" "cw_data (sf_file f) = []" "cw_pos (sf_file f) = 0" "cw_exists (sf_file f)"
    and "InitTraceFileHdr (de_is64 e) (de_cpus e) TraceFileHeader_default = Some h"
    and "snapshot_sections i e rq = b # fm # ss" "length (snd b) < 2 ^ 31" "length (snd fm) < 2 ^ 31"
    and "FILE_HDR + (HDR + length (snd b) + (HDR + length (snd fm) + r)) \<le> cw_room (sf_file f)"
  shows "\<exists>w. OnPre e f = f\<lparr>sf_file := w\<rparr> \<and> holds (hm_file_header h) [b, fm] r w"
proof -
  have s: "b = (CONTENT_TYPE_BASE_INFO, base_info_text (de_kernel e) (de_unixMs e) (de_bootNs e))"
    "fm = (CONTENT_TYPE_EVENTS_FORMAT, copied (\<lambda>_. True) 0 (si_formats i))"
    using assms(7) by (simp_all add: snapshot_sections_def)
  let ?w0 = "ResetCurrentFileSize (sf_file f)" and ?H = "hm_file_header h"
  have w0: "behind ?w0" "cw_data ?w0 = []" "cw_pos ?w0 = 0" "cw_room ?w0 = cw_room (sf_file f)" "cw_exists ?w0"
    using assms(3-5) by (simp_all add: ResetCurrentFileSize_def behind_def)
  have "TraceFileHdrHM_Write (de_is64 e) (de_cpus e) ?w0 = (True, put ?H ?w0)"
    using w0 assms(6,10) by (simp add: TraceFileHdrHM_Write_def write_file_header_def file_write_behind hm_file_header_def FILE_HDR_def)
  moreover have h1: "holds ?H [] (HDR + length (snd b) + (HDR + length (snd fm) + r)) (put ?H ?w0)"
    using w0 assms(10) by (simp add: holds_def put_def hm_file_header_def) linarith
  moreover have "TraceBaseInfo_Write (de_kernel e) (de_unixMs e) (de_bootNs e) (put ?H ?w0) = (True, with_section (fst b) (snd b) (put ?H ?w0))"
    using base_info_written [of "put ?H ?w0" "de_kernel e" "de_unixMs e" "de_bootNs e"] h1 assms(1,8) s(1)
    by (simp add: holds_def complete_env_def)
  moreover have h2: "holds ?H [b] (HDR + length (snd fm) + r) (with_section (fst b) (snd b) (put ?H ?w0))"
    using holds_with_section [OF h1, of "fst b"] by simp
  obtain w where "WriteTraceData (WriteTraceDataContent (\<lambda>_. True) (Some (si_formats i))) CONTENT_TYPE_EVENTS_FORMAT
      (with_section (fst b) (snd b) (put ?H ?w0)) = (True, w)" "holds ?H [b, fm] r w"
    using holds_write [OF copying.content_writer_axioms, where chk1 = "\<lambda>_. True" and pages1 = "si_formats i" and ty = CONTENT_TYPE_EVENTS_FORMAT]
      h2 s(2) assms(9) by fastforce
  ultimately show ?thesis using assms(1,2)
    by (intro exI [of _ w]) (simp add: OnPre_def SafeWriteTraceContent_def GetTraceFileHeader_def GetTraceBaseInfo_def GetTraceEventFmt_def
        TraceEventFmt_Write_def page_check_def complete_env_def)
qed


lemma on_post_layout:
  assumes "complete_env i e" "sf_hm f" "snapshot_sections i e rq = xs @ [cl, tg]"
    and "length (snd cl) < 2 ^ 31" "length (snd tg) < 2 ^ 31"
    and "holds H ss (HDR + length (snd cl) + (HDR + length (snd tg))) (sf_file f)"
  shows "\<exists>w. OnPost e f = f\<lparr>sf_file := w\<rparr> \<and> holds H (ss @ [cl, tg]) 0 w"
proof -
  have s: "cl = (CONTENT_TYPE_CMDLINES, copied (\<lambda>_. True) 0 (si_cmdlines i) @ process_text (de_status e) (si_procs i))"
    "tg = (CONTENT_TYPE_TGIDS, copied (\<lambda>_. True) 0 (si_tgids i))"
    using assms(3) by (auto simp: snapshot_sections_def Cons_eq_append_conv append_eq_Cons_conv)
  have "content_writer (TraceCmdLines_Content None (\<lambda>_. True) (Some (si_cmdlines i)) (Some (si_procs i)) (de_status e)) (snd cl)"
    using cmdlines_writer assms(1) s(1) by (auto simp: complete_env_def)
  from holds_write [OF this, of H ss "HDR + length (snd tg)" "sf_file f" CONTENT_TYPE_CMDLINES]
  obtain w1 where w1: "WriteTraceData (TraceCmdLines_Content None (\<lambda>_. True) (Some (si_cmdlines i)) (Some (si_procs i)) (de_status e))
      CONTENT_TYPE_CMDLINES (sf_file f) = (True, w1)" "holds H (ss @ [cl]) (HDR + length (snd tg) + 0) w1"
    using assms(4,6) s(1) by auto
  obtain w2 where "WriteTraceData (TraceTgids_Content None (\<lambda>_. True) (Some (si_tgids i))) CONTENT_TYPE_TGIDS w1 = (True, w2)"
    "holds H ((ss @ [cl]) @ [tg]) 0 w2"
    using holds_write [OF tgids_writer, of H "ss @ [cl]" "\<lambda>_. True" "si_tgids i" 0 w1 CONTENT_TYPE_TGIDS] w1(2) assms(5) s(2) by auto
  with w1(1) show ?thesis using assms(1,2)
    by (intro exI [of _ w2]) (simp add: OnPost_def SafeWriteTraceContent_def GetTraceCmdLines_def GetTraceTgids_def GetTraceHeaderPage_def
        GetTracePrintkFmt_def TraceHeaderPage_Write_def TracePrintkFmt_Write_def TraceCmdLines_Write_def TraceTgids_Write_def
        page_check_def complete_env_def)
qed

lemma snapshot_core_layout:
  assumes "complete_env i e" "sf_hm f" "unlimited rq" "window rq (si_pages i) \<noteq> []" "length (window rq (si_pages i)) < 2 ^ 31"
    and "holds H ss (HDR + length (window rq (si_pages i)) + r) (sf_file f)"
  shows "\<exists>w ret. Snapshot_DoCore e rq f TraceDumpRet_default = (True, ret, f\<lparr>sf_file := w\<rparr>) \<and> ret_code ret = SUCCESS \<and>
    holds H (ss @ [(CONTENT_TYPE_CPU_RAW, window rq (si_pages i))]) r w"
proof -
  obtain w where w: "IsFileExist (sf_file f) = (True, w)" "holds H ss (HDR + length (window rq (si_pages i)) + r) w"
    using holds_exist [OF assms(6)] .
  have e: "cw_pos w = length (cw_data w)" "HDR \<le> cw_room w" "take (cw_room w - HDR) (window rq (si_pages i)) = window rq (si_pages i)"
    "[] \<notin> set (si_pages i)" using w(2) assms(1) by (auto simp: holds_def complete_env_def)
  obtain st where st: "TraceCpuRawHM_Write rq (Some (si_pages i)) (raw_state_init, sf_file f) =
      (True, st, with_section CONTENT_TYPE_CPU_RAW (window rq (si_pages i)) w)" "dumpStatus st = SUCCESS"
    using raw_hm_written [OF e(1) w(1) e(2) assms(3) e(4) assms(5), of raw_state_init] e(3) assms(4) by auto
  have "GetTraceCpuRaw e rq (de_raw e) (raw_state_init, f) = (True, st, f\<lparr>sf_file := with_section CONTENT_TYPE_CPU_RAW (window rq (si_pages i)) w\<rparr>)"
    using st(1) assms(1,2) by (simp add: GetTraceCpuRaw_def complete_env_def)
  then show ?thesis using st(2) holds_with_section [OF w(2), of CONTENT_TYPE_CPU_RAW]
    by (intro exI [of _ "with_section CONTENT_TYPE_CPU_RAW (window rq (si_pages i)) w"]) (simp add: Snapshot_DoCore_def core_result_def)
qed

text \<open>C2: A snapshot on HongMeng that finds all its sources, some page in the window and enough space writes
exactly this file: the file header, then the sections base information, event formats, raw pages of
the window, command lines with the process list, and thread groups. A reader recovers these five
sections, and the result is success.\<close>

theorem snapshot_file_layout:
  assumes "rq_type rq = TRACE_SNAPSHOT" "complete_env i (env 0)" "sf_hm f" "cw_data (sf_file f) = []" "cw_pos (sf_file f) = 0"
    and "InitTraceFileHdr (de_is64 (env 0)) (de_cpus (env 0)) TraceFileHeader_default = Some h"
    and "window rq (si_pages i) \<noteq> []" "list_all (\<lambda>s. length (snd s) < 2 ^ 31) (snapshot_sections i (env 0) rq)"
    and "FILE_HDR + sum_list (map (\<lambda>s. HDR + length (snd s)) (snapshot_sections i (env 0) rq)) \<le> cw_room (sf_file f)"
    and "ExecuteDumpTrace env rq (f, m) = (ret, f', m')"
  shows "ret_code ret = SUCCESS \<and> m' = m \<and> sf_path f' = sf_path f \<and>
    cw_data (sf_file f') = hm_file_header h @ concat (map section_bytes (snapshot_sections i (env 0) rq)) \<and>
    file_sections (sf_file f') = Some (snapshot_sections i (env 0) rq)"
proof -
  let ?e = "env 0" and ?H = "hm_file_header h"
  let ?f0 = "f\<lparr>sf_file := (sf_file f)\<lparr>cw_exists := de_exists ?e\<rparr>\<rparr>"
  obtain b fm rw cl tg where s: "snapshot_sections i ?e rq = [b, fm, rw, cl, tg]" "rw = (CONTENT_TYPE_CPU_RAW, window rq (si_pages i))"
    by (simp add: snapshot_sections_def)
  note len = assms(8) [unfolded s(1), simplified] and room = assms(9) [unfolded s(1), simplified]
  have u: "unlimited rq" using assms(1) by (simp add: unlimited_def)
  have ex: "de_exists ?e" using assms(2) by (simp add: complete_env_def)
  let ?r2 = "HDR + length (snd cl) + (HDR + length (snd tg))"
  obtain w1 where w1: "OnPre ?e ?f0 = ?f0\<lparr>sf_file := w1\<rparr>" "holds ?H [b, fm] (HDR + length (window rq (si_pages i)) + ?r2) w1"
    using on_pre_layout [OF assms(2), of ?f0 h rq b fm "[rw, cl, tg]" "HDR + length (window rq (si_pages i)) + ?r2"]
      assms(3-6) ex s len room by auto
  have c: "length (window rq (si_pages i)) < 2 ^ 31" using len s(2) by simp
  obtain w2 ret2 where w2: "Snapshot_DoCore ?e rq (?f0\<lparr>sf_file := w1\<rparr>) TraceDumpRet_default = (True, ret2, ?f0\<lparr>sf_file := w2\<rparr>)"
    "ret_code ret2 = SUCCESS" "holds ?H ([b, fm] @ [rw]) ?r2 w2"
    using snapshot_core_layout [OF assms(2) _ u assms(7) c, of "?f0\<lparr>sf_file := w1\<rparr>" ?H "[b, fm]" ?r2] w1(2) assms(3) s(2) by auto
  obtain w3 where w3: "OnPost ?e (?f0\<lparr>sf_file := w2\<rparr>) = ?f0\<lparr>sf_file := w3\<rparr>" "holds ?H [b, fm, rw, cl, tg] 0 w3"
    using on_post_layout [OF assms(2), of "?f0\<lparr>sf_file := w2\<rparr>" rq "[b, fm, rw]" cl tg ?H "[b, fm, rw]"] w2(3) assms(3) s(1) len by auto
  have "ExecuteDumpTrace env rq (f, m) = (ret2, f\<lparr>sf_file := w3\<rparr>, m)"
    using w1(1) w2(1) w3(1) assms(1)
    by (simp add: ExecuteDumpTrace_def Strategy_Create_def registry_entries Execute_def execute_loop.simps [of _ _ _ 0]
        ProcessTraceDumpIteration_def on_file_def ShouldContinueWithNewFile_def)
  moreover have "file_sections w3 = Some [b, fm, rw, cl, tg]"
    using w3(2) parse_concat [of "[b, fm, rw, cl, tg]"] len by (simp add: file_sections_def holds_def hm_file_header_def del: concat.simps)
  ultimately show ?thesis using assms(10) w2(2) w3(2) s(1) by (simp add: holds_def)
qed


definition sample_input :: snapshot_input where
  "sample_input = \<lparr>si_formats = [[7]], si_pages = [sample_page 3, sample_page 5, sample_page 7, sample_page 8],
     si_cmdlines = [[8]], si_procs = [], si_tgids = [[9]]\<rparr>"

theorem snapshot_file_layout_witness:
  "map fst (snapshot_sections sample_input sample_env sample_request) = [33, 1, 4, 2, 3] \<and>
   file_sections (sf_file (fst (snd (ExecuteDumpTrace (\<lambda>_. sample_env) sample_request (sample_factory, TraceBufferManager_new))))) =
   Some (snapshot_sections sample_input sample_env sample_request)"
proof -
  obtain h where h: "InitTraceFileHdr (de_is64 sample_env) (de_cpus sample_env) TraceFileHeader_default = Some h"
    by (simp add: InitTraceFileHdr_def sample_env_def Let_def)
  have env: "complete_env sample_input sample_env"
    by (simp add: complete_env_def sample_env_def sample_input_def hm_pipe_def sample_page_def map_filter_def)
  have txt1: "length (base_info_text ''k'' 5 2000000) = 50"
    by (simp add: base_info_text_def bytes_of_string_def to_string_nat_def dec_digits.simps [of 5] dec_digits.simps [of 2])
  have len: "map (\<lambda>s. length (snd s)) (snapshot_sections sample_input sample_env sample_request) = [50, 1, 18, 1, 1]"
    by (simp add: snapshot_sections_def sample_input_def sample_env_def txt1 bytes_of_string_def sample_window process_text_def map_filter_def)
      (simp add: sample_page_def)
  then have sizes: "list_all (\<lambda>s. length (snd s) < 2 ^ 31) (snapshot_sections sample_input sample_env sample_request)"
    "FILE_HDR + sum_list (map (\<lambda>s. HDR + length (snd s)) (snapshot_sections sample_input sample_env sample_request)) \<le> cw_room (sf_file sample_factory)"
    by (auto simp: snapshot_sections_def FILE_HDR_def HDR_def sample_factory_def ITraceSourceFactory_def fresh_file_def)
  have f: "rq_type sample_request = TRACE_SNAPSHOT" "sf_hm sample_factory" "cw_data (sf_file sample_factory) = []" "cw_pos (sf_file sample_factory) = 0"
    by (simp_all add: sample_request_def TraceDumpRequest_default_def sample_factory_def ITraceSourceFactory_def fresh_file_def)
  have hit: "window sample_request (si_pages sample_input) \<noteq> []" by (simp add: sample_input_def sample_window) (simp add: sample_page_def)
  obtain ret f' m' where r: "ExecuteDumpTrace (\<lambda>_. sample_env) sample_request (sample_factory, TraceBufferManager_new) = (ret, f', m')"
    by (metis prod_cases3)
  show ?thesis
    using snapshot_file_layout [where env = "\<lambda>_. sample_env", OF f(1) env f(2-4) h hit sizes r] r
    by (simp add: snapshot_sections_def CONTENT_TYPE_BASE_INFO_def CONTENT_TYPE_EVENTS_FORMAT_def CONTENT_TYPE_CPU_RAW_def
        CONTENT_TYPE_CMDLINES_def CONTENT_TYPE_TGIDS_def)
qed

end
