(* ===== verification/File_Ageing.thy ===== *)
theory File_Ageing
  imports Trace_Files
begin

text \<open>
  The ageing of trace files: \<^verbatim>\<open>utils/file_ageing_utils.cpp\<close>. Before a recording starts a new file and
  after a snapshot, old files are deleted by number and by total size. The limits come from the
  configuration (\<^verbatim>\<open>TraceJsonParser::GetAgeingParam\<close>) and are an argument, and so is whether the system is
  a root version. Recording asks a checker about each file from the newest to the oldest; a snapshot
  counts how much is to be deleted and spares up to 16 files that other components have linked.
\<close>

section \<open>The checkers\<close>

datatype CheckType = FILENUMBER | FILESIZE

record AgeingParam =
  rootEnable :: bool
  fileNumberLimit :: int
  fileSizeKbLimit :: int

definition BYTE_PER_KB :: int where "BYTE_PER_KB = 1024"
definition DEFAULT_LINK_NUM :: nat where "DEFAULT_LINK_NUM = 16"

record FileNumberChecker =
  currentCount :: int
  maxCount :: int

definition FileNumberChecker_new :: "int \<Rightarrow> FileNumberChecker" where
  "FileNumberChecker_new n = \<lparr>currentCount = 0, maxCount = n\<rparr>"

definition Number_ShouldAgeing :: "FileNumberChecker \<Rightarrow> TraceFileInfo \<Rightarrow> bool \<times> FileNumberChecker" where
  "Number_ShouldAgeing c traceFileInfo =
     (if currentCount c \<ge> maxCount c then (True, c) else (False, c\<lparr>currentCount := currentCount c + 1\<rparr>))"

record FileSizeChecker =
  currentSizeKb :: int
  maxSizeKb :: int
  currentFileNumber :: int

definition minFileNumber :: int where "minFileNumber = 2"

definition FileSizeChecker_new :: "int \<Rightarrow> FileSizeChecker" where
  "FileSizeChecker_new sizeKb = \<lparr>currentSizeKb = 0, maxSizeKb = sizeKb, currentFileNumber = 0\<rparr>"

definition Size_ShouldAgeing :: "FileSizeChecker \<Rightarrow> TraceFileInfo \<Rightarrow> bool \<times> FileSizeChecker" where
  "Size_ShouldAgeing c traceFileInfo =
     (if currentFileNumber c < minFileNumber
      then (False, c\<lparr>currentFileNumber := currentFileNumber c + 1,
                     currentSizeKb := currentSizeKb c + fi_size traceFileInfo sdiv BYTE_PER_KB\<rparr>)
      else if currentSizeKb c \<ge> maxSizeKb c then (True, c)
      else (False, c\<lparr>currentSizeKb := currentSizeKb c + fi_size traceFileInfo sdiv BYTE_PER_KB\<rparr>))"

datatype FileAgeingChecker = NumberChecker FileNumberChecker | SizeChecker FileSizeChecker

text \<open>The virtual call, and which checker is created; \<open>None\<close> is the null pointer.\<close>

fun ShouldAgeing :: "FileAgeingChecker \<Rightarrow> TraceFileInfo \<Rightarrow> bool \<times> FileAgeingChecker" where
  "ShouldAgeing (NumberChecker c) f = (let (b, c') = Number_ShouldAgeing c f in (b, NumberChecker c'))"
| "ShouldAgeing (SizeChecker c) f = (let (b, c') = Size_ShouldAgeing c f in (b, SizeChecker c'))"

definition CreateFileChecker :: "bool \<Rightarrow> AgeingParam \<Rightarrow> TraceDumpType \<Rightarrow> CheckType \<Rightarrow> FileAgeingChecker option" where
  "CreateFileChecker isRoot param traceType checkType =
     (if traceType \<noteq> TRACE_RECORDING \<and> traceType \<noteq> TRACE_SNAPSHOT then None
      else if isRoot \<and> \<not> rootEnable param then None
      else if fileSizeKbLimit param > 0 \<and> checkType = FILESIZE
      then Some (SizeChecker (FileSizeChecker_new (fileSizeKbLimit param)))
      else if fileNumberLimit param > 0 \<and> checkType = FILENUMBER
      then Some (NumberChecker (FileNumberChecker_new (fileNumberLimit param)))
      else None)"

section \<open>Ageing\<close>

text \<open>
  Files of the directory that the list does not know. The names come from a \<^verbatim>\<open>std::set\<close>; they are
  different, and the order of deletion does not matter. The number of deletions is only logged.
\<close>

definition remove_all :: "string list \<Rightarrow> fs \<Rightarrow> fs" where
  "remove_all ps fs = fold (\<lambda>p fs. snd (RemoveFile fs p)) ps fs"

definition HandleFileNotInVec :: "fs \<Rightarrow> TraceDumpType \<Rightarrow> TraceFileInfo list \<Rightarrow> fs" where
  "HandleFileNotInVec fs traceType fileList =
     remove_all (filter (\<lambda>p. p \<notin> set (map filename fileList)) (GetTraceFileNamesInDir fs traceType)) fs"

primrec ageing_loop ::
  "('c \<Rightarrow> TraceFileInfo \<Rightarrow> bool \<times> 'c) \<Rightarrow> 'c \<Rightarrow> fs \<Rightarrow> TraceFileInfo list \<Rightarrow> TraceFileInfo list \<times> fs" where
  "ageing_loop should c fs [] = ([], fs)"
| "ageing_loop should c fs (f # files) =
     (let (age, c') = should c f
      in if age then ageing_loop should c' (snd (RemoveFile fs (filename f))) files
         else let (result, fs') = ageing_loop should c' fs files in (f # result, fs'))"

definition HandleAgeingImpl ::
  "fs \<Rightarrow> TraceFileInfo list \<Rightarrow> TraceDumpType \<Rightarrow> FileAgeingChecker \<Rightarrow> TraceFileInfo list \<times> fs" where
  "HandleAgeingImpl fs fileList traceType helper =
     (let (result, fs') = ageing_loop ShouldAgeing helper fs (rev fileList);
          fileList' = rev result
      in (fileList', HandleFileNotInVec fs' traceType fileList'))"

text \<open>\<^verbatim>\<open>getxattr\<close> fails on a file that is missing or has no link attribute.\<close>

definition linked :: "fs \<Rightarrow> string \<Rightarrow> bool" where
  "linked fs p = (case map_of fs p of None \<Rightarrow> False | Some n \<Rightarrow> has_link n)"

primrec need_ageing_loop ::
  "fs \<Rightarrow> int \<Rightarrow> CheckType \<Rightarrow> TraceFileInfo list \<Rightarrow> int \<Rightarrow> string list \<Rightarrow> TraceFileInfo list \<Rightarrow> string list" where
  "need_ageing_loop fs needDelete checkType [] currCount needRemoveFiles linkFiles = needRemoveFiles"
| "need_ageing_loop fs needDelete checkType (f # files) currCount needRemoveFiles linkFiles =
     (if currCount \<ge> needDelete then needRemoveFiles
      else if \<not> linked fs (filename f)
      then need_ageing_loop fs needDelete checkType files
             (currCount + (if checkType = FILESIZE then fi_size f else 1)) (List.insert (filename f) needRemoveFiles) linkFiles
      else if length (linkFiles @ [f]) \<le> DEFAULT_LINK_NUM
      then need_ageing_loop fs needDelete checkType files currCount needRemoveFiles (linkFiles @ [f])
      else let linkfileInfo = hd (linkFiles @ [f])
           in need_ageing_loop fs needDelete checkType files
                (currCount + (if checkType = FILESIZE then fi_size linkfileInfo else 1))
                (List.insert (filename linkfileInfo) needRemoveFiles) (tl (linkFiles @ [f])))"

definition HandleFileNeedAgeing :: "fs \<Rightarrow> int \<Rightarrow> CheckType \<Rightarrow> TraceFileInfo list \<Rightarrow> string list" where
  "HandleFileNeedAgeing fs needDelete checkType fileList = need_ageing_loop fs needDelete checkType fileList 0 [] []"

primrec CalculateFilesize_loop :: "fs \<Rightarrow> TraceFileInfo list \<Rightarrow> nat \<Rightarrow> int \<Rightarrow> int" where
  "CalculateFilesize_loop fs [] currLinkNum countSize = countSize"
| "CalculateFilesize_loop fs (f # files) currLinkNum countSize =
     (if \<not> linked fs (filename f) then CalculateFilesize_loop fs files currLinkNum (countSize + fi_size f)
      else CalculateFilesize_loop fs files (Suc currLinkNum)
             (if Suc currLinkNum > DEFAULT_LINK_NUM then countSize + fi_size f else countSize))"

definition CalculateFilesize :: "fs \<Rightarrow> TraceFileInfo list \<Rightarrow> int" where
  "CalculateFilesize fs fileList = CalculateFilesize_loop fs fileList 0 0"

text \<open>A file whose removal fails is taken out of the set and stays in the list.\<close>

primrec remove_needed :: "string list \<Rightarrow> fs \<Rightarrow> string list \<times> fs" where
  "remove_needed [] fs = ([], fs)"
| "remove_needed (p # ps) fs =
     (let (ok, fs1) = RemoveFile fs p; (removed, fs2) = remove_needed ps fs1
      in (if ok then p # removed else removed, fs2))"

definition remove_and_erase ::
  "fs \<Rightarrow> TraceFileInfo list \<Rightarrow> TraceDumpType \<Rightarrow> string list \<Rightarrow> TraceFileInfo list \<times> fs" where
  "remove_and_erase fs fileList traceType needRemoveFiles =
     (let (removed, fs') = remove_needed needRemoveFiles fs;
          fileList' = filter (\<lambda>f. filename f \<notin> set removed) fileList
      in (fileList', HandleFileNotInVec fs' traceType fileList'))"

definition HandleAgeingSnapShort ::
  "AgeingParam \<Rightarrow> fs \<Rightarrow> TraceFileInfo list \<Rightarrow> TraceDumpType \<Rightarrow> CheckType \<Rightarrow> TraceFileInfo list \<times> fs" where
  "HandleAgeingSnapShort param fs fileList traceType checkType =
     (case checkType of
        FILESIZE \<Rightarrow>
          (let countSize = CalculateFilesize fs fileList;
               needDelete = countSize - fileSizeKbLimit param * BYTE_PER_KB
           in if needDelete \<le> 0 \<or> needDelete = countSize
              then (fileList, HandleFileNotInVec fs traceType fileList)
              else remove_and_erase fs fileList traceType (HandleFileNeedAgeing fs needDelete FILESIZE fileList))
      | FILENUMBER \<Rightarrow>
          (let needDelete = int (length fileList) - fileNumberLimit param
           in if needDelete \<le> 0 \<or> needDelete = int (length fileList)
              then (fileList, HandleFileNotInVec fs traceType fileList)
              else remove_and_erase fs fileList traceType (HandleFileNeedAgeing fs needDelete FILENUMBER fileList)))"

definition ageing_step ::
  "bool \<Rightarrow> AgeingParam \<Rightarrow> TraceDumpType \<Rightarrow> CheckType \<Rightarrow> TraceFileInfo list \<times> fs \<Rightarrow> TraceFileInfo list \<times> fs" where
  "ageing_step isRoot param traceType checkType s =
     (case CreateFileChecker isRoot param traceType checkType of None \<Rightarrow> s
      | Some checker \<Rightarrow>
          if traceType = TRACE_RECORDING then HandleAgeingImpl (snd s) (fst s) traceType checker
          else if traceType = TRACE_SNAPSHOT then HandleAgeingSnapShort param (snd s) (fst s) traceType checkType
          else s)"

definition HandleAgeing ::
  "bool \<Rightarrow> AgeingParam \<Rightarrow> fs \<Rightarrow> TraceFileInfo list \<Rightarrow> TraceDumpType \<Rightarrow> int \<Rightarrow> TraceFileInfo list \<times> fs" where
  "HandleAgeing isRoot param fs fileList traceType setTotalSize =
     (let s = ageing_step isRoot param traceType FILENUMBER (fileList, fs)
      in if traceType = TRACE_RECORDING \<and> setTotalSize \<noteq> 0
         then HandleAgeingImpl (snd s) (fst s) traceType (SizeChecker (FileSizeChecker_new setTotalSize))
         else ageing_step isRoot param traceType FILESIZE s)"

section \<open>What every checker promises\<close>

text \<open>How many files a checker lets pass before it asks for the first removal.\<close>

primrec keeps :: "('c \<Rightarrow> TraceFileInfo \<Rightarrow> bool \<times> 'c) \<Rightarrow> 'c \<Rightarrow> TraceFileInfo list \<Rightarrow> nat" where
  "keeps should c [] = 0"
| "keeps should c (f # files) = (if fst (should c f) then 0 else Suc (keeps should (snd (should c f)) files))"

lemma keeps_le: "keeps should c files \<le> length files"
  by (induction files arbitrary: c) auto

text \<open>A checker that has asked for a removal asks for the removal of every later file.\<close>

locale ageing_checker =
  fixes should :: "'c \<Rightarrow> TraceFileInfo \<Rightarrow> bool \<times> 'c"
  assumes sticky: "fst (should c f) \<Longrightarrow> snd (should c f) = c \<and> fst (should c g)"
begin

lemma loop_full:
  "fst (should c f) \<Longrightarrow> ageing_loop should c fs files = ([], remove_all (map filename files) fs)"
proof (induction files arbitrary: fs)
  case (Cons g files)
  then have "should c g = (True, c)" using sticky [of c g] sticky [of c f g] by (metis prod.collapse)
  with Cons show ?case by (simp add: remove_all_def)
qed (simp add: remove_all_def)

lemma loop_keeps:
  "ageing_loop should c fs files =
     (take (keeps should c files) files, remove_all (map filename (drop (keeps should c files) files)) fs)"
proof (induction files arbitrary: c fs)
  case (Cons f files)
  show ?case
  proof (cases "fst (should c f)")
    case True
    then show ?thesis using loop_full [OF True, of fs "f # files"] by simp
  next
    case False
    then show ?thesis using Cons.IH by (simp add: case_prod_beta)
  qed
qed (simp add: remove_all_def)

end

interpretation number: ageing_checker Number_ShouldAgeing
  by unfold_locales (auto simp: Number_ShouldAgeing_def split: if_splits)

interpretation filesize: ageing_checker Size_ShouldAgeing
  by unfold_locales (auto simp: Size_ShouldAgeing_def split: if_splits)

lemma ShouldAgeing_simps:
  "fst (ShouldAgeing (NumberChecker c) f) = fst (Number_ShouldAgeing c f)"
  "snd (ShouldAgeing (NumberChecker c) f) = NumberChecker (snd (Number_ShouldAgeing c f))"
  "fst (ShouldAgeing (SizeChecker d) f) = fst (Size_ShouldAgeing d f)"
  "snd (ShouldAgeing (SizeChecker d) f) = SizeChecker (snd (Size_ShouldAgeing d f))"
  by (simp_all add: case_prod_beta)

interpretation checker: ageing_checker ShouldAgeing
proof
  fix c f g
  assume a: "fst (ShouldAgeing c f)"
  show "snd (ShouldAgeing c f) = c \<and> fst (ShouldAgeing c g)"
    using a number.sticky filesize.sticky by (cases c) (auto simp: ShouldAgeing_simps simp del: ShouldAgeing.simps)
qed

lemma keeps_ShouldAgeing:
  "keeps ShouldAgeing (NumberChecker c) files = keeps Number_ShouldAgeing c files"
  "keeps ShouldAgeing (SizeChecker d) files = keeps Size_ShouldAgeing d files"
  by (induction files arbitrary: c d) (simp_all add: ShouldAgeing_simps del: ShouldAgeing.simps)

lemma keeps_number_from:
  "keeps Number_ShouldAgeing c files = min (nat (maxCount c - currentCount c)) (length files)"
proof (induction files arbitrary: c)
  case (Cons f files)
  then show ?case by (auto simp: Number_ShouldAgeing_def)
qed simp

lemma keeps_number: "keeps Number_ShouldAgeing (FileNumberChecker_new n) files = min (nat n) (length files)"
  by (simp add: keeps_number_from FileNumberChecker_new_def)

text \<open>The kilobytes of a list of files, each rounded down.\<close>

definition kb :: "TraceFileInfo list \<Rightarrow> int" where
  "kb files = sum_list (map (\<lambda>f. fi_size f sdiv BYTE_PER_KB) files)"

lemma kb_simps [simp]: "kb [] = 0" "kb (f # files) = fi_size f sdiv BYTE_PER_KB + kb files"
  by (simp_all add: kb_def)

lemma keeps_size_from:
  assumes "2 \<le> currentFileNumber c"
  shows "keeps Size_ShouldAgeing c files = k \<Longrightarrow>
    (\<forall>i < k. currentSizeKb c + kb (take i files) < maxSizeKb c) \<and>
    (k < length files \<longrightarrow> maxSizeKb c \<le> currentSizeKb c + kb (take k files))"
  using assms
proof (induction files arbitrary: c k)
  case (Cons f files)
  show ?case
  proof (cases "currentSizeKb c \<ge> maxSizeKb c")
    case True
    then show ?thesis using Cons.prems by (auto simp: Size_ShouldAgeing_def minFileNumber_def)
  next
    case False
    let ?c = "c\<lparr>currentSizeKb := currentSizeKb c + fi_size f sdiv BYTE_PER_KB\<rparr>"
    have "Size_ShouldAgeing c f = (False, ?c)"
      using False Cons.prems(2) by (simp add: Size_ShouldAgeing_def [of c f] minFileNumber_def)
    then have k: "k = Suc (keeps Size_ShouldAgeing ?c files)" using Cons.prems(1) by simp
    show ?thesis using Cons.IH [of ?c, OF refl] Cons.prems(2) False k
      by (auto simp: less_Suc_eq_0_disj add.assoc)
  qed
qed simp

lemma keeps_size:
  assumes "keeps Size_ShouldAgeing (FileSizeChecker_new m) files = k"
  shows "min 2 (length files) \<le> k" "\<forall>i. 2 \<le> i \<and> i < k \<longrightarrow> kb (take i files) < m"
    "k < length files \<longrightarrow> m \<le> kb (take k files)"
proof -
  consider "files = []" | f where "files = [f]" | f g rest where "files = f # g # rest"
    by (metis list.exhaust)
  then have "min 2 (length files) \<le> k \<and> (\<forall>i. 2 \<le> i \<and> i < k \<longrightarrow> kb (take i files) < m) \<and>
      (k < length files \<longrightarrow> m \<le> kb (take k files))"
  proof cases
    case (3 f g rest)
    let ?c = "\<lparr>currentSizeKb = fi_size f sdiv BYTE_PER_KB + fi_size g sdiv BYTE_PER_KB, maxSizeKb = m, currentFileNumber = 2\<rparr>"
    have k: "k = Suc (Suc (keeps Size_ShouldAgeing ?c rest))"
      using assms 3 by (simp add: Size_ShouldAgeing_def minFileNumber_def FileSizeChecker_new_def)
    have s: "(\<forall>i < k - 2. kb (f # g # take i rest) < m) \<and> (k - 2 < length rest \<longrightarrow> m \<le> kb (f # g # take (k - 2) rest))"
      using keeps_size_from [of ?c rest "k - 2"] k by (simp add: add.assoc)
    have "kb (take i files) < m" if "2 \<le> i \<and> i < k" for i
      using s [THEN conjunct1, rule_format, of "i - 2"] that 3 by (cases i; cases "i - 1") auto
    moreover have "k < length files \<longrightarrow> m \<le> kb (take k files)" using s k 3 by auto
    ultimately show ?thesis using k 3 by simp
  qed (use assms in \<open>auto simp: Size_ShouldAgeing_def minFileNumber_def FileSizeChecker_new_def\<close>)
  then show "min 2 (length files) \<le> k" "\<forall>i. 2 \<le> i \<and> i < k \<longrightarrow> kb (take i files) < m"
    "k < length files \<longrightarrow> m \<le> kb (take k files)" by blast+
qed

section \<open>What is deleted\<close>

text \<open>A file that \<^verbatim>\<open>RemoveFile\<close> can delete: it can be opened, its lock is free and it may be removed.\<close>

definition deletable :: "fs \<Rightarrow> string \<Rightarrow> bool" where
  "deletable fs p = (case map_of fs p of None \<Rightarrow> False | Some n \<Rightarrow> can_open n \<and> \<not> is_locked n \<and> can_remove n)"

lemma RemoveFile_eq: "RemoveFile fs p = (deletable fs p, if deletable fs p then fs_remove fs p else fs)"
  by (auto simp: RemoveFile_def c_remove_def deletable_def split: option.splits)

lemma deletable_fs_remove [simp]: "deletable (fs_remove fs p) q \<longleftrightarrow> p \<noteq> q \<and> deletable fs q"
  by (simp add: deletable_def)

lemma map_of_without: "map_of (without X fs) p = (if p \<in> X then None else map_of fs p)"
  by (induction fs) (auto simp: without_def)

lemma without_without: "without X (without Y fs) = without (X \<union> Y) fs"
  by (auto simp: without_def intro: filter_cong)

lemma deletable_without [simp]: "deletable (without X fs) p \<longleftrightarrow> p \<notin> X \<and> deletable fs p"
  by (simp add: deletable_def map_of_without)

lemma fs_remove_without: "fs_remove fs p = without {p} fs"
  by (simp add: fs_remove_def without_def)

lemma remove_all_eq: "remove_all ps fs = without {p \<in> set ps. deletable fs p} fs"
proof (induction ps arbitrary: fs)
  case (Cons p ps)
  have step: "remove_all (p # ps) fs = remove_all ps (if deletable fs p then fs_remove fs p else fs)"
    by (simp add: remove_all_def RemoveFile_eq)
  show ?case
  proof (cases "deletable fs p")
    case True
    then have "{q \<in> set ps. deletable (fs_remove fs p) q} \<union> {p} = {q \<in> set (p # ps). deletable fs q}" by auto
    then show ?thesis using step True Cons.IH [of "fs_remove fs p"]
      by (simp add: fs_remove_without without_without)
  next
    case False
    then have "{q \<in> set (p # ps). deletable fs q} = {q \<in> set ps. deletable fs q}" by auto
    then show ?thesis using step False Cons.IH [of fs] by simp
  qed
qed (simp add: remove_all_def without_def)

lemma remove_needed_eq:
  "distinct ps \<Longrightarrow> remove_needed ps fs = (filter (deletable fs) ps, without {p \<in> set ps. deletable fs p} fs)"
proof (induction ps arbitrary: fs)
  case (Cons p ps)
  show ?case
  proof (cases "deletable fs p")
    case True
    have "filter (deletable (fs_remove fs p)) ps = filter (deletable fs) ps"
      using Cons.prems by (auto intro: filter_cong)
    moreover have "{q \<in> set ps. deletable (fs_remove fs p) q} \<union> {p} = {q \<in> set (p # ps). deletable fs q}"
      using True by auto
    ultimately show ?thesis using True Cons
      by (simp add: RemoveFile_eq fs_remove_without without_without)
  next
    case False
    then have "{q \<in> set (p # ps). deletable fs q} = {q \<in> set ps. deletable fs q}" by auto
    then show ?thesis using False Cons by (simp add: RemoveFile_eq)
  qed
qed (simp add: without_def)

text \<open>The names that belong to a type of dump: directly in the trace directory, with the prefix of the type.\<close>

definition dir_file :: "TraceDumpType \<Rightarrow> string \<Rightarrow> bool" where
  "dir_file traceType p \<longleftrightarrow> prefix (TRACE_FILE_DEFAULT_DIR @ tracePrefixMap traceType) p \<and>
     CHR ''/'' \<notin> set (drop (length TRACE_FILE_DEFAULT_DIR) p)"

definition trace_dir :: string where "trace_dir = ''/data/log/hitrace''"

definition dir_mounted :: "fs \<Rightarrow> bool" where
  "dir_mounted fs = (case map_of fs trace_dir of None \<Rightarrow> False | Some n \<Rightarrow> node_type n = DT_DIR)"

lemma TrimTrailingSlashes_default: "TrimTrailingSlashes TRACE_FILE_DEFAULT_DIR = trace_dir"
  by (simp add: TrimTrailingSlashes_def TRACE_FILE_DEFAULT_DIR_def trace_dir_def)

lemma trace_dir_slash: "TRACE_FILE_DEFAULT_DIR = trace_dir @ ''/''" "trace_dir \<noteq> []"
  by (simp_all add: trace_dir_def TRACE_FILE_DEFAULT_DIR_def)

lemma tracePrefixMap_not_dot: "take (length (tracePrefixMap ty)) ''.'' \<noteq> tracePrefixMap ty"
  "take (length (tracePrefixMap ty)) ''..'' \<noteq> tracePrefixMap ty" "tracePrefixMap ty \<noteq> []"
  by (cases ty; simp add: TRACE_SNAPSHOT_PREFIX_def TRACE_RECORDING_PREFIX_def TRACE_CACHE_PREFIX_def)+

lemma TraverseFilesInner_flat:
  "TraverseFilesInner fs False d =
     (case readdir fs d of None \<Rightarrow> (False, [])
      | Some es \<Rightarrow> (True, map (\<lambda>e. (d, fst e, snd e)) (filter (\<lambda>e. fst e \<noteq> ''.'' \<and> fst e \<noteq> ''..'') es)))"
proof -
  have "concat (map (\<lambda>e. if fst e = ''.'' \<or> fst e = ''..'' then [] else [(d, fst e, snd e)]) es) =
    map (\<lambda>e. (d, fst e, snd e)) (filter (\<lambda>e. fst e \<noteq> ''.'' \<and> fst e \<noteq> ''..'') es)" for es :: "(string \<times> d_type) list"
    by (induction es) auto
  then show ?thesis by (subst TraverseFilesInner.simps) (simp split: option.split cong: if_cong)
qed

lemma readdir_set:
  "readdir fs d = Some es \<Longrightarrow>
   set es = {(''.'', DT_DIR), (''..'', DT_DIR)} \<union>
     {(name, node_type n) | name n. (d @ ''/'' @ name, n) \<in> set fs \<and> name \<noteq> '''' \<and> CHR ''/'' \<notin> set name}"
  by (fastforce simp: readdir_def prefix_def image_iff split: option.splits if_splits)

lemma names_in_dir:
  "set (GetTraceFileNamesInDir fs traceType) =
     (if dir_mounted fs then {p. dir_file traceType p \<and> (\<exists>n. (p, n) \<in> set fs \<and> node_type n = DT_REG)} else {})"
proof (cases "readdir fs trace_dir")
  case None
  then have "\<not> dir_mounted fs" by (auto simp: readdir_def dir_mounted_def split: option.splits if_splits)
  with None show ?thesis
    by (simp add: GetTraceFileNamesInDir_def TraverseFiles_def TrimTrailingSlashes_default trace_dir_slash(2)
        TraverseFilesInner_flat map_filter_def)
next
  case (Some es)
  then have m: "dir_mounted fs" by (auto simp: readdir_def dir_mounted_def split: option.splits if_splits)
  let ?t = "tracePrefixMap traceType"
  have "set (GetTraceFileNamesInDir fs traceType) =
      {trace_dir @ ''/'' @ fst e | e. e \<in> set es \<and> snd e = DT_REG \<and> take (length ?t) (fst e) = ?t}"
    using Some tracePrefixMap_not_dot [of traceType]
    by (auto simp: GetTraceFileNamesInDir_def TraverseFiles_def TrimTrailingSlashes_default trace_dir_slash(2)
        TraverseFilesInner_flat map_filter_def Let_def image_iff split: if_splits)
  also have "\<dots> = {trace_dir @ ''/'' @ name | name n. (trace_dir @ ''/'' @ name, n) \<in> set fs \<and> name \<noteq> '''' \<and>
      CHR ''/'' \<notin> set name \<and> node_type n = DT_REG \<and> take (length ?t) name = ?t}"
    unfolding readdir_set [OF Some] by auto metis+
  also have "\<dots> = {p. dir_file traceType p \<and> (\<exists>n. (p, n) \<in> set fs \<and> node_type n = DT_REG)}"
  proof (intro set_eqI iffI; clarify)
    fix name n
    assume "(trace_dir @ ''/'' @ name, n) \<in> set fs" "CHR ''/'' \<notin> set name" "node_type n = DT_REG" "take (length ?t) name = ?t"
    then show "dir_file traceType (trace_dir @ ''/'' @ name) \<and>
        (\<exists>n. (trace_dir @ ''/'' @ name, n) \<in> set fs \<and> node_type n = DT_REG)"
      by (auto simp: dir_file_def trace_dir_slash) (metis take_is_prefix)
  next
    fix p n
    assume d: "dir_file traceType p" and n: "(p, n) \<in> set fs" "node_type n = DT_REG"
    then obtain r where "p = trace_dir @ ''/'' @ (?t @ r)" "CHR ''/'' \<notin> set (?t @ r)"
      by (auto simp: dir_file_def prefix_def trace_dir_slash)
    with n tracePrefixMap_not_dot(3) [of traceType]
    show "\<exists>name n. p = trace_dir @ ''/'' @ name \<and> (trace_dir @ ''/'' @ name, n) \<in> set fs \<and> name \<noteq> '''' \<and>
        CHR ''/'' \<notin> set name \<and> node_type n = DT_REG \<and> take (length ?t) name = ?t"
      by (intro exI [of _ "?t @ r"] exI [of _ n]) simp
  qed
  finally show ?thesis using m by simp
qed

lemma not_in_vec_eq:
  "HandleFileNotInVec fs traceType fileList =
     without {p \<in> set (GetTraceFileNamesInDir fs traceType). p \<notin> filename ` set fileList \<and> deletable fs p} fs"
  by (simp add: HandleFileNotInVec_def remove_all_eq conj_assoc)

text \<open>
  What one pass of ageing may do: shorten the list keeping the order, and delete files of the list or of
  the type, but none that is still listed.
\<close>

definition aged :: "TraceDumpType \<Rightarrow> TraceFileInfo list \<times> fs \<Rightarrow> TraceFileInfo list \<times> fs \<Rightarrow> bool" where
  "aged traceType s s' \<longleftrightarrow> subseq (fst s') (fst s) \<and>
     (\<exists>X \<subseteq> filename ` set (fst s) \<union> {p. dir_file traceType p}. snd s' = without X (snd s) \<and> X \<inter> filename ` set (fst s') = {})"

lemma aged_refl [simp]: "aged traceType s s"
  by (auto simp: aged_def intro: exI [of _ "{}"])

lemma aged_trans:
  assumes "aged traceType s t" "aged traceType t u"
  shows "aged traceType s u"
proof -
  obtain X Y where X: "X \<subseteq> filename ` set (fst s) \<union> {p. dir_file traceType p}" "snd t = without X (snd s)" "X \<inter> filename ` set (fst t) = {}"
    and Y: "Y \<subseteq> filename ` set (fst t) \<union> {p. dir_file traceType p}" "snd u = without Y (snd t)" "Y \<inter> filename ` set (fst u) = {}"
    using assms by (auto simp: aged_def)
  have s: "subseq (fst t) (fst s)" "subseq (fst u) (fst t)" using assms by (auto simp: aged_def)
  have sub: "set (fst t) \<subseteq> set (fst s)" "set (fst u) \<subseteq> set (fst t)" using s by (auto dest: list_emb_set)
  have "Y \<union> X \<subseteq> filename ` set (fst s) \<union> {p. dir_file traceType p}" using X(1) Y(1) sub by blast
  moreover have "snd u = without (Y \<union> X) (snd s)" using X(2) Y(2) by (simp add: without_without)
  moreover have "(Y \<union> X) \<inter> filename ` set (fst u) = {}" using X(3) Y(3) sub by blast
  moreover have "subseq (fst u) (fst s)" using s by (meson subseq_order.trans)
  ultimately show ?thesis unfolding aged_def by blast
qed

lemma aged_not_in_vec: "aged traceType (fileList, fs) (fileList, HandleFileNotInVec fs traceType fileList)"
proof -
  let ?X = "{p \<in> set (GetTraceFileNamesInDir fs traceType). p \<notin> filename ` set fileList \<and> deletable fs p}"
  have "?X \<subseteq> {p. dir_file traceType p}" by (auto simp: names_in_dir split: if_splits)
  then show ?thesis by (auto simp: aged_def not_in_vec_eq intro: exI [of _ ?X])
qed

lemma distinct_split_names:
  "distinct (map filename (xs @ ys)) \<Longrightarrow> filename ` set xs \<inter> filename ` set ys = {}"
  by auto

lemma HandleAgeingImpl_eq:
  fixes helper :: FileAgeingChecker and fileList :: "TraceFileInfo list"
  defines "k \<equiv> length fileList - keeps ShouldAgeing helper (rev fileList)"
  shows "HandleAgeingImpl fs fileList traceType helper =
    (drop k fileList, HandleFileNotInVec (without {p \<in> filename ` set (take k fileList). deletable fs p} fs) traceType (drop k fileList))"
proof -
  have "rev (take (keeps ShouldAgeing helper (rev fileList)) (rev fileList)) = drop k fileList"
    by (simp add: k_def rev_take)
  moreover have "set (map filename (drop (keeps ShouldAgeing helper (rev fileList)) (rev fileList))) = filename ` set (take k fileList)"
    by (simp add: k_def drop_rev)
  ultimately show ?thesis
    by (simp add: HandleAgeingImpl_def checker.loop_keeps remove_all_eq Let_def del: set_map)
qed

lemma aged_Impl:
  assumes "distinct (map filename fileList)"
  shows "aged traceType (fileList, fs) (HandleAgeingImpl fs fileList traceType helper)"
proof -
  define k where "k = length fileList - keeps ShouldAgeing helper (rev fileList)"
  let ?X = "{p \<in> filename ` set (take k fileList). deletable fs p}"
  have "?X \<inter> filename ` set (drop k fileList) = {}"
    using distinct_split_names [of "take k fileList" "drop k fileList"] assms by auto
  moreover have "?X \<subseteq> filename ` set fileList" by (auto dest: in_set_takeD)
  ultimately have "aged traceType (fileList, fs) (drop k fileList, without ?X fs)"
    by (auto simp: aged_def intro!: exI [of _ ?X] suffix_imp_subseq suffix_drop)
  from aged_trans [OF this aged_not_in_vec] show ?thesis by (simp add: HandleAgeingImpl_eq k_def)
qed

section \<open>Snapshots\<close>

lemma need_ageing_distinct:
  "distinct nr \<Longrightarrow> distinct (need_ageing_loop fs nd ct files cc nr lf)"
  by (induction files arbitrary: cc nr lf) (simp_all add: Let_def)

text \<open>
  The files that may be chosen: those without a link, and of the linked ones only the oldest, with the
  queue in front of the rest of the list: none of the last sixteen.
\<close>

definition eligible :: "fs \<Rightarrow> TraceFileInfo list \<Rightarrow> TraceFileInfo list \<Rightarrow> string set" where
  "eligible fs lf files = filename ` {f \<in> set files. \<not> linked fs (filename f)} \<union>
     (let Q = lf @ filter (\<lambda>f. linked fs (filename f)) files in filename ` set (take (length Q - DEFAULT_LINK_NUM) Q))"

lemma eligible_unlinked:
  "\<not> linked fs (filename f) \<Longrightarrow> eligible fs lf (f # files) = insert (filename f) (eligible fs lf files)"
  by (auto simp: eligible_def Let_def)

lemma eligible_linked: "linked fs (filename f) \<Longrightarrow> eligible fs lf (f # files) = eligible fs (lf @ [f]) files"
proof -
  assume a: "linked fs (filename f)"
  then have "{g \<in> set (f # files). \<not> linked fs (filename g)} = {g \<in> set files. \<not> linked fs (filename g)}" by auto
  with a show ?thesis by (simp add: eligible_def)
qed

lemma eligible_pop:
  "length q = DEFAULT_LINK_NUM \<Longrightarrow> eligible fs (h # q) files = insert (filename h) (eligible fs q files)"
  by (simp add: eligible_def Let_def Suc_diff_le)

lemma need_ageing_chosen:
  "length lf \<le> DEFAULT_LINK_NUM \<Longrightarrow> set (need_ageing_loop fs nd ct files cc nr lf) \<subseteq> set nr \<union> eligible fs lf files"
proof (induction files arbitrary: cc nr lf)
  case (Cons f files)
  show ?case
  proof (cases "linked fs (filename f)")
    case False
    then show ?thesis
      using Cons.IH [OF Cons.prems, of "cc + (if ct = FILESIZE then fi_size f else 1)" "List.insert (filename f) nr"]
      by (auto simp: eligible_unlinked)
  next
    case True
    show ?thesis
    proof (cases "length (lf @ [f]) \<le> DEFAULT_LINK_NUM")
      case short: True
      then show ?thesis using True Cons.IH [OF short, of cc nr] by (auto simp: eligible_linked)
    next
      case False
      obtain h q where h: "lf @ [f] = h # q" by (cases "lf @ [f]") auto
      have "length (lf @ [f]) = Suc (length q)" by (simp only: h) simp
      then have q: "length q = DEFAULT_LINK_NUM" using False Cons.prems by simp
      have "eligible fs lf (f # files) = insert (filename h) (eligible fs q files)"
        by (simp add: eligible_linked [OF True] h eligible_pop [OF q])
      then show ?thesis
        using True False Cons.IH [OF eq_refl [OF q], of "cc + (if ct = FILESIZE then fi_size h else 1)" "List.insert (filename h) nr"]
        by (auto simp: Let_def h)
    qed
  qed
qed simp

lemma aged_remove_and_erase:
  assumes "distinct (map filename fileList)" "distinct ps" "set ps \<subseteq> filename ` set fileList"
  shows "aged traceType (fileList, fs) (remove_and_erase fs fileList traceType ps)"
proof -
  let ?X = "{p \<in> set ps. deletable fs p}"
  have "aged traceType (fileList, fs) (filter (\<lambda>f. filename f \<notin> ?X) fileList, without ?X fs)"
    using assms(3) unfolding aged_def by (intro conjI exI [of _ ?X]) auto
  from aged_trans [OF this aged_not_in_vec] show ?thesis
    by (simp add: remove_and_erase_def remove_needed_eq assms(2) Let_def)
qed

lemma eligible_list: "eligible fs [] files \<subseteq> filename ` set files"
  by (auto simp: eligible_def Let_def dest: in_set_takeD)

lemma needed_files:
  "distinct (HandleFileNeedAgeing fs nd ct fileList)" "set (HandleFileNeedAgeing fs nd ct fileList) \<subseteq> eligible fs [] fileList"
  using need_ageing_chosen [of "[]" fs nd ct fileList 0 "[]"] by (auto simp: HandleFileNeedAgeing_def need_ageing_distinct)

lemma aged_SnapShort:
  assumes "distinct (map filename fileList)"
  shows "aged traceType (fileList, fs) (HandleAgeingSnapShort param fs fileList traceType ct)"
proof -
  have "aged traceType (fileList, fs) (remove_and_erase fs fileList traceType (HandleFileNeedAgeing fs nd ct' fileList))" for nd ct'
    using needed_files [of fs nd ct' fileList] eligible_list by (intro aged_remove_and_erase assms) blast+
  then show ?thesis using aged_not_in_vec by (cases ct) (simp_all add: HandleAgeingSnapShort_def Let_def)
qed

lemma aged_step:
  assumes "distinct (map filename (fst s))"
  shows "aged traceType s (ageing_step isRoot param traceType ct s)"
proof (cases s)
  case (Pair fileList fs)
  then have "aged traceType (fileList, fs) (HandleAgeingImpl fs fileList traceType h)"
    "aged traceType (fileList, fs) (HandleAgeingSnapShort param fs fileList traceType ct)" for h
    using assms by (simp_all add: aged_Impl aged_SnapShort)
  then show ?thesis using Pair by (cases traceType) (auto simp: ageing_step_def split: option.split)
qed

lemma aged_distinct: "aged traceType s s' \<Longrightarrow> distinct (map filename (fst s)) \<Longrightarrow> distinct (map filename (fst s'))"
  unfolding aged_def by (meson in_set_subseqs subseqs_distinctD subseq_map)



definition sample_dir_node :: fnode where
  "sample_dir_node = (sample_node 0)\<lparr>node_type := DT_DIR\<rparr>"

definition sample_ageing_fs :: fs where
  "sample_ageing_fs = [(''/data/log/hitrace'', sample_dir_node), (''/data/log/hitrace/trace_1'', (sample_node 5)\<lparr>has_link := True\<rparr>),
     (''/data/log/hitrace/trace_2'', sample_node 7), (''/data/log/hitrace/trace_0'', sample_node 7), (''/data/log/other'', sample_node 1)]"

definition sample_ageing_list :: "TraceFileInfo list" where
  "sample_ageing_list = [sample_file ''/data/log/hitrace/trace_1'' 5, sample_file ''/data/log/hitrace/trace_2'' 7]"

definition sample_param :: AgeingParam where
  "sample_param = \<lparr>rootEnable = True, fileNumberLimit = 1, fileSizeKbLimit = 0\<rparr>"


section \<open>Recordings\<close>

text \<open>The limits in force for a recording: the number from the configuration, the size from the caller if
it gives one.\<close>

definition number_limit :: "bool \<Rightarrow> AgeingParam \<Rightarrow> int option" where
  "number_limit isRoot param =
     (if isRoot \<and> \<not> rootEnable param \<or> fileNumberLimit param \<le> 0 then None else Some (fileNumberLimit param))"

definition size_limit :: "bool \<Rightarrow> AgeingParam \<Rightarrow> int \<Rightarrow> int option" where
  "size_limit isRoot param setTotalSize =
     (if setTotalSize \<noteq> 0 then Some setTotalSize
      else if isRoot \<and> \<not> rootEnable param \<or> fileSizeKbLimit param \<le> 0 then None else Some (fileSizeKbLimit param))"

lemma fst_Impl: "fst (HandleAgeingImpl fs fileList traceType h) = drop (length fileList - keeps ShouldAgeing h (rev fileList)) fileList"
  by (simp add: HandleAgeingImpl_eq)

lemma recording_number_step:
  "fst (ageing_step isRoot param TRACE_RECORDING FILENUMBER s) =
     (case number_limit isRoot param of None \<Rightarrow> fst s | Some n \<Rightarrow> drop (length (fst s) - nat n) (fst s))"
  by (auto simp: ageing_step_def CreateFileChecker_def number_limit_def fst_Impl keeps_ShouldAgeing keeps_number min_def)

lemma recording_size_step:
  "fst (HandleAgeing isRoot param fs fileList TRACE_RECORDING setTotalSize) =
     (let files = fst (ageing_step isRoot param TRACE_RECORDING FILENUMBER (fileList, fs))
      in case size_limit isRoot param setTotalSize of None \<Rightarrow> files
         | Some m \<Rightarrow> drop (length files - keeps Size_ShouldAgeing (FileSizeChecker_new m) (rev files)) files)"
  by (auto simp: HandleAgeing_def Let_def ageing_step_def [of isRoot param TRACE_RECORDING FILESIZE] CreateFileChecker_def
      size_limit_def fst_Impl keeps_ShouldAgeing)

text \<open>The sizes as the checker sees them, from the newest file: the last \<open>j\<close> files of the list.\<close>

lemma kb_rev: "kb (rev files) = kb files"
  by (simp add: kb_def rev_map [symmetric])

lemma recording_size_kept:
  assumes "k = keeps Size_ShouldAgeing (FileSizeChecker_new m) (rev files)"
  shows "min 2 (length files) \<le> k \<and> (\<forall>j. 2 \<le> j \<and> j < k \<longrightarrow> kb (drop (length files - j) files) < m) \<and>
    (k < length files \<longrightarrow> m \<le> kb (drop (length files - k) files))"
proof -
  have "kb (take j (rev files)) = kb (drop (length files - j) files)" for j
    using kb_rev [of "drop (length files - j) files"] by (simp add: take_rev)
  with keeps_size [OF assms [symmetric]] show ?thesis by simp
qed

text \<open>C26: Before a recording starts a new file, the newest files are kept, at most as many as the limit;
with a size limit, at least two of them, the kept files without the oldest are below the limit, and
files are deleted for their size only when the kept ones reach it.\<close>

theorem recording_keeps_newest:
  assumes "HandleAgeing isRoot param fs fileList TRACE_RECORDING setTotalSize = (fileList', fs')"
  shows "\<exists>n k. n = (case number_limit isRoot param of None \<Rightarrow> length fileList | Some l \<Rightarrow> min (nat l) (length fileList)) \<and>
     k \<le> n \<and> fileList' = drop (length fileList - k) fileList \<and>
     (case size_limit isRoot param setTotalSize of None \<Rightarrow> k = n
      | Some m \<Rightarrow> min 2 n \<le> k \<and> (\<forall>j. 2 \<le> j \<and> j < k \<longrightarrow> kb (drop (length fileList - j) fileList) < m) \<and>
          (k < n \<longrightarrow> m \<le> kb fileList'))"
proof -
  define n where "n = (case number_limit isRoot param of None \<Rightarrow> length fileList | Some l \<Rightarrow> min (nat l) (length fileList))"
  define files where "files = drop (length fileList - n) fileList"
  have n: "n \<le> length fileList" by (auto simp: n_def split: option.split)
  have files: "fst (ageing_step isRoot param TRACE_RECORDING FILENUMBER (fileList, fs)) = files"
    by (auto simp: recording_number_step files_def n_def min_def split: option.split)
  have len: "length files = n" using n by (simp add: files_def)
  have tail: "drop (length files - j) files = drop (length fileList - j) fileList" if "j \<le> n" for j
    using n that by (simp add: files_def)
  have res: "fileList' = (case size_limit isRoot param setTotalSize of None \<Rightarrow> files
      | Some m \<Rightarrow> drop (length files - keeps Size_ShouldAgeing (FileSizeChecker_new m) (rev files)) files)"
    using recording_size_step [of isRoot param fs fileList setTotalSize] assms by (simp add: files)
  show ?thesis
  proof (cases "size_limit isRoot param setTotalSize")
    case None
    then show ?thesis using res unfolding n_def [symmetric] files_def by (intro exI [of _ n]) simp
  next
    case (Some m)
    define k where "k = keeps Size_ShouldAgeing (FileSizeChecker_new m) (rev files)"
    have k: "k \<le> n" using keeps_le [of Size_ShouldAgeing "FileSizeChecker_new m" "rev files"] len by (simp add: k_def)
    have "fileList' = drop (length fileList - k) fileList" using res Some tail [OF k] by (simp add: k_def)
    moreover note recording_size_kept [OF k_def] 
    ultimately show ?thesis using Some k len tail unfolding n_def [symmetric]
      by (intro exI [of _ n] exI [of _ k]) auto
  qed
qed

theorem recording_keeps_newest_witness:
  "\<exists>k \<le> 1. fst (HandleAgeing True sample_param sample_ageing_fs sample_ageing_list TRACE_RECORDING 0) = drop (2 - k) sample_ageing_list"
proof -
  have s: "length sample_ageing_list = 2" "number_limit True sample_param = Some 1"
    by (simp_all add: sample_ageing_list_def number_limit_def sample_param_def)
  obtain fileList' fs' where r: "HandleAgeing True sample_param sample_ageing_fs sample_ageing_list TRACE_RECORDING 0 = (fileList', fs')"
    by (cases "HandleAgeing True sample_param sample_ageing_fs sample_ageing_list TRACE_RECORDING 0")
  from recording_keeps_newest [OF r] s obtain k where "k \<le> 1" "fileList' = drop (2 - k) sample_ageing_list" by auto
  then show ?thesis using r by auto
qed

section \<open>Snapshots and links\<close>

text \<open>The newest linked files of a list, sixteen at most.\<close>

definition last_links :: "fs \<Rightarrow> TraceFileInfo list \<Rightarrow> TraceFileInfo list" where
  "last_links fs fileList =
     (let Q = filter (\<lambda>f. linked fs (filename f)) fileList in drop (length Q - DEFAULT_LINK_NUM) Q)"

lemma linked_without: "linked (without X fs) p \<longleftrightarrow> p \<notin> X \<and> linked fs p"
  by (simp add: linked_def map_of_without)

lemma last_links_filter:
  assumes "distinct (map filename fileList)" "Y \<subseteq> eligible fs [] fileList"
  shows "last_links fs (filter (\<lambda>f. filename f \<notin> Y) fileList) = last_links fs fileList"
proof -
  let ?l = "\<lambda>f. linked fs (filename f)" and ?p = "\<lambda>f. filename f \<notin> Y"
  define Q where "Q = filter ?l fileList"
  define A where "A = take (length Q - DEFAULT_LINK_NUM) Q"
  define B where "B = drop (length Q - DEFAULT_LINK_NUM) Q"
  have Q: "Q = A @ B" by (simp add: A_def B_def)
  have lenB: "length B \<le> DEFAULT_LINK_NUM" "A = [] \<or> length B = DEFAULT_LINK_NUM" by (auto simp: A_def B_def)
  have "distinct (map filename Q)" using assms(1) by (auto simp: Q_def distinct_map inj_on_def)
  then have AB: "filename ` set A \<inter> filename ` set B = {}" unfolding Q by (rule distinct_split_names)
  have "?p f" if "f \<in> set B" for f
  proof
    assume "filename f \<in> Y"
    then have "filename f \<in> eligible fs [] fileList" using assms(2) by auto
    moreover have "linked fs (filename f)" using that by (auto simp: B_def Q_def dest: in_set_dropD)
    ultimately have "filename f \<in> filename ` set A" by (auto simp: eligible_def Let_def A_def Q_def)
    with AB that show False by blast
  qed
  then have "filter ?p B = B" by (simp add: filter_id_conv)
  moreover have "filter ?l (filter ?p fileList) = filter ?p Q" by (simp add: Q_def conj_commute)
  ultimately have "filter ?l (filter ?p fileList) = filter ?p A @ B" by (simp add: Q)
  then have "last_links fs (filter ?p fileList) = B" using lenB by (auto simp: last_links_def Let_def)
  then show ?thesis by (simp add: last_links_def Let_def B_def Q_def)
qed

lemma last_links_without:
  "X \<inter> filename ` set fileList = {} \<Longrightarrow> last_links (without X fs) fileList = last_links fs fileList"
proof -
  assume "X \<inter> filename ` set fileList = {}"
  then have "filter (\<lambda>f. linked (without X fs) (filename f)) fileList = filter (\<lambda>f. linked fs (filename f)) fileList"
    by (intro filter_cong) (auto simp: linked_without)
  then show ?thesis by (simp add: last_links_def)
qed

lemma last_links_not_in_vec:
  "last_links (HandleFileNotInVec fs traceType fileList) fileList = last_links fs fileList"
  unfolding not_in_vec_eq by (rule last_links_without) auto

lemma last_links_erase:
  assumes "distinct (map filename fileList)" "distinct ps" "set ps \<subseteq> eligible fs [] fileList"
    and "remove_and_erase fs fileList traceType ps = (fileList', fs')"
  shows "last_links fs' fileList' = last_links fs fileList"
proof -
  let ?X = "{p \<in> set ps. deletable fs p}"
  have l: "fileList' = filter (\<lambda>f. filename f \<notin> ?X) fileList" "fs' = HandleFileNotInVec (without ?X fs) traceType fileList'"
    using assms(4) by (auto simp: remove_and_erase_def remove_needed_eq assms(2) Let_def)
  have "last_links fs' fileList' = last_links (without ?X fs) fileList'" by (simp add: l(2) last_links_not_in_vec)
  also have "\<dots> = last_links fs fileList'" by (rule last_links_without) (auto simp: l(1))
  also have "\<dots> = last_links fs fileList" unfolding l(1) by (rule last_links_filter [OF assms(1)]) (use assms(3) in auto)
  finally show ?thesis .
qed

lemma last_links_SnapShort:
  assumes "distinct (map filename fileList)" "HandleAgeingSnapShort param fs fileList traceType ct = (fileList', fs')"
  shows "last_links fs' fileList' = last_links fs fileList"
  using assms(2) last_links_not_in_vec last_links_erase [OF assms(1) needed_files]
  by (cases ct) (auto simp: HandleAgeingSnapShort_def Let_def split: if_splits)

text \<open>The ageing of snapshots never touches the sixteen newest linked files: they are listed, exist and
carry their link afterwards as before.\<close>

theorem snapshot_links_survive:
  assumes "distinct (map filename fileList)"
    and "HandleAgeing isRoot param fs fileList TRACE_SNAPSHOT setTotalSize = (fileList', fs')"
  shows "last_links fs' fileList' = last_links fs fileList"
proof -
  have step: "last_links (snd t) (fst t) = last_links (snd s) (fst s)"
    if "distinct (map filename (fst s))" "t = ageing_step isRoot param TRACE_SNAPSHOT ct s" for s t ct
    using last_links_SnapShort [OF that(1), of param "snd s" TRACE_SNAPSHOT ct "fst t" "snd t"] that(2)
    by (auto simp: ageing_step_def split: option.splits)
  define s where "s = ageing_step isRoot param TRACE_SNAPSHOT FILENUMBER (fileList, fs)"
  have "distinct (map filename (fst s))"
    using aged_distinct [OF aged_step [of "(fileList, fs)"]] assms(1) by (simp add: s_def)
  from step [OF this] step [of "(fileList, fs)" s FILENUMBER] assms
  show ?thesis by (auto simp: HandleAgeing_def s_def [symmetric]) (metis fst_conv snd_conv)
qed

theorem snapshot_links_survive_witness:
  "last_links (snd (HandleAgeing True sample_param sample_ageing_fs sample_ageing_list TRACE_SNAPSHOT 0))
     (fst (HandleAgeing True sample_param sample_ageing_fs sample_ageing_list TRACE_SNAPSHOT 0)) =
   [sample_file ''/data/log/hitrace/trace_1'' 5]"
proof -
  have "distinct (map filename sample_ageing_list)"
    by (simp add: sample_ageing_list_def sample_file_def TraceFileInfo_listed_def)
  moreover have "last_links sample_ageing_fs sample_ageing_list = [sample_file ''/data/log/hitrace/trace_1'' 5]"
    by (simp add: last_links_def sample_ageing_list_def sample_ageing_fs_def linked_def sample_file_def TraceFileInfo_listed_def
        DEFAULT_LINK_NUM_def sample_node_def)
  ultimately show ?thesis
    using snapshot_links_survive [of sample_ageing_list True sample_param sample_ageing_fs 0] by (metis prod.collapse)
qed

definition weight :: "CheckType \<Rightarrow> TraceFileInfo list \<Rightarrow> int" where
  "weight ct files = sum_list (map (\<lambda>f. if ct = FILESIZE then fi_size f else 1) files)"

lemma weight_simps [simp]: "weight ct [] = 0"
  "weight ct (f # files) = (if ct = FILESIZE then fi_size f else 1) + weight ct files"
  "weight ct (xs @ ys) = weight ct xs + weight ct ys"
  by (simp_all add: weight_def)

lemma weight_number: "weight FILENUMBER files = int (length files)"
  by (induction files) auto

lemma need_ageing_unlinked:
  assumes "list_all (\<lambda>f. \<not> linked fs (filename f)) files"
  shows "\<exists>k \<le> length files. set (need_ageing_loop fs nd ct files cc nr lf) = set nr \<union> filename ` set (take k files) \<and>
    (k < length files \<longrightarrow> nd \<le> cc + weight ct (take k files)) \<and> (\<forall>i < k. cc + weight ct (take i files) < nd)"
  using assms
proof (induction files arbitrary: cc nr)
  case (Cons f files)
  show ?case
  proof (cases "cc \<ge> nd")
    case True
    then show ?thesis by (intro exI [of _ 0]) simp
  next
    case False
    let ?w = "if ct = FILESIZE then fi_size f else 1"
    have "list_all (\<lambda>f. \<not> linked fs (filename f)) files" using Cons.prems by simp
    from Cons.IH [OF this, of "cc + ?w" "List.insert (filename f) nr"] obtain k where k: "k \<le> length files"
      "set (need_ageing_loop fs nd ct files (cc + ?w) (List.insert (filename f) nr) lf) =
         set (List.insert (filename f) nr) \<union> filename ` set (take k files)"
      "k < length files \<longrightarrow> nd \<le> cc + ?w + weight ct (take k files)" "\<forall>i < k. cc + ?w + weight ct (take i files) < nd"
      by blast
    have "\<forall>i < Suc k. cc + weight ct (take i (f # files)) < nd"
      using k(4) False by (auto simp: less_Suc_eq_0_disj add.assoc)
    with k False Cons.prems show ?thesis by (intro exI [of _ "Suc k"]) (auto simp: add.assoc)
  qed
qed simp

lemma CalculateFilesize_unlinked:
  "list_all (\<lambda>f. \<not> linked fs (filename f)) files \<Longrightarrow> CalculateFilesize_loop fs files n c = c + sum_list (map fi_size files)"
  by (induction files arbitrary: c) auto

lemma erase_prefix:
  assumes "distinct (map filename fileList)" "list_all (\<lambda>f. deletable fs (filename f)) fileList"
    and "distinct ps" "set ps = filename ` set (take k fileList)"
  shows "fst (remove_and_erase fs fileList traceType ps) = drop k fileList"
proof -
  have names: "filename ` set (take k fileList) \<inter> filename ` set (drop k fileList) = {}"
    using distinct_split_names [of "take k fileList" "drop k fileList"] assms(1) by simp
  have "set (filter (deletable fs) ps) = filename ` set (take k fileList)"
    using assms(2,4) by (auto simp: list_all_iff dest: in_set_takeD)
  then have "fst (remove_and_erase fs fileList traceType ps) =
      filter (\<lambda>f. filename f \<notin> filename ` set (take k fileList)) fileList"
    by (simp add: remove_and_erase_def remove_needed_eq assms(3) Let_def del: set_filter)
  also have "\<dots> = filter (\<lambda>f. filename f \<notin> filename ` set (take k fileList)) (take k fileList) @
      filter (\<lambda>f. filename f \<notin> filename ` set (take k fileList)) (drop k fileList)"
    by (simp only: append_take_drop_id flip: filter_append)
  also have "\<dots> = drop k fileList"
    using names by (auto simp: filter_empty_conv filter_id_conv)
  finally show ?thesis .
qed

text \<open>Which part of the list is removed when nothing is linked and everything can be deleted.\<close>

lemma chosen_prefix:
  assumes "distinct (map filename fileList)" "list_all (\<lambda>f. deletable fs (filename f)) fileList"
    and "list_all (\<lambda>f. \<not> linked fs (filename f)) fileList"
  obtains k where "k \<le> length fileList"
    "fst (remove_and_erase fs fileList traceType (HandleFileNeedAgeing fs nd ct fileList)) = drop k fileList"
    "k < length fileList \<Longrightarrow> nd \<le> weight ct (take k fileList)" "\<And>i. i < k \<Longrightarrow> weight ct (take i fileList) < nd"
proof -
  obtain k where k: "k \<le> length fileList" "set (HandleFileNeedAgeing fs nd ct fileList) = filename ` set (take k fileList)"
    "k < length fileList \<longrightarrow> nd \<le> weight ct (take k fileList)" "\<forall>i < k. weight ct (take i fileList) < nd"
    using need_ageing_unlinked [OF assms(3), of nd ct 0 "[]" "[]"] by (auto simp: HandleFileNeedAgeing_def)
  show ?thesis
    using k(3,4) by (intro that [OF k(1) erase_prefix [OF assms(1,2) needed_files(1) k(2)]]) auto
qed

lemma weight_take: "weight ct (take k files) = weight ct files - weight ct (drop k files)"
  by (metis add_diff_cancel_right' append_take_drop_id weight_simps(3))

lemma snapshot_number_tail:
  assumes "distinct (map filename fileList)" "list_all (\<lambda>f. deletable fs (filename f)) fileList"
    and "list_all (\<lambda>f. \<not> linked fs (filename f)) fileList" "0 < fileNumberLimit param"
  shows "fst (HandleAgeingSnapShort param fs fileList traceType FILENUMBER) =
    drop (length fileList - nat (fileNumberLimit param)) fileList"
proof (cases "int (length fileList) \<le> fileNumberLimit param")
  case True
  then show ?thesis by (simp add: HandleAgeingSnapShort_def Let_def nat_le_iff)
next
  case False
  let ?nd = "int (length fileList) - fileNumberLimit param"
  obtain k where k: "k \<le> length fileList"
    "fst (remove_and_erase fs fileList traceType (HandleFileNeedAgeing fs ?nd FILENUMBER fileList)) = drop k fileList"
    "k < length fileList \<Longrightarrow> ?nd \<le> weight FILENUMBER (take k fileList)" "\<And>i. i < k \<Longrightarrow> weight FILENUMBER (take i fileList) < ?nd"
    using chosen_prefix [OF assms(1-3), of traceType ?nd FILENUMBER] by blast
  have "k = nat ?nd"
  proof (rule antisym)
    show "k \<le> nat ?nd" using k(4) [of "k - 1"] k(1) by (cases k) (auto simp: weight_number)
    show "nat ?nd \<le> k" using k(1,3) assms(4) by (cases "k < length fileList") (auto simp: weight_number)
  qed
  then have "drop k fileList = drop (length fileList - nat (fileNumberLimit param)) fileList"
    using False assms(4) by (simp add: nat_diff_distrib)
  then show ?thesis using k(2) False assms(4) by (simp add: HandleAgeingSnapShort_def Let_def)
qed

lemma snapshot_size_tail:
  assumes "distinct (map filename fileList)" "list_all (\<lambda>f. deletable fs (filename f)) fileList"
    and "list_all (\<lambda>f. \<not> linked fs (filename f)) fileList" "0 < fileSizeKbLimit param"
  shows "\<exists>k. fst (HandleAgeingSnapShort param fs fileList traceType FILESIZE) = drop k fileList \<and>
    weight FILESIZE (drop k fileList) \<le> fileSizeKbLimit param * 1024 \<and>
    (\<forall>j < k. fileSizeKbLimit param * 1024 < weight FILESIZE (drop j fileList))"
proof -
  have count: "CalculateFilesize fs fileList = weight FILESIZE fileList"
    using CalculateFilesize_unlinked [OF assms(3), of 0 0] by (simp add: CalculateFilesize_def weight_def)
  let ?nd = "weight FILESIZE fileList - fileSizeKbLimit param * 1024"
  show ?thesis
  proof (cases "?nd \<le> 0")
    case True
    then show ?thesis by (intro exI [of _ 0]) (simp add: HandleAgeingSnapShort_def Let_def BYTE_PER_KB_def count)
  next
    case False
    obtain k where k: "k \<le> length fileList"
      "fst (remove_and_erase fs fileList traceType (HandleFileNeedAgeing fs ?nd FILESIZE fileList)) = drop k fileList"
      "k < length fileList \<Longrightarrow> ?nd \<le> weight FILESIZE (take k fileList)" "\<And>i. i < k \<Longrightarrow> weight FILESIZE (take i fileList) < ?nd"
      using chosen_prefix [OF assms(1-3), of traceType ?nd FILESIZE] by blast
    have "fst (HandleAgeingSnapShort param fs fileList traceType FILESIZE) = drop k fileList"
      using k(2) False assms(4) by (simp add: HandleAgeingSnapShort_def Let_def BYTE_PER_KB_def count)
    moreover have "weight FILESIZE (drop k fileList) \<le> fileSizeKbLimit param * 1024"
      using k(1,3) assms(4) by (cases "k < length fileList") (auto simp: weight_take)
    moreover have "\<forall>j < k. fileSizeKbLimit param * 1024 < weight FILESIZE (drop j fileList)"
      using k(4) by (auto simp: weight_take)
    ultimately show ?thesis by blast
  qed
qed

text \<open>C19: Without links, the ageing of snapshots keeps exactly the newest files up to the number limit,
and the longest tail of the list whose bytes are within the size limit, when the files can be deleted.\<close>

theorem snapshot_keeps_longest_tail:
  assumes "distinct (map filename fileList)" "list_all (\<lambda>f. deletable fs (filename f)) fileList"
    and "list_all (\<lambda>f. \<not> linked fs (filename f)) fileList"
    and "0 < fileNumberLimit param" "0 < fileSizeKbLimit param"
  shows "fst (HandleAgeingSnapShort param fs fileList traceType FILENUMBER) =
      drop (length fileList - nat (fileNumberLimit param)) fileList \<and>
    (\<exists>k. fst (HandleAgeingSnapShort param fs fileList traceType FILESIZE) = drop k fileList \<and>
      sum_list (map fi_size (drop k fileList)) \<le> fileSizeKbLimit param * 1024 \<and>
      (\<forall>j < k. fileSizeKbLimit param * 1024 < sum_list (map fi_size (drop j fileList))))"
  using snapshot_number_tail [OF assms(1-4)] snapshot_size_tail [OF assms(1-3,5), of traceType] by (simp add: weight_def)

definition sample_plain_fs :: fs where
  "sample_plain_fs = [(''a'', sample_node 700), (''b'', sample_node 800), (''c'', sample_node 100)]"

definition sample_plain_list :: "TraceFileInfo list" where
  "sample_plain_list = [sample_file ''a'' 700, sample_file ''b'' 800, sample_file ''c'' 100]"

theorem snapshot_keeps_longest_tail_witness:
  "fst (HandleAgeingSnapShort \<lparr>rootEnable = True, fileNumberLimit = 2, fileSizeKbLimit = 1\<rparr> sample_plain_fs
     sample_plain_list TRACE_SNAPSHOT FILENUMBER) = [sample_file ''b'' 800, sample_file ''c'' 100]"
proof -
  have "distinct (map filename sample_plain_list)" "list_all (\<lambda>f. deletable sample_plain_fs (filename f)) sample_plain_list"
    "list_all (\<lambda>f. \<not> linked sample_plain_fs (filename f)) sample_plain_list"
    by (simp_all add: sample_plain_list_def sample_plain_fs_def sample_file_def TraceFileInfo_listed_def deletable_def
        linked_def sample_node_def)
  from snapshot_keeps_longest_tail [OF this, of "\<lparr>rootEnable = True, fileNumberLimit = 2, fileSizeKbLimit = 1\<rparr>" TRACE_SNAPSHOT]
  show ?thesis by (simp add: sample_plain_list_def)
qed

end
