(* ===== verification/Dump_Executor.thy ===== *)
theory Dump_Executor
  imports Dump_Strategy File_Ageing
begin

text \<open>
  The loops of the executor, \<^verbatim>\<open>frameworks/tracedump_executor/trace_dump_executor.cpp\<close>: a recording or a
  cache writes one file after the other until another thread ends the loop through the state machine or
  a file fails. Each round comes with what it meets: the clock, what \<^verbatim>\<open>ExecuteDumpTrace\<close> does to the
  directory (its inside is the subject of the theory on strategies), whether the renaming succeeds, and
  what the other threads do to the state machine meanwhile.
\<close>

section \<open>State and rounds\<close>

record TraceDumpParam =
  dp_type :: TraceDumpType
  dp_outputFile :: string
  dp_fileLimit :: int
  dp_fileSize :: int
  dp_start :: u64
  dp_end :: u64
  dp_total :: u64
  dp_slice :: u64

definition TraceDumpParam_default :: TraceDumpParam where
  "TraceDumpParam_default = \<lparr>dp_type = TRACE_SNAPSHOT, dp_outputFile = [], dp_fileLimit = 0, dp_fileSize = 0, dp_start = 0,
     dp_end = - 1, dp_total = 0, dp_slice = 30\<rparr>"

record loop_state =
  ex_machine :: TraceDumpState
  ex_loop :: "TraceFileInfo list"
  ex_cache :: "TraceFileInfo list"
  ex_fs :: fs

type_synonym dump_outcome = "TraceDumpRequest \<Rightarrow> string \<Rightarrow> fs \<Rightarrow> TraceDumpRet \<times> string \<times> fs"

record loop_round =
  lr_clock :: file_env
  lr_dump :: dump_outcome
  lr_renameOk :: bool
  lr_control :: "TraceDumpState \<Rightarrow> TraceDumpState"

definition DEFAULT_CACHE_FILE_SIZE :: int where "DEFAULT_CACHE_FILE_SIZE = 150 * 1024"

text \<open>The list of the files that were written by this loop.\<close>

definition FilterLoopTraceResult :: "TraceFileInfo list \<Rightarrow> string list" where
  "FilterLoopTraceResult looptraceFiles = map filename (filter isNewFile looptraceFiles)"

definition PreCheckDumpTraceLoopStatus :: "loop_state \<Rightarrow> bool \<times> loop_state" where
  "PreCheckDumpTraceLoopStatus s = (let (ok, m) = StartLoopDump (ex_machine s) in (ok, s\<lparr>ex_machine := m\<rparr>))"

section \<open>One file\<close>

text \<open>The product of two 32-bit integers, with the wrap-around of the machine.\<close>

definition size_threshold :: "TraceDumpParam \<Rightarrow> int" where
  "size_threshold param =
     (if dp_fileSize param \<noteq> 0 then sint (of_int (dp_fileSize param * BYTE_PER_KB) :: 32 word)
      else if dp_type param = TRACE_CACHE then DEFAULT_CACHE_FILE_SIZE * BYTE_PER_KB else DEFAULT_FILE_SIZE * BYTE_PER_KB)"

definition DoDumpTraceLoop ::
  "bool \<Rightarrow> loop_round \<Rightarrow> TraceDumpParam \<Rightarrow> string \<Rightarrow> bool \<Rightarrow> loop_state \<Rightarrow> bool \<times> string \<times> loop_state" where
  "DoDumpTraceLoop rootEmpty r param traceFile isLimited s =
     (if rootEmpty then (False, traceFile, s)
      else
        let rq = TraceDumpRequest_default\<lparr>rq_type := dp_type param, rq_fileSize := size_threshold param, rq_limitFileSz := isLimited,
                   rq_start := dp_start param, rq_end := dp_end param, rq_slice := dp_slice param\<rparr>;
            (ret, path, fs1) = lr_dump r rq traceFile (ex_fs s);
            s1 = s\<lparr>ex_fs := fs1, ex_machine := lr_control r (ex_machine s)\<rparr>
        in if ret_code ret \<noteq> SUCCESS then (False, traceFile, s1)
           else if dp_type param = TRACE_CACHE then
             (case SetFileInfo (lr_clock r) (lr_renameOk r) fs1 True path (ret_traceStartTime ret, ret_traceEndTime ret) TraceFileInfo_default [] of
                (None, fs2) \<Rightarrow> (False, path, s1\<lparr>ex_fs := snd (RemoveFile fs2 path)\<rparr>)
              | (Some info, fs2) \<Rightarrow>
                  (map_of fs2 (filename info) \<noteq> None, filename info, s1\<lparr>ex_fs := fs2, ex_cache := ex_cache s1 @ [info]\<rparr>))
           else (map_of fs1 path \<noteq> None, path, s1))"

definition end_self :: "loop_state \<Rightarrow> loop_state" where
  "end_self s = s\<lparr>ex_machine := EndLoopDumpSelf (ex_machine s)\<rparr>"

definition add_loop_file :: "string \<Rightarrow> loop_state \<Rightarrow> loop_state" where
  "add_loop_file traceFile s = s\<lparr>ex_loop := ex_loop s @ [TraceFileInfo_of_name (ex_fs s) traceFile]\<rparr>"

section \<open>Recording\<close>

record loop_config =
  lc_rootEmpty :: bool
  lc_isRoot :: bool
  lc_ageing :: AgeingParam

definition age_loop_files :: "loop_config \<Rightarrow> TraceDumpParam \<Rightarrow> loop_state \<Rightarrow> loop_state" where
  "age_loop_files cf param s =
     (let (files, fs') = HandleAgeing (lc_isRoot cf) (lc_ageing cf) (ex_fs s) (ex_loop s) (dp_type param) (sint (dp_total param))
      in s\<lparr>ex_loop := files, ex_fs := fs'\<rparr>)"

definition record_round :: "loop_config \<Rightarrow> TraceDumpParam \<Rightarrow> string \<Rightarrow> loop_round \<Rightarrow> loop_state \<Rightarrow> bool \<times> string \<times> loop_state" where
  "record_round cf param outputPath r s =
     DoDumpTraceLoop (lc_rootEmpty cf) r param (GenerateTraceFileName (lr_clock r) (dp_type param) outputPath) True
       (age_loop_files cf param s)"

text \<open>The loop over the rounds; \<open>None\<close> is a loop that is still running after the rounds of the list.\<close>

primrec record_loop :: "loop_config \<Rightarrow> TraceDumpParam \<Rightarrow> string \<Rightarrow> loop_round list \<Rightarrow> loop_state \<Rightarrow> loop_state option" where
  "record_loop cf param outputPath [] s = (if IsLoopDumpRunning (ex_machine s) then None else Some (end_self s))"
| "record_loop cf param outputPath (r # rs) s =
     (if \<not> IsLoopDumpRunning (ex_machine s) then Some (end_self s)
      else let (ok, traceFile, s') = record_round cf param outputPath r s
           in if ok then record_loop cf param outputPath rs (add_loop_file traceFile s') else Some (end_self s'))"

definition loop_start :: "loop_config \<Rightarrow> TraceDumpParam \<Rightarrow> loop_state \<Rightarrow> loop_state" where
  "loop_start cf param s = age_loop_files cf param (s\<lparr>ex_loop := GetTraceFilesInDir (ex_fs s) (dp_type param) []\<rparr>)"

definition StartDumpTraceLoop ::
  "loop_config \<Rightarrow> TraceDumpParam \<Rightarrow> string \<Rightarrow> loop_round list \<Rightarrow> loop_state \<Rightarrow> loop_state option" where
  "StartDumpTraceLoop cf param outputPath rounds s =
     (let s0 = loop_start cf param s
      in if dp_fileSize param = 0 \<and> lc_isRoot cf then
           (case rounds of [] \<Rightarrow> None
            | r # _ \<Rightarrow>
                let traceFile = (if outputPath \<noteq> [] then GenerateTraceFileName (lr_clock r) (dp_type param) outputPath
                                 else if dp_outputFile param = [] then GenerateTraceFileName (lr_clock r) (dp_type param) []
                                 else dp_outputFile param);
                    (ok, traceFile', s1) = DoDumpTraceLoop (lc_rootEmpty cf) r param traceFile False s0
                in Some (end_self (if ok then add_loop_file traceFile' s1 else s1)))
         else record_loop cf param outputPath rounds s0)"

definition StopDumpTraceLoop :: "loop_state \<Rightarrow> string list \<times> loop_state" where
  "StopDumpTraceLoop s = (let s' = s\<lparr>ex_machine := EndLoopDump (ex_machine s)\<rparr> in (FilterLoopTraceResult (ex_loop s'), s'))"

section \<open>Caching\<close>

definition trim_cache :: "TraceDumpParam \<Rightarrow> loop_state \<Rightarrow> loop_state" where
  "trim_cache param s = (let (files, fs') = ClearCacheTraceFileBySize (ex_fs s) (dp_total param) (ex_cache s)
     in s\<lparr>ex_cache := files, ex_fs := fs'\<rparr>)"

primrec StartCacheTraceLoop :: "bool \<Rightarrow> TraceDumpParam \<Rightarrow> loop_round list \<Rightarrow> loop_state \<Rightarrow> loop_state option" where
  "StartCacheTraceLoop rootEmpty param [] s = (if IsLoopDumpRunning (ex_machine s) then None else Some (end_self s))"
| "StartCacheTraceLoop rootEmpty param (r # rs) s =
     (if \<not> IsLoopDumpRunning (ex_machine s) then Some (end_self s)
      else let (ok, traceFile, s') = DoDumpTraceLoop rootEmpty r param (GenerateTraceFileName (lr_clock r) (dp_type param) []) True s
           in if ok then StartCacheTraceLoop rootEmpty param rs (trim_cache param s') else Some (end_self s'))"

definition StopCacheTraceLoop :: "loop_state \<Rightarrow> loop_state" where
  "StopCacheTraceLoop s = s\<lparr>ex_machine := EndLoopDump (ex_machine s)\<rparr>"

text \<open>The cache loop is interrupted while the list is copied; both changes of the state may fail.\<close>

definition GetCacheTraceFiles :: "loop_state \<Rightarrow> TraceFileInfo list \<times> loop_state" where
  "GetCacheTraceFiles s =
     (let m1 = snd (InterruptCache (ex_machine s)); m2 = snd (ContinueCache m1)
      in (ex_cache s, s\<lparr>ex_machine := m2\<rparr>))"

section \<open>A single dump\<close>

definition DumpTraceInner :: "bool \<Rightarrow> dump_outcome \<Rightarrow> TraceDumpParam \<Rightarrow> string \<Rightarrow> fs \<Rightarrow> TraceDumpRet \<times> fs" where
  "DumpTraceInner rootEmpty dump param traceFile fs =
     (if rootEmpty then (TraceDumpRet_default\<lparr>ret_code := TRACE_NOT_SUPPORTED\<rparr>, fs)
      else let (ret, path, fs') = dump (TraceDumpRequest_default\<lparr>rq_type := dp_type param, rq_start := dp_start param, rq_end := dp_end param\<rparr>)
                                    traceFile fs
           in (ret, fs'))"

definition executor_DumpTrace :: "bool \<Rightarrow> file_env \<Rightarrow> dump_outcome \<Rightarrow> TraceDumpParam \<Rightarrow> string \<Rightarrow> fs \<Rightarrow> TraceDumpRet \<times> fs" where
  "executor_DumpTrace rootEmpty env dump param outputPath fs =
     DumpTraceInner rootEmpty dump param (GenerateTraceFileName env (dp_type param) outputPath) fs"

section \<open>What a loop leaves behind\<close>

text \<open>Trimming of the list of files: only from its oldest end.\<close>

locale front_trim =
  fixes trim :: "fs \<Rightarrow> TraceFileInfo list \<Rightarrow> TraceFileInfo list \<times> fs"
  assumes trim_front: "suffix (fst (trim fs xs)) xs"
begin

lemma tail_kept: "suffix xs all \<Longrightarrow> suffix (fst (trim fs xs)) all"
  using trim_front suffix_order.trans by blast

lemma tail_after_append: "suffix xs all \<Longrightarrow> suffix (fst (trim fs (xs @ [f]))) (all @ [f])"
  by (rule tail_kept) (auto simp: suffix_def)

lemma append_after_tail: "suffix xs all \<Longrightarrow> suffix (fst (trim fs xs) @ [f]) (all @ [f])"
  using tail_kept by (auto simp: suffix_def)

end

lemma clear_size_suffix: "suffix (fst (clear_size_loop limit sizes fs vec)) vec"
  by (induction vec arbitrary: sizes fs) (auto split: prod.splits intro: suffix_ConsI)

interpretation cache_trim: front_trim "\<lambda>fs. ClearCacheTraceFileBySize fs limit" for limit
  by unfold_locales (simp add: ClearCacheTraceFileBySize_def clear_size_suffix)

interpretation record_trim: front_trim "\<lambda>fs xs. HandleAgeing isRoot param fs xs TRACE_RECORDING lim" for isRoot param lim
  by unfold_locales (auto simp: recording_size_step recording_number_step Let_def suffix_drop intro: suffix_order.trans split: option.split)

text \<open>The names of the files that the rounds of a recording have finished, in order.\<close>

primrec finished :: "loop_config \<Rightarrow> TraceDumpParam \<Rightarrow> string \<Rightarrow> loop_round list \<Rightarrow> loop_state \<Rightarrow> string list" where
  "finished cf param outputPath [] s = []"
| "finished cf param outputPath (r # rs) s =
     (if \<not> IsLoopDumpRunning (ex_machine s) then []
      else let (ok, traceFile, s') = record_round cf param outputPath r s
           in if ok then traceFile # finished cf param outputPath rs (add_loop_file traceFile s') else [])"

lemma DoDump_loop_files:
  "DoDumpTraceLoop rootEmpty r param traceFile isLimited s = (ok, f, s') \<Longrightarrow> ex_loop s' = ex_loop s"
  by (auto simp: DoDumpTraceLoop_def Let_def split: if_splits prod.splits option.splits)

lemma age_loop_files_loop: "ex_loop (age_loop_files cf param s) =
    fst (HandleAgeing (lc_isRoot cf) (lc_ageing cf) (ex_fs s) (ex_loop s) (dp_type param) (sint (dp_total param)))"
  by (simp add: age_loop_files_def split: prod.split)

lemma record_round_files:
  assumes "record_round cf param outputPath r s = (ok, f, s')" "dp_type param = TRACE_RECORDING" "suffix (ex_loop s) all"
  shows "suffix (ex_loop s') all"
    "\<exists>g. filename g = f \<and> isNewFile g \<and> suffix (ex_loop (add_loop_file f s')) (all @ [g])"
proof -
  have "ex_loop s' = ex_loop (age_loop_files cf param s)"
    using assms(1) DoDump_loop_files unfolding record_round_def by blast
  then have l: "ex_loop s' = fst (HandleAgeing (lc_isRoot cf) (lc_ageing cf) (ex_fs s) (ex_loop s) TRACE_RECORDING (sint (dp_total param)))"
    using assms(2) by (simp add: age_loop_files_loop)
  show "suffix (ex_loop s') all" unfolding l by (rule record_trim.tail_kept [OF assms(3)])
  show "\<exists>g. filename g = f \<and> isNewFile g \<and> suffix (ex_loop (add_loop_file f s')) (all @ [g])"
    by (rule exI [of _ "TraceFileInfo_of_name (ex_fs s') f"])
      (simp add: add_loop_file_def l record_trim.tail_kept [OF assms(3)] TraceFileInfo_of_name_def TraceFileInfo_default_def)
qed

lemma record_loop_files:
  assumes "dp_type param = TRACE_RECORDING" "record_loop cf param outputPath rounds s = Some s'" "suffix (ex_loop s) all"
  shows "\<exists>new. map filename new = finished cf param outputPath rounds s \<and> list_all isNewFile new \<and> suffix (ex_loop s') (all @ new)"
  using assms(2,3)
proof (induction rounds arbitrary: s all)
  case Nil
  then show ?case by (auto simp: end_self_def split: if_splits)
next
  case (Cons r rs)
  show ?case
  proof (cases "IsLoopDumpRunning (ex_machine s)")
    case False
    then show ?thesis using Cons.prems by (auto simp: end_self_def)
  next
    case True
    obtain ok f s1 where r: "record_round cf param outputPath r s = (ok, f, s1)" by (metis prod_cases3)
    note files = record_round_files [OF r assms(1) Cons.prems(2)]
    show ?thesis
    proof (cases ok)
      case False
      then show ?thesis using Cons.prems True r files(1) by (auto simp: end_self_def)
    next
      case ok: True
      obtain g where g: "filename g = f" "isNewFile g" "suffix (ex_loop (add_loop_file f s1)) (all @ [g])" using files(2) by blast
      have "record_loop cf param outputPath rs (add_loop_file f s1) = Some s'" using Cons.prems True r ok by simp
      from Cons.IH [OF this g(3)] obtain new where
        "map filename new = finished cf param outputPath rs (add_loop_file f s1)" "list_all isNewFile new" "suffix (ex_loop s') (all @ g # new)" by auto
      then show ?thesis using True r ok g by (intro exI [of _ "g # new"]) simp
    qed
  qed
qed

lemma record_loop_ends:
  assumes "\<exists>r \<in> set rounds. \<forall>m. \<not> IsLoopDumpRunning (lr_control r m)"
  shows "\<exists>s'. record_loop cf param outputPath rounds s = Some s' \<and> dstate (ex_machine s') = IDLE"
  using assms
proof (induction rounds arbitrary: s)
  case (Cons r rs)
  obtain ok f s1 where r: "record_round cf param outputPath r s = (ok, f, s1)" by (metis prod_cases3)
  have idle: "dstate (ex_machine (end_self t)) = IDLE" for t by (simp add: end_self_def EndLoopDumpSelf_def)
  show ?case
  proof (cases "IsLoopDumpRunning (ex_machine s) \<and> ok")
    case False
    then show ?thesis using r idle by auto
  next
    case True
    have step: "record_loop cf param outputPath (r # rs) s = record_loop cf param outputPath rs (add_loop_file f s1)" using True r by simp
    show ?thesis
    proof (cases "\<exists>q \<in> set rs. \<forall>m. \<not> IsLoopDumpRunning (lr_control q m)")
      case True
      from Cons.IH [OF this] show ?thesis unfolding step .
    next
      case False
      then have stop: "\<not> IsLoopDumpRunning (lr_control r m)" for m using Cons.prems by auto
      have "ex_machine s1 = lr_control r (ex_machine s)"
        using r True by (auto simp: record_round_def DoDumpTraceLoop_def age_loop_files_def Let_def split: if_splits prod.splits option.splits)
      then have "\<not> IsLoopDumpRunning (ex_machine (add_loop_file f s1))" using stop by (simp add: add_loop_file_def)
      then show ?thesis unfolding step by (cases rs) (simp_all add: idle)
    qed
  qed
qed simp

lemma in_map_filter: "x \<in> set (List.map_filter f xs) \<longleftrightarrow> (\<exists>y \<in> set xs. f y = Some x)"
  by (force simp: map_filter_def)

lemma loop_start_old: "dp_type param = TRACE_RECORDING \<Longrightarrow> list_all (\<lambda>f. \<not> isNewFile f) (ex_loop (loop_start cf param s))"
proof -
  assume t: "dp_type param = TRACE_RECORDING"
  have old: "\<not> isNewFile f" if "f \<in> set (GetTraceFilesInDir fs ty [])" for f fs ty
    using that by (auto simp: GetTraceFilesInDir_def Let_def in_map_filter TraceFileInfo_listed_def split: if_splits)
  have "set (ex_loop (loop_start cf param s)) \<subseteq> set (GetTraceFilesInDir (ex_fs s) (dp_type param) [])"
    using set_mono_suffix [OF record_trim.trim_front] by (simp add: loop_start_def age_loop_files_loop t)
  then show ?thesis using old by (auto simp: list_all_iff)
qed

text \<open>C13: A recording with a limited file size comes to its end: once another thread ends the loop during
some round, the loop stops and leaves the state machine idle, so that a new one can start. What it then
reports are the names of the files that its rounds have finished, in order, without the oldest ones that
ageing has removed, and no file from an earlier recording.\<close>

theorem recording_ends_and_reports:
  assumes "dp_type param = TRACE_RECORDING" "dp_fileSize param \<noteq> 0 \<or> \<not> lc_isRoot cf"
    and "\<exists>r \<in> set rounds. \<forall>m. \<not> IsLoopDumpRunning (lr_control r m)"
  shows "\<exists>s'. StartDumpTraceLoop cf param outputPath rounds s = Some s' \<and> dstate (ex_machine s') = IDLE \<and>
    fst (PreCheckDumpTraceLoopStatus s') \<and>
    suffix (fst (StopDumpTraceLoop s')) (finished cf param outputPath rounds (loop_start cf param s))"
proof -
  let ?s0 = "loop_start cf param s"
  obtain s' where s': "record_loop cf param outputPath rounds ?s0 = Some s'" "dstate (ex_machine s') = IDLE"
    using record_loop_ends [OF assms(3)] by blast
  from record_loop_files [OF assms(1) s'(1) suffix_order.refl] obtain new where
    new: "map filename new = finished cf param outputPath rounds ?s0" "list_all isNewFile new" "suffix (ex_loop s') (ex_loop ?s0 @ new)" by blast
  have "filter isNewFile (ex_loop ?s0) = []" using loop_start_old [OF assms(1)] by (simp add: filter_empty_conv list_all_iff)
  moreover have "filter isNewFile new = new" using new(2) by (simp add: filter_id_conv list_all_iff)
  ultimately have "suffix (map filename (filter isNewFile (ex_loop s'))) (map filename new)"
    using map_mono_suffix [OF filter_mono_suffix [OF new(3), of isNewFile], of filename] by simp
  then have "suffix (fst (StopDumpTraceLoop s')) (finished cf param outputPath rounds ?s0)"
    by (simp add: StopDumpTraceLoop_def FilterLoopTraceResult_def new(1) Let_def)
  then show ?thesis
    using s' assms(2) by (auto simp: StartDumpTraceLoop_def Let_def PreCheckDumpTraceLoopStatus_def StartLoopDump_def compare_exchange_def)
qed

definition sample_loop_state :: loop_state where
  "sample_loop_state = \<lparr>ex_machine = \<lparr>dstate = RUNNING, asyncReadFlag = True, asyncWriteFlag = True\<rparr>, ex_loop = [], ex_cache = [],
     ex_fs = [(''/data/log/hitrace'', sample_dir_node)]\<rparr>"

definition sample_round :: "(TraceDumpState \<Rightarrow> TraceDumpState) \<Rightarrow> loop_round" where
  "sample_round c = \<lparr>lr_clock = sample_file_env,
     lr_dump = (\<lambda>rq f fs. (TraceDumpRet_default\<lparr>ret_code := SUCCESS\<rparr>, f, (f, sample_node 5) # fs)),
     lr_renameOk = True, lr_control = c\<rparr>"

definition sample_config :: loop_config where
  "sample_config = \<lparr>lc_rootEmpty = False, lc_isRoot = False, lc_ageing = sample_param\<rparr>"

definition sample_recording :: TraceDumpParam where
  "sample_recording = TraceDumpParam_default\<lparr>dp_type := TRACE_RECORDING, dp_fileSize := 1024\<rparr>"

theorem recording_ends_and_reports_witness:
  "\<exists>s'. StartDumpTraceLoop sample_config sample_recording [] [sample_round id, sample_round EndLoopDump] sample_loop_state = Some s' \<and>
    dstate (ex_machine s') = IDLE \<and> fst (PreCheckDumpTraceLoopStatus s') \<and>
    suffix (fst (StopDumpTraceLoop s')) (finished sample_config sample_recording [] [sample_round id, sample_round EndLoopDump]
      (loop_start sample_config sample_recording sample_loop_state))"
  by (rule recording_ends_and_reports)
    (auto simp: sample_recording_def TraceDumpParam_default_def sample_round_def IsLoopDumpRunning_def EndLoopDump_def)

end
