(* ===== verification/Trace_Mode.thy ===== *)
theory Trace_Mode
  imports Trace_Filter Dump_Executor
begin

text \<open>
  The interface of the dump service: \<^verbatim>\<open>OpenTrace\<close>, \<^verbatim>\<open>CloseTrace\<close>, \<^verbatim>\<open>RecordTraceOn\<close>, \<^verbatim>\<open>RecordTraceOff\<close>,
  \<^verbatim>\<open>CacheTraceOn\<close>, \<^verbatim>\<open>CacheTraceOff\<close>, \<^verbatim>\<open>SetTraceStatus\<close> and the two dumps of
  \<^verbatim>\<open>interfaces/native/innerkits/src/hitrace_dump.cpp\<close>. Every function takes \<^verbatim>\<open>g_traceMutex\<close>, so that the
  calls follow one after the other; the loop of a recording or a cache runs in a thread of its own and
  shares the state machine of \<^verbatim>\<open>TraceDumpState\<close> with them.
\<close>

section \<open>State\<close>

definition MODE_CLOSE :: u8 where "MODE_CLOSE = 0"
definition MODE_OPEN :: u8 where "MODE_OPEN = 1"
definition MODE_RECORD :: u8 where "MODE_RECORD = 2"
definition MODE_CACHE :: u8 where "MODE_CACHE = 4"

text \<open>
  The configuration and the machine as one call finds them: whether no tracing file system is mounted,
  whether the caller is root, the kernel, the tag file, the clock, the parser of the parameter service, the
  event formats, the room for the file of saved formats, the number that stands in for an empty process
  list, the threads of a process, which of the filter entries can be written, the limits of ageing, and what the integers of a
  \<^verbatim>\<open>TraceParams\<close> hold that was declared without an initialiser.
\<close>

record mode_env =
  me_rootEmpty :: bool
  me_uid0 :: bool
  me_hm :: bool
  me_tags :: tag_table
  me_groups :: group_table
  me_baseFmt :: "string list"
  me_bufferKb :: int
  me_files :: file_env
  me_uint :: "string \<Rightarrow> u64"
  me_format :: "string \<Rightarrow> bytes list option"
  me_saved :: "nat option"
  me_standIn :: int
  me_tasks :: "string \<Rightarrow> string list option"
  me_wok :: "string \<Rightarrow> bool"
  me_isRoot :: bool
  me_ageing :: AgeingParam
  me_indeterminate :: TraceParams

text \<open>What a dump returns; the two 32-bit numbers as integers, the additions with their wrap-around written out.\<close>

record TraceRetInfo =
  ri_errorCode :: TraceErrorCode
  ri_mode :: u8
  ri_isOverflowControl :: bool
  ri_outputFiles :: "string list"
  ri_fileSize :: int
  ri_coverRatio :: int
  ri_coverDuration :: int
  ri_tags :: "string list"

definition TraceRetInfo_default :: TraceRetInfo where
  "TraceRetInfo_default = \<lparr>ri_errorCode = UNSET, ri_mode = 0, ri_isOverflowControl = False, ri_outputFiles = [], ri_fileSize = 0,
     ri_coverRatio = 0, ri_coverDuration = 0, ri_tags = []\<rparr>"

text \<open>
  The globals, with the kernel, the filter, the balancing thread, the content of the file of saved formats,
  the executor with the directory, whether the thread of a loop exists, the tasks of asynchronous dumps,
  and the answers that were given through callbacks. A callback is recorded by whether it is set.
\<close>

record dump_globals =
  g_traceMode :: u8
  g_sysInitParamTags :: u64
  g_totalFileSizeLimit :: u64
  g_sliceMaxDuration :: u64
  g_traceStartTime :: u64
  g_traceEndTime :: u64
  g_firstPageTimestamp :: u64
  g_lastPageTimestamp :: u64
  g_utDestTraceStartTime :: u64
  g_utDestTraceEndTime :: u64
  g_dumpStatus :: TraceErrorCode
  g_traceFileVec :: "TraceFileInfo list"
  g_currentTraceParams :: TraceParams
  dg_kernel :: kernel
  dg_filter :: "TraceFilterContext option"
  dg_balance :: bool
  dg_saved :: bytes
  dg_ex :: loop_state
  dg_loop :: bool
  dg_tasks :: "TraceDumpTask list"
  g_callbacks :: "u64 \<rightharpoonup> bool"
  g_traceRetInfos :: "u64 \<rightharpoonup> TraceRetInfo"
  dg_answers :: "(u64 \<times> TraceRetInfo) list"

abbreviation dg_fs :: "dump_globals \<Rightarrow> fs" where "dg_fs g \<equiv> ex_fs (dg_ex g)"

definition set_fs :: "fs \<Rightarrow> dump_globals \<Rightarrow> dump_globals" where
  "set_fs fs g = g\<lparr>dg_ex := (dg_ex g)\<lparr>ex_fs := fs\<rparr>\<rparr>"

definition IsTraceOpen :: "dump_globals \<Rightarrow> bool" where "IsTraceOpen g \<longleftrightarrow> g_traceMode g AND MODE_OPEN \<noteq> 0"
definition IsRecordOn :: "dump_globals \<Rightarrow> bool" where "IsRecordOn g \<longleftrightarrow> g_traceMode g AND MODE_RECORD \<noteq> 0"
definition IsCacheOn :: "dump_globals \<Rightarrow> bool" where "IsCacheOn g \<longleftrightarrow> g_traceMode g AND MODE_CACHE \<noteq> 0"

definition GetTraceMode :: "dump_globals \<Rightarrow> u8" where "GetTraceMode g = g_traceMode g"

definition TRACE_BOOT_ACTIVE_FLAG :: string where "TRACE_BOOT_ACTIVE_FLAG = ''debug.hitrace.boot_trace.active''"

definition GetParameter :: "string \<Rightarrow> string \<Rightarrow> kernel \<Rightarrow> string" where
  "GetParameter name def k = (case k_params k name of None \<Rightarrow> def | Some v \<Rightarrow> v)"

text \<open>While the boot trace runs, only root may use the service; \<open>None\<close> lets the call go on.\<close>

definition BootTraceArbShouldReturnLocked :: "bool \<Rightarrow> mode_env \<Rightarrow> dump_globals \<Rightarrow> TraceErrorCode option" where
  "BootTraceArbShouldReturnLocked closeNoOpOnBlock e g =
     (if GetParameter TRACE_BOOT_ACTIVE_FLAG ''0'' (dg_kernel g) \<noteq> ''1'' \<or> me_uid0 e then None
      else Some (if closeNoOpOnBlock then SUCCESS else BOOT_TRACE_ACTIVE))"

definition SET_EVENT_PID :: string where "SET_EVENT_PID = ''set_event_pid''"

text \<open>The destructor of the filter empties \<^verbatim>\<open>set_event_pid\<close>.\<close>

definition ClearFilterParam :: "dump_globals \<Rightarrow> dump_globals" where
  "ClearFilterParam g =
     (let k = snd (SetProperty TELEMETRY_APP_PARAM [] (dg_kernel g))
      in g\<lparr>dg_kernel := (if dg_filter g = None then k else TruncateFile SET_EVENT_PID k), dg_filter := None\<rparr>)"

definition GetSysParamTags :: "mode_env \<Rightarrow> dump_globals \<Rightarrow> u64" where
  "GetSysParamTags e g = (case k_params (dg_kernel g) TRACE_TAG_ENABLE_FLAGS of None \<Rightarrow> 0 | Some v \<Rightarrow> me_uint e v)"

definition CheckParam :: "mode_env \<Rightarrow> dump_globals \<Rightarrow> bool" where
  "CheckParam e g \<longleftrightarrow> GetSysParamTags e g = g_sysInitParamTags g"

definition CheckServiceRunning :: "mode_env \<Rightarrow> dump_globals \<Rightarrow> bool" where
  "CheckServiceRunning e g \<longleftrightarrow> CheckParam e g \<and> take 1 (read_node TRACING_ON_NODE (dg_kernel g)) = ''1''"

text \<open>One round of the balancing thread with the sizes it computed, and whether it goes on.\<close>

definition CpuBufferBalanceTask :: "mode_env \<Rightarrow> nat \<Rightarrow> int list \<Rightarrow> dump_globals \<Rightarrow> bool \<times> dump_globals" where
  "CpuBufferBalanceTask e cpuNums sizes g =
     (if \<not> IsTraceOpen g \<or> \<not> CheckServiceRunning e g then (False, g)
      else if length sizes \<noteq> cpuNums then (False, g)
      else (True, g\<lparr>dg_kernel := fold (\<lambda>(i, n) k. snd (WriteStrToFile (''per_cpu/cpu'' @ to_string_nat i @ ''/buffer_size_kb'') (to_string_int n) k))
                       (enumerate 0 sizes) (dg_kernel g)\<rparr>))"

definition StartCpuBufferBalanceService :: "mode_env \<Rightarrow> dump_globals \<Rightarrow> dump_globals" where
  "StartCpuBufferBalanceService e g = (if me_hm e then g else g\<lparr>dg_balance := True\<rparr>)"

section \<open>Opening\<close>

text \<open>The filter for the requested processes, created if there is none yet, and its effect on the kernel.\<close>

definition apply_filter :: "mode_env \<Rightarrow> string list \<Rightarrow> dump_globals \<Rightarrow> TraceFilterContext \<times> (kernel \<Rightarrow> kernel)" where
  "apply_filter e pids g =
     (let c = (case dg_filter g of None \<Rightarrow> TraceFilterContext_new (me_standIn e) | Some c \<Rightarrow> c);
          (ok, c', writes) = AddFilterPids (me_wok e) (me_tasks e) pids c
      in (c', \<lambda>k. fold (\<lambda>t k. snd (WriteStrToFile SET_EVENT_PID t k)) writes (if dg_filter g = None then TruncateFile SET_EVENT_PID k else k)))"

definition saved_format_file :: string where
  "saved_format_file = TRACE_FILE_DEFAULT_DIR @ ''saved_events_format''"

definition PreWriteEventsFormat :: "mode_env \<Rightarrow> string list \<Rightarrow> dump_globals \<Rightarrow> bool \<times> dump_globals" where
  "PreWriteEventsFormat e eventFormats g =
     (let fs1 = DelSavedEventsFormat (dg_fs g)
      in case me_saved e of None \<Rightarrow> (False, set_fs fs1 g)
         | Some room \<Rightarrow>
             (let w = PreWriteAllTraceEventsFormat (map (me_format e) eventFormats)
                    \<lparr>cw_data = [], cw_pos = 0, cw_room = room, cw_exists = True, g_writeFileLimit = 0, g_outputFileSize = 0\<rparr>;
                  n = \<lparr>node_type = DT_REG, st_size = int (length (cw_data w)), st_ctime = unix_now (me_files e), has_link = False,
                       can_open = True, is_locked = False, can_remove = True\<rparr>
              in (True, set_fs ((saved_format_file, n) # fs_remove fs1 saved_format_file) g\<lparr>dg_saved := cw_data w\<rparr>)))"

definition HandleTraceOpen :: "mode_env \<Rightarrow> TraceParams \<Rightarrow> string list \<Rightarrow> dump_globals \<Rightarrow> TraceErrorCode \<times> dump_globals" where
  "HandleTraceOpen e tp tagFmts g =
     (let (c, eff) = apply_filter e (tp_filterPids tp) g;
          (tagFmts', k) = SetTraceSetting (\<lambda>_. eff) tp (me_tags e) (me_groups e) tagFmts (dg_kernel g);
          g1 = g\<lparr>dg_kernel := snd (SetTraceNodeStatus TRACING_ON_NODE True k),
                 dg_filter := (if tp_filterPids tp \<noteq> [] then Some c else dg_filter g)\<rparr>;
          g2 = snd (PreWriteEventsFormat e tagFmts' g1)
      in (SUCCESS, g2\<lparr>g_currentTraceParams := tp\<rparr>))"

text \<open>\<^verbatim>\<open>TraceParams traceParams;\<close> leaves the four integers indeterminate.\<close>

definition TraceParams_uninit :: "mode_env \<Rightarrow> TraceParams" where
  "TraceParams_uninit e = TraceParams_default\<lparr>tp_fileLimit := tp_fileLimit (me_indeterminate e), tp_fileSize := tp_fileSize (me_indeterminate e),
     tp_appPid := tp_appPid (me_indeterminate e), tp_totalSize := tp_totalSize (me_indeterminate e)\<rparr>"

definition HandleDefaultTraceOpen :: "mode_env \<Rightarrow> string list \<Rightarrow> dump_globals \<Rightarrow> TraceErrorCode \<times> dump_globals" where
  "HandleDefaultTraceOpen e tagGroups g =
     (if tagGroups = [] \<or> \<not> CheckTagGroup tagGroups (me_groups e) then (TAG_ERROR, g)
      else HandleTraceOpen e ((TraceParams_uninit e)\<lparr>tp_tagGroups := tagGroups, tp_bufferSize := to_string_int (me_bufferKb e),
             tp_clockType := ''boot'', tp_isOverWrite := ''1'', tp_fileSize := 100 * 1024\<rparr>) (me_baseFmt e) g)"

text \<open>
  \<^verbatim>\<open>GetNoFilterEvents\<close>: the group and the event of a path of the form \<^verbatim>\<open>events/group/event/enable\<close>; the
  buffers are long enough. A path of another form is passed over.
\<close>

definition event_of_path :: "string \<Rightarrow> string option" where
  "event_of_path p =
     (let a = takeWhile (\<lambda>c. c \<noteq> CHR ''/'') p; r1 = drop (Suc (length a)) p;
          b = takeWhile (\<lambda>c. c \<noteq> CHR ''/'') r1; r2 = drop (Suc (length b)) r1;
          c = takeWhile (\<lambda>c. c \<noteq> CHR ''/'') r2
      in if a \<noteq> [] \<and> length a < length p \<and> b \<noteq> [] \<and> length b < length r1 \<and> c \<noteq> [] then Some (b @ '':'' @ c) else None)"

definition GetNoFilterEvents :: "string list \<Rightarrow> string list" where
  "GetNoFilterEvents enablePaths = List.map_filter event_of_path enablePaths"

definition SetNoFilterEvents :: "mode_env \<Rightarrow> dump_globals \<Rightarrow> dump_globals" where
  "SetNoFilterEvents e g =
     (if \<not> me_hm e then g
      else case map_of (me_tags e) ''binder'' of None \<Rightarrow> g
        | Some t \<Rightarrow> let evs = GetNoFilterEvents (enablePath t)
                    in if evs = [] then g else g\<lparr>dg_kernel := snd (AddNoFilterEvents (me_rootEmpty e) evs (dg_kernel g))\<rparr>)"

text \<open>The list of snapshots is read from the directory again, and old cache files are deleted.\<close>

definition refresh_files :: "mode_env \<Rightarrow> dump_globals \<Rightarrow> dump_globals" where
  "refresh_files e g =
     (let vec = RefreshTraceVec (me_files e) (dg_fs g) TRACE_SNAPSHOT;
          (cache, fs') = ClearCacheTraceFileByDuration (me_files e) (dg_fs g) (RefreshTraceVec (me_files e) (dg_fs g) TRACE_CACHE)
      in set_fs fs' g\<lparr>g_traceFileVec := vec\<rparr>)"

definition opened :: "mode_env \<Rightarrow> dump_globals \<Rightarrow> dump_globals" where
  "opened e g = g\<lparr>g_sysInitParamTags := GetSysParamTags e g, g_traceMode := MODE_OPEN\<rparr>"

type_synonym 'a api = "dump_globals \<Rightarrow> 'a \<times> dump_globals"

text \<open>By tag groups, with the default parameters.\<close>

definition OpenTrace_groups :: "mode_env \<Rightarrow> string list \<Rightarrow> TraceErrorCode api" where
  "OpenTrace_groups e tagGroups g =
     (case BootTraceArbShouldReturnLocked False e g of Some c \<Rightarrow> (c, g)
      | None \<Rightarrow>
          let g1 = ClearFilterParam g
          in if g_traceMode g1 \<noteq> MODE_CLOSE then (WRONG_TRACE_MODE, g1)
             else if me_rootEmpty e then (TRACE_NOT_SUPPORTED, g1)
             else if me_hm e \<and> me_tags e = [] then (TAG_ERROR, g1)
             else
               let (ret, g2) = HandleDefaultTraceOpen e tagGroups (SetNoFilterEvents e g1)
               in if ret \<noteq> SUCCESS then (ret, g2)
                  else (ret, StartCpuBufferBalanceService e (opened e (refresh_files e g2))))"

text \<open>By a structure of arguments; this one does not start the balancing thread.\<close>

record TraceArgs =
  ta_tags :: "string list"
  ta_clockType :: string
  ta_isOverWrite :: bool
  ta_bufferSize :: u32
  ta_fileSizeLimit :: u32
  ta_appPid :: int
  ta_totalSize :: int
  ta_filterPids :: "int list"

definition TransformFilterPids :: "int list \<Rightarrow> string list" where
  "TransformFilterPids pids = map to_string_int pids"

definition PrepareOpenTraceByArgs :: "mode_env \<Rightarrow> TraceArgs \<Rightarrow> TraceErrorCode api" where
  "PrepareOpenTraceByArgs e a g =
     (if me_tags e = [] \<or> me_groups e = [] \<or> \<not> CheckTags (ta_tags a) (me_tags e) then (TAG_ERROR, g)
      else (SUCCESS, SetNoFilterEvents e g))"

definition BuildTraceParamsFromArgs :: "TraceArgs \<Rightarrow> u32 \<Rightarrow> TraceParams" where
  "BuildTraceParamsFromArgs a defaultBufferSize = TraceParams_default\<lparr>tp_tags := ta_tags a,
     tp_filterPids := TransformFilterPids (ta_filterPids a),
     tp_bufferSize := to_string_nat (unat (if ta_bufferSize a = 0 then defaultBufferSize else ta_bufferSize a)),
     tp_clockType := ta_clockType a, tp_isOverWrite := (if ta_isOverWrite a then ''1'' else ''0''),
     tp_fileSize := sint (ta_fileSizeLimit a), tp_totalSize := ta_totalSize a\<rparr>"

definition FinalizeOpenTraceByArgs :: "mode_env \<Rightarrow> dump_globals \<Rightarrow> dump_globals" where
  "FinalizeOpenTraceByArgs e g = opened e (refresh_files e g)"

definition OpenTrace_args :: "mode_env \<Rightarrow> TraceArgs \<Rightarrow> TraceErrorCode api" where
  "OpenTrace_args e a g =
     (case BootTraceArbShouldReturnLocked False e g of Some c \<Rightarrow> (c, g)
      | None \<Rightarrow>
          let g1 = ClearFilterParam g
          in if g_traceMode g1 \<noteq> MODE_CLOSE then (WRONG_TRACE_MODE, g1)
             else if me_rootEmpty e then (TRACE_NOT_SUPPORTED, g1)
             else
               let (prepRet, g2) = PrepareOpenTraceByArgs e a g1
               in if prepRet \<noteq> SUCCESS then (prepRet, g2)
                  else
                    let g3 = (if ta_appPid a > 0 then g2\<lparr>dg_kernel := snd (SetProperty TRACE_KEY_APP_PID (to_string_int (ta_appPid a)) (dg_kernel g2))\<rparr>
                              else g2);
                        (ret, g4) = HandleTraceOpen e (BuildTraceParamsFromArgs a (of_int (me_bufferKb e))) (me_baseFmt e) g3
                    in if ret \<noteq> SUCCESS then (ret, g4) else (ret, FinalizeOpenTraceByArgs e g4))"

text \<open>By an argument string; this one leaves the filter and the list of files alone.\<close>

definition OpenTrace_string :: "mode_env \<Rightarrow> string \<Rightarrow> TraceErrorCode api" where
  "OpenTrace_string e args g =
     (case BootTraceArbShouldReturnLocked False e g of Some c \<Rightarrow> (c, g)
      | None \<Rightarrow>
          if g_traceMode g \<noteq> MODE_CLOSE then (WRONG_TRACE_MODE, g)
          else if me_rootEmpty e then (TRACE_NOT_SUPPORTED, g)
          else if me_tags e = [] \<or> me_groups e = [] then (TAG_ERROR, g)
          else
            let (ok, tp, k) = ParseArgs args (TraceParams_uninit e) (me_tags e) (me_groups e) (dg_kernel g);
                g1 = g\<lparr>dg_kernel := k\<rparr>
            in if \<not> ok then (TAG_ERROR, g1)
               else
                 let (ret, g2) = HandleTraceOpen e tp (me_baseFmt e) (SetNoFilterEvents e g1)
                 in if ret \<noteq> SUCCESS then (ret, g2) else (ret, StartCpuBufferBalanceService e (opened e g2)))"

section \<open>Recording and caching\<close>

definition BYTE_PER_MB :: u64 where "BYTE_PER_MB = 1024 * 1024"
definition DEFAULT_TRACE_SLICE_DURATION :: u64 where "DEFAULT_TRACE_SLICE_DURATION = 10"
definition DEFAULT_TOTAL_CACHE_FILE_SIZE :: u64 where "DEFAULT_TOTAL_CACHE_FILE_SIZE = 800"

definition SetTotalFileSizeLimitAndSliceMaxDuration :: "u64 \<Rightarrow> u64 \<Rightarrow> dump_globals \<Rightarrow> dump_globals" where
  "SetTotalFileSizeLimitAndSliceMaxDuration totalFileSize sliceMaxDuration g =
     g\<lparr>g_totalFileSizeLimit := (if totalFileSize = 0 then DEFAULT_TOTAL_CACHE_FILE_SIZE else totalFileSize) * BYTE_PER_MB,
       g_sliceMaxDuration := (if sliceMaxDuration = 0 then DEFAULT_TRACE_SLICE_DURATION else sliceMaxDuration)\<rparr>"

text \<open>What the threads hand to the executor.\<close>

definition ProcessCacheTask :: "dump_globals \<Rightarrow> TraceDumpParam" where
  "ProcessCacheTask g = TraceDumpParam_default\<lparr>dp_type := TRACE_CACHE, dp_outputFile := tp_outputFile (g_currentTraceParams g),
     dp_fileLimit := tp_fileLimit (g_currentTraceParams g), dp_fileSize := tp_fileSize (g_currentTraceParams g),
     dp_total := g_totalFileSizeLimit g, dp_slice := g_sliceMaxDuration g\<rparr>"

definition ProcessRecordTask :: "dump_globals \<Rightarrow> TraceDumpParam" where
  "ProcessRecordTask g = TraceDumpParam_default\<lparr>dp_type := TRACE_RECORDING, dp_outputFile := tp_outputFile (g_currentTraceParams g),
     dp_fileLimit := tp_fileLimit (g_currentTraceParams g), dp_fileSize := tp_fileSize (g_currentTraceParams g),
     dp_start := 0, dp_end := - 1, dp_total := of_int (tp_totalSize (g_currentTraceParams g))\<rparr>"

definition start_loop :: "dump_globals \<Rightarrow> bool \<times> dump_globals" where
  "start_loop g = (let (ok, ex) = PreCheckDumpTraceLoopStatus (dg_ex g) in (ok, g\<lparr>dg_ex := ex\<rparr>))"

definition CacheTraceOn :: "mode_env \<Rightarrow> u64 \<Rightarrow> u64 \<Rightarrow> TraceErrorCode api" where
  "CacheTraceOn e totalFileSize sliceMaxDuration g =
     (case BootTraceArbShouldReturnLocked False e g of Some c \<Rightarrow> (c, g)
      | None \<Rightarrow>
          if g_traceMode g \<noteq> MODE_OPEN then (WRONG_TRACE_MODE, g)
          else
            let (ok, g1) = start_loop g
            in if \<not> ok then (WRONG_TRACE_MODE, g1)
               else let g2 = SetTotalFileSizeLimitAndSliceMaxDuration totalFileSize sliceMaxDuration g1
                    in (SUCCESS, g2\<lparr>dg_loop := True, g_traceMode := g_traceMode g2 OR MODE_CACHE\<rparr>))"

definition CacheTraceOff :: "mode_env \<Rightarrow> TraceErrorCode api" where
  "CacheTraceOff e g =
     (case BootTraceArbShouldReturnLocked False e g of Some c \<Rightarrow> (c, g)
      | None \<Rightarrow>
          if g_traceMode g \<noteq> MODE_OPEN OR MODE_CACHE then (WRONG_TRACE_MODE, g)
          else (SUCCESS, g\<lparr>dg_ex := StopCacheTraceLoop (dg_ex g), g_traceMode := g_traceMode g AND NOT MODE_CACHE\<rparr>))"

text \<open>The marker with the cpu frequencies goes to the meter and changes nothing here.\<close>

definition RecordTraceOn :: "mode_env \<Rightarrow> string \<Rightarrow> TraceErrorCode api" where
  "RecordTraceOn e outputPath g =
     (case BootTraceArbShouldReturnLocked False e g of Some c \<Rightarrow> (c, g)
      | None \<Rightarrow>
          if g_traceMode g \<noteq> MODE_OPEN then (WRONG_TRACE_MODE, g)
          else
            let (ok, g1) = start_loop g
            in if \<not> ok then (WRONG_TRACE_MODE, g1)
               else if outputPath \<noteq> [] \<and> \<not> IsWritable outputPath then (FILE_ERROR, g1)
               else (SUCCESS, g1\<lparr>dg_loop := True, g_traceMode := g_traceMode g1 OR MODE_RECORD\<rparr>))"

definition RecordTraceOff :: "mode_env \<Rightarrow> TraceRetInfo api" where
  "RecordTraceOff e g =
     (case BootTraceArbShouldReturnLocked False e g of Some c \<Rightarrow> (TraceRetInfo_default\<lparr>ri_errorCode := c\<rparr>, g)
      | None \<Rightarrow>
          if \<not> IsRecordOn g then (TraceRetInfo_default\<lparr>ri_errorCode := WRONG_TRACE_MODE\<rparr>, g)
          else
            let (files, ex) = StopDumpTraceLoop (dg_ex g)
            in (TraceRetInfo_default\<lparr>ri_errorCode := SUCCESS, ri_outputFiles := files\<rparr>,
                g\<lparr>dg_ex := ex, g_traceMode := g_traceMode g AND NOT MODE_RECORD\<rparr>))"

section \<open>Closing\<close>

definition ResetTracePipelineLocked :: "mode_env \<Rightarrow> TraceErrorCode api" where
  "ResetTracePipelineLocked e g =
     (let g1 = (if IsRecordOn g \<or> IsCacheOn g then g\<lparr>dg_ex := snd (StopDumpTraceLoop (dg_ex g))\<rparr> else g);
          g2 = (ClearFilterParam g1)\<lparr>g_traceMode := MODE_CLOSE, dg_balance := False\<rparr>;
          g3 = g2\<lparr>dg_kernel := snd (SetProperty TRACE_KEY_APP_PID ''-1'' (dg_kernel g2))\<rparr>
      in if me_tags e = [] then (TAG_ERROR, g3)
         else let k = TruncateFile TRACE_NODE (TraceInit (me_tags e) (dg_kernel g3))
              in (SUCCESS, g3\<lparr>dg_kernel := (if me_hm e then ClearNoFilterEvents (me_rootEmpty e) k else k)\<rparr>))"

definition CloseTrace :: "mode_env \<Rightarrow> TraceErrorCode api" where
  "CloseTrace e g =
     (case BootTraceArbShouldReturnLocked True e g of Some c \<Rightarrow> (c, g)
      | None \<Rightarrow> if g_traceMode g = MODE_CLOSE then (SUCCESS, g) else ResetTracePipelineLocked e g)"

definition SetTraceStatus :: "mode_env \<Rightarrow> bool \<Rightarrow> TraceErrorCode api" where
  "SetTraceStatus e enable g =
     (case BootTraceArbShouldReturnLocked False e g of Some c \<Rightarrow> (c, g)
      | None \<Rightarrow>
          if me_rootEmpty e then (TRACE_NOT_SUPPORTED, g)
          else let (ok, k) = SetTraceNodeStatus TRACING_ON_NODE enable (dg_kernel g)
               in if ok then (SUCCESS, g\<lparr>dg_kernel := k\<rparr>) else (WRITE_TRACE_INFO_ERROR, g\<lparr>dg_kernel := k\<rparr>))"

section \<open>Times\<close>

definition DEFAULT_FULL_TRACE_LENGTH :: int where "DEFAULT_FULL_TRACE_LENGTH = 30"
definition MAX_RATIO_UNIT :: int where "MAX_RATIO_UNIT = 1000"
definition DURATION_TOLERANCE :: u64 where "DURATION_TOLERANCE = 100"

text \<open>Unix times in seconds: the interval the caller asked for.\<close>

definition SetDestTraceTimeAndDuration :: "mode_env \<Rightarrow> u32 \<Rightarrow> u64 \<Rightarrow> dump_globals \<Rightarrow> dump_globals" where
  "SetDestTraceTimeAndDuration e maxDuration utTraceEndTime g =
     (let destEnd = (if utTraceEndTime = 0 then of_int (unix_now (me_files e)) else utTraceEndTime);
          d = (if maxDuration = 0 \<or> maxDuration = - 1 then of_int DEFAULT_FULL_TRACE_LENGTH else maxDuration);
          destStart = (if destEnd \<le> ucast d then 1 else destEnd - ucast d)
      in g\<lparr>g_utDestTraceStartTime := destStart, g_utDestTraceEndTime := destEnd\<rparr>)"

text \<open>The same interval on the boot clock, in nanoseconds; an earlier bound is the error.\<close>

definition SetTimeIntervalBoundary :: "mode_env \<Rightarrow> u64 \<Rightarrow> u64 \<Rightarrow> TraceErrorCode api" where
  "SetTimeIntervalBoundary e inputMaxDuration utTraceEndTime g =
     (let utNow = of_int (unix_now (me_files e)) :: u64;
          utEnd = (if utTraceEndTime \<ge> utNow then 0 else utTraceEndTime);
          btSec = of_int (boot_sec (me_files e)) :: u64;
          btNsec = of_int (boot_nsec (me_files e)) :: u64;
          btNow = btSec + (if btNsec \<noteq> 0 then 1 else 0);
          utBootTime = utNow - btNow
      in if utEnd \<noteq> 0 \<and> utEnd \<le> utBootTime then (OUT_OF_TIME, g)
         else
           let traceEnd = (if utEnd = 0 then btSec * S_TO_NS + btNsec else (utEnd - utBootTime + 1) * S_TO_NS);
               maxDuration = (if inputMaxDuration > 0 then inputMaxDuration + 1 else 0);
               maxDuration' = (if maxDuration > traceEnd div S_TO_NS then 0 else maxDuration)
           in (SUCCESS, g\<lparr>g_traceEndTime := traceEnd,
                 g_traceStartTime := (if maxDuration' > 0 then traceEnd - maxDuration' * S_TO_NS else 0)\<rparr>))"

definition RestoreTimeIntervalBoundary :: "dump_globals \<Rightarrow> dump_globals" where
  "RestoreTimeIntervalBoundary g = g\<lparr>g_traceStartTime := 0, g_traceEndTime := - 1\<rparr>"

section \<open>Files that are there already\<close>

definition wrap32 :: "int \<Rightarrow> int" where "wrap32 x = sint (of_int x :: 32 word)"

definition to_int32 :: "u64 \<Rightarrow> int" where "to_int32 w = sint (ucast w :: 32 word)"

definition overlaps :: "u64 \<Rightarrow> u64 \<Rightarrow> TraceFileInfo \<Rightarrow> bool" where
  "overlaps startMs endMs it \<longleftrightarrow> fi_endTime it \<ge> startMs \<and> fi_startTime it \<le> endMs \<and> fi_endTime it - fi_startTime it < 2000 * S_TO_MS"

definition file_cover :: "u64 \<Rightarrow> u64 \<Rightarrow> TraceFileInfo \<Rightarrow> int" where
  "file_cover startMs endMs it =
     to_int32 (min (fi_endTime it) (endMs + DURATION_TOLERANCE) - max (fi_startTime it) (startMs - DURATION_TOLERANCE))"

definition GetTraceFileFromVec :: "fs \<Rightarrow> u64 \<Rightarrow> u64 \<Rightarrow> TraceFileInfo list \<Rightarrow> TraceFileInfo list \<Rightarrow> int \<times> TraceFileInfo list" where
  "GetTraceFileFromVec fs inputTraceStartTime inputTraceEndTime fileVec targetFiles =
     (let startMs = inputTraceStartTime * S_TO_MS; endMs = inputTraceEndTime * S_TO_MS
      in fold (\<lambda>it (cover, targets). if map_of fs (filename it) \<noteq> None \<and> overlaps startMs endMs it
           then (wrap32 (cover + file_cover startMs endMs it), targets @ [it]) else (cover, targets)) fileVec (0, targetFiles))"

text \<open>A cache file that is reported becomes a snapshot: it is renamed and joins the list.\<close>

definition report_file :: "(string \<Rightarrow> bool) \<Rightarrow> TraceFileInfo \<Rightarrow> TraceRetInfo \<times> dump_globals \<Rightarrow> TraceRetInfo \<times> dump_globals" where
  "report_file renameOk file s =
     (let (ret, g) = s;
          (file', g') = (if str_find (filename file) CACHE_FILE_PREFIX 0 \<noteq> None
             then let (name, fs') = RenameCacheFile (renameOk (filename file)) (dg_fs g) (filename file); f = file\<lparr>filename := name\<rparr>
                  in (f, set_fs fs' g\<lparr>g_traceFileVec := g_traceFileVec g @ [f]\<rparr>)
             else (file, g))
      in (ret\<lparr>ri_outputFiles := ri_outputFiles ret @ [filename file'], ri_fileSize := ri_fileSize ret + fi_size file'\<rparr>, g'))"

definition SearchTraceFiles :: "(string \<Rightarrow> bool) \<Rightarrow> TraceRetInfo \<Rightarrow> TraceRetInfo api" where
  "SearchTraceFiles renameOk ret g =
     (let st = g_utDestTraceStartTime g; en = g_utDestTraceEndTime g;
          (d1, files1) = GetTraceFileFromVec (dg_fs g) st en (g_traceFileVec g) [];
          (cacheFiles, ex) = GetCacheTraceFiles (dg_ex g);
          (d2, files2) = GetTraceFileFromVec (dg_fs g) st en cacheFiles files1;
          (ret', g') = fold (report_file renameOk) files2 (ret, g\<lparr>dg_ex := ex\<rparr>)
      in (ret'\<lparr>ri_coverDuration := wrap32 (ri_coverDuration ret' + wrap32 (d1 + d2))\<rparr>, g'))"

definition GetFileInCache :: "(string \<Rightarrow> bool) \<Rightarrow> TraceRetInfo \<Rightarrow> TraceRetInfo api" where
  "GetFileInCache renameOk ret g =
     (let (ret', g') = SearchTraceFiles renameOk ret g
      in (ret'\<lparr>ri_errorCode := (if ri_outputFiles ret' = [] then OUT_OF_TIME else SUCCESS)\<rparr>, g'))"

definition LoadDumpRet :: "dump_globals \<Rightarrow> int \<Rightarrow> TraceRetInfo \<Rightarrow> TraceRetInfo" where
  "LoadDumpRet g committedDuration ret =
     (let d = (if committedDuration \<le> 0 then DEFAULT_FULL_TRACE_LENGTH else committedDuration)
      in ret\<lparr>ri_mode := g_traceMode g, ri_coverRatio := ri_coverDuration ret sdiv d,
             ri_tags := ri_tags ret @ tp_tagGroups (g_currentTraceParams g) @ tp_tags (g_currentTraceParams g)\<rparr>)"

definition SanitizeRetInfo :: "TraceRetInfo \<Rightarrow> TraceRetInfo" where
  "SanitizeRetInfo ret = ret\<lparr>ri_coverDuration := min (ri_coverDuration ret) (DEFAULT_FULL_TRACE_LENGTH * 1000),
     ri_coverRatio := min (ri_coverRatio ret) MAX_RATIO_UNIT\<rparr>"

definition CheckTraceDumpStatus :: "mode_env \<Rightarrow> u32 \<Rightarrow> dump_globals \<Rightarrow> TraceErrorCode option" where
  "CheckTraceDumpStatus e maxDuration g =
     (if \<not> IsTraceOpen g \<or> IsRecordOn g then Some WRONG_TRACE_MODE
      else if maxDuration = - 1 then Some INVALID_MAX_DURATION
      else if \<not> CheckServiceRunning e g then Some TRACE_IS_OCCUPIED
      else None)"

section \<open>Dumping in the calling thread\<close>

text \<open>
  What one dump meets: the free space, the renaming, the pipe and the fork, and the child process: its
  answer with the directory it left, or \<open>None\<close> when no answer came in time and the child was killed.
\<close>

record dump_call =
  dc_space :: "(u64 \<times> u64) option"
  dc_renameOk :: "string \<Rightarrow> bool"
  dc_pipe :: bool
  dc_fork :: bool
  dc_child :: "(TraceDumpRet \<times> fs) option"

definition SNAPSHOT_MIN_REMAINING_SPACE :: u64 where "SNAPSHOT_MIN_REMAINING_SPACE = 300 * 1024 * 1024"
definition DEFAULT_ASYNC_TRACE_SIZE :: u64 where "DEFAULT_ASYNC_TRACE_SIZE = 50 * 1024 * 1024"

definition space_too_small :: "(u64 \<times> u64) option \<Rightarrow> dump_globals \<Rightarrow> bool" where
  "space_too_small space g \<longleftrightarrow>
     GetRemainingSpace space \<le> (if GetParameter TRACE_BOOT_ACTIVE_FLAG ''0'' (dg_kernel g) = ''1'' then 20 * 1024 * 1024 else SNAPSHOT_MIN_REMAINING_SPACE)
       + of_nat (GetTraceDumpTaskCount (dg_tasks g)) * DEFAULT_ASYNC_TRACE_SIZE"

text \<open>The new snapshot joins the list and the answer.\<close>

definition add_snapshot :: "TraceFileInfo \<Rightarrow> TraceRetInfo \<times> dump_globals \<Rightarrow> TraceRetInfo \<times> dump_globals" where
  "add_snapshot info s =
     (let (ret, g) = s
      in (ret\<lparr>ri_outputFiles := ri_outputFiles ret @ [filename info],
              ri_coverDuration := wrap32 (ri_coverDuration ret + to_int32 (fi_endTime info - fi_startTime info)),
              ri_fileSize := ri_fileSize ret + fi_size info\<rparr>,
          g\<lparr>g_traceFileVec := g_traceFileVec g @ [info]\<rparr>))"

definition HandleDumpResult ::
  "mode_env \<Rightarrow> dump_call \<Rightarrow> string \<Rightarrow> TraceRetInfo \<Rightarrow> string \<Rightarrow> dump_globals \<Rightarrow> TraceErrorCode \<times> TraceRetInfo \<times> dump_globals" where
  "HandleDumpResult e dc reOutPath ret outputPath g =
     (let (ret1, g1) = SearchTraceFiles (dc_renameOk dc) ret g;
          (ret2, g2) =
            (if g_dumpStatus g1 \<noteq> SUCCESS then (ret1, set_fs (snd (c_remove (dg_fs g1) reOutPath)) g1)
             else if map_of (dg_fs g1) reOutPath = None then (ret1, g1)
             else case SetFileInfo (me_files e) (dc_renameOk dc reOutPath) (dg_fs g1) True reOutPath
                         (g_firstPageTimestamp g1, g_lastPageTimestamp g1) TraceFileInfo_default outputPath of
                    (None, fs') \<Rightarrow> (ret1, set_fs (snd (RemoveFile fs' reOutPath)) g1)
                  | (Some info, fs') \<Rightarrow> add_snapshot info (ret1, set_fs fs' g1))
      in (if ri_outputFiles ret2 = [] then (if g_dumpStatus g2 \<noteq> SUCCESS then g_dumpStatus g2 else FILE_ERROR) else SUCCESS, ret2, g2))"

definition ProcessDumpSync ::
  "mode_env \<Rightarrow> dump_call \<Rightarrow> TraceRetInfo \<Rightarrow> string \<Rightarrow> dump_globals \<Rightarrow> TraceErrorCode \<times> TraceRetInfo \<times> dump_globals" where
  "ProcessDumpSync e dc ret outputPath g =
     (if space_too_small (dc_space dc) g then (FILE_ERROR, ret, g)
      else if \<not> dc_pipe dc then (PIPE_CREATE_ERROR, ret, g)
      else
        let g1 = g\<lparr>g_dumpStatus := UNSET\<rparr>
        in if \<not> dc_fork dc then (FORK_ERROR, ret, g1)
           else case dc_child dc of None \<Rightarrow> (EPOLL_WAIT_ERROR, ret, g1)
             | Some (r, fs') \<Rightarrow>
                 HandleDumpResult e dc (ret_outputFile r) ret outputPath
                   (set_fs fs' g1\<lparr>g_dumpStatus := ret_code r, g_firstPageTimestamp := ret_traceStartTime r, g_lastPageTimestamp := ret_traceEndTime r\<rparr>))"

definition age_snapshots :: "mode_env \<Rightarrow> dump_globals \<Rightarrow> dump_globals" where
  "age_snapshots e g =
     (let (files, fs') = HandleAgeing (me_isRoot e) (me_ageing e) (dg_fs g) (g_traceFileVec g) TRACE_SNAPSHOT 0
      in set_fs fs' g\<lparr>g_traceFileVec := files\<rparr>)"

definition committed :: "dump_globals \<Rightarrow> int" where
  "committed g = min DEFAULT_FULL_TRACE_LENGTH (to_int32 (g_utDestTraceEndTime g - g_utDestTraceStartTime g))"

definition fresh_pages :: "dump_globals \<Rightarrow> dump_globals" where
  "fresh_pages g = g\<lparr>g_firstPageTimestamp := - 1, g_lastPageTimestamp := 0\<rparr>"

definition DumpTrace :: "mode_env \<Rightarrow> dump_call \<Rightarrow> u32 \<Rightarrow> u64 \<Rightarrow> string \<Rightarrow> TraceRetInfo api" where
  "DumpTrace e dc maxDuration utTraceEndTime outputPath g =
     (case BootTraceArbShouldReturnLocked False e g of
        Some c \<Rightarrow> (TraceRetInfo_default\<lparr>ri_errorCode := c, ri_mode := g_traceMode g\<rparr>, g)
      | None \<Rightarrow>
          if outputPath \<noteq> [] \<and> \<not> IsWritable outputPath then (TraceRetInfo_default\<lparr>ri_errorCode := FILE_ERROR\<rparr>, g)
          else
            let ret = TraceRetInfo_default\<lparr>ri_mode := g_traceMode g\<rparr>
            in case CheckTraceDumpStatus e maxDuration g of Some c \<Rightarrow> (ret\<lparr>ri_errorCode := c\<rparr>, g)
               | None \<Rightarrow>
                   let g1 = SetDestTraceTimeAndDuration e maxDuration utTraceEndTime (age_snapshots e g)
                   in if IsCacheOn g1 then
                        let (ret1, g2) = GetFileInCache (dc_renameOk dc) ret g1
                        in (SanitizeRetInfo (LoadDumpRet g2 (committed g1) ret1), g2)
                      else
                        let (c, g2) = SetTimeIntervalBoundary e (ucast maxDuration) utTraceEndTime g1
                        in if c \<noteq> SUCCESS then (ret\<lparr>ri_errorCode := c\<rparr>, g2)
                           else
                             let (c', ret1, g3) = ProcessDumpSync e dc (ret\<lparr>ri_errorCode := c\<rparr>) outputPath (fresh_pages g2)
                             in (SanitizeRetInfo (LoadDumpRet g3 (committed g1) (ret1\<lparr>ri_errorCode := c'\<rparr>)), RestoreTimeIntervalBoundary g3))"

section \<open>Dumping through a task\<close>

record async_call =
  ac_space :: "(u64 \<times> u64) option"
  ac_renameOk :: "string \<Rightarrow> bool"
  ac_handler :: bool
  ac_running :: bool
  ac_pipe :: bool
  ac_fork :: bool
  ac_submit :: bool
  ac_ret :: "TraceDumpTask option"
  ac_taskId :: u64
  ac_callback :: bool

definition TraceDumpTask_default :: TraceDumpTask where
  "TraceDumpTask_default = \<lparr>time = 0, traceStartTime = 0, traceEndTime = 0, outputFile = [], fileSize = 0, fileSizeLimit = 0,
     hasSyncReturn = False, writeRetry = 0, code = UNSET, isFileSizeOverLimit = False, status = START\<rparr>"

text \<open>The answer of the dump process within ten seconds, or the end of the process.\<close>

definition WaitSyncDumpRetLoop :: "TraceDumpTask option \<Rightarrow> TraceDumpTask api" where
  "WaitSyncDumpRetLoop r g =
     (case r of
        Some task \<Rightarrow>
          (let g1 = g\<lparr>g_firstPageTimestamp := traceStartTime task, g_lastPageTimestamp := traceEndTime task, g_dumpStatus := code task\<rparr>
           in if status task = WRITE_DONE then (task\<lparr>status := FINISH\<rparr>, g1\<lparr>dg_tasks := RemoveTraceDumpTask (time task) (dg_tasks g1)\<rparr>)
              else (task, g1\<lparr>dg_tasks := snd (UpdateTraceDumpTask task (dg_tasks g1))\<rparr>))
      | None \<Rightarrow> (TraceDumpTask_default\<lparr>code := TRACE_TASK_DUMP_TIMEOUT\<rparr>, g\<lparr>dg_tasks := ClearTraceDumpTask (dg_tasks g)\<rparr>))"

definition HandleAsyncDumpResult :: "mode_env \<Rightarrow> async_call \<Rightarrow> TraceDumpTask \<Rightarrow> TraceRetInfo \<Rightarrow> TraceRetInfo api" where
  "HandleAsyncDumpResult e ac task ret g =
     (let (ret1, g1) = SearchTraceFiles (ac_renameOk ac) ret g;
          (ret2, g2) =
            (if code task = SUCCESS then
               (case SetFileInfo (me_files e) True (dg_fs g1) False (outputFile task) (g_firstPageTimestamp g1, g_lastPageTimestamp g1) TraceFileInfo_default [] of
                  (None, fs') \<Rightarrow> (ret1\<lparr>ri_errorCode := code task\<rparr>, g1)
                | (Some info, fs') \<Rightarrow>
                    (let (r, g') = add_snapshot (info\<lparr>fi_size := fileSize task\<rparr>) (ret1, g1) in (r\<lparr>ri_errorCode := code task\<rparr>, g')))
             else (ret1\<lparr>ri_errorCode := (if ri_outputFiles ret1 = [] then code task else SUCCESS)\<rparr>, g1))
      in (if isFileSizeOverLimit task \<or> ri_fileSize ret2 > fileSizeLimit task then ret2\<lparr>ri_isOverflowControl := True\<rparr> else ret2, g2))"

definition SubmitTaskAndWaitReturn ::
  "mode_env \<Rightarrow> async_call \<Rightarrow> TraceDumpTask \<Rightarrow> TraceRetInfo \<Rightarrow> dump_globals \<Rightarrow> TraceErrorCode \<times> TraceRetInfo \<times> dump_globals" where
  "SubmitTaskAndWaitReturn e ac task ret g =
     (let g1 = g\<lparr>dg_tasks := AddTraceDumpTask task (dg_tasks g)\<rparr>
      in if \<not> ac_submit ac then (TRACE_TASK_SUBMIT_ERROR, ret, g1)
         else
           let (taskRet, g2) = WaitSyncDumpRetLoop (ac_ret ac) g1;
               (ret', g3) = HandleAsyncDumpResult e ac taskRet ret g2
           in (if status taskRet = FINISH then ri_errorCode ret'
               else if code taskRet \<noteq> TRACE_TASK_DUMP_TIMEOUT then ASYNC_DUMP
               else TRACE_TASK_DUMP_TIMEOUT, ret', g3))"

definition ProcessDumpAsync ::
  "mode_env \<Rightarrow> async_call \<Rightarrow> int \<Rightarrow> TraceRetInfo \<Rightarrow> dump_globals \<Rightarrow> TraceErrorCode \<times> TraceRetInfo \<times> dump_globals" where
  "ProcessDumpAsync e ac limit ret g =
     (if space_too_small (ac_space ac) g then (FILE_ERROR, ret, g)
      else if \<not> ac_handler ac then (FORK_ERROR, ret, g)
      else
        let task = TraceDumpTask_default\<lparr>time := ac_taskId ac, traceStartTime := g_traceStartTime g, traceEndTime := g_traceEndTime g, fileSizeLimit := limit\<rparr>
        in if ac_running ac \<and> GetTraceDumpTaskCount (dg_tasks g) > 0 then SubmitTaskAndWaitReturn e ac task ret g
           else if \<not> ac_pipe ac then (PIPE_CREATE_ERROR, ret, g)
           else if \<not> ac_fork ac then (FORK_ERROR, ret, g)
           else SubmitTaskAndWaitReturn e ac task ret g)"

definition reply_if :: "async_call \<Rightarrow> TraceRetInfo \<Rightarrow> dump_globals \<Rightarrow> dump_globals" where
  "reply_if ac ret g = (if ac_callback ac then g\<lparr>dg_answers := dg_answers g @ [(ac_taskId ac, ret)]\<rparr> else g)"

definition HandleDumpTraceAsyncTask :: "mode_env \<Rightarrow> async_call \<Rightarrow> int \<Rightarrow> int \<Rightarrow> TraceRetInfo \<Rightarrow> TraceRetInfo api" where
  "HandleDumpTraceAsyncTask e ac limit committedDuration ret g =
     (let g1 = g\<lparr>g_callbacks := (g_callbacks g)(ac_taskId ac \<mapsto> ac_callback ac)\<rparr>;
          (c, ret1, g2) = ProcessDumpAsync e ac limit ret g1
      in if c = ASYNC_DUMP then
           let ret2 = ret1\<lparr>ri_errorCode := SUCCESS\<rparr> in (ret2, g2\<lparr>g_traceRetInfos := (g_traceRetInfos g2)(ac_taskId ac \<mapsto> ret2)\<rparr>)
         else
           let ret2 = SanitizeRetInfo (LoadDumpRet g2 committedDuration (ret1\<lparr>ri_errorCode := c\<rparr>)); g3 = reply_if ac ret2 g2
           in (ret2, g3\<lparr>g_callbacks := (g_callbacks g3)(ac_taskId ac := None)\<rparr>))"

definition DumpTraceAsync :: "mode_env \<Rightarrow> async_call \<Rightarrow> u32 \<Rightarrow> u64 \<Rightarrow> int \<Rightarrow> TraceRetInfo api" where
  "DumpTraceAsync e ac maxDuration utTraceEndTime limit g =
     (case BootTraceArbShouldReturnLocked False e g of
        Some c \<Rightarrow> (let ret = TraceRetInfo_default\<lparr>ri_errorCode := c, ri_mode := g_traceMode g\<rparr> in (ret, reply_if ac ret g))
      | None \<Rightarrow>
          let ret = TraceRetInfo_default\<lparr>ri_errorCode := SUCCESS, ri_mode := g_traceMode g\<rparr>
          in case CheckTraceDumpStatus e maxDuration g of Some c \<Rightarrow> (ret\<lparr>ri_errorCode := c\<rparr>, g)
             | None \<Rightarrow>
                 let g1 = SetDestTraceTimeAndDuration e maxDuration utTraceEndTime (age_snapshots e g)
                 in if IsCacheOn g1 then
                      let (ret1, g2) = GetFileInCache (ac_renameOk ac) ret g1; ret2 = SanitizeRetInfo (LoadDumpRet g2 (committed g1) ret1)
                      in (ret2, reply_if ac ret2 g2)
                    else
                      let (c, g2) = SetTimeIntervalBoundary e (ucast maxDuration) utTraceEndTime g1
                      in if c \<noteq> SUCCESS then (ret\<lparr>ri_errorCode := c\<rparr>, g2)
                         else
                           let (ret1, g3) = HandleDumpTraceAsyncTask e ac limit (committed g1) (ret\<lparr>ri_errorCode := c\<rparr>) (fresh_pages g2)
                           in (ret1, RestoreTimeIntervalBoundary g3))"

text \<open>
  The thread that waits for deferred answers: one round with whether the dump process is there, what was
  read within a second, and the directory. \<open>None\<close> for the new count ends the thread.
\<close>

definition ASYNC_WAIT_EMPTY_LOOP_CNT :: int where "ASYNC_WAIT_EMPTY_LOOP_CNT = 180"

definition finish_async :: "TraceDumpTask \<Rightarrow> dump_globals \<Rightarrow> dump_globals" where
  "finish_async task g =
     (let r = (case g_traceRetInfos g (time task) of None \<Rightarrow> TraceRetInfo_default | Some r \<Rightarrow> r);
          sz = sum_list (map (GetFileSize (dg_fs g)) (ri_outputFiles r));
          r' = r\<lparr>ri_fileSize := sz, ri_isOverflowControl := (ri_isOverflowControl r \<or> sz > fileSizeLimit task)\<rparr>;
          g1 = (if g_callbacks g (time task) = Some True then g\<lparr>dg_answers := dg_answers g @ [(time task, r')]\<rparr> else g)
      in g1\<lparr>g_callbacks := (g_callbacks g1)(time task := None), g_traceRetInfos := (g_traceRetInfos g1)(time task := None)\<rparr>)"

definition WaitAsyncDumpRetLoop :: "bool \<Rightarrow> TraceDumpTask option \<Rightarrow> int \<Rightarrow> dump_globals \<Rightarrow> int option \<times> dump_globals" where
  "WaitAsyncDumpRetLoop processExists r emptyLoopCnt g =
     (if emptyLoopCnt \<ge> ASYNC_WAIT_EMPTY_LOOP_CNT \<or> \<not> processExists then (None, g\<lparr>dg_tasks := ClearTraceDumpTask (dg_tasks g)\<rparr>)
      else case r of None \<Rightarrow> (Some (emptyLoopCnt + 1), g)
        | Some task \<Rightarrow>
            let g1 = (if status task = WRITE_DONE then finish_async task g else g)
            in (Some 0, g1\<lparr>dg_tasks := RemoveTraceDumpTask (time task) (dg_tasks g1)\<rparr>))"

end
