(* ===== verification/Cjson.thy ===== *)
theory Cjson
  imports Common_Utils
begin

text \<open>
  The library cJSON is not in the repository: its functions are an argument of the models that use it, a record over
  the type of its nodes. Besides the record this theory holds what the documentation of the library says of the nodes of a
  document, as a relation between nodes and JSON values, and a concrete instance in which the values are their own nodes.
\<close>

section \<open>The interface\<close>

text \<open>\<open>None\<close> is the null pointer. \<open>cj_members\<close> is the list from \<^verbatim>\<open>child\<close> along \<^verbatim>\<open>next\<close>, each node with its name (\<^verbatim>\<open>string\<close>); \<open>cj_Add\<close> gives \<open>None\<close> when it fails.\<close>

record 'j cjson =
  cj_Parse :: "string \<Rightarrow> 'j option"
  cj_Print :: "'j \<Rightarrow> string option"
  cj_GetObjectItem :: "'j \<Rightarrow> string \<Rightarrow> 'j option"
  cj_IsObject :: "'j \<Rightarrow> bool"
  cj_IsArray :: "'j \<Rightarrow> bool"
  cj_IsString :: "'j \<Rightarrow> bool"
  cj_IsNumber :: "'j \<Rightarrow> bool"
  cj_IsBool :: "'j \<Rightarrow> bool"
  cj_IsTrue :: "'j \<Rightarrow> bool"
  cj_valueint :: "'j \<Rightarrow> int"
  cj_valuestring :: "'j \<Rightarrow> string option"
  cj_members :: "'j \<Rightarrow> (string option \<times> 'j) list"
  cj_DeleteItemFromObject :: "'j \<Rightarrow> string \<Rightarrow> 'j"
  cj_Add :: "'j \<Rightarrow> string \<Rightarrow> 'j \<Rightarrow> 'j option"
  cj_CreateNumber :: "int \<Rightarrow> 'j option"
  cj_CreateString :: "string \<Rightarrow> 'j option"

definition cj_children :: "'j cjson \<Rightarrow> 'j \<Rightarrow> 'j list" where
  "cj_children cj n = map snd (cj_members cj n)"

text \<open>The type tests answer no for the null pointer; a text is used only if it is not empty.\<close>

definition node_is :: "('j \<Rightarrow> bool) \<Rightarrow> 'j option \<Rightarrow> bool" where
  "node_is p n = (case n of None \<Rightarrow> False | Some x \<Rightarrow> p x)"

definition text_of :: "'j cjson \<Rightarrow> 'j option \<Rightarrow> string option" where
  "text_of cj n =
     (case n of None \<Rightarrow> None
      | Some x \<Rightarrow> if cj_IsString cj x then (case cj_valuestring cj x of Some (c # cs) \<Rightarrow> Some (c # cs) | _ \<Rightarrow> None) else None)"

section \<open>Nodes and values\<close>

text \<open>
  JSON values, and when a node of the library stands for one: what its documentation says of the type tests and the
  accessors. The members of an object are found under their names, which differ.
\<close>

datatype json = JNum int | JStr string | JBool bool | JArr "json list" | JObj "(string \<times> json) list"

function stands_for :: "'j cjson \<Rightarrow> 'j \<Rightarrow> json \<Rightarrow> bool" where
  "stands_for cj n (JNum i) \<longleftrightarrow> cj_IsNumber cj n \<and> cj_valueint cj n = i"
| "stands_for cj n (JStr t) \<longleftrightarrow> cj_IsString cj n \<and> cj_valuestring cj n = Some t"
| "stands_for cj n (JBool b) \<longleftrightarrow> cj_IsBool cj n \<and> cj_IsTrue cj n = b"
| "stands_for cj n (JArr js) \<longleftrightarrow> cj_IsArray cj n \<and> length (cj_children cj n) = length js \<and>
     list_all (\<lambda>(x, j). stands_for cj x j) (zip (cj_children cj n) js)"
| "stands_for cj n (JObj ms) \<longleftrightarrow> cj_IsObject cj n \<and>
     map fst (cj_members cj n) = map (\<lambda>p. Some (fst p)) ms \<and> list_all (\<lambda>(x, j). stands_for cj x j) (zip (cj_children cj n) (map snd ms)) \<and>
     list_all (\<lambda>(k, j). case cj_GetObjectItem cj n k of None \<Rightarrow> False | Some x \<Rightarrow> stands_for cj x j) ms"
  by pat_completeness auto
termination
proof (relation "measure (\<lambda>(cj, n, j). size j)", goal_cases)
  case (2 cj n js p x j)
  then have "j \<in> set js" by (auto dest: set_zip_rightD)
  then have "size j < size (JArr js)" by (induction js) auto
  then show ?case by simp
next
  case (3 cj n ms p x j)
  then have "j \<in> set (map snd ms)" by (auto dest: set_zip_rightD)
  then obtain k where "(k, j) \<in> set ms" by auto
  then have "size j < size (JObj ms)" by (induction ms) auto
  then show ?case by simp
next
  case (4 cj n ms p k j x)
  then have "(k, j) \<in> set ms" by auto
  then have "size j < size (JObj ms)" by (induction ms) auto
  then show ?case by simp
qed simp_all

lemma text_of_JStr: "stands_for cj x (JStr t) \<Longrightarrow> t \<noteq> [] \<Longrightarrow> text_of cj (Some x) = Some t"
  by (cases t) (simp_all add: text_of_def)

text \<open>A member of an object under its name.\<close>

definition has :: "'j cjson \<Rightarrow> 'j \<Rightarrow> string \<Rightarrow> json \<Rightarrow> bool" where
  "has cj root k j \<longleftrightarrow> (\<exists>x. cj_GetObjectItem cj root k = Some x \<and> stands_for cj x j)"

lemma stands_for_has: "stands_for cj n (JObj ms) \<Longrightarrow> (k, j) \<in> set ms \<Longrightarrow> has cj n k j"
  by (auto simp: has_def list_all_iff split: option.splits)

lemma text_has: "has cj root k (JStr t) \<Longrightarrow> t \<noteq> [] \<Longrightarrow> text_of cj (cj_GetObjectItem cj root k) = Some t"
  unfolding has_def using text_of_JStr by metis

lemma array_texts:
  "length ns = length ts \<Longrightarrow> list_all (\<lambda>(x, j). stands_for cj x j) (zip ns (map JStr ts)) \<Longrightarrow> [] \<notin> set ts \<Longrightarrow>
   List.map_filter (\<lambda>t. text_of cj (Some t)) ns = ts"
proof (induction ns ts rule: list_induct2)
  case (Cons n ns t ts)
  then show ?case by (cases t) (simp_all add: List.map_filter_simps text_of_def)
qed (simp add: List.map_filter_simps)

text \<open>The members of an object and the elements of an array, in their order.\<close>

lemma list_all2_members:
  "map fst xs = map (\<lambda>p. Some (fst p)) ms \<Longrightarrow> list_all (\<lambda>(x, j). stands_for cj x j) (zip (map snd xs) (map snd ms)) \<Longrightarrow>
   list_all2 (\<lambda>x p. fst x = Some (fst p) \<and> stands_for cj (snd x) (snd p)) xs ms"
  by (induction xs ms rule: list_induct2') auto

lemma stands_for_members:
  "stands_for cj n (JObj ms) \<Longrightarrow>
   list_all2 (\<lambda>x p. fst x = Some (fst p) \<and> stands_for cj (snd x) (snd p)) (cj_members cj n) ms"
  by (rule list_all2_members) (simp_all add: cj_children_def)

section \<open>A concrete library\<close>

text \<open>Values as their own nodes, members in a list; the parser knows one text.\<close>

definition json_lib :: "string \<Rightarrow> json \<Rightarrow> json cjson" where
  "json_lib doc j = \<lparr>cj_Parse = (\<lambda>t. if t = doc then Some j else None), cj_Print = (\<lambda>n. Some doc),
     cj_GetObjectItem = (\<lambda>n k. case n of JObj ms \<Rightarrow> map_of ms k | _ \<Rightarrow> None),
     cj_IsObject = (\<lambda>n. case n of JObj ms \<Rightarrow> True | _ \<Rightarrow> False), cj_IsArray = (\<lambda>n. case n of JArr js \<Rightarrow> True | _ \<Rightarrow> False),
     cj_IsString = (\<lambda>n. case n of JStr t \<Rightarrow> True | _ \<Rightarrow> False), cj_IsNumber = (\<lambda>n. case n of JNum i \<Rightarrow> True | _ \<Rightarrow> False),
     cj_IsBool = (\<lambda>n. case n of JBool b \<Rightarrow> True | _ \<Rightarrow> False), cj_IsTrue = (\<lambda>n. n = JBool True),
     cj_valueint = (\<lambda>n. case n of JNum i \<Rightarrow> i | _ \<Rightarrow> 0), cj_valuestring = (\<lambda>n. case n of JStr t \<Rightarrow> Some t | _ \<Rightarrow> None),
     cj_members = (\<lambda>n. case n of JArr js \<Rightarrow> map (Pair None) js | JObj ms \<Rightarrow> map (\<lambda>(k, x). (Some k, x)) ms | _ \<Rightarrow> []),
     cj_DeleteItemFromObject = (\<lambda>n k. case n of JObj ms \<Rightarrow> JObj (filter (\<lambda>(k', x). k' \<noteq> k) ms) | _ \<Rightarrow> n),
     cj_Add = (\<lambda>n k x. case n of JObj ms \<Rightarrow> Some (JObj (ms @ [(k, x)])) | _ \<Rightarrow> None),
     cj_CreateNumber = (\<lambda>i. Some (JNum i)), cj_CreateString = (\<lambda>t. Some (JStr t))\<rparr>"

lemma json_lib_children [simp]:
  "cj_children (json_lib doc d) (JArr js) = js" "cj_children (json_lib doc d) (JObj ms) = map snd ms"
  by (simp_all add: cj_children_def json_lib_def o_def prod.case_eq_if)

lemma json_lib_texts: "list_all (\<lambda>(x, j). stands_for (json_lib doc d) x j) (zip (map JStr ts) (map JStr ts))"
  by (induction ts) (simp_all add: json_lib_def)

lemma json_lib_simps [simp]:
  "cj_GetObjectItem (json_lib doc d) (JObj ms) k = map_of ms k" "cj_IsObject (json_lib doc d) (JObj ms)" "cj_IsArray (json_lib doc d) (JArr js)"
  "cj_members (json_lib doc d) (JObj ms) = map (\<lambda>(k, x). (Some k, x)) ms"
  by (simp_all add: json_lib_def)

lemma json_lib_scalars [simp]:
  "cj_IsNumber (json_lib doc d) (JNum i)" "cj_valueint (json_lib doc d) (JNum i) = i" "cj_IsString (json_lib doc d) (JStr t)"
  "cj_valuestring (json_lib doc d) (JStr t) = Some t" "cj_IsBool (json_lib doc d) (JBool b)" "cj_IsTrue (json_lib doc d) (JBool b) = b"
  by (simp_all add: json_lib_def)

end
