(* ===== verification/Boot_Trace.thy ===== *)
theory Boot_Trace
  imports Hitrace_Cmd Trace_Mode Cjson
begin

text \<open>
  The boot trace of \<^verbatim>\<open>cmd/hitrace_cmd.cpp\<close>. \<^verbatim>\<open>hitrace --boot_trace\<close> writes a configuration file and a counter;
  at the next boot init starts \<^verbatim>\<open>hitrace boot-trace\<close>, which reads the file, opens the trace, waits, dumps and closes
  through the dump service, and records the result in the file. While it runs a system parameter says so, and
  the service refuses other users. The library cJSON is an argument. The entry point of the tool is at the end.
\<close>

section \<open>The configuration file as it is written\<close>

definition BOOT_TRACE_CONFIG_DIR :: string where "BOOT_TRACE_CONFIG_DIR = ''/data/local/tmp/''"
definition BOOT_TRACE_CONFIG_FILE :: string where "BOOT_TRACE_CONFIG_FILE = ''boot_trace.cfg''"
definition BOOT_TRACE_COUNT_PARAM :: string where "BOOT_TRACE_COUNT_PARAM = ''persist.hitrace.boot_trace.count''"
definition BOOT_TRACE_DEFAULT_PREFIX :: string where "BOOT_TRACE_DEFAULT_PREFIX = ''boot_trace''"
definition BOOT_TRACE_DEFAULT_DURATION :: int where "BOOT_TRACE_DEFAULT_DURATION = 30"
definition BOOT_TRACE_EXIT_OK :: int where "BOOT_TRACE_EXIT_OK = 0"
definition BOOT_TRACE_EXIT_DUPLICATE :: int where "BOOT_TRACE_EXIT_DUPLICATE = 1"
definition BOOT_TRACE_EXIT_CONFIG_ERROR :: int where "BOOT_TRACE_EXIT_CONFIG_ERROR = 2"

record BootTraceConfig =
  bc_durationSec :: int
  bc_bufferSizeKb :: int
  bc_fileSizeKb :: int
  bc_incrementIndex :: int
  bc_kernelTags :: "string list"
  bc_userTags :: "string list"
  bc_clockType :: string
  bc_filePrefix :: string
  bc_overwrite :: bool

definition nl :: string where "nl = [char_of (10::nat)]"

definition json_bool :: "bool \<Rightarrow> string" where "json_bool b = (if b then ''true'' else ''false'')"

text \<open>The elements of a list with a separator, as the loops over \<^verbatim>\<open>i > 0\<close> print them.\<close>

fun separated :: "string \<Rightarrow> string list \<Rightarrow> string" where
  "separated sep [] = []"
| "separated sep [t] = t"
| "separated sep (t # u # ts) = t @ sep @ separated sep (u # ts)"

definition BuildKernelSectionJson :: "string list \<Rightarrow> int \<Rightarrow> string \<Rightarrow> string" where
  "BuildKernelSectionJson kernelTags bufferSizeKb clockType =
     ''  '' @ quoted ''kernel'' @ '': {'' @ nl @
     ''    '' @ quoted ''enabled'' @ '': '' @ json_bool (kernelTags \<noteq> []) @ '','' @ nl @
     ''    '' @ quoted ''tags'' @ '': ['' @ separated '', '' (map quoted kernelTags) @ ''],'' @ nl @
     ''    '' @ quoted ''buffer_size_kb'' @ '': '' @ to_string_int bufferSizeKb @ '','' @ nl @
     ''    '' @ quoted ''clock'' @ '': '' @ quoted clockType @ nl @
     ''  },'' @ nl"

definition BuildUserSpaceSectionJson :: "string list \<Rightarrow> string" where
  "BuildUserSpaceSectionJson userTags =
     ''  '' @ quoted ''userspace'' @ '': {'' @ nl @
     ''    '' @ quoted ''enabled'' @ '': '' @ json_bool (userTags \<noteq> []) @ '','' @ nl @
     ''    '' @ quoted ''tags'' @ '': ['' @ separated '', '' (map quoted userTags) @ '']'' @ nl @
     ''  }'' @ nl"

definition JoinBootTraceTagsForDisplay :: "string list \<Rightarrow> string" where
  "JoinBootTraceTagsForDisplay tags = separated '' '' tags"

definition BuildBootTraceOutputPathForPrefix :: "string \<Rightarrow> int \<Rightarrow> string" where
  "BuildBootTraceOutputPathForPrefix filePrefix incrementIndex =
     (let stem = BOOT_TRACE_CONFIG_DIR @ filePrefix
      in if incrementIndex \<ge> 0 then stem @ ''_'' @ to_string_int incrementIndex @ ''.sys'' else stem @ ''.sys'')"

definition BuildBootTraceConfigJson :: "BootTraceConfig \<Rightarrow> string" where
  "BuildBootTraceConfigJson config =
     ''{'' @ nl @
     ''  '' @ quoted ''version'' @ '': 1,'' @ nl @
     ''  '' @ quoted ''description'' @ '': '' @ quoted ''Boot-time trace configuration'' @ '','' @ nl @
     ''  '' @ quoted ''duration_sec'' @ '': '' @ to_string_int (bc_durationSec config) @ '','' @ nl @
     ''  '' @ quoted ''output'' @ '': '' @ quoted (BuildBootTraceOutputPathForPrefix (bc_filePrefix config) (bc_incrementIndex config)) @ '','' @ nl @
     ''  '' @ quoted ''file_size_kb'' @ '': '' @ to_string_int (bc_fileSizeKb config) @ '','' @ nl @
     ''  '' @ quoted ''file_prefix'' @ '': '' @ quoted (bc_filePrefix config) @ '','' @ nl @
     ''  '' @ quoted ''overwrite'' @ '': '' @ json_bool (bc_overwrite config) @ '','' @ nl @
     ''  '' @ quoted ''inline_event_format'' @ '': true,'' @ nl @
     ''  '' @ quoted ''increment_index'' @ '': '' @ to_string_int (bc_incrementIndex config) @ '','' @ nl @
     BuildKernelSectionJson (bc_kernelTags config) (bc_bufferSizeKb config) (bc_clockType config) @
     BuildUserSpaceSectionJson (bc_userTags config) @
     ''}'' @ nl"

text \<open>
  The file and what the system answers about it: \<open>bf_dir\<close> is what \<^verbatim>\<open>stat\<close> says of the directory (whether it is one),
  \<open>bf_mkdir\<close> the error of \<^verbatim>\<open>mkdir\<close> or 0; \<open>bf_room\<close> bytes can be written, and \<open>bf_fail\<close> is what the stream reports.
\<close>

record boot_files =
  bf_dir :: "bool option"
  bf_mkdir :: int
  bf_stat :: bool
  bf_read :: bool
  bf_write :: bool
  bf_room :: nat
  bf_fail :: bool

definition EEXIST :: int where "EEXIST = 17"

definition EnsureDirExists :: "boot_files \<Rightarrow> string \<Rightarrow> int \<Rightarrow> bool cmd" where
  "EnsureDirExists f dirPath errno s =
     (case bf_dir f of
        Some True \<Rightarrow> (True, s)
      | Some False \<Rightarrow> (False, ConsoleLog (''error: '' @ dirPath @ '' is not a directory.'') s)
      | None \<Rightarrow>
          if bf_mkdir f \<noteq> 0 \<and> bf_mkdir f \<noteq> EEXIST
          then (False, ConsoleLog (''error: cannot create directory '' @ dirPath @ '', errno: '' @ to_string_int errno) s)
          else (True, s))"

definition PrintBootTraceConfiguredArgs :: "cmd_state \<Rightarrow> cmd_state" where
  "PrintBootTraceConfiguredArgs s =
     (let a = cm_args s
      in fold ConsoleLog
           ((if ca_tagsVec a \<noteq> [] then [''tags: '' @ JoinBootTraceTagsForDisplay (ca_tagsVec a)] else []) @
            (if ca_bufferSize a > 0 then [''buffer_size: '' @ to_string_int (ca_bufferSize a)] else []) @
            (if ca_duration a > 0 then [''time: '' @ to_string_int (ca_duration a)] else []) @
            (if ca_fileSize a > 0 then [''file_size: '' @ to_string_int (ca_fileSize a)] else []) @
            (if ca_remainingCount a \<noteq> 1 then [''repeat: '' @ to_string_int (ca_remainingCount a)] else []) @
            (if ca_bootFilePrefix a \<noteq> [] then [''file_prefix: '' @ ca_bootFilePrefix a] else []) @
            (if ca_bootTraceOverwrite a then [''overwrite: true''] else []) @
            (if ca_bootTraceIncrement a then [''increment: true''] else [])) s)"

definition set_param :: "string \<Rightarrow> string \<Rightarrow> bool cmd" where
  "set_param name v s = (let (ok, k) = SetProperty name v (cm_kernel s) in (ok, s\<lparr>cm_kernel := k\<rparr>))"

definition HandleBootTraceOff :: "bool cmd" where
  "HandleBootTraceOff s =
     (let (ok, s1) = set_param BOOT_TRACE_COUNT_PARAM ''0'' s
      in if ok then (True, ConsoleLog ''boot_trace off success.'' s1)
         else (False, ConsoleLog (''error: failed to set '' @ BOOT_TRACE_COUNT_PARAM @ '' to 0.'') s1))"

fun sort_tags :: "tag_table \<Rightarrow> string list \<Rightarrow> string list \<times> string list \<Rightarrow> (string, string list \<times> string list) sum" where
  "sort_tags infos [] acc = Inr acc"
| "sort_tags infos (tag # ts) (kt, ut) =
     (case map_of infos tag of None \<Rightarrow> Inl tag
      | Some info \<Rightarrow> sort_tags infos ts (if tag_type info = KERNEL then (kt @ [tag], ut) else (kt, ut @ [tag])))"

definition ValidateBootTraceTags :: "cmd_env \<Rightarrow> (string list \<times> string list) option cmd" where
  "ValidateBootTraceTags e s =
     (let a = cm_args s
      in if ca_tagsVec a = [] then (None, ConsoleLog ''error: boot_trace requires at least one tag.'' s)
         else if ca_remainingCount a < BOOT_TRACE_REPEAT_MIN \<or> ca_remainingCount a > BOOT_TRACE_REPEAT_MAX
         then (None, ConsoleLog (''error: --repeat must be from 1 to 100. eg: '' @ quoted ''--repeat 5'' @ ''.'') s)
         else case sort_tags (ce_tags e) (ca_tagsVec a) ([], []) of
                Inl tag \<Rightarrow> (None, ConsoleLog (''error: '' @ tag @ '' is not support category on this device.'') s)
              | Inr kts \<Rightarrow> (Some kts, s))"

definition boot_config :: "CmdArgs \<Rightarrow> string list \<Rightarrow> string list \<Rightarrow> BootTraceConfig" where
  "boot_config a kernelTags userTags =
     \<lparr>bc_durationSec = (if ca_duration a > 0 then ca_duration a else BOOT_TRACE_DEFAULT_DURATION),
      bc_bufferSizeKb = (if ca_bufferSize a > 0 then ca_bufferSize a else uint DEFAULT_BUFFER_SIZE),
      bc_fileSizeKb = (if ca_fileSize a \<ge> MIN_FILE_SIZE \<and> ca_fileSize a \<le> CMD_MAX_FILE_SIZE then ca_fileSize a else CMD_DEFAULT_FILE_SIZE),
      bc_incrementIndex = (if ca_bootTraceIncrement a then 0 else -1),
      bc_kernelTags = kernelTags, bc_userTags = userTags,
      bc_clockType = (if ca_clockType a = [] then ''boot'' else ca_clockType a),
      bc_filePrefix = (if ca_bootFilePrefix a = [] then BOOT_TRACE_DEFAULT_PREFIX else ca_bootFilePrefix a),
      bc_overwrite = ca_bootTraceOverwrite a\<rparr>"

text \<open>Besides the state, the content of the configuration file, \<open>None\<close> while there is none.\<close>

definition BuildAndWriteBootTraceConfig ::
  "cmd_env \<Rightarrow> boot_files \<Rightarrow> string list \<Rightarrow> string list \<Rightarrow> string option \<Rightarrow> cmd_state \<Rightarrow> bool \<times> string option \<times> cmd_state" where
  "BuildAndWriteBootTraceConfig e f kernelTags userTags file s =
     (let (ok, s1) = EnsureDirExists f BOOT_TRACE_CONFIG_DIR (ce_errno e) s; configPath = BOOT_TRACE_CONFIG_DIR @ BOOT_TRACE_CONFIG_FILE
      in if \<not> ok then (False, file, s1)
         else if \<not> bf_write f then (False, file, ConsoleLog (''error: open '' @ configPath @ '' failed.'') s1)
         else
           let file1 = Some (take (bf_room f) (BuildBootTraceConfigJson (boot_config (cm_args s1) kernelTags userTags)))
           in if bf_fail f then (False, file1, ConsoleLog (''error: can not write '' @ configPath) s1)
              else
                let (ok2, s2) = set_param BOOT_TRACE_COUNT_PARAM (to_string_int (ca_remainingCount (cm_args s1))) s1
                in if \<not> ok2 then (False, file1, ConsoleLog (''error: failed to set '' @ BOOT_TRACE_COUNT_PARAM) s2)
                   else (True, file1, ConsoleLog ''boot_trace configuration success.'' (PrintBootTraceConfiguredArgs s2)))"

definition HandleBootTraceConfig :: "cmd_env \<Rightarrow> boot_files \<Rightarrow> string option \<Rightarrow> cmd_state \<Rightarrow> bool \<times> string option \<times> cmd_state" where
  "HandleBootTraceConfig e f file s =
     (if \<not> IsBootTraceAllowedByConstDebuggable e then (False, file, ConsoleLog parsing_failed s)
      else if ca_tagsVec (cm_args s) = [''off''] then let (ok, s1) = HandleBootTraceOff s in (ok, file, s1)
      else case ValidateBootTraceTags e s of
             (None, s1) \<Rightarrow> (False, file, s1)
           | (Some (kernelTags, userTags), s1) \<Rightarrow> BuildAndWriteBootTraceConfig e f kernelTags userTags file s1)"

section \<open>The configuration file as it is read\<close>

record BootTraceCaptureConfig =
  cc_durationSec :: int
  cc_outputPath :: string
  cc_tags :: "string list"
  cc_bufferSizeKb :: u32
  cc_clockType :: string
  cc_overwrite :: bool
  cc_fileSizeLimitKb :: u32
  cc_incrementIndex :: int
  cc_inlineEventFormat :: bool

definition BootTraceCaptureConfig_default :: BootTraceCaptureConfig where
  "BootTraceCaptureConfig_default = \<lparr>cc_durationSec = 0, cc_outputPath = [], cc_tags = [], cc_bufferSizeKb = 0, cc_clockType = ''boot'',
     cc_overwrite = True, cc_fileSizeLimitKb = 0, cc_incrementIndex = -1, cc_inlineEventFormat = False\<rparr>"

text \<open>The first component is the message of a refusal, \<open>None\<close> when the step succeeds.\<close>

definition ValidateBootTraceConfig :: "'j cjson \<Rightarrow> string \<Rightarrow> 'j \<Rightarrow> string option" where
  "ValidateBootTraceConfig cj configPath root =
     (if \<not> cj_IsObject cj root then Some (''error: boot_trace config is not a JSON object in '' @ configPath)
      else let d = cj_GetObjectItem cj root ''duration_sec''
           in if \<not> node_is (\<lambda>n. cj_IsNumber cj n \<and> cj_valueint cj n > 0) d
              then Some (''error: duration_sec is missing or invalid in '' @ configPath) else None)"

definition AppendBootTraceSectionTags :: "'j cjson \<Rightarrow> 'j \<Rightarrow> string \<Rightarrow> string list \<Rightarrow> string list" where
  "AppendBootTraceSectionTags cj root section out =
     (case cj_GetObjectItem cj root section of None \<Rightarrow> out
      | Some sec \<Rightarrow>
          if \<not> cj_IsObject cj sec then out
          else if node_is (\<lambda>en. cj_IsBool cj en \<and> \<not> cj_IsTrue cj en) (cj_GetObjectItem cj sec ''enabled'') then out
          else case cj_GetObjectItem cj sec ''tags'' of None \<Rightarrow> out
            | Some arr \<Rightarrow> if \<not> cj_IsArray cj arr then out
                          else out @ List.map_filter (\<lambda>t. text_of cj (Some t)) (cj_children cj arr))"

definition ResolveBootTraceFilePrefixFromJson :: "'j cjson \<Rightarrow> 'j \<Rightarrow> string" where
  "ResolveBootTraceFilePrefixFromJson cj root =
     (case text_of cj (cj_GetObjectItem cj root ''file_prefix'') of None \<Rightarrow> BOOT_TRACE_DEFAULT_PREFIX | Some p \<Rightarrow> p)"

definition ResolveBootTraceIncrementIndexFromJson :: "'j cjson \<Rightarrow> 'j \<Rightarrow> int" where
  "ResolveBootTraceIncrementIndexFromJson cj root =
     (case cj_GetObjectItem cj root ''increment_index'' of None \<Rightarrow> -1
      | Some n \<Rightarrow> if cj_IsNumber cj n then cj_valueint cj n else -1)"

definition ResolveBootTraceCaptureOutputPath :: "'j cjson \<Rightarrow> 'j \<Rightarrow> string \<Rightarrow> int \<Rightarrow> string" where
  "ResolveBootTraceCaptureOutputPath cj root pfx incrementIndex =
     (if incrementIndex \<ge> 0 then BuildBootTraceOutputPathForPrefix pfx incrementIndex
      else case text_of cj (cj_GetObjectItem cj root ''output'') of
             Some p \<Rightarrow> p | None \<Rightarrow> BuildBootTraceOutputPathForPrefix pfx (-1))"

definition ValidateBootTraceCaptureTags ::
  "'j cjson \<Rightarrow> tag_table \<Rightarrow> string \<Rightarrow> 'j \<Rightarrow> BootTraceCaptureConfig \<Rightarrow> string option \<times> BootTraceCaptureConfig" where
  "ValidateBootTraceCaptureTags cj allTagInfos configPath root cfg =
     (let tags = AppendBootTraceSectionTags cj root ''userspace'' (AppendBootTraceSectionTags cj root ''kernel'' []);
          cfg1 = cfg\<lparr>cc_tags := tags\<rparr>
      in if tags = [] then (Some (''error: boot_trace config has no tags under kernel/userspace in '' @ configPath), cfg1)
         else case find (\<lambda>t. map_of allTagInfos t = None) tags of
                Some t \<Rightarrow> (Some (''error: boot_trace unsupported tag '' @ quoted t @ '' in '' @ configPath), cfg1)
              | None \<Rightarrow> (None, cfg1))"

definition ApplyBootTraceKernelCaptureOptions :: "'j cjson \<Rightarrow> 'j \<Rightarrow> BootTraceCaptureConfig \<Rightarrow> BootTraceCaptureConfig" where
  "ApplyBootTraceKernelCaptureOptions cj root cfg =
     (case cj_GetObjectItem cj root ''kernel'' of None \<Rightarrow> cfg
      | Some kern \<Rightarrow>
          if \<not> cj_IsObject cj kern then cfg
          else
            let cfg1 = (case cj_GetObjectItem cj kern ''buffer_size_kb'' of None \<Rightarrow> cfg
                        | Some b \<Rightarrow> if cj_IsNumber cj b \<and> cj_valueint cj b > 0 then cfg\<lparr>cc_bufferSizeKb := of_int (cj_valueint cj b)\<rparr> else cfg)
            in case text_of cj (cj_GetObjectItem cj kern ''clock'') of None \<Rightarrow> cfg1 | Some c \<Rightarrow> cfg1\<lparr>cc_clockType := c\<rparr>)"

definition ApplyBootTraceFileCaptureOptions :: "'j cjson \<Rightarrow> 'j \<Rightarrow> BootTraceCaptureConfig \<Rightarrow> BootTraceCaptureConfig" where
  "ApplyBootTraceFileCaptureOptions cj root cfg =
     (let cfg1 = (case cj_GetObjectItem cj root ''overwrite'' of None \<Rightarrow> cfg
                  | Some n \<Rightarrow> if cj_IsBool cj n then cfg\<lparr>cc_overwrite := cj_IsTrue cj n\<rparr> else cfg);
          cfg2 = (case cj_GetObjectItem cj root ''file_size_kb'' of None \<Rightarrow> cfg1
                  | Some n \<Rightarrow> if cj_IsNumber cj n \<and> cj_valueint cj n > 0 then cfg1\<lparr>cc_fileSizeLimitKb := of_int (cj_valueint cj n)\<rparr> else cfg1)
      in case cj_GetObjectItem cj root ''inline_event_format'' of None \<Rightarrow> cfg2
         | Some n \<Rightarrow> if cj_IsBool cj n then cfg2\<lparr>cc_inlineEventFormat := cj_IsTrue cj n\<rparr> else cfg2)"

text \<open>The duration has been validated before, so that its node is there.\<close>

definition FillBootTraceCaptureConfig ::
  "'j cjson \<Rightarrow> tag_table \<Rightarrow> string \<Rightarrow> 'j \<Rightarrow> BootTraceCaptureConfig \<Rightarrow> string option \<times> BootTraceCaptureConfig" where
  "FillBootTraceCaptureConfig cj allTagInfos configPath root cfg =
     (let cfg1 = (case cj_GetObjectItem cj root ''duration_sec'' of None \<Rightarrow> cfg | Some n \<Rightarrow> cfg\<lparr>cc_durationSec := cj_valueint cj n\<rparr>);
          pfx = ResolveBootTraceFilePrefixFromJson cj root;
          idx = ResolveBootTraceIncrementIndexFromJson cj root;
          cfg2 = cfg1\<lparr>cc_incrementIndex := idx, cc_outputPath := ResolveBootTraceCaptureOutputPath cj root pfx idx\<rparr>
      in case ValidateBootTraceCaptureTags cj allTagInfos configPath root cfg2 of
           (Some msg, cfg3) \<Rightarrow> (Some msg, cfg3)
         | (None, cfg3) \<Rightarrow> (None, ApplyBootTraceFileCaptureOptions cj root (ApplyBootTraceKernelCaptureOptions cj root cfg3)))"

definition LoadBootTraceCaptureConfig ::
  "'j cjson \<Rightarrow> boot_files \<Rightarrow> tag_table \<Rightarrow> string \<Rightarrow> string option \<Rightarrow> (string, BootTraceCaptureConfig) sum" where
  "LoadBootTraceCaptureConfig cj f allTagInfos configPath file =
     (case file of None \<Rightarrow> Inl (''boot trace config not found: '' @ configPath)
      | Some content \<Rightarrow>
          if \<not> bf_stat f then Inl (''boot trace config not found: '' @ configPath)
          else if \<not> bf_read f then Inl (''error: open '' @ configPath @ '' failed.'')
          else if content = [] then Inl (''error: '' @ configPath @ '' is empty.'')
          else case cj_Parse cj content of None \<Rightarrow> Inl (''error: parse '' @ configPath @ '' failed.'')
            | Some root \<Rightarrow>
                (case ValidateBootTraceConfig cj configPath root of Some msg \<Rightarrow> Inl msg
                 | None \<Rightarrow> (case FillBootTraceCaptureConfig cj allTagInfos configPath root BootTraceCaptureConfig_default of
                              (Some msg, _) \<Rightarrow> Inl msg | (None, cfg) \<Rightarrow> Inr cfg)))"

section \<open>The result in the file\<close>

definition LoadBootTraceConfigJsonForUpdate :: "'j cjson \<Rightarrow> boot_files \<Rightarrow> string \<Rightarrow> string option \<Rightarrow> (string, 'j) sum" where
  "LoadBootTraceConfigJsonForUpdate cj f configPath file =
     (case (if bf_read f then file else None) of
        None \<Rightarrow> Inl (''warning: open '' @ configPath @ '' failed, can not record result.'')
      | Some content \<Rightarrow>
          if content = [] then Inl (''warning: '' @ configPath @ '' is empty, can not record result.'')
          else case cj_Parse cj content of
                 Some root \<Rightarrow> if cj_IsObject cj root then Inr root else Inl (''warning: parse '' @ configPath @ '' failed, can not record result.'')
               | None \<Rightarrow> Inl (''warning: parse '' @ configPath @ '' failed, can not record result.''))"

text \<open>The messages, whether it succeeded, and the file.\<close>

definition WriteBootTraceConfigJson :: "'j cjson \<Rightarrow> boot_files \<Rightarrow> string \<Rightarrow> 'j \<Rightarrow> string option \<Rightarrow> string list \<times> bool \<times> string option" where
  "WriteBootTraceConfigJson cj f configPath root file =
     (case cj_Print cj root of None \<Rightarrow> ([''warning: serialize '' @ configPath @ '' failed, can not record result.''], False, file)
      | Some rendered \<Rightarrow>
          if \<not> bf_write f then ([''warning: open '' @ configPath @ '' for write failed, can not record result.''], False, file)
          else if bf_fail f then ([''warning: write result to '' @ configPath @ '' failed.''], False, Some (take (bf_room f) rendered))
          else ([], True, Some (take (bf_room f) rendered)))"

text \<open>\<^verbatim>\<open>cJSON_AddItemToObject\<close> does nothing when there is no item to add.\<close>

definition add_item :: "'j cjson \<Rightarrow> 'j \<Rightarrow> string \<Rightarrow> 'j option \<Rightarrow> 'j" where
  "add_item cj root name item =
     (case item of None \<Rightarrow> root | Some i \<Rightarrow> (case cj_Add cj root name i of None \<Rightarrow> root | Some root' \<Rightarrow> root'))"

definition ApplyBootTraceIncrementBump :: "'j cjson \<Rightarrow> 'j \<Rightarrow> 'j" where
  "ApplyBootTraceIncrementBump cj root =
     (case cj_GetObjectItem cj root ''increment_index'' of None \<Rightarrow> root
      | Some n \<Rightarrow>
          if \<not> cj_IsNumber cj n \<or> cj_valueint cj n < 0 then root
          else
            let newIdx = cj_valueint cj n + 1;
                root1 = add_item cj (cj_DeleteItemFromObject cj root ''increment_index'') ''increment_index'' (cj_CreateNumber cj newIdx);
                pfx = (case text_of cj (cj_GetObjectItem cj root1 ''file_prefix'') of None \<Rightarrow> BOOT_TRACE_DEFAULT_PREFIX | Some p \<Rightarrow> p)
            in add_item cj (cj_DeleteItemFromObject cj root1 ''output'') ''output'' (cj_CreateString cj (BuildBootTraceOutputPathForPrefix pfx newIdx)))"

text \<open>The members that record a result; \<open>None\<close> when the library cannot add it.\<close>

definition record_result :: "'j cjson \<Rightarrow> int \<Rightarrow> 'j \<Rightarrow> 'j option" where
  "record_result cj resultCode root =
     (case cj_CreateNumber cj resultCode of None \<Rightarrow> None
      | Some n \<Rightarrow>
          (case cj_Add cj (cj_DeleteItemFromObject cj root ''result'') ''result'' n of None \<Rightarrow> None
           | Some root2 \<Rightarrow> Some (if resultCode = BOOT_TRACE_EXIT_OK then ApplyBootTraceIncrementBump cj root2 else root2)))"

definition SaveBootTraceResultToConfig ::
  "'j cjson \<Rightarrow> boot_files \<Rightarrow> string \<Rightarrow> int \<Rightarrow> string option \<Rightarrow> string list \<times> bool \<times> string option" where
  "SaveBootTraceResultToConfig cj f configPath resultCode file =
     (case LoadBootTraceConfigJsonForUpdate cj f configPath file of
        Inl msg \<Rightarrow> ([msg], False, file)
      | Inr root \<Rightarrow>
          (case record_result cj resultCode root of
             None \<Rightarrow> ([''warning: update result field failed in '' @ configPath], False, file)
           | Some root' \<Rightarrow> WriteBootTraceConfigJson cj f configPath root' file))"

section \<open>The capture\<close>

text \<open>
  The run of the boot trace: what the calls of the service meet, and what others do to the kernel while it sleeps.
  The world is the service of this process, the configuration file, the environment variable for the inline event
  formats, and the events.
\<close>

record boot_run =
  br_open :: mode_env
  br_sleep :: "kernel \<Rightarrow> kernel"
  br_dump :: mode_env
  br_call :: dump_call
  br_close :: mode_env
  br_files :: boot_files

record boot_world =
  bw_dump :: dump_globals
  bw_file :: "string option"
  bw_inline :: bool
  bw_out :: "cmd_event list"

definition say :: "string \<Rightarrow> boot_world \<Rightarrow> boot_world" where
  "say msg w = w\<lparr>bw_out := bw_out w @ [Console msg]\<rparr>"

definition say_wrote :: "string \<Rightarrow> boot_world \<Rightarrow> boot_world" where
  "say_wrote f = say (''boot_trace: wrote '' @ f)"

definition err_code :: "TraceErrorCode \<Rightarrow> int" where
  "err_code c = (case c of SUCCESS \<Rightarrow> 0 | TRACE_NOT_SUPPORTED \<Rightarrow> 1 | TRACE_IS_OCCUPIED \<Rightarrow> 2 | TAG_ERROR \<Rightarrow> 3 | FILE_ERROR \<Rightarrow> 4
     | WRITE_TRACE_INFO_ERROR \<Rightarrow> 5 | WRONG_TRACE_MODE \<Rightarrow> 6 | OUT_OF_TIME \<Rightarrow> 7 | FORK_ERROR \<Rightarrow> 8 | INVALID_MAX_DURATION \<Rightarrow> 9
     | EPOLL_WAIT_ERROR \<Rightarrow> 10 | PIPE_CREATE_ERROR \<Rightarrow> 11 | ASYNC_DUMP \<Rightarrow> 12 | TRACE_TASK_SUBMIT_ERROR \<Rightarrow> 13
     | TRACE_TASK_DUMP_TIMEOUT \<Rightarrow> 14 | UNKNOWN_TRACE_DUMP_TYPE \<Rightarrow> 15 | BOOT_TRACE_ACTIVE \<Rightarrow> 16 | UNSET \<Rightarrow> 255)"

definition capture_args :: "BootTraceCaptureConfig \<Rightarrow> TraceArgs" where
  "capture_args cfg = \<lparr>ta_tags = cc_tags cfg, ta_clockType = cc_clockType cfg, ta_isOverWrite = cc_overwrite cfg,
     ta_bufferSize = cc_bufferSizeKb cfg, ta_fileSizeLimit = cc_fileSizeLimitKb cfg, ta_appPid = 0, ta_totalSize = 0, ta_filterPids = []\<rparr>"

definition ExecuteBootTraceCapture :: "boot_run \<Rightarrow> BootTraceCaptureConfig \<Rightarrow> boot_world \<Rightarrow> int \<times> boot_world" where
  "ExecuteBootTraceCapture b cfg w =
     (let (openRet, g1) = OpenTrace_args (br_open b) (capture_args cfg) (bw_dump w);
          w1 = w\<lparr>bw_inline := cc_inlineEventFormat cfg, bw_dump := g1\<rparr>
      in if openRet \<noteq> SUCCESS then (-1, say (''error: boot_trace OpenTrace failed, errorCode('' @ to_string_int (err_code openRet) @ '')'') w1)
         else
           let w2 = say (''boot_trace: capturing, duration_sec='' @ to_string_int (cc_durationSec cfg) @ '', output='' @ cc_outputPath cfg) w1;
               w3 = (if cc_durationSec cfg > 0
                     then w2\<lparr>bw_out := bw_out w2 @ [Slept (cc_durationSec cfg)], bw_dump := g1\<lparr>dg_kernel := br_sleep b (dg_kernel g1)\<rparr>\<rparr> else w2);
               dumpWindow = (if cc_durationSec cfg > 0 then of_int (cc_durationSec cfg) else 0);
               (dumpRet, g2) = DumpTrace (br_dump b) (br_call b) dumpWindow 0 (cc_outputPath cfg) (bw_dump w3)
           in if ri_errorCode dumpRet \<noteq> SUCCESS then
                (-1, (say (''error: boot_trace DumpTrace failed, errorCode('' @ to_string_int (err_code (ri_errorCode dumpRet)) @ '')'') w3)
                       \<lparr>bw_dump := snd (CloseTrace (br_close b) g2)\<rparr>)
              else
                let w4 = fold say_wrote (ri_outputFiles dumpRet) w3;
                    (closeRet, g3) = CloseTrace (br_close b) g2;
                    w5 = w4\<lparr>bw_dump := g3\<rparr>
                in if closeRet \<noteq> SUCCESS
                   then (-1, say (''warning: boot_trace CloseTrace errorCode('' @ to_string_int (err_code closeRet) @ '')'') w5)
                   else (0, w5))"

definition boot_param :: "string \<Rightarrow> string \<Rightarrow> boot_world \<Rightarrow> bool \<times> boot_world" where
  "boot_param name v w =
     (let g = bw_dump w; (ok, k) = SetProperty name v (dg_kernel g) in (ok, w\<lparr>bw_dump := g\<lparr>dg_kernel := k\<rparr>\<rparr>))"

definition IsBootTraceActiveFlagOn :: "boot_world \<Rightarrow> bool" where
  "IsBootTraceActiveFlagOn w \<longleftrightarrow> GetParameter TRACE_BOOT_ACTIVE_FLAG ''0'' (dg_kernel (bw_dump w)) = ''1''"

definition ClearBootTraceActiveFlagIfNeeded :: "bool \<Rightarrow> boot_world \<Rightarrow> boot_world" where
  "ClearBootTraceActiveFlagIfNeeded isActive w =
     (if \<not> isActive then w
      else let (ok, w1) = boot_param TRACE_BOOT_ACTIVE_FLAG ''0'' w
           in if ok then w1 else say (''warning: failed to clear '' @ TRACE_BOOT_ACTIVE_FLAG @ '' after boot-trace.'') w1)"

definition save_result :: "'j cjson \<Rightarrow> boot_run \<Rightarrow> int \<Rightarrow> boot_world \<Rightarrow> boot_world" where
  "save_result cj b resultCode w =
     (let (msgs, ok, file) = SaveBootTraceResultToConfig cj (br_files b) (BOOT_TRACE_CONFIG_DIR @ BOOT_TRACE_CONFIG_FILE) resultCode (bw_file w)
      in (fold say msgs w)\<lparr>bw_file := file\<rparr>)"

text \<open>The destructor of the session guard clears the flag last, on every path after the flag was set.\<close>

definition RunBootTraceControl :: "'j cjson \<Rightarrow> boot_run \<Rightarrow> boot_world \<Rightarrow> int \<times> boot_world" where
  "RunBootTraceControl cj b w =
     (if IsBootTraceActiveFlagOn w then
        (BOOT_TRACE_EXIT_DUPLICATE, save_result cj b BOOT_TRACE_EXIT_DUPLICATE
           (say ''boot_trace: duplicate launch ignored (debug.hitrace.boot_trace.active already 1)'' w))
      else
        let (ok, w1) = boot_param TRACE_BOOT_ACTIVE_FLAG ''1'' w
        in if \<not> ok then
             (BOOT_TRACE_EXIT_CONFIG_ERROR, save_result cj b BOOT_TRACE_EXIT_CONFIG_ERROR
                (say (''error: failed to set '' @ TRACE_BOOT_ACTIVE_FLAG @ '' to 1.'') w1))
           else case LoadBootTraceCaptureConfig cj (br_files b) (me_tags (br_open b)) (BOOT_TRACE_CONFIG_DIR @ BOOT_TRACE_CONFIG_FILE) (bw_file w1) of
                  Inl msg \<Rightarrow>
                    (BOOT_TRACE_EXIT_CONFIG_ERROR,
                     ClearBootTraceActiveFlagIfNeeded True (save_result cj b BOOT_TRACE_EXIT_CONFIG_ERROR (say msg w1)))
                | Inr cfg \<Rightarrow>
                    let (r, w2) = ExecuteBootTraceCapture b cfg (say ''boot_trace: active set; running capture.'' w1);
                        resultCode = (if r = 0 then BOOT_TRACE_EXIT_OK else BOOT_TRACE_EXIT_CONFIG_ERROR);
                        w3 = say (if r = 0 then ''boot_trace finished.'' else ''error: boot_trace capture failed.'') w2
                    in (resultCode, ClearBootTraceActiveFlagIfNeeded True (save_result cj b resultCode w3)))"

section \<open>The entry point\<close>

text \<open>\<^verbatim>\<open>TASK_TABLE\<close>; \<open>None\<close> for the states it lacks.\<close>

definition TASK_TABLE ::
  "cmd_env \<Rightarrow> boot_files \<Rightarrow> RunningState \<Rightarrow> (string option \<Rightarrow> cmd_state \<Rightarrow> bool \<times> string option \<times> cmd_state) option" where
  "TASK_TABLE e f st =
     (let plain = (\<lambda>h file s. let (ok, s1) = h s in (ok, file, s1))
      in case st of
           RECORDING_SHORT_RAW \<Rightarrow> Some (plain (HandleRecordingShortRaw e))
         | RECORDING_SHORT_TEXT \<Rightarrow> Some (plain (HandleRecordingShortText e))
         | RECORDING_LONG_BEGIN \<Rightarrow> Some (plain (HandleRecordingLongBegin e))
         | RECORDING_LONG_DUMP \<Rightarrow> Some (plain (HandleRecordingLongDump e))
         | RECORDING_LONG_FINISH \<Rightarrow> Some (plain (HandleRecordingLongFinish e))
         | RECORDING_LONG_FINISH_NODUMP \<Rightarrow> Some (plain (HandleRecordingLongFinishNodump e))
         | RECORDING_LONG_BEGIN_RECORD \<Rightarrow> Some (plain (HandleRecordingLongBeginRecord e))
         | RECORDING_LONG_FINISH_RECORD \<Rightarrow> Some (plain (HandleRecordingLongFinishRecord e))
         | SNAPSHOT_START \<Rightarrow> Some (plain (HandleOpenSnapshot e))
         | SNAPSHOT_DUMP \<Rightarrow> Some (plain (HandleDumpSnapshot e))
         | SNAPSHOT_STOP \<Rightarrow> Some (plain (HandleCloseSnapshot e))
         | SET_TRACE_LEVEL \<Rightarrow> Some (plain SetTraceLevel)
         | GET_TRACE_LEVEL \<Rightarrow> Some (plain GetTraceLevel)
         | CONFIG_BOOT_TRACE \<Rightarrow> Some (HandleBootTraceConfig e f)
         | _ \<Rightarrow> None)"

definition run_task :: "cmd_env \<Rightarrow> boot_files \<Rightarrow> cmd_line \<Rightarrow> string option \<Rightarrow> cmd_state \<Rightarrow> bool \<times> string option \<times> cmd_state" where
  "run_task e f l file s =
     (case TASK_TABLE e f (cm_state s) of
        Some task \<Rightarrow> task file s
      | None \<Rightarrow>
          if cm_state s = SHOW_HELP then (True, file, ShowHelp e (hd (cl_argv l)) s)
          else if cm_state s = SHOW_LIST_CATEGORY then (True, file, ShowListCategory e s)
          else (False, file, ShowHelp e (hd (cl_argv l)) s))"

text \<open>The two halves of the entry point: the subcommand that init starts, and everything else.\<close>

definition main_cmd :: "cmd_env \<Rightarrow> boot_files \<Rightarrow> cmd_line \<Rightarrow> string option \<Rightarrow> cmd_state \<Rightarrow> int \<times> string option \<times> cmd_state" where
  "main_cmd e f l file s =
     (let (ok, s1) = InitAndCheckArgs e l s
      in if \<not> ok then (-1, file, s1)
         else let (isSuccess, file1, s2) = run_task e f l file s1 in (if isSuccess then 0 else -1, file1, RecordSysEvent s2))"

definition main_boot :: "'j cjson \<Rightarrow> cmd_env \<Rightarrow> boot_run \<Rightarrow> boot_world \<Rightarrow> int \<times> boot_world" where
  "main_boot cj e b w =
     (if \<not> IsBootTraceEuidRoot e \<or> \<not> IsBootTraceLaunchedByInit e then (-1, say ''error: unrecognized command 'boot-trace'.'' w)
      else if \<not> IsBootTraceAllowedByConstDebuggable e then (-1, say parsing_failed w)
      else RunBootTraceControl cj b w)"

definition cmd_main ::
  "'j cjson \<Rightarrow> cmd_env \<Rightarrow> boot_run \<Rightarrow> cmd_line \<Rightarrow> cmd_state \<Rightarrow> boot_world \<Rightarrow> int \<times> cmd_state \<times> boot_world" where
  "cmd_main cj e b l s w =
     (if cl_argc l \<ge> 2 \<and> cl_argv l ! 1 = ''boot-trace'' then let (r, w1) = main_boot cj e b w in (r, s, w1)
      else let (r, file, s1) = main_cmd e (br_files b) l (bw_file w) s in (r, s1, w\<lparr>bw_file := file\<rparr>))"

end
