(* ===== verification/Mode_Control.thy ===== *)
theory Mode_Control
  imports Trace_Mode
begin

text \<open>
  The interface of the dump service as a transition system. Every call is one step, because the calls hold
  the same mutex; between them the thread of a loop works and ends, the waiting thread receives answers, the
  balancing thread runs, and other processes change the kernel. The control machine below keeps only the
  mode, the state of the loop and whether its thread exists; every step of the service is one of its steps,
  so that what holds for all its runs holds for the service.
\<close>

section \<open>Steps of the service\<close>

inductive api_step :: "dump_globals \<Rightarrow> dump_globals \<Rightarrow> bool" where
  open_groups: "OpenTrace_groups e tagGroups g = (c, g') \<Longrightarrow> api_step g g'"
| open_args: "OpenTrace_args e a g = (c, g') \<Longrightarrow> api_step g g'"
| open_string: "OpenTrace_string e args g = (c, g') \<Longrightarrow> api_step g g'"
| cache_on: "CacheTraceOn e n d g = (c, g') \<Longrightarrow> api_step g g'"
| cache_off: "CacheTraceOff e g = (c, g') \<Longrightarrow> api_step g g'"
| record_on: "RecordTraceOn e p g = (c, g') \<Longrightarrow> api_step g g'"
| record_off: "RecordTraceOff e g = (r, g') \<Longrightarrow> api_step g g'"
| close: "CloseTrace e g = (c, g') \<Longrightarrow> api_step g g'"
| status: "SetTraceStatus e b g = (c, g') \<Longrightarrow> api_step g g'"
| dump: "DumpTrace e dc maxDuration utEnd p g = (r, g') \<Longrightarrow> api_step g g'"
| dump_async: "DumpTraceAsync e ac maxDuration utEnd n g = (r, g') \<Longrightarrow> api_step g g'"
| answer: "WaitAsyncDumpRetLoop ex r i g = (j, g') \<Longrightarrow> api_step g g'"
| balance: "CpuBufferBalanceTask e n sizes g = (b, g') \<Longrightarrow> api_step g g'"
| loop_file: "dg_loop g \<Longrightarrow> ex_machine s = ex_machine (dg_ex g) \<Longrightarrow> api_step g (g\<lparr>dg_ex := s\<rparr>)"
| loop_end: "dg_loop g \<Longrightarrow> api_step g (g\<lparr>dg_ex := end_self (dg_ex g), dg_loop := False\<rparr>)"
| others: "api_step g (g\<lparr>dg_kernel := k\<rparr>)"

section \<open>The control machine\<close>

type_synonym ctl = "u8 \<times> DumpState \<times> bool"

definition ctl :: "dump_globals \<Rightarrow> ctl" where
  "ctl g = (g_traceMode g, dstate (ex_machine (dg_ex g)), dg_loop g)"

definition stopped :: "DumpState \<Rightarrow> DumpState" where
  "stopped d = (if d = IDLE then IDLE else STOPPING)"

inductive control :: "ctl \<Rightarrow> ctl \<Rightarrow> bool" where
  c_stay: "control (m, d, l) (m, d, l)"
| c_open: "control (MODE_CLOSE, d, l) (MODE_OPEN, d, l)"
| c_record: "control (MODE_OPEN, IDLE, l) (MODE_OPEN OR MODE_RECORD, RUNNING, True)"
| c_cache: "control (MODE_OPEN, IDLE, l) (MODE_OPEN OR MODE_CACHE, RUNNING, True)"
| c_refused: "control (MODE_OPEN, IDLE, l) (MODE_OPEN, RUNNING, l)"
| c_record_off: "m AND MODE_RECORD \<noteq> 0 \<Longrightarrow> control (m, d, l) (m AND NOT MODE_RECORD, stopped d, l)"
| c_cache_off: "control (MODE_OPEN OR MODE_CACHE, d, l) ((MODE_OPEN OR MODE_CACHE) AND NOT MODE_CACHE, stopped d, l)"
| c_close: "control (m, d, l) (MODE_CLOSE, if m AND MODE_RECORD \<noteq> 0 \<or> m AND MODE_CACHE \<noteq> 0 then stopped d else d, l)"
| c_list: "control (m, d, l) (m, if d = INTERRUPT then RUNNING else d, l)"
| c_end: "control (m, d, True) (m, IDLE, False)"

section \<open>What the parts of a call leave alone\<close>

lemma ctl_fields [simp]:
  "ctl (g\<lparr>dg_kernel := k\<rparr>) = ctl g" "ctl (g\<lparr>dg_filter := f\<rparr>) = ctl g" "ctl (g\<lparr>dg_balance := b\<rparr>) = ctl g"
  "ctl (g\<lparr>dg_saved := w\<rparr>) = ctl g" "ctl (g\<lparr>g_currentTraceParams := tp\<rparr>) = ctl g" "ctl (g\<lparr>g_traceFileVec := v\<rparr>) = ctl g"
  "ctl (g\<lparr>g_sysInitParamTags := t\<rparr>) = ctl g" "ctl (g\<lparr>g_totalFileSizeLimit := t\<rparr>) = ctl g" "ctl (g\<lparr>g_sliceMaxDuration := t\<rparr>) = ctl g"
  "ctl (g\<lparr>g_traceStartTime := t\<rparr>) = ctl g" "ctl (g\<lparr>g_traceEndTime := t\<rparr>) = ctl g" "ctl (g\<lparr>g_firstPageTimestamp := t\<rparr>) = ctl g"
  "ctl (g\<lparr>g_lastPageTimestamp := t\<rparr>) = ctl g" "ctl (g\<lparr>g_utDestTraceStartTime := t\<rparr>) = ctl g" "ctl (g\<lparr>g_utDestTraceEndTime := t\<rparr>) = ctl g"
  "ctl (g\<lparr>g_dumpStatus := c\<rparr>) = ctl g" "ctl (g\<lparr>dg_tasks := ts\<rparr>) = ctl g" "ctl (g\<lparr>g_callbacks := cb\<rparr>) = ctl g"
  "ctl (g\<lparr>g_traceRetInfos := ri\<rparr>) = ctl g" "ctl (g\<lparr>dg_answers := an\<rparr>) = ctl g" "ctl (set_fs fs g) = ctl g"
  by (simp_all add: ctl_def set_fs_def)

lemma mode_fst: "g_traceMode g = fst (ctl g)"
  by (simp add: ctl_def)

lemma ctl_parts [simp]:
  "ctl (ClearFilterParam g) = ctl g" "ctl (StartCpuBufferBalanceService e g) = ctl g" "ctl (SetNoFilterEvents e g) = ctl g"
  "ctl (refresh_files e g) = ctl g" "ctl (age_snapshots e g) = ctl g" "ctl (fresh_pages g) = ctl g" "ctl (reply_if ac ret g) = ctl g"
  "ctl (SetDestTraceTimeAndDuration e d u g) = ctl g" "ctl (RestoreTimeIntervalBoundary g) = ctl g" "ctl (finish_async task g) = ctl g"
  "ctl (SetTotalFileSizeLimitAndSliceMaxDuration n64 d64 g) = ctl g" "ctl (snd (PreWriteEventsFormat e fm g)) = ctl g"
  "ctl (snd (SetTimeIntervalBoundary e u v g)) = ctl g" "ctl (snd (WaitSyncDumpRetLoop r g)) = ctl g"
  "ctl (snd (CpuBufferBalanceTask e n sizes g)) = ctl g" "ctl (snd (SetTraceStatus e b g)) = ctl g"
  "ctl (snd (WaitAsyncDumpRetLoop ex r i g)) = ctl g" "ctl (snd (PrepareOpenTraceByArgs e a g)) = ctl g"
  by (auto simp: ClearFilterParam_def StartCpuBufferBalanceService_def SetNoFilterEvents_def refresh_files_def age_snapshots_def fresh_pages_def
      reply_if_def SetDestTraceTimeAndDuration_def RestoreTimeIntervalBoundary_def finish_async_def SetTotalFileSizeLimitAndSliceMaxDuration_def
      PreWriteEventsFormat_def SetTimeIntervalBoundary_def WaitSyncDumpRetLoop_def CpuBufferBalanceTask_def SetTraceStatus_def
      WaitAsyncDumpRetLoop_def PrepareOpenTraceByArgs_def Let_def split: option.splits prod.splits)

lemma ctl_HandleTraceOpen [simp]: "ctl (snd (HandleTraceOpen e tp fm g)) = ctl g"
  by (simp add: HandleTraceOpen_def Let_def split: prod.split)

lemma ctl_HandleDefaultTraceOpen [simp]: "ctl (snd (HandleDefaultTraceOpen e gs g)) = ctl g"
  by (simp add: HandleDefaultTraceOpen_def)

section \<open>Every call is a step of the control machine\<close>

lemma control_refl [simp]: "control c c"
  by (cases c) (simp add: c_stay)

lemma ctl_opened [simp]: "ctl (opened e g) = (MODE_OPEN, snd (ctl g))"
  by (simp add: opened_def ctl_def)

lemma control_opened: "g_traceMode g = MODE_CLOSE \<Longrightarrow> control (ctl g) (MODE_OPEN, snd (ctl g))"
  by (cases "ctl g") (simp add: ctl_def c_open)

lemma control_open_groups: "control (ctl g) (ctl (snd (OpenTrace_groups e tagGroups g)))"
proof -
  define h where "h = HandleDefaultTraceOpen e tagGroups (SetNoFilterEvents e (ClearFilterParam g))"
  have "ctl (snd h) = ctl g" by (simp add: h_def)
  then show ?thesis
    using control_opened [of g]
    by (cases h) (auto simp: OpenTrace_groups_def h_def [symmetric] mode_fst Let_def split: option.split)
qed

lemma control_open_args: "control (ctl g) (ctl (snd (OpenTrace_args e a g)))"
proof -
  define p where "p = PrepareOpenTraceByArgs e a (ClearFilterParam g)"
  define g3 where "g3 = (if ta_appPid a > 0 then (snd p)\<lparr>dg_kernel := snd (SetProperty TRACE_KEY_APP_PID (to_string_int (ta_appPid a)) (dg_kernel (snd p)))\<rparr>
    else snd p)"
  define h where "h = HandleTraceOpen e (BuildTraceParamsFromArgs a (of_int (me_bufferKb e))) (me_baseFmt e) g3"
  have p: "ctl (snd p) = ctl g" by (simp add: p_def)
  then have "ctl g3 = ctl g" by (simp add: g3_def)
  then have h: "ctl (snd h) = ctl g" by (simp add: h_def)
  have "OpenTrace_args e a g = (case BootTraceArbShouldReturnLocked False e g of Some c \<Rightarrow> (c, g)
      | None \<Rightarrow> if g_traceMode (ClearFilterParam g) \<noteq> MODE_CLOSE then (WRONG_TRACE_MODE, ClearFilterParam g)
          else if me_rootEmpty e then (TRACE_NOT_SUPPORTED, ClearFilterParam g)
          else if fst p \<noteq> SUCCESS then p else if fst h \<noteq> SUCCESS then h else (fst h, FinalizeOpenTraceByArgs e (snd h)))"
    by (simp add: OpenTrace_args_def p_def [symmetric] g3_def h_def Let_def prod.case_eq_if cong: option.case_cong if_cong)
  then show ?thesis
    using control_opened [of g] p h by (auto simp: mode_fst FinalizeOpenTraceByArgs_def split: option.split)
qed

lemma control_open_string: "control (ctl g) (ctl (snd (OpenTrace_string e args g)))"
proof -
  obtain ok tp k where p: "ParseArgs args (TraceParams_uninit e) (me_tags e) (me_groups e) (dg_kernel g) = (ok, tp, k)" by (metis prod_cases3)
  define h where "h = HandleTraceOpen e tp (me_baseFmt e) (SetNoFilterEvents e (g\<lparr>dg_kernel := k\<rparr>))"
  have "ctl (snd h) = ctl g" by (simp add: h_def)
  then show ?thesis
    using control_opened [of g]
    by (cases h) (auto simp: OpenTrace_string_def p h_def [symmetric] Let_def split: option.split)
qed

lemma start_loop_ctl:
  "start_loop g = (ok, g') \<Longrightarrow> ctl g = (m, d, l) \<Longrightarrow> ok = (d = IDLE) \<and> ctl g' = (m, if d = IDLE then RUNNING else d, l)"
  by (auto simp: start_loop_def PreCheckDumpTraceLoopStatus_def StartLoopDump_def compare_exchange_def ctl_def Let_def split: if_splits)

lemma ctl_loop_on [simp]: "ctl (g\<lparr>dg_loop := True, g_traceMode := m\<rparr>) = (m, fst (snd (ctl g)), True)"
  by (simp add: ctl_def)

lemma control_record_on: "control (ctl g) (ctl (snd (RecordTraceOn e p g)))"
proof -
  obtain ok g1 where s: "start_loop g = (ok, g1)" by fastforce
  obtain m d l where c: "ctl g = (m, d, l)" by (metis prod_cases3)
  show ?thesis
    using start_loop_ctl [OF s c] c control.intros
    by (auto simp: RecordTraceOn_def s mode_fst Let_def split: option.split if_splits)
qed

lemma control_cache_on: "control (ctl g) (ctl (snd (CacheTraceOn e n d g)))"
proof -
  obtain ok g1 where s: "start_loop g = (ok, g1)" by fastforce
  obtain m st l where c: "ctl g = (m, st, l)" by (metis prod_cases3)
  show ?thesis
    using start_loop_ctl [OF s c] c control.intros
    by (auto simp: CacheTraceOn_def s mode_fst Let_def split: option.split if_splits)
qed

lemma stop_ctl: "dstate (ex_machine (snd (StopDumpTraceLoop s))) = stopped (dstate (ex_machine s))"
    "dstate (ex_machine (StopCacheTraceLoop s)) = stopped (dstate (ex_machine s))"
  by (auto simp: StopDumpTraceLoop_def StopCacheTraceLoop_def EndLoopDump_def stopped_def Let_def)

lemma control_cache_off: "control (ctl g) (ctl (snd (CacheTraceOff e g)))"
proof -
  have "control (ctl g) (ctl (g\<lparr>dg_ex := StopCacheTraceLoop (dg_ex g), g_traceMode := g_traceMode g AND NOT MODE_CACHE\<rparr>))"
    if "g_traceMode g = MODE_OPEN OR MODE_CACHE"
    using c_cache_off that by (simp add: ctl_def stop_ctl)
  then show ?thesis by (auto simp: CacheTraceOff_def split: option.split)
qed

lemma control_record_off: "control (ctl g) (ctl (snd (RecordTraceOff e g)))"
proof -
  have "control (ctl g) (ctl (g\<lparr>dg_ex := snd (StopDumpTraceLoop (dg_ex g)), g_traceMode := g_traceMode g AND NOT MODE_RECORD\<rparr>))"
    if "IsRecordOn g"
    using c_record_off that by (simp add: ctl_def stop_ctl IsRecordOn_def)
  then show ?thesis by (auto simp: RecordTraceOff_def split: option.split prod.split)
qed

lemma control_close: "control (ctl g) (ctl (snd (CloseTrace e g)))"
proof -
  define g1 where "g1 = (if IsRecordOn g \<or> IsCacheOn g then g\<lparr>dg_ex := snd (StopDumpTraceLoop (dg_ex g))\<rparr> else g)"
  have "ctl ((ClearFilterParam g1)\<lparr>g_traceMode := MODE_CLOSE, dg_balance := False\<rparr>) = (MODE_CLOSE, snd (ctl (ClearFilterParam g1)))"
    by (simp add: ctl_def)
  moreover have "control (ctl g) (MODE_CLOSE, snd (ctl g1))"
    using c_close [of "g_traceMode g"] by (auto simp: ctl_def g1_def stop_ctl IsRecordOn_def IsCacheOn_def)
  ultimately have "control (ctl g) (ctl (snd (ResetTracePipelineLocked e g)))"
    unfolding ResetTracePipelineLocked_def g1_def [symmetric] Let_def by simp
  then show ?thesis by (auto simp: CloseTrace_def split: option.split)
qed

subsection \<open>Dumps\<close>

text \<open>Looking for files may continue an interrupted loop; nothing else of a dump touches the control state.\<close>

definition resumed :: "ctl \<Rightarrow> ctl" where
  "resumed c = (case c of (m, d, l) \<Rightarrow> (m, if d = INTERRUPT then RUNNING else d, l))"

lemma control_resumed [simp]: "control c (resumed c)"
  by (cases c) (simp only: resumed_def prod.case c_list)

lemma ctl_report_file: "ctl (snd (report_file ok f s)) = ctl (snd s)"
  by (simp add: report_file_def Let_def split: prod.split)

lemma ctl_report_files: "ctl (snd (fold (report_file ok) fs s)) = ctl (snd s)"
  by (induction fs arbitrary: s) (simp_all add: ctl_report_file)

lemma ctl_SearchTraceFiles [simp]: "ctl (snd (SearchTraceFiles ok ret g)) = resumed (ctl g)"
proof -
  have ex: "ctl (g\<lparr>dg_ex := snd (GetCacheTraceFiles (dg_ex g))\<rparr>) = resumed (ctl g)"
    by (auto simp: ctl_def resumed_def GetCacheTraceFiles_def InterruptCache_def ContinueCache_def compare_exchange_def Let_def)
  have "ctl (snd (SearchTraceFiles ok ret g)) = ctl (g\<lparr>dg_ex := snd (GetCacheTraceFiles (dg_ex g))\<rparr>)"
    unfolding SearchTraceFiles_def Let_def by (simp add: prod.case_eq_if ctl_report_files)
  then show ?thesis by (simp add: ex)
qed

lemma ctl_add_snapshot: "ctl (snd (add_snapshot info s)) = ctl (snd s)"
  by (cases s) (simp add: add_snapshot_def)

lemma ctl_HandleDumpResult: "ctl (snd (snd (HandleDumpResult e dc p ret q g))) = resumed (ctl g)"
proof -
  obtain r1 g1 where s: "SearchTraceFiles (dc_renameOk dc) ret g = (r1, g1)" by fastforce
  then have "ctl g1 = resumed (ctl g)" by (metis ctl_SearchTraceFiles snd_conv)
  then show ?thesis
    by (auto simp: HandleDumpResult_def s Let_def prod.case_eq_if ctl_add_snapshot split: option.split)
qed

lemma control_ProcessDumpSync: "control (ctl g) (ctl (snd (snd (ProcessDumpSync e dc ret p g))))"
  by (auto simp: ProcessDumpSync_def Let_def ctl_HandleDumpResult split: option.split)

lemma control_GetFileInCache: "control (ctl g) (ctl (snd (GetFileInCache ok ret g)))"
  by (simp add: GetFileInCache_def prod.case_eq_if)

lemma control_dump: "control (ctl g) (ctl (snd (DumpTrace e dc n u p g)))"
proof -
  define g1 where "g1 = SetDestTraceTimeAndDuration e n u (age_snapshots e g)"
  define t where "t = SetTimeIntervalBoundary e (ucast n) u g1"
  have g1: "ctl g1 = ctl g" by (simp add: g1_def)
  then have t: "ctl (snd t) = ctl g" by (simp add: t_def)
  show ?thesis
    using control_GetFileInCache [of g1] control_ProcessDumpSync [of "fresh_pages (snd t)"] g1 t
    by (auto simp: DumpTrace_def g1_def [symmetric] t_def [symmetric] Let_def prod.case_eq_if split: option.split)
qed

lemma ctl_HandleAsyncDumpResult: "ctl (snd (HandleAsyncDumpResult e ac task ret g)) = resumed (ctl g)"
proof -
  obtain r1 g1 where s: "SearchTraceFiles (ac_renameOk ac) ret g = (r1, g1)" by fastforce
  then have "ctl g1 = resumed (ctl g)" by (metis ctl_SearchTraceFiles snd_conv)
  then show ?thesis
    by (auto simp: HandleAsyncDumpResult_def s Let_def prod.case_eq_if ctl_add_snapshot split: option.split)
qed

lemma control_ProcessDumpAsync: "control (ctl g) (ctl (snd (snd (ProcessDumpAsync e ac n ret g))))"
proof -
  have "control (ctl g) (ctl (snd (snd (SubmitTaskAndWaitReturn e ac task ret g))))" for task
    by (simp add: SubmitTaskAndWaitReturn_def Let_def prod.case_eq_if ctl_HandleAsyncDumpResult)
  then show ?thesis by (simp add: ProcessDumpAsync_def Let_def)
qed

lemma control_HandleDumpTraceAsyncTask: "control (ctl g) (ctl (snd (HandleDumpTraceAsyncTask e ac n d ret g)))"
  using control_ProcessDumpAsync [of "g\<lparr>g_callbacks := (g_callbacks g)(ac_taskId ac \<mapsto> ac_callback ac)\<rparr>" e ac n ret]
  by (simp add: HandleDumpTraceAsyncTask_def Let_def prod.case_eq_if)

lemma control_dump_async: "control (ctl g) (ctl (snd (DumpTraceAsync e ac n u limit g)))"
proof -
  define g1 where "g1 = SetDestTraceTimeAndDuration e n u (age_snapshots e g)"
  define t where "t = SetTimeIntervalBoundary e (ucast n) u g1"
  have g1: "ctl g1 = ctl g" by (simp add: g1_def)
  then have t: "ctl (snd t) = ctl g" by (simp add: t_def)
  show ?thesis
    using control_GetFileInCache [of g1] control_HandleDumpTraceAsyncTask [of "fresh_pages (snd t)"] g1 t
    by (auto simp: DumpTraceAsync_def g1_def [symmetric] t_def [symmetric] Let_def prod.case_eq_if split: option.split)
qed

lemmas control_calls = control_open_groups control_open_args control_open_string control_cache_on control_cache_off control_record_on
  control_record_off control_close control_dump control_dump_async

lemma step_control:
  assumes "api_step g g'"
  shows "control (ctl g) (ctl g')"
  using assms
proof (induction rule: api_step.induct)
  case (loop_end g)
  then show ?case using c_end [of "g_traceMode g"] by (simp add: ctl_def end_self_def EndLoopDumpSelf_def)
next
  case (loop_file g s)
  then show ?case by (simp add: ctl_def)
next
  case (others g k)
  then show ?case by simp
next
  case (status e b g c g')
  then show ?case using ctl_parts(16) [of e b g] by simp
next
  case (answer ex r i g j g')
  then show ?case using ctl_parts(17) [of ex r i g] by simp
next
  case (balance e n sizes g b g')
  then show ?case using ctl_parts(15) [of e n sizes g] by simp
qed (metis control_calls snd_conv)+

lemma control_run: "api_step\<^sup>*\<^sup>* g g' \<Longrightarrow> control\<^sup>*\<^sup>* (ctl g) (ctl g')"
  by (induction rule: rtranclp_induct) (auto dest: step_control)


section \<open>What can happen\<close>

definition service_start :: "dump_globals \<Rightarrow> bool" where
  "service_start g \<longleftrightarrow> ctl g = (MODE_CLOSE, IDLE, False)"

definition control_inv :: "ctl \<Rightarrow> bool" where
  "control_inv c = (case c of (m, d, l) \<Rightarrow>
     m \<in> {MODE_CLOSE, MODE_OPEN, MODE_OPEN OR MODE_RECORD, MODE_OPEN OR MODE_CACHE} \<and> (l \<longrightarrow> d \<noteq> IDLE))"

lemma mode_bits [simp]:
  "(MODE_OPEN OR MODE_RECORD) AND NOT MODE_RECORD = MODE_OPEN" "(MODE_OPEN OR MODE_CACHE) AND NOT MODE_CACHE = MODE_OPEN"
  "MODE_CLOSE AND MODE_RECORD = 0" "MODE_OPEN AND MODE_RECORD = 0" "(MODE_OPEN OR MODE_CACHE) AND MODE_RECORD = 0"
  by (simp_all add: MODE_CLOSE_def MODE_OPEN_def MODE_RECORD_def MODE_CACHE_def)

lemma control_inv_step: "control c c' \<Longrightarrow> control_inv c \<Longrightarrow> control_inv c'"
  by (induction rule: control.induct) (auto simp: control_inv_def stopped_def)

lemma control_inv_run: "control\<^sup>*\<^sup>* c c' \<Longrightarrow> control_inv c \<Longrightarrow> control_inv c'"
  by (induction rule: rtranclp_induct) (auto dest: control_inv_step)

lemma service_inv: "service_start g0 \<Longrightarrow> api_step\<^sup>*\<^sup>* g0 g \<Longrightarrow> control_inv (ctl g)"
  using control_inv_run [OF control_run] by (auto simp: service_start_def control_inv_def)

lemma on_success:
  "fst (RecordTraceOn e p g) = SUCCESS \<Longrightarrow> dstate (ex_machine (dg_ex g)) = IDLE"
  "fst (CacheTraceOn e n d g) = SUCCESS \<Longrightarrow> dstate (ex_machine (dg_ex g)) = IDLE"
  by (auto simp: RecordTraceOn_def CacheTraceOn_def start_loop_def PreCheckDumpTraceLoopStatus_def StartLoopDump_def compare_exchange_def
      BootTraceArbShouldReturnLocked_def Let_def split: option.splits if_splits prod.splits)

text \<open>C30: The mode byte only ever holds one of four values: closed, open, open and recording, open and caching;
recording and caching exclude each other. A recording or a cache is started only when no thread of an
earlier one exists.\<close>

theorem mode_values:
  assumes "service_start g0" "api_step\<^sup>*\<^sup>* g0 g"
  shows "g_traceMode g \<in> {MODE_CLOSE, MODE_OPEN, MODE_OPEN OR MODE_RECORD, MODE_OPEN OR MODE_CACHE} \<and>
    \<not> (IsRecordOn g \<and> IsCacheOn g) \<and>
    (fst (RecordTraceOn e p g) = SUCCESS \<or> fst (CacheTraceOn e n d g) = SUCCESS \<longrightarrow> \<not> dg_loop g)"
proof -
  have "control_inv (ctl g)" by (rule service_inv [OF assms])
  then have m: "g_traceMode g \<in> {MODE_CLOSE, MODE_OPEN, MODE_OPEN OR MODE_RECORD, MODE_OPEN OR MODE_CACHE}"
    and l: "dg_loop g \<Longrightarrow> dstate (ex_machine (dg_ex g)) \<noteq> IDLE" by (auto simp: control_inv_def ctl_def)
  from m have "\<not> (IsRecordOn g \<and> IsCacheOn g)"
    by (auto simp: IsRecordOn_def IsCacheOn_def MODE_CLOSE_def MODE_OPEN_def MODE_RECORD_def MODE_CACHE_def)
  with m l on_success show ?thesis by blast
qed

definition locked :: "ctl \<Rightarrow> bool" where
  "locked c = (case c of (m, d, l) \<Rightarrow> d \<noteq> IDLE \<and> \<not> l)"

lemma locked_step: "control c c' \<Longrightarrow> locked c \<Longrightarrow> locked c'"
  by (induction rule: control.induct) (auto simp: locked_def stopped_def)

lemma locked_run: "control\<^sup>*\<^sup>* c c' \<Longrightarrow> locked c \<Longrightarrow> locked c'"
  by (induction rule: rtranclp_induct) (auto dest: locked_step)

lemma refused_record:
  assumes "RecordTraceOn e p g = (FILE_ERROR, g1)" "control_inv (ctl g)"
  shows "locked (ctl g1)"
  using assms
  by (auto simp: RecordTraceOn_def start_loop_def PreCheckDumpTraceLoopStatus_def StartLoopDump_def compare_exchange_def control_inv_def locked_def
      ctl_def BootTraceArbShouldReturnLocked_def Let_def split: option.splits if_splits prod.splits)

text \<open>C7: A recording that is refused because its output path is not allowed locks the service out for good: the
loop has already been marked as running and no thread will ever end it. Whatever is called afterwards, closing
and opening again included, no recording and no cache can be started any more.\<close>

theorem refused_recording_locks_out:
  assumes "service_start g0" "api_step\<^sup>*\<^sup>* g0 g" "RecordTraceOn e p g = (FILE_ERROR, g1)" "api_step\<^sup>*\<^sup>* g1 g2"
  shows "fst (RecordTraceOn e' p' g2) \<noteq> SUCCESS \<and> fst (CacheTraceOn e' n d g2) \<noteq> SUCCESS"
proof -
  have "locked (ctl g1)" by (rule refused_record [OF assms(3) service_inv [OF assms(1,2)]])
  with locked_run control_run [OF assms(4)] have "locked (ctl g2)" by blast
  then have "dstate (ex_machine (dg_ex g2)) \<noteq> IDLE" by (simp add: locked_def ctl_def)
  then show ?thesis using on_success by metis
qed

section \<open>A run\<close>

definition sample_mode_env :: mode_env where
  "sample_mode_env = \<lparr>me_rootEmpty = False, me_uid0 = True, me_hm = False, me_tags = sample_tags, me_groups = [(''default'', [''sched''])],
     me_baseFmt = [], me_bufferKb = 1024, me_files = sample_file_env, me_uint = (\<lambda>_. 0), me_format = (\<lambda>_. None), me_saved = None,
     me_standIn = 1, me_tasks = (\<lambda>_. None), me_wok = (\<lambda>_. True), me_isRoot = False, me_ageing = sample_param,
     me_indeterminate = TraceParams_default\<rparr>"

definition sample_globals :: dump_globals where
  "sample_globals = \<lparr>g_traceMode = MODE_CLOSE, g_sysInitParamTags = 0, g_totalFileSizeLimit = 0, g_sliceMaxDuration = 0, g_traceStartTime = 0,
     g_traceEndTime = - 1, g_firstPageTimestamp = - 1, g_lastPageTimestamp = 0, g_utDestTraceStartTime = 0, g_utDestTraceEndTime = 0,
     g_dumpStatus = UNSET, g_traceFileVec = [], g_currentTraceParams = TraceParams_default, dg_kernel = sample_kernel, dg_filter = None,
     dg_balance = False, dg_saved = [], dg_ex = \<lparr>ex_machine = dump_state_init, ex_loop = [], ex_cache = [], ex_fs = []\<rparr>, dg_loop = False,
     dg_tasks = [], g_callbacks = Map.empty, g_traceRetInfos = Map.empty, dg_answers = []\<rparr>"

definition sample_open :: dump_globals where
  "sample_open = snd (OpenTrace_groups sample_mode_env [''default''] sample_globals)"

lemma sample_start: "service_start sample_globals"
  by (simp add: service_start_def ctl_def sample_globals_def dump_state_init_def)

lemma fst_HandleTraceOpen [simp]: "fst (HandleTraceOpen e tp fm g) = SUCCESS"
  by (simp add: HandleTraceOpen_def Let_def split: prod.split)

lemma root_not_gated [simp]: "me_uid0 e \<Longrightarrow> BootTraceArbShouldReturnLocked b e g = None"
  by (simp add: BootTraceArbShouldReturnLocked_def)

lemma sample_env_simps [simp]: "me_uid0 sample_mode_env" "me_rootEmpty sample_mode_env = False" "me_hm sample_mode_env = False"
  "me_tags sample_mode_env = sample_tags" "me_groups sample_mode_env = [(''default'', [''sched''])]"
  by (simp_all add: sample_mode_env_def)

lemma sample_open_ctl: "ctl sample_open = (MODE_OPEN, IDLE, False)"
proof -
  have "ctl sample_globals = (MODE_CLOSE, IDLE, False)" using sample_start by (simp add: service_start_def)
  then show ?thesis
    by (simp add: sample_open_def OpenTrace_groups_def mode_fst HandleDefaultTraceOpen_def CheckTagGroup_def prod.case_eq_if Let_def)
qed

lemma sample_open_reached: "api_step\<^sup>*\<^sup>* sample_globals sample_open"
proof -
  have "api_step sample_globals sample_open"
    by (rule open_groups [where e = sample_mode_env and tagGroups = "[''default'']" and c = "fst (OpenTrace_groups sample_mode_env [''default''] sample_globals)"])
      (simp add: sample_open_def)
  then show ?thesis by auto
qed

lemma sample_refused: "RecordTraceOn sample_mode_env ''/etc'' sample_open = (FILE_ERROR, snd (RecordTraceOn sample_mode_env ''/etc'' sample_open))"
proof -
  have "g_traceMode sample_open = MODE_OPEN" "dstate (ex_machine (dg_ex sample_open)) = IDLE"
    using sample_open_ctl by (auto simp: ctl_def)
  moreover have "\<not> IsWritable ''/etc''" by (simp add: IsWritable_def TRACE_WRITABLE_PATH_def)
  ultimately show ?thesis
    by (simp add: RecordTraceOn_def start_loop_def PreCheckDumpTraceLoopStatus_def StartLoopDump_def compare_exchange_def Let_def)
qed


theorem mode_values_witness:
  "g_traceMode sample_open = MODE_OPEN \<and> \<not> (IsRecordOn sample_open \<and> IsCacheOn sample_open)"
  using mode_values [OF sample_start sample_open_reached, of sample_mode_env "[]" 0 0] sample_open_ctl by (simp add: ctl_def)

theorem refused_recording_locks_out_witness:
  "fst (RecordTraceOn sample_mode_env [] (snd (RecordTraceOn sample_mode_env ''/etc'' sample_open))) \<noteq> SUCCESS \<and>
   fst (CacheTraceOn sample_mode_env 0 0 (snd (RecordTraceOn sample_mode_env ''/etc'' sample_open))) \<noteq> SUCCESS"
  by (rule refused_recording_locks_out [OF sample_start sample_open_reached sample_refused rtranclp.rtrancl_refl])

end
