(* ===== verification/Mode_Results.thy ===== *)
theory Mode_Results
  imports Mode_Control
begin

text \<open>
  What the calls of the dump service return and leave behind: when a dump succeeds, which time window it
  reads, how much of the requested interval the reported files cover, and what closing does to the kernel;
  and the attribute that counts the links to a trace file.
\<close>

section \<open>Success means a file\<close>

lemma load_files [simp]:
  "ri_outputFiles (SanitizeRetInfo (LoadDumpRet g d ret)) = ri_outputFiles ret"
  "ri_errorCode (SanitizeRetInfo (LoadDumpRet g d ret)) = ri_errorCode ret"
  by (simp_all add: SanitizeRetInfo_def LoadDumpRet_def Let_def)

lemma HandleDumpResult_code:
  "HandleDumpResult e dc p ret q g = (c, ret', g') \<Longrightarrow> c = SUCCESS \<longleftrightarrow> ri_outputFiles ret' \<noteq> []"
  by (auto simp: HandleDumpResult_def Let_def split: prod.splits if_splits)

lemma ProcessDumpSync_code:
  "ProcessDumpSync e dc ret q g = (c, ret', g') \<Longrightarrow> ri_outputFiles ret = [] \<Longrightarrow> c = SUCCESS \<longleftrightarrow> ri_outputFiles ret' \<noteq> []"
  using HandleDumpResult_code by (auto simp: ProcessDumpSync_def Let_def split: if_splits option.splits prod.splits)

lemma check_not_success: "CheckTraceDumpStatus e n g = Some c \<Longrightarrow> c \<noteq> SUCCESS"
  by (auto simp: CheckTraceDumpStatus_def split: if_splits)

lemma boot_not_success: "BootTraceArbShouldReturnLocked False e g = Some c \<Longrightarrow> c \<noteq> SUCCESS"
  by (auto simp: BootTraceArbShouldReturnLocked_def split: if_splits)

lemma DumpTrace_code:
  "ri_errorCode (fst (DumpTrace e dc maxDuration utEnd outputPath g)) = SUCCESS \<longleftrightarrow>
   ri_outputFiles (fst (DumpTrace e dc maxDuration utEnd outputPath g)) \<noteq> []"
proof -
  define g1 where "g1 = SetDestTraceTimeAndDuration e maxDuration utEnd (age_snapshots e g)"
  define ret where "ret = TraceRetInfo_default\<lparr>ri_mode := g_traceMode g\<rparr>"
  have none: "ri_outputFiles ret = []" "ri_outputFiles TraceRetInfo_default = []" by (simp_all add: ret_def TraceRetInfo_default_def)
  have dump: "fst (ProcessDumpSync e dc r q h) = SUCCESS \<longleftrightarrow> ri_outputFiles (fst (snd (ProcessDumpSync e dc r q h))) \<noteq> []"
    if "ri_outputFiles r = []" for r h q
    using ProcessDumpSync_code [OF _ that] by (metis prod.collapse)
  have cached: "ri_errorCode (fst (GetFileInCache ok r h)) = SUCCESS \<longleftrightarrow> ri_outputFiles (fst (GetFileInCache ok r h)) \<noteq> []" for ok r h
    by (simp add: GetFileInCache_def prod.case_eq_if)
  show ?thesis
    using none by (auto simp: DumpTrace_def g1_def [symmetric] ret_def [symmetric] prod.case_eq_if dump cached Let_def
        split: option.split dest: check_not_success boot_not_success)
qed

text \<open>C3: A dump in the calling thread reports success exactly when it returns at least one file, on every
path through the code: refused by the boot trace, the output path, the mode, the duration or another user of
the trace, answered from the cache, out of time, without space, pipe, fork or an answer of the child, or with
the result of the child.\<close>

theorem dump_success_iff_files:
  "ri_errorCode (fst (DumpTrace e dc maxDuration utEnd outputPath g)) = SUCCESS \<longleftrightarrow>
   ri_outputFiles (fst (DumpTrace e dc maxDuration utEnd outputPath g)) \<noteq> []"
  by (rule DumpTrace_code)

section \<open>The time window\<close>

text \<open>The boot clock in whole seconds, rounded up, and the Unix time of the start of the machine by it.\<close>

definition boot_seconds :: "file_env \<Rightarrow> int" where
  "boot_seconds env = boot_sec env + (if boot_nsec env \<noteq> 0 then 1 else 0)"

definition sane_clock :: "file_env \<Rightarrow> bool" where
  "sane_clock env \<longleftrightarrow> 0 \<le> boot_sec env \<and> 0 \<le> boot_nsec env \<and> boot_nsec env < 1000000000 \<and> boot_seconds env \<le> unix_now env \<and> unix_now env < 2 ^ 33"

lemma uint_of_int64: "0 \<le> x \<Longrightarrow> x < 2 ^ 64 \<Longrightarrow> uint (of_int x :: u64) = x"
  by (simp add: unsigned_of_int take_bit_int_eq_self)

definition window_end :: "nat \<Rightarrow> int \<Rightarrow> u64" where
  "window_end E boot = (of_nat E - of_int boot + 1) * S_TO_NS"

lemma boundary_eq:
  assumes "sane_clock (me_files e)" "0 < E" "int E < unix_now (me_files e)" "0 < D" "D < 2 ^ 32"
    and "boot = unix_now (me_files e) - boot_seconds (me_files e)"
  shows "0 \<le> boot" "int E < 2 ^ 33"
    "SetTimeIntervalBoundary e (of_nat D) (of_nat E) g =
      (if int E \<le> boot then (OUT_OF_TIME, g)
       else let m = (if window_end E boot div S_TO_NS < of_nat D + 1 then 0 else of_nat D + 1)
            in (SUCCESS, g\<lparr>g_traceEndTime := window_end E boot, g_traceStartTime := (if 0 < m then window_end E boot - m * S_TO_NS else 0)\<rparr>))"
proof -
  let ?f = "me_files e"
  have nb: "0 \<le> boot_seconds ?f" "boot_seconds ?f \<le> unix_now ?f" "unix_now ?f < 2 ^ 33" "0 \<le> boot" "boot < 2 ^ 33"
    using assms(1,6) by (auto simp: sane_clock_def boot_seconds_def split: if_splits)
  have E: "int E < 2 ^ 33" using assms(3) nb by linarith
  have "(of_int (boot_nsec ?f) :: u64) \<noteq> 0 \<longleftrightarrow> boot_nsec ?f \<noteq> 0"
    using assms(1) uint_of_int64 [of "boot_nsec ?f"] by (auto simp: sane_clock_def)
  then have "of_int (unix_now ?f) - (of_int (boot_sec ?f) + (if (of_int (boot_nsec ?f) :: u64) \<noteq> 0 then 1 else 0)) = (of_int boot :: u64)"
    by (simp add: assms(6) boot_seconds_def)
  note boot = this
  have nats: "uint (of_nat E :: u64) = int E" "uint (of_nat D :: u64) = int D"
    using E assms(5) uint_of_int64 [of "int E"] uint_of_int64 [of "int D"] by simp_all
  have order: "of_nat E < (of_int (unix_now ?f) :: u64)" "(of_nat E :: u64) \<noteq> 0" "(of_nat E :: u64) \<le> of_int boot \<longleftrightarrow> int E \<le> boot"
    using assms(2,3) nb unfolding word_less_def word_le_def word_uint_eq_iff nats by (simp_all add: uint_of_int64)
  have "(of_nat D :: u64) > 0" using assms(4) unfolding word_less_def nats by simp
  then show "SetTimeIntervalBoundary e (of_nat D) (of_nat E) g =
      (if int E \<le> boot then (OUT_OF_TIME, g)
       else let m = (if window_end E boot div S_TO_NS < of_nat D + 1 then 0 else of_nat D + 1)
            in (SUCCESS, g\<lparr>g_traceEndTime := window_end E boot, g_traceStartTime := (if 0 < m then window_end E boot - m * S_TO_NS else 0)\<rparr>))"
    unfolding SetTimeIntervalBoundary_def Let_def boot window_end_def using order by (simp add: not_le [symmetric] del: not_le)
  show "0 \<le> boot" "int E < 2 ^ 33" using nb E by auto
qed

text \<open>With a clock that is set, a dump that asks for the \<open>D\<close> seconds before the Unix time \<open>E\<close> reads the window of
the boot clock from \<open>E - D\<close> to one second after \<open>E\<close>, and from the start of the machine if that is later; it
is out of time exactly when \<open>E\<close> is not after the start of the machine.\<close>

theorem window_of_request:
  assumes "sane_clock (me_files e)" "0 < E" "int E < unix_now (me_files e)" "0 < D" "D < 2 ^ 32"
    and "boot = unix_now (me_files e) - boot_seconds (me_files e)"
    and "SetTimeIntervalBoundary e (of_nat D) (of_nat E) g = (c, g')"
  shows "(c = SUCCESS \<longleftrightarrow> boot < int E) \<and> (c \<noteq> SUCCESS \<longrightarrow> c = OUT_OF_TIME \<and> g' = g) \<and>
    (c = SUCCESS \<longrightarrow> uint (g_traceEndTime g') = (int E - boot + 1) * 1000000000 \<and>
       uint (g_traceStartTime g') = max 0 (int E - boot - int D) * 1000000000)"
proof -
  note b = boundary_eq(1,2) [OF assms(1-6)] boundary_eq(3) [OF assms(1-6), of g]
  show ?thesis
  proof (cases "boot < int E")
    case False
    then show ?thesis using assms(7) b(3) by auto
  next
    case True
    let ?w = "int E - boot + 1"
    have w: "0 < ?w" "?w < 2 ^ 33 + 1" using True b(1,2) by auto
    have "window_end E boot = (of_int (?w * 1000000000) :: u64)" by (simp add: S_TO_NS_def window_end_def)
    moreover have u: "uint (of_int (?w * 1000000000) :: u64) = ?w * 1000000000" by (rule uint_of_int64) (use w in simp_all)
    moreover have d: "uint ((of_nat D :: u64) + 1) = int D + 1"
      using assms(5) uint_of_int64 [of "int D + 1"] by simp
    moreover have "(of_int (?w * 1000000000) :: u64) div S_TO_NS = of_int ?w"
      unfolding word_uint_eq_iff uint_div u using w uint_of_int64 [of ?w] by (simp add: S_TO_NS_def)
    moreover have "((of_nat D :: u64) + 1 > of_int ?w) \<longleftrightarrow> int D + 1 > ?w" unfolding word_less_def d using w uint_of_int64 [of ?w] by simp
    moreover have "(of_nat D :: u64) + 1 > 0" unfolding word_less_def d by simp
    moreover have "uint ((of_int (?w * 1000000000) :: u64) - (of_nat D + 1) * S_TO_NS) = (int E - boot - int D) * 1000000000" if "int D + 1 \<le> ?w"
    proof -
      have "(of_int (?w * 1000000000) :: u64) - (of_nat D + 1) * S_TO_NS = of_int ((int E - boot - int D) * 1000000000)"
        by (simp add: S_TO_NS_def algebra_simps)
      then show ?thesis using that w by (simp only:) (rule uint_of_int64; simp)
    qed
    ultimately show ?thesis using assms(7) b(3) True by (auto simp: Let_def max_def)
  qed
qed

theorem window_of_request_witness:
  "fst (SetTimeIntervalBoundary (sample_mode_env\<lparr>me_files := sample_file_env\<lparr>unix_now := 1000, boot_sec := 500, boot_nsec := 5\<rparr>\<rparr>) 10 900 sample_globals) = SUCCESS \<and>
   uint (g_traceStartTime (snd (SetTimeIntervalBoundary (sample_mode_env\<lparr>me_files := sample_file_env\<lparr>unix_now := 1000, boot_sec := 500, boot_nsec := 5\<rparr>\<rparr>) 10 900 sample_globals)))
     = 391 * 1000000000"
proof -
  let ?e = "sample_mode_env\<lparr>me_files := sample_file_env\<lparr>unix_now := 1000, boot_sec := 500, boot_nsec := 5\<rparr>\<rparr>"
  obtain c g' where r: "SetTimeIntervalBoundary ?e 10 900 sample_globals = (c, g')" by fastforce
  show ?thesis
    using window_of_request [of ?e 900 10 499 sample_globals c g'] r by (simp add: sane_clock_def boot_seconds_def)
qed

section \<open>How much is covered\<close>

text \<open>The milliseconds of a file within the interval, with a tolerance of a tenth of a second on both sides.\<close>

definition overlap_ms :: "int \<Rightarrow> int \<Rightarrow> TraceFileInfo \<Rightarrow> int" where
  "overlap_ms st en f = min (uint (fi_endTime f)) (en * 1000 + 100) - max (uint (fi_startTime f)) (st * 1000 - 100)"

definition in_interval :: "int \<Rightarrow> int \<Rightarrow> TraceFileInfo \<Rightarrow> bool" where
  "in_interval st en f \<longleftrightarrow> st * 1000 \<le> uint (fi_endTime f) \<and> uint (fi_startTime f) \<le> en * 1000 \<and>
     uint (fi_startTime f) \<le> uint (fi_endTime f) \<and> uint (fi_endTime f) - uint (fi_startTime f) < 2000000"

lemma uint_sub64: "uint b \<le> uint a \<Longrightarrow> uint (a - b :: u64) = uint a - uint b"
  by (simp add: uint_sub_lem word_le_def)

lemma uint_sub64_wrap: "uint a < uint b \<Longrightarrow> uint (a - b :: u64) = uint a - uint b + 2 ^ 64"
proof -
  assume l: "uint a < uint b"
  have b: "uint b < 2 ^ 64" using uint_lt2p [of b] by simp
  have a: "0 \<le> uint a" by simp
  have "uint (a - b) = (uint a - uint b) mod 2 ^ 64" by (simp add: uint_word_arith_bintrs take_bit_eq_mod)
  also have "\<dots> = (uint a - uint b + 2 ^ 64) mod 2 ^ 64" by simp
  also have "\<dots> = uint a - uint b + 2 ^ 64"
    using l b a by (intro mod_pos_pos_trivial) linarith+
  finally show ?thesis .
qed

definition valid_request :: "u64 \<Rightarrow> u64 \<Rightarrow> bool" where
  "valid_request st en \<longleftrightarrow> 1 \<le> uint st \<and> uint st \<le> uint en \<and> uint en * 1000 + 2000000 < 2 ^ 64"

lemma request_ms:
  assumes "valid_request st en"
  shows "uint (st * S_TO_MS) = uint st * 1000" "uint (en * S_TO_MS) = uint en * 1000"
    "uint (st * S_TO_MS - DURATION_TOLERANCE) = uint st * 1000 - 100" "uint (en * S_TO_MS + DURATION_TOLERANCE) = uint en * 1000 + 100"
proof -
  have late: "1 \<le> uint st" and ordered: "uint st \<le> uint en" and small: "uint en * 1000 + 2000000 < 2 ^ 64"
    using assms by (simp_all add: valid_request_def)
  have "st * S_TO_MS = of_int (uint st * 1000)" "en * S_TO_MS = of_int (uint en * 1000)" by (simp_all add: S_TO_MS_def)
  then show s: "uint (st * S_TO_MS) = uint st * 1000" and e: "uint (en * S_TO_MS) = uint en * 1000"
    using late ordered small by (simp_all only:) (rule uint_of_int64; simp)+
  have t: "uint DURATION_TOLERANCE = 100" by (simp add: DURATION_TOLERANCE_def)
  show "uint (st * S_TO_MS - DURATION_TOLERANCE) = uint st * 1000 - 100" using late by (subst uint_sub64) (simp_all add: s t)
  have "en * S_TO_MS + DURATION_TOLERANCE = of_int (uint en * 1000 + 100)" by (simp add: S_TO_MS_def DURATION_TOLERANCE_def)
  then show "uint (en * S_TO_MS + DURATION_TOLERANCE) = uint en * 1000 + 100"
    using ordered late small by (simp only:) (rule uint_of_int64; simp)
qed

lemma overlaps_iff:
  assumes "valid_request st en"
  shows "overlaps (st * S_TO_MS) (en * S_TO_MS) f \<longleftrightarrow> in_interval (uint st) (uint en) f"
proof -
  note ms = request_ms [OF assms]
  have m: "uint (2000 * S_TO_MS) = 2000000" by (simp add: S_TO_MS_def)
  show ?thesis
  proof (cases "uint (fi_startTime f) \<le> uint (fi_endTime f)")
    case True
    then show ?thesis by (simp add: overlaps_def in_interval_def word_le_def word_less_def ms m uint_sub64)
  next
    case False
    then have "uint (fi_endTime f - fi_startTime f) = uint (fi_endTime f) - uint (fi_startTime f) + 2 ^ 64" by (simp add: uint_sub64_wrap)
    then show ?thesis using False assms
      by (simp add: valid_request_def overlaps_def in_interval_def word_le_def word_less_def ms m)
  qed
qed

lemma overlap_bounds: "valid_request st en \<Longrightarrow> in_interval (uint st) (uint en) f \<Longrightarrow> 0 \<le> overlap_ms (uint st) (uint en) f \<and> overlap_ms (uint st) (uint en) f < 2000000"
  by (auto simp: valid_request_def in_interval_def overlap_ms_def)

lemma file_cover_eq:
  assumes "valid_request st en" "in_interval (uint st) (uint en) f"
  shows "file_cover (st * S_TO_MS) (en * S_TO_MS) f = overlap_ms (uint st) (uint en) f"
proof -
  let ?a = "min (fi_endTime f) (en * S_TO_MS + DURATION_TOLERANCE)" and ?b = "max (fi_startTime f) (st * S_TO_MS - DURATION_TOLERANCE)"
  have u: "uint ?a - uint ?b = overlap_ms (uint st) (uint en) f"
    by (auto simp: overlap_ms_def min_def max_def word_le_def request_ms [OF assms(1)])
  note o = overlap_bounds [OF assms]
  then have "uint (?a - ?b) = overlap_ms (uint st) (uint en) f" using u by (subst uint_sub64) simp_all
  then have "?a - ?b = of_int (overlap_ms (uint st) (uint en) f)" by (metis word_of_int_uint)
  then show ?thesis unfolding file_cover_def to_int32_def
    using o by (simp add: unsigned_ucast_eq signed_of_int signed_take_bit_int_eq_self ucast_eq take_bit_int_eq_self uint_of_int64)
qed

lemma wrap32_id: "0 \<le> x \<Longrightarrow> x < 2 ^ 31 \<Longrightarrow> wrap32 x = x"
  by (simp add: wrap32_def signed_of_int signed_take_bit_int_eq_self)

definition interval_files :: "fs \<Rightarrow> u64 \<Rightarrow> u64 \<Rightarrow> TraceFileInfo list \<Rightarrow> TraceFileInfo list" where
  "interval_files fs st en vec = filter (\<lambda>f. map_of fs (filename f) \<noteq> None \<and> in_interval (uint st) (uint en) f) vec"

lemma cover_fold:
  assumes "valid_request st en"
  shows "0 \<le> cover \<Longrightarrow> cover + int (length vec) * 2000000 < 2 ^ 31 \<Longrightarrow>
    fold (\<lambda>it (cover, targets). if map_of fs (filename it) \<noteq> None \<and> overlaps (st * S_TO_MS) (en * S_TO_MS) it
      then (wrap32 (cover + file_cover (st * S_TO_MS) (en * S_TO_MS) it), targets @ [it]) else (cover, targets)) vec (cover, targets) =
    (cover + (\<Sum>f\<leftarrow>interval_files fs st en vec. overlap_ms (uint st) (uint en) f), targets @ interval_files fs st en vec)"
proof (induction vec arbitrary: cover targets)
  case (Cons f vec)
  show ?case
  proof (cases "map_of fs (filename f) \<noteq> None \<and> in_interval (uint st) (uint en) f")
    case False
    then show ?thesis using Cons.IH [of cover targets] Cons.prems by (auto simp: interval_files_def overlaps_iff [OF assms])
  next
    case True
    then have o: "0 \<le> overlap_ms (uint st) (uint en) f" "overlap_ms (uint st) (uint en) f < 2000000" using overlap_bounds [OF assms] by auto
    let ?c = "cover + overlap_ms (uint st) (uint en) f"
    have "wrap32 ?c = ?c" by (rule wrap32_id) (use o Cons.prems in simp_all)
    moreover have "0 \<le> ?c" "?c + int (length vec) * 2000000 < 2 ^ 31" using o Cons.prems by simp_all
    ultimately show ?thesis
      using True Cons.IH [of ?c "targets @ [f]"] by (simp add: interval_files_def overlaps_iff [OF assms] file_cover_eq [OF assms])
  qed
qed (simp add: interval_files_def)

text \<open>For a request that lies after the first second of Unix time, the files chosen from a list are exactly
those that exist, touch the requested interval and last less than 2000 seconds, in the order of the list, and
the covered duration is the sum of their overlaps with the interval, each between 0 and 2000 seconds: none of
the unsigned subtractions wraps around, and neither does the 32-bit sum of up to a thousand files.\<close>

theorem cover_is_overlap:
  assumes "valid_request st en" "length vec \<le> 1000"
  shows "GetTraceFileFromVec fs st en vec [] = ((\<Sum>f\<leftarrow>interval_files fs st en vec. overlap_ms (uint st) (uint en) f), interval_files fs st en vec) \<and>
    list_all (\<lambda>f. 0 \<le> overlap_ms (uint st) (uint en) f \<and> overlap_ms (uint st) (uint en) f < 2000000) (interval_files fs st en vec)"
proof
  have "int (length vec) * 2000000 < 2 ^ 31" using assms(2) by simp
  then show "GetTraceFileFromVec fs st en vec [] = ((\<Sum>f\<leftarrow>interval_files fs st en vec. overlap_ms (uint st) (uint en) f), interval_files fs st en vec)"
    using cover_fold [OF assms(1), of 0 vec fs "[]"] by (simp add: GetTraceFileFromVec_def Let_def)
  show "list_all (\<lambda>f. 0 \<le> overlap_ms (uint st) (uint en) f \<and> overlap_ms (uint st) (uint en) f < 2000000) (interval_files fs st en vec)"
    using overlap_bounds [OF assms(1)] by (auto simp: list_all_iff interval_files_def)
qed

theorem cover_is_overlap_witness:
  "fst (GetTraceFileFromVec [(''a'', sample_node 5)] 10 20 [TraceFileInfo_default\<lparr>filename := ''a'', fi_startTime := 15000, fi_endTime := 30000\<rparr>] []) = 5100"
proof -
  have r: "valid_request 10 20" by (simp add: valid_request_def)
  show ?thesis
    using cover_is_overlap [OF r, of "[TraceFileInfo_default\<lparr>filename := ''a'', fi_startTime := 15000, fi_endTime := 30000\<rparr>]" "[(''a'', sample_node 5)]"]
    by (simp add: interval_files_def in_interval_def overlap_ms_def)
qed

section \<open>Closing\<close>

definition service_nodes :: "string set" where
  "service_nodes = control_nodes \<union> {SET_EVENT_PID, SET_NO_FILTER_EVENT}"

lemma ClearFilterParam_kernel:
  "k_accepts (dg_kernel (ClearFilterParam g)) = k_accepts (dg_kernel g)" "k_paramOk (dg_kernel (ClearFilterParam g)) = k_paramOk (dg_kernel g)"
  "p \<noteq> SET_EVENT_PID \<Longrightarrow> k_nodes (dg_kernel (ClearFilterParam g)) p = k_nodes (dg_kernel g) p"
  by (auto simp: ClearFilterParam_def SetProperty_def TruncateFile_def Let_def split: option.split)

lemma accepted_write:
  assumes "k_accepts k = (\<lambda>q v. True)"
  shows "k_nodes (snd (WriteStrToFile p v k)) q = (if q = p \<and> k_nodes k q \<noteq> None then Some v else k_nodes k q)"
    "k_accepts (snd (WriteStrToFile p v k)) = (\<lambda>q v. True)" "k_params (snd (WriteStrToFile p v k)) = k_params k"
  using assms by (auto simp: WriteStrToFile_def split: option.split)

lemma truncate_params: "k_params (TruncateFile p k) = k_params k"
  by (simp add: TruncateFile_def split: option.split)

lemma to_string_zero: "to_string_nat 0 = ''0''"
  by code_simp

lemma init_off:
  assumes "k_accepts k = (\<lambda>q v. True)"
  shows "q \<noteq> TRACE_NODE \<Longrightarrow> k_nodes k q \<noteq> None \<Longrightarrow> k_nodes (TruncateFile TRACE_NODE (TraceInit allTags k)) q =
      (if q = ''buffer_size_kb'' then Some ''1'' else if q = TRACING_ON_NODE \<or> q \<in> set (kernel_paths allTags) then Some ''0'' else k_nodes k q)"
    "k_paramOk k TRACE_TAG_ENABLE_FLAGS \<Longrightarrow> k_params (TruncateFile TRACE_NODE (TraceInit allTags k)) TRACE_TAG_ENABLE_FLAGS = Some ''0''"
proof -
  let ?k1 = "snd (SetProperty TRACE_TAG_ENABLE_FLAGS (to_string_nat 0) (set_nodes False (kernel_paths allTags) k))"
  have k2: "TraceInit allTags k = snd (WriteStrToFile ''buffer_size_kb'' ''1'' (snd (WriteStrToFile TRACING_ON_NODE ''0'' ?k1)))"
    by (simp add: TraceInit_def close_events SetTraceNodeStatus_def Let_def)
  have k1: "k_accepts ?k1 = (\<lambda>q v. True)" using assms by (simp add: set_nodes_eq)
  note w = accepted_write [OF k1] accepted_write [OF accepted_write(2) [OF k1]]
  show "q \<noteq> TRACE_NODE \<Longrightarrow> k_nodes k q \<noteq> None \<Longrightarrow> k_nodes (TruncateFile TRACE_NODE (TraceInit allTags k)) q =
      (if q = ''buffer_size_kb'' then Some ''1'' else if q = TRACING_ON_NODE \<or> q \<in> set (kernel_paths allTags) then Some ''0'' else k_nodes k q)"
    unfolding k2 truncate_other w(1,4) by (auto simp: truncate_other w set_nodes_eq assms)
  show "k_paramOk k TRACE_TAG_ENABLE_FLAGS \<Longrightarrow> k_params (TruncateFile TRACE_NODE (TraceInit allTags k)) TRACE_TAG_ENABLE_FLAGS = Some ''0''"
    unfolding k2 truncate_params w(3,6) by (simp add: SetProperty_def set_nodes_eq to_string_zero)
qed

text \<open>C31: Closing a trace switches everything off: every kernel event of the tag file and the tracing itself are
written 0, the parameter of the user tags is 0, the buffer shrinks to one kilobyte, there is no filter and no
balancing thread any more, and the mode is closed.\<close>

theorem close_switches_off:
  assumes "BootTraceArbShouldReturnLocked True e g = None" "g_traceMode g \<noteq> MODE_CLOSE" "me_tags e \<noteq> []"
    and "k_accepts (dg_kernel g) = (\<lambda>q v. True)" "k_paramOk (dg_kernel g) TRACE_TAG_ENABLE_FLAGS"
    and "set (kernel_paths (me_tags e)) \<inter> service_nodes = {}" "p \<in> set (kernel_paths (me_tags e))"
    and "k_nodes (dg_kernel g) p \<noteq> None" "k_nodes (dg_kernel g) TRACING_ON_NODE \<noteq> None" "k_nodes (dg_kernel g) ''buffer_size_kb'' \<noteq> None"
    and "CloseTrace e g = (c, g')"
  shows "c = SUCCESS \<and> g_traceMode g' = MODE_CLOSE \<and> dg_filter g' = None \<and> \<not> dg_balance g' \<and>
    k_nodes (dg_kernel g') p = Some ''0'' \<and> k_nodes (dg_kernel g') TRACING_ON_NODE = Some ''0'' \<and>
    k_nodes (dg_kernel g') ''buffer_size_kb'' = Some ''1'' \<and> k_params (dg_kernel g') TRACE_TAG_ENABLE_FLAGS = Some ''0''"
proof -
  define g1 where "g1 = (if IsRecordOn g \<or> IsCacheOn g then g\<lparr>dg_ex := snd (StopDumpTraceLoop (dg_ex g))\<rparr> else g)"
  define k0 where "k0 = snd (SetProperty TRACE_KEY_APP_PID ''-1'' (dg_kernel (ClearFilterParam g1)))"
  have g1: "dg_kernel g1 = dg_kernel g" by (simp add: g1_def)
  have k0: "k_accepts k0 = k_accepts (dg_kernel g)" "k_paramOk k0 = k_paramOk (dg_kernel g)"
    "q \<noteq> SET_EVENT_PID \<Longrightarrow> k_nodes k0 q = k_nodes (dg_kernel g) q" for q
    by (simp_all add: k0_def ClearFilterParam_kernel g1)
  have p: "p \<notin> control_nodes" "p \<noteq> SET_EVENT_PID" "p \<noteq> SET_NO_FILTER_EVENT" using assms(6,7) by (auto simp: service_nodes_def)
  have paths: "q \<notin> set (kernel_paths (me_tags e))" if "q \<in> service_nodes" for q using assms(6) that by auto
  let ?k1 = "TruncateFile TRACE_NODE (TraceInit (me_tags e) k0)"
  have kernel: "dg_kernel g' = (if me_hm e then ClearNoFilterEvents (me_rootEmpty e) ?k1 else ?k1)"
    and rest: "c = SUCCESS" "g_traceMode g' = MODE_CLOSE" "dg_filter g' = None" "\<not> dg_balance g'"
    using assms(1-3,11) by (auto simp: CloseTrace_def ResetTracePipelineLocked_def g1_def [symmetric] k0_def Let_def ClearFilterParam_def)
  have clear: "k_nodes (ClearNoFilterEvents b k) q = k_nodes k q" if "q \<noteq> SET_NO_FILTER_EVENT" for b k q
    using that by (auto simp: ClearNoFilterEvents_def TruncateFile_def split: option.split)
  have clear_params: "k_params (ClearNoFilterEvents b k) = k_params k" for b k
    by (auto simp: ClearNoFilterEvents_def TruncateFile_def split: option.split)
  have "k_params ?k1 TRACE_TAG_ENABLE_FLAGS = Some ''0''" using init_off(2) [of k0] assms(4,5) k0(1,2) by simp
  moreover have init: "k_nodes ?k1 q = (if q = ''buffer_size_kb'' then Some ''1'' else if q = TRACING_ON_NODE \<or> q \<in> set (kernel_paths (me_tags e))
      then Some ''0'' else k_nodes k0 q)" if "q \<noteq> TRACE_NODE" "k_nodes k0 q \<noteq> None" for q
    by (rule init_off(1) [OF _ that]) (simp add: assms(4) k0(1))
  moreover have nodes: "k_nodes k0 p \<noteq> None" "k_nodes k0 TRACING_ON_NODE \<noteq> None" "k_nodes k0 ''buffer_size_kb'' \<noteq> None"
    using assms(8-10) k0(3) p by (simp_all add: TRACING_ON_NODE_def SET_EVENT_PID_def)
  moreover have "p \<noteq> TRACE_NODE" "TRACING_ON_NODE \<noteq> TRACE_NODE" "''buffer_size_kb'' \<noteq> TRACE_NODE" "p \<noteq> ''buffer_size_kb''"
    using p by (auto simp: control_nodes_def TRACE_NODE_def TRACING_ON_NODE_def)
  ultimately show ?thesis
    using rest p init assms(7) by (auto simp: kernel clear clear_params TRACING_ON_NODE_def SET_NO_FILTER_EVENT_def)
qed

definition sample_running :: dump_globals where
  "sample_running = sample_open\<lparr>dg_kernel := \<lparr>k_nodes = [''events/irq/enable'' \<mapsto> ''0'', ''events/sched/enable'' \<mapsto> ''1'', ''tracing_on'' \<mapsto> ''1'',
     ''buffer_size_kb'' \<mapsto> ''1024''], k_accepts = (\<lambda>q v. True), k_params = Map.empty, k_paramOk = (\<lambda>_. True)\<rparr>\<rparr>"

theorem close_switches_off_witness:
  "fst (CloseTrace sample_mode_env sample_running) = SUCCESS \<and> g_traceMode (snd (CloseTrace sample_mode_env sample_running)) = MODE_CLOSE \<and>
   k_nodes (dg_kernel (snd (CloseTrace sample_mode_env sample_running))) ''events/sched/enable'' = Some ''0''"
proof -
  obtain c g' where r: "CloseTrace sample_mode_env sample_running = (c, g')" by fastforce
  have "g_traceMode sample_running = MODE_OPEN" using sample_open_ctl by (simp add: sample_running_def ctl_def)
  then have "g_traceMode sample_running \<noteq> MODE_CLOSE" by (simp add: MODE_OPEN_def MODE_CLOSE_def)
  then show ?thesis
    using close_switches_off [of sample_mode_env sample_running "''events/sched/enable''" c g'] r
    by (simp add: sample_running_def sample_tags_def kernel_paths_def service_nodes_def control_nodes_def SET_EVENT_PID_def SET_NO_FILTER_EVENT_def TRACING_ON_NODE_def)
qed

section \<open>What a recording inherits\<close>

text \<open>A trace that was opened by tag groups leaves the total size for later recordings to chance: the limit
that a recording hands to ageing is the value that happened to be in the uninitialised member of the parameters,
whatever the caller has asked for.\<close>

theorem recording_limit_indeterminate:
  assumes "OpenTrace_groups e tagGroups g = (SUCCESS, g')"
  shows "dp_total (ProcessRecordTask g') = of_int (tp_totalSize (me_indeterminate e)) \<and> dp_fileSize (ProcessRecordTask g') = 102400"
proof -
  have params: "g_currentTraceParams (StartCpuBufferBalanceService e (opened e (refresh_files e h))) = g_currentTraceParams h" for h
    by (simp add: StartCpuBufferBalanceService_def opened_def refresh_files_def set_fs_def Let_def split: prod.split)
  have "g_currentTraceParams h' = tp" if "HandleTraceOpen e tp fm h = (c, h')" for tp fm h c h'
    using that by (auto simp: HandleTraceOpen_def Let_def split: prod.splits)
  then have tp: "tp_totalSize (g_currentTraceParams h') = tp_totalSize (me_indeterminate e) \<and> tp_fileSize (g_currentTraceParams h') = 102400"
    if "HandleDefaultTraceOpen e tagGroups h = (SUCCESS, h')" for h h'
    using that by (auto simp: HandleDefaultTraceOpen_def TraceParams_uninit_def split: if_splits)
  obtain h' where "HandleDefaultTraceOpen e tagGroups (SetNoFilterEvents e (ClearFilterParam g)) = (SUCCESS, h')"
    "g' = StartCpuBufferBalanceService e (opened e (refresh_files e h'))"
    using assms by (auto simp: OpenTrace_groups_def Let_def dest: boot_not_success split: option.splits if_splits prod.splits)
  then show ?thesis using tp params by (simp add: ProcessRecordTask_def)
qed

theorem recording_limit_indeterminate_witness:
  "dp_total (ProcessRecordTask (snd (OpenTrace_groups (sample_mode_env\<lparr>me_indeterminate := TraceParams_default\<lparr>tp_totalSize := 7\<rparr>\<rparr>) [''default''] sample_globals))) = 7"
proof -
  let ?e = "sample_mode_env\<lparr>me_indeterminate := TraceParams_default\<lparr>tp_totalSize := 7\<rparr>\<rparr>"
  have "fst (OpenTrace_groups ?e [''default''] sample_globals) = SUCCESS"
    using sample_start by (simp add: service_start_def OpenTrace_groups_def mode_fst HandleDefaultTraceOpen_def CheckTagGroup_def prod.case_eq_if Let_def)
  then have "OpenTrace_groups ?e [''default''] sample_globals = (SUCCESS, snd (OpenTrace_groups ?e [''default''] sample_globals))" by (metis prod.collapse)
  from recording_limit_indeterminate [OF this] show ?thesis by simp
qed

end
