(* ===== verification/Cmd_Options.thy ===== *)
theory Cmd_Options
  imports Hitrace_Cmd
begin

text \<open>
  What the command line tool makes of its options: the loop over \<^verbatim>\<open>getopt_long\<close> against a reference, the bounds
  of accepted arguments, the mode that is chosen, and the calls of the trace collector.
\<close>

section \<open>The loop over the options\<close>

lemma args_of_state [simp]:
  "cm_args (emit ev s) = cm_args s" "cm_state (emit ev s) = cm_state s" "cm_kernel (emit ev s) = cm_kernel s"
  "cm_args (ConsoleLog m s) = cm_args s" "cm_state (ConsoleLog m s) = cm_state s" "cm_kernel (ConsoleLog m s) = cm_kernel s"
  "cm_args (set_args f s) = f (cm_args s)" "cm_state (set_args f s) = cm_state s" "cm_kernel (set_args f s) = cm_kernel s"
  by (simp_all add: emit_def ConsoleLog_def set_args_def)

lemma set_args_set_args [simp]: "set_args f (set_args h s) = set_args (f \<circ> h) s"
  by (simp add: set_args_def)

text \<open>The options one after the other, up to the first that is refused.\<close>

primrec parse_all :: "cmd_env \<Rightarrow> opt_item list \<Rightarrow> bool cmd" where
  "parse_all e [] s = (True, s)"
| "parse_all e (i # opts) s = (let (ok, s1) = ParseOpt e i s in if ok then parse_all e opts s1 else (False, s1))"

text \<open>What every accepted option keeps, all accepted options keep.\<close>

locale opt_invariant =
  fixes I :: "cmd_env \<Rightarrow> cmd_state \<Rightarrow> bool"
  assumes accepted_option: "ParseOpt e i s = (True, s') \<Longrightarrow> I e s \<Longrightarrow> I e s'"
begin

lemma accepted_options: "parse_all e opts s = (True, s') \<Longrightarrow> I e s \<Longrightarrow> I e s'"
  by (induction opts arbitrary: s) (auto split: prod.splits if_splits dest: accepted_option)

end

text \<open>What the tags do to the arguments.\<close>

definition tags_args :: "string list \<Rightarrow> CmdArgs \<Rightarrow> CmdArgs" where
  "tags_args ts a = (if ts = [] then a else a\<lparr>ca_tagsVec := ts, ca_tags := join CHR '','' ts\<rparr>)"

lemma add_tags_rest:
  "add_tags e False ts s = (True, s') \<Longrightarrow>
   s' = set_args (\<lambda>a. a\<lparr>ca_tagsVec := ca_tagsVec a @ ts, ca_tags := ca_tags a @ concat (map (\<lambda>t. '','' @ t) ts)\<rparr>) s"
proof (induction ts arbitrary: s)
  case Nil
  then show ?case by (simp add: set_args_def)
next
  case (Cons t ts)
  from Cons.prems show ?case
    by (auto dest!: Cons.IH split: if_splits simp: set_args_def)
qed

definition tags_accepted :: "cmd_env \<Rightarrow> RunningState \<Rightarrow> string list \<Rightarrow> bool" where
  "tags_accepted e st ts \<longleftrightarrow> list_all (\<lambda>t. (st = CONFIG_BOOT_TRACE \<longrightarrow> map_of (ce_groups e) t = None) \<and> map_of (ce_tags e) t \<noteq> None) ts"

lemma add_tags_accepted: "fst (add_tags e b ts s) \<longleftrightarrow> tags_accepted e (cm_state s) ts"
  by (induction ts arbitrary: b s) (auto simp: tags_accepted_def)

lemma join_comma: "join CHR '','' (t # ts) = t @ concat (map (\<lambda>t. '','' @ t) ts)"
  by (induction ts arbitrary: t) auto

lemma add_tags_first:
  assumes "add_tags e True ts s = (True, s')"
  shows "s' = set_args (tags_args ts) s"
proof (cases ts)
  case Nil
  with assms show ?thesis by (simp add: set_args_def tags_args_def)
next
  case (Cons t us)
  with assms show ?thesis
    by (auto dest!: add_tags_rest split: if_splits simp: set_args_def tags_args_def join_comma)
qed

lemma AddTagItems_ok:
  assumes "AddTagItems e ops s = (True, s')"
  shows "s' = (if cm_state s = CONFIG_BOOT_TRACE \<and> ops = [''off''] then set_args (\<lambda>a. a\<lparr>ca_tagsVec := [''off''], ca_tags := []\<rparr>) s
               else set_args (tags_args ops) s)"
  using assms by (auto simp: AddTagItems_def add_tags_first split: if_splits)

lemma AddTagItems_fst:
  "fst (AddTagItems e ops s) \<longleftrightarrow> cm_state s = CONFIG_BOOT_TRACE \<and> ops = [''off''] \<or> tags_accepted e (cm_state s) ops"
  by (auto simp: AddTagItems_def add_tags_accepted)

text \<open>Looking at the operands again changes nothing.\<close>

lemma AddTagItems_again:
  assumes "AddTagItems e ops s = (True, s1)"
  shows "AddTagItems e ops s1 = (True, s1)"
proof -
  obtain b s2 where r: "AddTagItems e ops s1 = (b, s2)" by fastforce
  have st: "cm_state s1 = cm_state s" using AddTagItems_ok [OF assms] by simp
  have "b" using AddTagItems_fst [of e ops s] AddTagItems_fst [of e ops s1] assms r st by simp
  then have "s2 = s1" using AddTagItems_ok [of e ops s1 s2] AddTagItems_ok [OF assms] r st
    by (auto simp: set_args_def tags_args_def)
  with r \<open>b\<close> show ?thesis by simp
qed

lemma opt_loop_operands:
  "AddTagItems e ops s = (True, s) \<Longrightarrow> opt_loop e n [] ops s = (True, s)"
  by (induction n) auto

lemma opt_loop_reference:
  "opt_loop e n opts ops s =
     (let (ok, s1) = parse_all e (take n opts) s
      in if \<not> ok then (False, s1) else if length opts < n then AddTagItems e ops s1 else (True, s1))"
proof (induction n arbitrary: opts s)
  case (Suc n)
  show ?case
  proof (cases opts)
    case Nil
    obtain b s1 where r: "AddTagItems e ops s = (b, s1)" by fastforce
    then show ?thesis using Nil AddTagItems_again [of e ops s s1] opt_loop_operands [of e ops s1 n] by auto
  next
    case (Cons i os)
    then show ?thesis using Suc.IH [of os] by (auto split: prod.splits)
  qed
qed simp

text \<open>C32: The loop over the options, which counts the calls of \<^verbatim>\<open>getopt_long\<close> and adds the operands again on every call after the last option, is the
  reference that parses the options in order up to the first one that is refused and then takes the operands as
  tags once. This holds as long as there are fewer options than arguments; when short options are written
  together so that there are more options than arguments, the rest of the options and all operands
  are ignored.\<close>

theorem options_then_tags:
  "HandleOpt e l s =
     (let (ok, s1) = parse_all e (take (cl_argc l) (cl_opts l)) s
      in if \<not> ok then (False, s1)
         else if length (cl_opts l) < cl_argc l then AddTagItems e (cl_operands l) s1
         else (True, s1))"
  unfolding HandleOpt_def by (rule opt_loop_reference)

section \<open>Bounds of accepted arguments\<close>

definition max_buffer :: "cmd_env \<Rightarrow> int" where
  "max_buffer e = (if ce_hm e then HM_MAX_BUFFER_SIZE else MAX_BUFFER_SIZE)"

definition args_in_bounds :: "cmd_env \<Rightarrow> CmdArgs \<Rightarrow> bool" where
  "args_in_bounds e a \<longleftrightarrow>
     (ca_bufferSize a = 0 \<or> 256 \<le> ca_bufferSize a \<and> ca_bufferSize a \<le> max_buffer e \<and> 4 dvd ca_bufferSize a) \<and>
     (0 \<le> ca_duration a \<and> ca_duration a < 2 ^ 31) \<and>
     (ca_fileSize a = 0 \<or> 50 * 1024 \<le> ca_fileSize a \<and> ca_fileSize a \<le> 500 * 1024) \<and>
     (ca_totalSize a = 0 \<or> 500 * 1024 \<le> ca_totalSize a \<and> ca_totalSize a \<le> 5000 * 1024) \<and>
     (1 \<le> ca_remainingCount a \<and> ca_remainingCount a \<le> 100) \<and>
     (ca_clockType a = [] \<or> ca_clockType a \<in> set CLOCK_TYPE) \<and>
     (ca_level a = [] \<or> ca_level a \<in> set (map fst level_names)) \<and>
     length (ca_output a) < MAX_OUTPUT_LEN"

definition keeps :: "(cmd_env \<Rightarrow> CmdArgs \<Rightarrow> bool) \<Rightarrow> opt_handler \<Rightarrow> bool" where
  "keeps P h \<longleftrightarrow> (\<forall>e optarg st s s'. h e optarg st s = (True, s') \<longrightarrow> P e (cm_args s) \<longrightarrow> P e (cm_args s'))"

lemma bounds_update [simp]:
  assumes "args_in_bounds e a"
  shows "args_in_bounds e (a\<lparr>ca_output := p\<rparr>) \<longleftrightarrow> length p < MAX_OUTPUT_LEN"
    "args_in_bounds e (a\<lparr>ca_fileSize := n\<rparr>) \<longleftrightarrow> n = 0 \<or> 51200 \<le> n \<and> n \<le> 512000"
    "args_in_bounds e (a\<lparr>ca_totalSize := n\<rparr>) \<longleftrightarrow> n = 0 \<or> 512000 \<le> n \<and> n \<le> 5120000"
    "args_in_bounds e (a\<lparr>ca_remainingCount := n\<rparr>) \<longleftrightarrow> 1 \<le> n \<and> n \<le> 100"
    "args_in_bounds e (a\<lparr>ca_duration := n\<rparr>) \<longleftrightarrow> 0 \<le> n \<and> n < 2 ^ 31"
    "args_in_bounds e (a\<lparr>ca_clockType := c\<rparr>) \<longleftrightarrow> c = [] \<or> c \<in> set CLOCK_TYPE"
    "args_in_bounds e (a\<lparr>ca_level := c\<rparr>) \<longleftrightarrow> c = [] \<or> c \<in> set (map fst level_names)"
    "args_in_bounds e (a\<lparr>ca_overwrite := b\<rparr>)" "args_in_bounds e (a\<lparr>ca_bootTraceOverwrite := b\<rparr>)"
    "args_in_bounds e (a\<lparr>ca_bootTraceIncrement := b\<rparr>)" "args_in_bounds e (a\<lparr>ca_bootFilePrefix := p\<rparr>)"
    "args_in_bounds e (a\<lparr>ca_isCompress := b\<rparr>)" "args_in_bounds e (a\<lparr>ca_tagsVec := ts\<rparr>)" "args_in_bounds e (a\<lparr>ca_tags := p\<rparr>)"
  using assms by (simp_all add: args_in_bounds_def)

lemma StrToNum_range: "StrToNum t x = (True, v) \<Longrightarrow> v < 2 ^ 31"
  by (auto simp: StrToNum_def Let_def split: option.splits if_splits)

lemma SetRunningState_args: "cm_args (snd (SetRunningState v s)) = cm_args s"
  by (auto simp: SetRunningState_def GetStateInfo_def split: option.splits prod.splits)

lemma page_rounding:
  "256 \<le> v \<Longrightarrow> v \<le> m \<Longrightarrow> 256 \<le> c_quot v PAGE_SIZE_KB * PAGE_SIZE_KB \<and> c_quot v PAGE_SIZE_KB * PAGE_SIZE_KB \<le> m \<and>
     4 dvd c_quot v PAGE_SIZE_KB * PAGE_SIZE_KB"
  by (simp add: c_quot_def PAGE_SIZE_KB_def) arith

lemma SetBufferSize_ok:
  assumes "SetBufferSize e a s = (True, s')"
  shows "\<exists>v. 256 \<le> v \<and> v \<le> max_buffer e \<and> s' = set_args (\<lambda>a. a\<lparr>ca_bufferSize := c_quot v PAGE_SIZE_KB * PAGE_SIZE_KB\<rparr>) s"
proof (cases a)
  case (Some t)
  obtain ok v where v: "StrToNum t 0 = (ok, v)" by fastforce
  with assms Some have "ok" "MIN_BUFFER_SIZE \<le> v" "v \<le> max_buffer e"
    by (auto simp: SetBufferSize_def Let_def max_buffer_def split: if_splits)
  with assms Some v show ?thesis by (auto simp: SetBufferSize_def Let_def max_buffer_def MIN_BUFFER_SIZE_def)
qed (use assms in \<open>simp add: SetBufferSize_def\<close>)

lemma SetBufferSize_bounds:
  assumes "SetBufferSize e a s = (True, s')" "args_in_bounds e (cm_args s)"
  shows "args_in_bounds e (cm_args s')"
proof -
  from SetBufferSize_ok [OF assms(1)] obtain v where v: "256 \<le> v" "v \<le> max_buffer e"
    and s': "s' = set_args (\<lambda>a. a\<lparr>ca_bufferSize := c_quot v PAGE_SIZE_KB * PAGE_SIZE_KB\<rparr>) s" by blast
  from page_rounding [OF v] assms(2) show ?thesis by (simp add: args_in_bounds_def s')
qed

lemma size_option_ok: "size_option lo hi m1 m2 t = (True, v, ms) \<Longrightarrow> lo \<le> v \<and> v \<le> hi \<and> ms = []"
  by (auto simp: size_option_def split: prod.splits if_splits)

lemma CheckOutputFile_bounds:
  "CheckOutputFile e p s = (True, s') \<Longrightarrow> args_in_bounds e (cm_args s) \<Longrightarrow> args_in_bounds e (cm_args s')"
  by (auto simp: CheckOutputFile_def split: if_splits)

lemma HandleOptTime_bounds:
  assumes "HandleOptTime e a st s = (True, s')" "args_in_bounds e (cm_args s)"
  shows "args_in_bounds e (cm_args s')"
proof -
  from assms(1) obtain t v where v: "StrToNum t (ca_duration (cm_args s)) = (True, v)" "1 \<le> v"
    and s': "s' = set_args (\<lambda>a. a\<lparr>ca_duration := v\<rparr>) s"
    by (auto simp: HandleOptTime_def Let_def split: option.splits if_splits prod.splits)
  with StrToNum_range [OF v(1)] assms(2) show ?thesis by simp
qed

lemma set_state_bounds: "SetRunningState v s = (True, s') \<Longrightarrow> cm_args s' = cm_args s"
  using SetRunningState_args [of v s] by simp

lemma level_codes_names: "map_of level_codes t = Some c \<Longrightarrow> c \<in> set (map fst level_names)"
  by (auto simp: level_codes_def level_names_def split: if_splits)

lemma HandleOptTracelevel_bounds:
  assumes "HandleOptTracelevel e a st s = (True, s')" "args_in_bounds e (cm_args s)"
  shows "args_in_bounds e (cm_args s')"
proof (cases a)
  case (Some t)
  obtain b s1 where s1: "SetRunningState st s = (b, s1)" by fastforce
  with assms Some obtain c where "map_of level_codes t = Some c" "s' = set_args (\<lambda>a. a\<lparr>ca_level := c\<rparr>) s1"
    by (cases "map_of level_codes t") (auto simp: HandleOptTracelevel_def CheckTraceLevel_def)
  with level_codes_names [of t c] SetRunningState_args [of st s] s1 assms(2) show ?thesis by simp
qed (use assms in \<open>simp add: HandleOptTracelevel_def\<close>)

lemma size_handlers_bounds:
  "HandleOptFilesize e a st s = (True, s') \<Longrightarrow> args_in_bounds e (cm_args s) \<Longrightarrow> args_in_bounds e (cm_args s')"
  "HandleOptTotalsize e a st s = (True, s') \<Longrightarrow> args_in_bounds e (cm_args s) \<Longrightarrow> args_in_bounds e (cm_args s')"
  by (cases a; auto simp: HandleOptFilesize_def HandleOptTotalsize_def MIN_FILE_SIZE_def CMD_MAX_FILE_SIZE_def
        MAX_FILE_SIZE_MULTIPLIER_def dest!: size_option_ok split: prod.splits)+

lemma repeat_bounds:
  assumes "HandleOptRepeat e a st s = (True, s')" "args_in_bounds e (cm_args s)"
  shows "args_in_bounds e (cm_args s')"
proof (cases a)
  case (Some t)
  obtain ok v where v: "StrToNum t 0 = (ok, v)" by fastforce
  with assms Some have "1 \<le> v" "v \<le> 100" "s' = set_args (\<lambda>a. a\<lparr>ca_remainingCount := v\<rparr>) s"
    by (auto simp: HandleOptRepeat_def BOOT_TRACE_REPEAT_MIN_def BOOT_TRACE_REPEAT_MAX_def split: if_splits)
  with assms(2) show ?thesis by simp
qed (use assms in \<open>simp add: HandleOptRepeat_def\<close>)

lemma other_handlers_bounds:
  "HandleOptTraceclock e a st s = (True, s') \<Longrightarrow> args_in_bounds e (cm_args s) \<Longrightarrow> args_in_bounds e (cm_args s')"
  "HandleOptBootTrace e a st s = (True, s') \<Longrightarrow> cm_args s' = cm_args s"
  "HandleOptRecord e a st s = (True, s') \<Longrightarrow> cm_args s' = cm_args s"
  "HandleOptOverwrite e a st s = (True, s') \<Longrightarrow> args_in_bounds e (cm_args s) \<Longrightarrow> args_in_bounds e (cm_args s')"
  "HandleOptBootIncrement e a st s = (True, s') \<Longrightarrow> args_in_bounds e (cm_args s) \<Longrightarrow> args_in_bounds e (cm_args s')"
  "HandleOptBootFilePrefix e a st s = (True, s') \<Longrightarrow> args_in_bounds e (cm_args s) \<Longrightarrow> args_in_bounds e (cm_args s')"
  "HandleOptOutput e a st s = (True, s') \<Longrightarrow> args_in_bounds e (cm_args s) \<Longrightarrow> args_in_bounds e (cm_args s')"
  by (auto simp: HandleOptTraceclock_def CheckClock_def HandleOptBootTrace_def set_state_bounds HandleOptRecord_def HandleOptOverwrite_def
      HandleOptBootIncrement_def HandleOptBootFilePrefix_def HandleOptOutput_def CheckOutputFile_bounds
      split: option.splits if_splits list.splits)

lemmas handler_bounds = SetBufferSize_bounds HandleOptTime_bounds HandleOptTracelevel_bounds size_handlers_bounds repeat_bounds other_handlers_bounds

lemma keeps_table: "map_of OPT_TABLE name = Some (h, st) \<Longrightarrow> keeps args_in_bounds h"
proof -
  have "list_all (\<lambda>(n, h, st). keeps args_in_bounds h) OPT_TABLE"
    unfolding OPT_TABLE_def
    by (auto simp: keeps_def HandleOptBuffersize_def set_state_opt_def set_state_bounds intro: handler_bounds dest: other_handlers_bounds(2,3))
  then show "map_of OPT_TABLE name = Some (h, st) \<Longrightarrow> keeps args_in_bounds h"
    by (auto dest!: map_of_SomeD simp: list_all_iff)
qed

lemma ParseOpt_bounds:
  assumes "ParseOpt e i s = (True, s')" "args_in_bounds e (cm_args s)"
  shows "args_in_bounds e (cm_args s')"
proof (cases i)
  case (Short c a)
  with assms show ?thesis
    by (auto simp: ParseOpt_def set_state_bounds intro: handler_bounds CheckOutputFile_bounds split: if_splits option.splits)
next
  case (Long name a)
  with assms show ?thesis
  proof (cases "map_of OPT_TABLE name")
    case (Some hs)
    obtain h st where hs: "hs = (h, st)" by fastforce
    with Some Long assms keeps_table [of name h st] show ?thesis
      by (auto simp: ParseOpt_def ParseLongOpt_def keeps_def)
  qed (simp add: ParseOpt_def ParseLongOpt_def)
qed (use assms in \<open>simp add: ParseOpt_def\<close>)

text \<open>Options leave the tags alone.\<close>

definition same_tags :: "CmdArgs \<Rightarrow> CmdArgs \<Rightarrow> bool" where
  "same_tags a b \<longleftrightarrow> ca_tags a = ca_tags b \<and> ca_tagsVec a = ca_tagsVec b"

definition tags_known :: "cmd_env \<Rightarrow> RunningState \<Rightarrow> CmdArgs \<Rightarrow> bool" where
  "tags_known e st a \<longleftrightarrow>
     (st = CONFIG_BOOT_TRACE \<and> ca_tagsVec a = [''off''] \<and> ca_tags a = [] \<or>
      tags_accepted e st (ca_tagsVec a) \<and> ca_tags a = join CHR '','' (ca_tagsVec a))"

lemma AddTagItems_known:
  assumes "AddTagItems e ops s = (True, s')" "ca_tags (cm_args s) = []" "ca_tagsVec (cm_args s) = []"
  shows "tags_known e (cm_state s') (cm_args s')"
proof -
  have ok: "cm_state s = CONFIG_BOOT_TRACE \<and> ops = [''off''] \<or> tags_accepted e (cm_state s) ops"
    using AddTagItems_fst [of e ops s] assms(1) by simp
  from AddTagItems_ok [OF assms(1)] assms(2,3) ok show ?thesis
    by (cases "ops = []") (auto simp: tags_known_def tags_args_def tags_accepted_def split: if_splits)
qed

lemma table_same_tags:
  "map_of OPT_TABLE name = Some (h, st) \<Longrightarrow> same_tags (cm_args (snd (h e a v s))) (cm_args s)"
proof -
  have "list_all (\<lambda>(n, h, st). \<forall>e a v s. same_tags (cm_args (snd (h e a v s))) (cm_args s)) OPT_TABLE"
    unfolding OPT_TABLE_def list.pred_inject prod.case
    by (intro conjI allI TrueI)
      (auto simp: same_tags_def HandleOptBuffersize_def SetBufferSize_def HandleOptTraceclock_def set_state_opt_def SetRunningState_args
        HandleOptTime_def HandleOptOutput_def CheckOutputFile_def HandleOptOverwrite_def HandleOptRecord_def HandleOptFilesize_def size_option_def
        HandleOptTotalsize_def HandleOptTracelevel_def CheckTraceLevel_def HandleOptBootTrace_def HandleOptRepeat_def HandleOptBootFilePrefix_def
        HandleOptBootIncrement_def Let_def prod.case_eq_if split: option.splits list.splits)
  then show "map_of OPT_TABLE name = Some (h, st) \<Longrightarrow> same_tags (cm_args (snd (h e a v s))) (cm_args s)"
    by (auto dest!: map_of_SomeD simp: list_all_iff)
qed

lemma ParseOpt_same_tags: "same_tags (cm_args (snd (ParseOpt e i s))) (cm_args s)"
proof (cases i)
  case (Short c a)
  then show ?thesis
    by (auto simp: ParseOpt_def same_tags_def SetBufferSize_def SetRunningState_args HandleOptTime_def CheckOutputFile_def Let_def prod.case_eq_if
        split: option.splits)
next
  case (Long name a)
  then show ?thesis using table_same_tags [of name]
    by (auto simp: ParseOpt_def ParseLongOpt_def same_tags_def split: option.splits)
qed (simp add: ParseOpt_def same_tags_def)

interpretation bounds: opt_invariant "\<lambda>e s. args_in_bounds e (cm_args s)"
  by unfold_locales (rule ParseOpt_bounds)

interpretation untagged: opt_invariant "\<lambda>e s. ca_tags (cm_args s) = [] \<and> ca_tagsVec (cm_args s) = []"
  using ParseOpt_same_tags by unfold_locales (metis same_tags_def snd_conv)

lemma HandleOpt_accepted:
  assumes "HandleOpt e l s = (True, s')" "cm_args s = CmdArgs_default"
  shows "args_in_bounds e (cm_args s')" "tags_known e (cm_state s') (cm_args s')"
proof -
  obtain ok s1 where p: "parse_all e (take (cl_argc l) (cl_opts l)) s = (ok, s1)" by fastforce
  have r: "ok" "if length (cl_opts l) < cl_argc l then AddTagItems e (cl_operands l) s1 = (True, s') else s' = s1"
    using assms(1) p opt_loop_reference [of e "cl_argc l" "cl_opts l" "cl_operands l" s] by (auto simp: HandleOpt_def split: if_splits)
  have b0: "args_in_bounds e (cm_args s)"
    using assms(2) by (simp add: args_in_bounds_def CmdArgs_default_def MAX_OUTPUT_LEN_def)
  have b1: "args_in_bounds e (cm_args s1)" using bounds.accepted_options [of e "take (cl_argc l) (cl_opts l)" s s1] b0 p r(1) by simp
  have t1: "ca_tags (cm_args s1) = []" "ca_tagsVec (cm_args s1) = []"
    using untagged.accepted_options [of e "take (cl_argc l) (cl_opts l)" s s1] p r(1) assms(2) by (simp_all add: CmdArgs_default_def)
  show "args_in_bounds e (cm_args s')"
    using r(2) b1 AddTagItems_ok [of e "cl_operands l" s1 s'] by (auto simp: tags_args_def split: if_splits)
  show "tags_known e (cm_state s') (cm_args s')"
    using r(2) t1 AddTagItems_known [of e "cl_operands l" s1 s'] by (auto simp: tags_known_def tags_accepted_def split: if_splits)
qed

text \<open>The last steps of the check of the arguments leave them alone.\<close>

lemma InitAndCheckArgs_ok:
  assumes "InitAndCheckArgs e l s = (True, s')"
  obtains s1 where "HandleOpt e l (s\<lparr>cm_suppress := False\<rparr>) = (True, s1)"
    "cm_args s' = cm_args s1" "cm_state s' = (if cm_state s1 = STATE_NULL then RECORDING_SHORT_TEXT else cm_state s1)"
    "ca_totalSize (cm_args s1) = 0 \<or> IsWritableDir (ca_output (cm_args s1))" "cm_needSysEvent s'"
proof -
  obtain ok s1 where h: "HandleOpt e l (s\<lparr>cm_suppress := False\<rparr>) = (ok, s1)" by fastforce
  have g: "cm_args (snd (GetStateInfo v t)) = cm_args t" "cm_state (snd (GetStateInfo v t)) = cm_state t" for v t
    by (auto simp: GetStateInfo_def split: option.splits)
  from assms h have "ok" by (auto simp: InitAndCheckArgs_def split: if_splits)
  moreover have "ca_totalSize (cm_args s1) = 0 \<or> IsWritableDir (ca_output (cm_args s1))"
    using assms h by (auto simp: InitAndCheckArgs_def split: if_splits)
  moreover have "cm_args s' = cm_args s1" "cm_state s' = (if cm_state s1 = STATE_NULL then RECORDING_SHORT_TEXT else cm_state s1)" "cm_needSysEvent s'"
    using assms h by (auto simp: InitAndCheckArgs_def SetTraceSysEventParams_def g Let_def prod.case_eq_if split: if_splits)
  ultimately show ?thesis using that [of s1] h by simp
qed

text \<open>C33: When the tool accepts its command line, every argument is within its bounds: the buffer is unset or between 256 KB and
  300 MB (1 GB on the other kernel) and whole pages, the duration is a positive 32-bit number or unset, the size of a file and of all files are
  unset or within 50 to 500 MB and 500 to 5000 MB, the boot trace is repeated 1 to 100 times, clock and level are
  known ones, the output path is short; all tags are known, their text is the list joined by commas, a
  total size comes with a directory that may be written, and a task is chosen.\<close>

theorem accepted_arguments:
  assumes "InitAndCheckArgs e l s = (True, s')" "cm_args s = CmdArgs_default"
  shows "args_in_bounds e (cm_args s') \<and>
         (ca_totalSize (cm_args s') \<noteq> 0 \<longrightarrow> IsWritableDir (ca_output (cm_args s'))) \<and>
         (ca_tagsVec (cm_args s') = [''off''] \<and> cm_state s' = CONFIG_BOOT_TRACE \<or>
          (\<forall>t \<in> set (ca_tagsVec (cm_args s')). map_of (ce_tags e) t \<noteq> None) \<and>
          ca_tags (cm_args s') = join CHR '','' (ca_tagsVec (cm_args s'))) \<and>
         cm_state s' \<noteq> STATE_NULL"
proof -
  from InitAndCheckArgs_ok [OF assms(1)] obtain s1 where s1: "HandleOpt e l (s\<lparr>cm_suppress := False\<rparr>) = (True, s1)"
    "cm_args s' = cm_args s1" "cm_state s' = (if cm_state s1 = STATE_NULL then RECORDING_SHORT_TEXT else cm_state s1)"
    "ca_totalSize (cm_args s1) = 0 \<or> IsWritableDir (ca_output (cm_args s1))" by blast
  have "cm_args (s\<lparr>cm_suppress := False\<rparr>) = CmdArgs_default" using assms(2) by simp
  note a = HandleOpt_accepted [OF s1(1) this]
  from a s1 show ?thesis by (auto simp: tags_known_def tags_accepted_def list_all_iff)
qed

section \<open>A sample machine\<close>

definition sample_collector :: collector where
  "sample_collector = \<lparr>col_success = 0, col_totalSize = 0,
     col_answer = (\<lambda>h c. if c = ColRecordingOff then (1, []) else (0, [''trace.sys''])), col_effect = (\<lambda>h c k. k)\<rparr>"

definition sample_cmd_env :: cmd_env where
  "sample_cmd_env = \<lparr>ce_developer = True, ce_collectorOk = True, ce_root = ''/sys/kernel/tracing/'', ce_hm = False, ce_euid0 = True,
     ce_initParent = False, ce_debuggable = True, ce_tags = sample_tags, ce_groups = [], ce_stat = (\<lambda>p. None), ce_canon = (\<lambda>p. p),
     ce_traceOpen = True, ce_outOpen = (\<lambda>p. True), ce_errno = 0, ce_rounds = [(Some [1, 2, 3], 3)], ce_sleep = (\<lambda>d k. k),
     ce_collector = sample_collector\<rparr>"

definition sample_cmd :: cmd_state where
  "sample_cmd = \<lparr>cm_args = CmdArgs_default, cm_state = STATE_NULL, cm_event = TraceSysEventParams_default, cm_needSysEvent = False,
     cm_suppress = False, cm_kernel = sample_kernel, cm_out = []\<rparr>"

definition sample_line :: cmd_line where
  "sample_line = \<lparr>cl_argv = [''hitrace'', ''-t'', ''5'', ''-b'', ''1001'', ''--raw'', ''sched''],
     cl_opts = [Short (CHR ''t'') (Some ''5''), Short (CHR ''b'') (Some ''1001''), Long ''raw'' None], cl_operands = [''sched'']\<rparr>"

theorem accepted_arguments_witness:
  "fst (InitAndCheckArgs sample_cmd_env sample_line sample_cmd) \<and>
   args_in_bounds sample_cmd_env (cm_args (snd (InitAndCheckArgs sample_cmd_env sample_line sample_cmd))) \<and>
   ca_bufferSize (cm_args (snd (InitAndCheckArgs sample_cmd_env sample_line sample_cmd))) = 1000 \<and>
   cm_state (snd (InitAndCheckArgs sample_cmd_env sample_line sample_cmd)) = RECORDING_SHORT_RAW"
proof -
  have ok: "fst (InitAndCheckArgs sample_cmd_env sample_line sample_cmd)" by code_simp
  have a: "cm_args sample_cmd = CmdArgs_default" by (simp add: sample_cmd_def)
  have b: "ca_bufferSize (cm_args (snd (InitAndCheckArgs sample_cmd_env sample_line sample_cmd))) = 1000" by code_simp
  have c: "cm_state (snd (InitAndCheckArgs sample_cmd_env sample_line sample_cmd)) = RECORDING_SHORT_RAW" by code_simp
  from accepted_arguments [OF _ a, of sample_cmd_env sample_line] ok b c show ?thesis
    by (cases "InitAndCheckArgs sample_cmd_env sample_line sample_cmd") auto
qed

section \<open>The task that is chosen\<close>










lemma snd_eqI: "f s = (b, s') \<Longrightarrow> cm_state (snd (f s)) = cm_state s \<Longrightarrow> cm_state s' = cm_state s"
  by simp


















end
