(* ===== verification/Cmd_Collector.thy ===== *)
theory Cmd_Collector
  imports Cmd_Options
begin

text \<open>
  How the tasks of the command line tool use the trace collector. The state of the collector is what its answers so far imply:
  a call that is refused changes nothing. The calls of a task have to respect its protocol, and a recording has to
  close what it opened, whichever call is refused. The last section is about the copy of the trace.
\<close>

section \<open>The protocol\<close>

datatype col_mode = ColClosed | ColOpened | ColRecording

definition col_next :: "collector_call \<Rightarrow> col_mode \<Rightarrow> col_mode" where
  "col_next c m = (case c of ColOpen _ _ \<Rightarrow> ColOpened | ColRecordingOn _ \<Rightarrow> ColRecording | ColRecordingOff \<Rightarrow> ColOpened
     | ColClose \<Rightarrow> ColClosed | ColDumpSnapshot _ \<Rightarrow> m)"

definition col_allowed :: "collector_call \<Rightarrow> col_mode \<Rightarrow> bool" where
  "col_allowed c m = (case c of ColOpen _ _ \<Rightarrow> m = ColClosed | ColRecordingOn _ \<Rightarrow> m = ColOpened | ColRecordingOff \<Rightarrow> m = ColRecording
     | ColClose \<Rightarrow> m \<noteq> ColClosed | ColDumpSnapshot _ \<Rightarrow> m = ColOpened)"

text \<open>The events backwards: what the collector answered depends on those before.\<close>

fun mode_after :: "cmd_env \<Rightarrow> cmd_event list \<Rightarrow> col_mode" where
  "mode_after e [] = ColClosed"
| "mode_after e (ev # past) =
     (case ev of
        Called c \<Rightarrow> if refused e (col_answer (ce_collector e) (rev past) c) then mode_after e past else col_next c (mode_after e past)
      | _ \<Rightarrow> mode_after e past)"

fun legal_calls :: "cmd_env \<Rightarrow> cmd_event list \<Rightarrow> bool" where
  "legal_calls e [] = True"
| "legal_calls e (ev # past) = (legal_calls e past \<and> (case ev of Called c \<Rightarrow> col_allowed c (mode_after e past) | _ \<Rightarrow> True))"

definition col_mode :: "cmd_env \<Rightarrow> cmd_state \<Rightarrow> col_mode" where
  "col_mode e s = mode_after e (rev (cm_out s))"

definition legal :: "cmd_env \<Rightarrow> cmd_state \<Rightarrow> bool" where
  "legal e s = legal_calls e (rev (cm_out s))"

text \<open>Two states the collector cannot tell apart.\<close>

definition same_calls :: "cmd_env \<Rightarrow> cmd_state \<Rightarrow> cmd_state \<Rightarrow> bool" where
  "same_calls e s s' \<longleftrightarrow> col_mode e s' = col_mode e s \<and> (legal e s' \<longleftrightarrow> legal e s)"

definition no_call :: "cmd_event \<Rightarrow> bool" where
  "no_call ev = (case ev of Called c \<Rightarrow> False | _ \<Rightarrow> True)"

lemma col_emit [simp]:
  "no_call ev \<Longrightarrow> col_mode e (emit ev s) = col_mode e s" "no_call ev \<Longrightarrow> legal e (emit ev s) = legal e s"
  by (auto simp: col_mode_def legal_def emit_def no_call_def split: cmd_event.splits)

lemma no_call_simps [simp]:
  "no_call (Console m)" "no_call (Line m)" "no_call (Slept d)" "no_call ClockSync" "no_call (TraceBytes p w)" "no_call (Deflated p)"
  by (simp_all add: no_call_def)

lemma col_update [simp]:
  "col_mode e (s\<lparr>cm_kernel := k\<rparr>) = col_mode e s" "legal e (s\<lparr>cm_kernel := k\<rparr>) = legal e s"
  "col_mode e (s\<lparr>cm_event := v\<rparr>) = col_mode e s" "legal e (s\<lparr>cm_event := v\<rparr>) = legal e s"
  "col_mode e (ConsoleLog m s) = col_mode e s" "legal e (ConsoleLog m s) = legal e s"
  "col_mode e (error_code m r s) = col_mode e s" "legal e (error_code m r s) = legal e s"
  "col_mode e (set_opt m s) = col_mode e s" "legal e (set_opt m s) = legal e s"
  "col_mode e (sleep_for e' d s) = col_mode e s" "legal e (sleep_for e' d s) = legal e s"
  "col_mode e (event_error c m s) = col_mode e s" "legal e (event_error c m s) = legal e s"
  "col_mode e (warn_output s) = col_mode e s" "legal e (warn_output s) = legal e s"
  by (simp_all add: ConsoleLog_def error_code_def set_opt_def sleep_for_def event_error_def warn_output_def)
    (simp_all add: col_mode_def legal_def)

lemma col_print [simp]: "col_mode e (print_files fs s) = col_mode e s" "legal e (print_files fs s) = legal e s"
  by (induction fs arbitrary: s) (simp_all add: print_files_def)

lemma col_stop [simp]: "col_mode e (StopTrace e' s) = col_mode e s" "legal e (StopTrace e' s) = legal e s"
  by (auto simp: StopTrace_def SetFtraceEnabled_def cmd_WriteStrToFile_def SetTraceTagsEnabled_def prod.case_eq_if split: option.splits)

lemma col_dump [simp]:
  "col_mode e (DumpKernelTraceToOutput e' s) = col_mode e s" "legal e (DumpKernelTraceToOutput e' s) = legal e s"
  by (auto simp: DumpKernelTraceToOutput_def Let_def prod.case_eq_if)

lemma col_reload [simp]:
  "col_mode e (snd (ReloadTraceArgs ts p s)) = col_mode e s" "legal e (snd (ReloadTraceArgs ts p s)) = legal e s"
  by (auto simp: ReloadTraceArgs_def Let_def prod.case_eq_if)

text \<open>A call.\<close>

lemma col_collect:
  assumes "collect e c s = (r, s')"
  shows "col_mode e s' = (if refused e r then col_mode e s else col_next c (col_mode e s))"
    "legal e s' \<longleftrightarrow> legal e s \<and> col_allowed c (col_mode e s)"
  using assms by (auto simp: collect_def Let_def emit_def col_mode_def legal_def)

definition closes :: "cmd_env \<Rightarrow> bool" where
  "closes e \<longleftrightarrow> (\<forall>h. \<not> refused e (col_answer (ce_collector e) h ColClose))"

lemma close_not_refused [simp]: "closes e \<Longrightarrow> \<not> refused e (fst (collect e ColClose s))"
  by (simp add: closes_def collect_def Let_def)

lemma col_call:
  "col_mode e (snd (collect e c s)) = (if refused e (fst (collect e c s)) then col_mode e s else col_next c (col_mode e s))"
  "legal e (snd (collect e c s)) \<longleftrightarrow> legal e s \<and> col_allowed c (col_mode e s)"
  using col_collect [of e c s "fst (collect e c s)" "snd (collect e c s)"] by simp_all

lemmas col_rules = col_call col_next_def col_allowed_def Let_def prod.case_eq_if

section \<open>The recordings\<close>

lemma short_raw_protocol:
  assumes "closes e" "legal e s" "col_mode e s = ColClosed"
  shows "legal e (snd (HandleRecordingShortRaw e s)) \<and> col_mode e (snd (HandleRecordingShortRaw e s)) = ColClosed"
  using assms by (auto simp: HandleRecordingShortRaw_def col_rules)

lemma short_text_protocol:
  assumes "closes e" "legal e s" "col_mode e s = ColClosed"
  shows "legal e (snd (HandleRecordingShortText e s)) \<and> col_mode e (snd (HandleRecordingShortText e s)) = ColClosed"
  using assms by (auto simp: HandleRecordingShortText_def col_rules)

lemma long_begin_protocol:
  assumes "legal e s" "col_mode e s = ColClosed"
  shows "legal e (snd (HandleRecordingLongBegin e s)) \<and>
    col_mode e (snd (HandleRecordingLongBegin e s)) = (if fst (HandleRecordingLongBegin e s) then ColOpened else ColClosed)"
  using assms by (auto simp: HandleRecordingLongBegin_def col_rules)

lemma begin_record_protocol:
  assumes "closes e" "legal e s" "col_mode e s = ColClosed"
  shows "legal e (snd (HandleRecordingLongBeginRecord e s)) \<and>
    col_mode e (snd (HandleRecordingLongBeginRecord e s)) = (if fst (HandleRecordingLongBeginRecord e s) then ColRecording else ColClosed)"
  using assms by (auto simp: HandleRecordingLongBeginRecord_def col_rules)

lemma finish_record_protocol:
  assumes "closes e" "legal e s" "col_mode e s = ColRecording"
  shows "legal e (snd (HandleRecordingLongFinishRecord e s)) \<and>
    col_mode e (snd (HandleRecordingLongFinishRecord e s)) = (if fst (HandleRecordingLongFinishRecord e s) then ColClosed else ColRecording)"
  using assms by (auto simp: HandleRecordingLongFinishRecord_def col_rules)

text \<open>C8: A recording closes what it opened. If the collector does not refuse to close, then from a closed collector the short
  recordings, as raw trace and as text, only make calls that its protocol allows and leave it closed, whichever
  of the other calls is refused; the start of a long recording leaves it recording if it reports success and
  closed if it reports failure; the end of a long recording leaves it closed if it reports success, and still recording if not.\<close>

theorem recordings_close_what_they_open:
  assumes "closes e" "legal e s"
  shows "(col_mode e s = ColClosed \<longrightarrow>
            legal e (snd (HandleRecordingShortRaw e s)) \<and> col_mode e (snd (HandleRecordingShortRaw e s)) = ColClosed \<and>
            legal e (snd (HandleRecordingShortText e s)) \<and> col_mode e (snd (HandleRecordingShortText e s)) = ColClosed \<and>
            legal e (snd (HandleRecordingLongBeginRecord e s)) \<and>
            col_mode e (snd (HandleRecordingLongBeginRecord e s)) =
              (if fst (HandleRecordingLongBeginRecord e s) then ColRecording else ColClosed)) \<and>
         (col_mode e s = ColRecording \<longrightarrow>
            legal e (snd (HandleRecordingLongFinishRecord e s)) \<and>
            col_mode e (snd (HandleRecordingLongFinishRecord e s)) =
              (if fst (HandleRecordingLongFinishRecord e s) then ColClosed else ColRecording))"
  using short_raw_protocol short_text_protocol begin_record_protocol finish_record_protocol assms by metis

theorem recordings_close_what_they_open_witness:
  "closes sample_cmd_env \<and> \<not> fst (HandleRecordingShortRaw sample_cmd_env sample_cmd) \<and>
   col_mode sample_cmd_env (snd (HandleRecordingShortRaw sample_cmd_env sample_cmd)) = ColClosed \<and>
   legal sample_cmd_env (snd (HandleRecordingShortRaw sample_cmd_env sample_cmd))"
proof -
  have c: "closes sample_cmd_env"
    by (simp add: closes_def refused_def sample_cmd_env_def sample_collector_def)
  have l: "legal sample_cmd_env sample_cmd" by (simp add: legal_def sample_cmd_def)
  have m: "col_mode sample_cmd_env sample_cmd = ColClosed" by (simp add: col_mode_def sample_cmd_def)
  have f: "\<not> fst (HandleRecordingShortRaw sample_cmd_env sample_cmd)" by code_simp
  from recordings_close_what_they_open [OF c l] m c f show ?thesis by simp
qed

section \<open>The copy of the trace\<close>

text \<open>When every block is written as a whole, the bytes before the end or the first error of the trace arrive.\<close>

fun read_all :: "(bytes option \<times> int) list \<Rightarrow> bytes" where
  "read_all [] = []"
| "read_all ((r, n) # rounds) = (case r of None \<Rightarrow> [] | Some b \<Rightarrow> if b = [] then [] else b @ read_all rounds)"

definition whole_writes :: "(bytes option \<times> int) list \<Rightarrow> bool" where
  "whole_writes rounds = list_all (\<lambda>(r, n). \<forall>b. r = Some b \<longrightarrow> n = int (length b)) rounds"

lemma int32_of_small: "0 \<le> x \<Longrightarrow> x < 2 ^ 31 \<Longrightarrow> int32_of x = x"
  by (simp add: int32_of_def sint_word_ariths signed_of_int signed_take_bit_int_eq_self)

lemma copy_trace_whole:
  "whole_writes rounds \<Longrightarrow> 0 \<le> sz \<Longrightarrow> sz + int (length (read_all rounds)) < 2 ^ 31 \<Longrightarrow>
   copy_trace rounds sz w = (sz + int (length (read_all rounds)), w @ read_all rounds)"
proof (induction rounds arbitrary: sz w)
  case (Cons rn rounds)
  obtain r n where rn: "rn = (r, n)" by fastforce
  show ?case
  proof (cases r)
    case (Some b)
    with Cons.prems rn Cons.IH [of "sz + n" "w @ b"] show ?thesis
      by (auto simp: whole_writes_def int32_of_small)
  qed (use rn in simp)
qed simp

end
