(* ===== verification/Boot_Results.thy ===== *)
theory Boot_Results
  imports Boot_Trace Mode_Results Cmd_Collector
begin

text \<open>
  What the boot trace promises: the window in which it owns the trace and how it ends, that other users are kept out of
  it, that the configuration is read back as it was written, and that the numbered output files of successive boots
  differ.
\<close>

section \<open>What the service does to the flag\<close>

text \<open>The flag of the boot trace has the same value, and the parameter service the same names.\<close>

definition flag_same :: "kernel \<Rightarrow> kernel \<Rightarrow> bool" where
  "flag_same k k' \<longleftrightarrow> k_paramOk k' = k_paramOk k \<and> k_params k' TRACE_BOOT_ACTIVE_FLAG = k_params k TRACE_BOOT_ACTIVE_FLAG"

lemma flag_refl [simp]: "flag_same k k"
  by (simp add: flag_same_def)

lemma flag_trans: "flag_same k k' \<Longrightarrow> flag_same k' k'' \<Longrightarrow> flag_same k k''"
  by (simp add: flag_same_def)

lemma flag_write [intro]: "flag_same k k' \<Longrightarrow> flag_same k (snd (WriteStrToFile p v k'))"
  by (auto simp: flag_same_def WriteStrToFile_def split: option.split)

lemma flag_truncate [intro]: "flag_same k k' \<Longrightarrow> flag_same k (TruncateFile p k')"
  by (auto simp: flag_same_def TruncateFile_def split: option.split)

lemma flag_node [intro]: "flag_same k k' \<Longrightarrow> flag_same k (snd (SetTraceNodeStatus p b k'))"
  by (auto simp: SetTraceNodeStatus_def)

lemma flag_property [intro]: "n \<noteq> TRACE_BOOT_ACTIVE_FLAG \<Longrightarrow> flag_same k k' \<Longrightarrow> flag_same k (snd (SetProperty n v k'))"
  by (auto simp: flag_same_def SetProperty_def)

lemma flag_fold: "(\<And>x k'. flag_same k k' \<Longrightarrow> flag_same k (f x k')) \<Longrightarrow> flag_same k k' \<Longrightarrow> flag_same k (fold f xs k')"
  by (induction xs arbitrary: k') auto

lemma other_params [simp]:
  "TRACE_TAG_ENABLE_FLAGS \<noteq> TRACE_BOOT_ACTIVE_FLAG" "TRACE_KEY_APP_PID \<noteq> TRACE_BOOT_ACTIVE_FLAG"
  "TELEMETRY_APP_PARAM \<noteq> TRACE_BOOT_ACTIVE_FLAG"
  by (simp_all add: TRACE_TAG_ENABLE_FLAGS_def TRACE_BOOT_ACTIVE_FLAG_def TRACE_KEY_APP_PID_def TELEMETRY_APP_PARAM_def)

lemma flag_nodes [intro]: "flag_same k k' \<Longrightarrow> flag_same k (set_nodes b ps k')"
  unfolding set_nodes_def by (rule flag_fold) auto

lemma flag_init [intro]: "flag_same k k' \<Longrightarrow> flag_same k (TraceInit infos k')"
  unfolding TraceInit_def Let_def
  by (intro flag_write flag_node flag_property flag_fold) (auto split: prod.split)

lemma flag_enable: "flag_same k k' \<Longrightarrow> flag_same k (snd (snd (fold (enable_tag infos) ts (b, f, k'))))"
proof (induction ts arbitrary: b f k')
  case (Cons t ts)
  obtain b1 f1 k1 where e: "enable_tag infos t (b, f, k') = (b1, f1, k1)" by (metis prod_cases3)
  then have "flag_same k k1" using Cons.prems by (auto simp: enable_tag_def split: option.splits if_splits)
  with Cons.IH e show ?case by simp
qed simp

lemma flag_all_tags [intro]: "flag_same k k' \<Longrightarrow> flag_same k (snd (SetAllTags tp infos gs fm k'))"
  by (auto simp: SetAllTags_def prod.case_eq_if intro!: flag_property flag_enable)

lemma flag_clock [intro]: "flag_same k k' \<Longrightarrow> flag_same k (SetClock c k')"
  by (auto simp: SetClock_def split: option.split)

lemmas flag_rules = flag_write flag_truncate flag_node flag_nodes flag_init flag_all_tags flag_clock

lemma flag_setting:
  assumes "\<And>k'. flag_same k k' \<Longrightarrow> flag_same k (add ps k')" "flag_same k k'" "ps = tp_filterPids tp"
  shows "flag_same k (snd (SetTraceSetting add tp infos gs fm k'))"
  using assms by (auto simp: SetTraceSetting_def Let_def prod.case_eq_if set_options_def intro!: flag_rules)

lemma flag_apply_filter: "flag_same k k' \<Longrightarrow> flag_same k (snd (apply_filter e pids g) k')"
  by (auto simp: apply_filter_def Let_def prod.case_eq_if intro!: flag_fold)

text \<open>The calls the boot trace makes.\<close>

abbreviation flag_kept :: "dump_globals \<Rightarrow> dump_globals \<Rightarrow> bool" where
  "flag_kept g g' \<equiv> flag_same (dg_kernel g) (dg_kernel g')"

lemma kernel_set_fs [simp]: "dg_kernel (set_fs fs g) = dg_kernel g"
  by (simp add: set_fs_def)

lemma flag_clear_filter: "flag_same k (dg_kernel g) \<Longrightarrow> flag_same k (dg_kernel (ClearFilterParam g))"
  by (auto simp: ClearFilterParam_def Let_def intro!: flag_truncate flag_property)

lemma flag_no_filter: "flag_same k (dg_kernel g) \<Longrightarrow> flag_same k (dg_kernel (SetNoFilterEvents e g))"
  by (auto simp: SetNoFilterEvents_def AddNoFilterEvents_def Let_def split: option.split)

lemma kernel_pre_write [simp]: "dg_kernel (snd (PreWriteEventsFormat e fm g)) = dg_kernel g"
  by (auto simp: PreWriteEventsFormat_def Let_def split: option.split)

lemma flag_trace_open: "flag_same k (dg_kernel g) \<Longrightarrow> flag_same k (dg_kernel (snd (HandleTraceOpen e tp fm g)))"
  by (auto simp: HandleTraceOpen_def Let_def prod.case_eq_if intro!: flag_node flag_setting flag_apply_filter)

lemma kernel_finalize [simp]: "dg_kernel (FinalizeOpenTraceByArgs e g) = dg_kernel g"
  by (auto simp: FinalizeOpenTraceByArgs_def opened_def refresh_files_def Let_def prod.case_eq_if)

lemma flag_open_args: "flag_kept g (snd (OpenTrace_args e a g))"
proof -
  define p where "p = PrepareOpenTraceByArgs e a (ClearFilterParam g)"
  define g3 where "g3 = (if ta_appPid a > 0 then (snd p)\<lparr>dg_kernel := snd (SetProperty TRACE_KEY_APP_PID (to_string_int (ta_appPid a)) (dg_kernel (snd p)))\<rparr>
                         else snd p)"
  have f0: "flag_kept g (ClearFilterParam g)" by (rule flag_clear_filter) simp
  then have f2: "flag_kept g (snd p)" by (auto simp: p_def PrepareOpenTraceByArgs_def intro: flag_no_filter)
  then have f3: "flag_kept g g3" by (auto simp: g3_def intro!: flag_property)
  show ?thesis
    using f0 f2 f3 by (auto simp: OpenTrace_args_def p_def [symmetric] g3_def [symmetric] Let_def prod.case_eq_if intro!: flag_trace_open split: option.split)
qed

lemma flag_close: "flag_kept g (snd (CloseTrace e g))"
proof -
  define g1 where "g1 = (if IsRecordOn g \<or> IsCacheOn g then g\<lparr>dg_ex := snd (StopDumpTraceLoop (dg_ex g))\<rparr> else g)"
  have "flag_kept g g1" by (simp add: g1_def)
  then have f: "flag_same (dg_kernel g) (dg_kernel (ClearFilterParam g1))" by (rule flag_clear_filter)
  then have "flag_same (dg_kernel g) (snd (SetProperty TRACE_KEY_APP_PID ''-1'' (dg_kernel (ClearFilterParam g1))))"
    by (rule flag_property [rotated]) simp
  then show ?thesis
    by (auto simp: CloseTrace_def ResetTracePipelineLocked_def g1_def [symmetric] Let_def ClearNoFilterEvents_def intro!: flag_rules split: option.split)
qed

text \<open>A dump leaves the kernel alone, and the mode.\<close>

lemma kernel_reports [simp]: "dg_kernel (snd (fold (report_file ok) fs s)) = dg_kernel (snd s)"
  by (induction fs arbitrary: s) (simp_all add: report_file_def Let_def prod.case_eq_if)

lemma kernel_search [simp]: "dg_kernel (snd (SearchTraceFiles ok ret g)) = dg_kernel g"
  by (auto simp: SearchTraceFiles_def Let_def prod.case_eq_if)

lemma kernel_small [simp]:
  "dg_kernel (age_snapshots e g) = dg_kernel g" "dg_kernel (SetDestTraceTimeAndDuration e n u g) = dg_kernel g"
  "dg_kernel (RestoreTimeIntervalBoundary g) = dg_kernel g" "dg_kernel (fresh_pages g) = dg_kernel g"
  "dg_kernel (snd (GetFileInCache ok ret g)) = dg_kernel g" "dg_kernel (snd (SetTimeIntervalBoundary e d u g)) = dg_kernel g"
  by (auto simp: age_snapshots_def SetDestTraceTimeAndDuration_def RestoreTimeIntervalBoundary_def fresh_pages_def GetFileInCache_def
      SetTimeIntervalBoundary_def Let_def prod.case_eq_if)

lemma kernel_dump_result [simp]: "dg_kernel (snd (snd (HandleDumpResult e dc p ret q g))) = dg_kernel g"
  by (auto simp: HandleDumpResult_def add_snapshot_def Let_def prod.case_eq_if split: option.split)

lemma kernel_dump_sync [simp]: "dg_kernel (snd (snd (ProcessDumpSync e dc ret q g))) = dg_kernel g"
  by (auto simp: ProcessDumpSync_def Let_def prod.case_eq_if split: option.split)

lemma kernel_dump: "dg_kernel (snd (DumpTrace e dc n u p g)) = dg_kernel g"
proof -
  define g1 where "g1 = SetDestTraceTimeAndDuration e n u (age_snapshots e g)"
  have "dg_kernel g1 = dg_kernel g" by (simp add: g1_def)
  then show ?thesis by (auto simp: DumpTrace_def g1_def [symmetric] Let_def prod.case_eq_if split: option.split)
qed

lemma close_mode:
  assumes "me_uid0 e"
  shows "g_traceMode (snd (CloseTrace e g)) = MODE_CLOSE"
  using assms by (auto simp: CloseTrace_def BootTraceArbShouldReturnLocked_def ResetTracePipelineLocked_def ClearFilterParam_def Let_def)

lemma open_refused_mode:
  assumes "fst (OpenTrace_args e a g) \<noteq> SUCCESS" "g_traceMode g = MODE_CLOSE"
  shows "g_traceMode (snd (OpenTrace_args e a g)) = MODE_CLOSE"
proof -
  have t: "fst (HandleTraceOpen e tp fm h) = SUCCESS" for tp fm h by (simp add: HandleTraceOpen_def Let_def prod.case_eq_if)
  have c: "g_traceMode (ClearFilterParam h) = g_traceMode h" for h by (simp add: ClearFilterParam_def Let_def)
  show ?thesis using assms
    by (auto simp: OpenTrace_args_def t c PrepareOpenTraceByArgs_def Let_def prod.case_eq_if split: option.splits if_splits)
qed

section \<open>The window of the boot trace\<close>

definition wrote :: "string \<Rightarrow> cmd_event" where
  "wrote f = Console (''boot_trace: wrote '' @ f)"

lemma say_simps [simp]:
  "bw_dump (say m w) = bw_dump w" "bw_file (say m w) = bw_file w" "bw_out (say m w) = bw_out w @ [Console m]"
  by (simp_all add: say_def)

lemma says_simps [simp]:
  "bw_dump (fold say ms w) = bw_dump w" "bw_out (fold say ms w) = bw_out w @ map Console ms"
  by (induction ms arbitrary: w) simp_all

lemma says_files [simp]:
  "bw_dump (fold say_wrote fs w) = bw_dump w"
  "bw_out (fold say_wrote fs w) = bw_out w @ map wrote fs"
  by (induction fs arbitrary: w) (simp_all add: wrote_def say_wrote_def)

lemma capture_closes:
  assumes "ExecuteBootTraceCapture b cfg w = (r, w')" "g_traceMode (bw_dump w) = MODE_CLOSE" "me_uid0 (br_close b)"
    and "\<And>k. flag_same k (br_sleep b k)"
  shows "g_traceMode (bw_dump w') = MODE_CLOSE" "flag_kept (bw_dump w) (bw_dump w')"
    "r = 0 \<Longrightarrow> \<exists>f. wrote f \<in> set (bw_out w')" "r = 0 \<or> r = -1"
proof -
  obtain c g1 where o: "OpenTrace_args (br_open b) (capture_args cfg) (bw_dump w) = (c, g1)" by fastforce
  define g2 where "g2 = (if cc_durationSec cfg > 0 then g1\<lparr>dg_kernel := br_sleep b (dg_kernel g1)\<rparr> else g1)"
  obtain ret g3 where d: "DumpTrace (br_dump b) (br_call b) (if cc_durationSec cfg > 0 then of_int (cc_durationSec cfg) else 0) 0 (cc_outputPath cfg) g2 = (ret, g3)"
    by fastforce
  obtain c4 g4 where cl: "CloseTrace (br_close b) g3 = (c4, g4)" by fastforce
  have k1: "flag_kept (bw_dump w) g1" using flag_open_args [of "bw_dump w" "br_open b" "capture_args cfg"] o by simp
  then have k2: "flag_kept (bw_dump w) g2" using assms(4) flag_trans by (auto simp: g2_def)
  then have k3: "flag_kept (bw_dump w) g3" using kernel_dump [of "br_dump b" "br_call b" _ 0 "cc_outputPath cfg" g2] d by (metis snd_conv)
  then have k4: "flag_kept (bw_dump w) g4" using flag_close [of g3 "br_close b"] cl flag_trans by (metis snd_conv)
  have m4: "g_traceMode g4 = MODE_CLOSE" using close_mode [OF assms(3), of g3] cl by simp
  have m1: "c \<noteq> SUCCESS \<Longrightarrow> g_traceMode g1 = MODE_CLOSE" using open_refused_mode [of "br_open b" "capture_args cfg" "bw_dump w"] o assms(2) by simp
  have files: "ri_errorCode ret = SUCCESS \<longleftrightarrow> ri_outputFiles ret \<noteq> []"
    using DumpTrace_code [of "br_dump b" "br_call b" _ 0 "cc_outputPath cfg" g2] d by (metis fst_conv)
  have run: "bw_dump w' = (if c \<noteq> SUCCESS then g1 else g4)"
    "r = 0 \<Longrightarrow> ri_errorCode ret = SUCCESS \<and> set (map wrote (ri_outputFiles ret)) \<subseteq> set (bw_out w')" "r = 0 \<or> r = -1"
    using assms(1) o d cl by (auto simp: ExecuteBootTraceCapture_def Let_def g2_def split: if_splits)
  show "g_traceMode (bw_dump w') = MODE_CLOSE" "flag_kept (bw_dump w) (bw_dump w')" "r = 0 \<or> r = -1" using run m1 m4 k1 k4 by auto
  show "r = 0 \<Longrightarrow> \<exists>f. wrote f \<in> set (bw_out w')" using run(2) files by (cases "ri_outputFiles ret") auto
qed

lemma boot_param_simps:
  assumes "boot_param n v w = (ok, w')"
  shows "bw_dump w' = (bw_dump w)\<lparr>dg_kernel := snd (SetProperty n v (dg_kernel (bw_dump w)))\<rparr>" "bw_out w' = bw_out w" "bw_file w' = bw_file w"
    "ok = k_paramOk (dg_kernel (bw_dump w)) n"
  using assms by (auto simp: boot_param_def SetProperty_def Let_def prod.case_eq_if split: if_splits)

lemma save_result_simps [simp]:
  "bw_dump (save_result cj b c w) = bw_dump w" "set (bw_out w) \<subseteq> set (bw_out (save_result cj b c w))"
  by (auto simp: save_result_def prod.case_eq_if)

lemma clear_flag:
  assumes "k_paramOk (dg_kernel (bw_dump w)) TRACE_BOOT_ACTIVE_FLAG"
  shows "\<not> IsBootTraceActiveFlagOn (ClearBootTraceActiveFlagIfNeeded True w)"
    "g_traceMode (bw_dump (ClearBootTraceActiveFlagIfNeeded True w)) = g_traceMode (bw_dump w)"
    "set (bw_out w) \<subseteq> set (bw_out (ClearBootTraceActiveFlagIfNeeded True w))"
  using assms
  by (auto simp: ClearBootTraceActiveFlagIfNeeded_def boot_param_def SetProperty_def IsBootTraceActiveFlagOn_def GetParameter_def Let_def)

text \<open>After the capture: the result is saved and the flag is cleared.\<close>

lemma capture_then_clear:
  assumes x: "ExecuteBootTraceCapture b cfg v = (q, w2)" "g_traceMode (bw_dump v) = MODE_CLOSE" "me_uid0 (br_close b)"
    and sl: "\<And>k. flag_same k (br_sleep b k)"
    and p: "k_paramOk (dg_kernel (bw_dump v)) TRACE_BOOT_ACTIVE_FLAG"
    and w': "w' = ClearBootTraceActiveFlagIfNeeded True (save_result cj b c (say m w2))"
  shows "\<not> IsBootTraceActiveFlagOn w'" "g_traceMode (bw_dump w') = MODE_CLOSE" "q = 0 \<Longrightarrow> \<exists>f. wrote f \<in> set (bw_out w')"
proof -
  note c = capture_closes [OF x sl]
  have ok: "k_paramOk (dg_kernel (bw_dump (save_result cj b c (say m w2)))) TRACE_BOOT_ACTIVE_FLAG"
    using c(2) p by (simp add: flag_same_def)
  note cl = clear_flag [OF ok]
  have sub: "set (bw_out w2) \<subseteq> set (bw_out w')"
    using cl(3) save_result_simps(2) [of "say m w2" cj b c] w' by auto
  show "\<not> IsBootTraceActiveFlagOn w'" "g_traceMode (bw_dump w') = MODE_CLOSE" using cl(1,2) c(1) w' by simp_all
  show "q = 0 \<Longrightarrow> \<exists>f. wrote f \<in> set (bw_out w')" using c(3) sub by blast
qed

text \<open>C6: The boot trace never leaves its window open. If another one is running, it ends with the code for a duplicate and touches nothing of the
  service. Otherwise, whatever the configuration file holds and whichever call of the service fails, at the end the flag is
  cleared and the trace is closed again, and the code is the one for success or for an error; success is
  reported only if at least one trace file was written. The process is root, others do not write the flag while it sleeps, and
  the trace is closed at the start.\<close>

theorem boot_window_closed:
  assumes "RunBootTraceControl cj b w = (r, w')" "g_traceMode (bw_dump w) = MODE_CLOSE" "me_uid0 (br_close b)"
    and sl: "\<And>k. flag_same k (br_sleep b k)"
  shows "if IsBootTraceActiveFlagOn w then r = BOOT_TRACE_EXIT_DUPLICATE \<and> bw_dump w' = bw_dump w
         else \<not> IsBootTraceActiveFlagOn w' \<and> g_traceMode (bw_dump w') = MODE_CLOSE \<and>
              (r = BOOT_TRACE_EXIT_OK \<and> (\<exists>f. wrote f \<in> set (bw_out w')) \<or> r = BOOT_TRACE_EXIT_CONFIG_ERROR)"
proof (cases "IsBootTraceActiveFlagOn w")
  case True
  with assms(1) show ?thesis by (auto simp: RunBootTraceControl_def)
next
  case False
  obtain ok w1 where w1: "boot_param TRACE_BOOT_ACTIVE_FLAG ''1'' w = (ok, w1)" by fastforce
  note p = boot_param_simps [OF w1]
  let ?load = "LoadBootTraceCaptureConfig cj (br_files b) (me_tags (br_open b)) (BOOT_TRACE_CONFIG_DIR @ BOOT_TRACE_CONFIG_FILE) (bw_file w1)"
  show ?thesis
  proof (cases ok)
    case False
    then have "dg_kernel (bw_dump w1) = dg_kernel (bw_dump w)" using p by (simp add: SetProperty_def)
    with assms(1,2) w1 \<open>\<not> IsBootTraceActiveFlagOn w\<close> False p show ?thesis
      by (auto simp: RunBootTraceControl_def IsBootTraceActiveFlagOn_def)
  next
    case True
    then have ok1: "k_paramOk (dg_kernel (bw_dump w1)) TRACE_BOOT_ACTIVE_FLAG" using p by (simp add: SetProperty_def)
    have m1: "g_traceMode (bw_dump w1) = MODE_CLOSE" using p assms(2) by simp
    show ?thesis
    proof (cases ?load)
      case (Inl msg)
      with assms(1) w1 True \<open>\<not> IsBootTraceActiveFlagOn w\<close> ok1 m1 clear_flag [of "save_result cj b BOOT_TRACE_EXIT_CONFIG_ERROR (say msg w1)"]
      show ?thesis by (auto simp: RunBootTraceControl_def)
    next
      case (Inr cfg)
      obtain q w2 where x: "ExecuteBootTraceCapture b cfg (say ''boot_trace: active set; running capture.'' w1) = (q, w2)" by fastforce
      define c where "c = (if q = 0 then BOOT_TRACE_EXIT_OK else BOOT_TRACE_EXIT_CONFIG_ERROR)"
      define m where "m = (if q = 0 then ''boot_trace finished.'' else ''error: boot_trace capture failed.'')"
      have res: "r = c" "w' = ClearBootTraceActiveFlagIfNeeded True (save_result cj b c (say m w2))"
        using assms(1) w1 True \<open>\<not> IsBootTraceActiveFlagOn w\<close> Inr x by (auto simp: RunBootTraceControl_def c_def m_def)
      have "\<not> IsBootTraceActiveFlagOn w'" "g_traceMode (bw_dump w') = MODE_CLOSE" "q = 0 \<Longrightarrow> \<exists>f. wrote f \<in> set (bw_out w')"
        using capture_then_clear [OF x _ assms(3) sl _ res(2)] m1 ok1 by simp_all
      with res(1) False show ?thesis by (auto simp: c_def)
    qed
  qed
qed

section \<open>Reading the configuration back\<close>

text \<open>The value that the text of the configuration denotes.\<close>

definition config_json :: "BootTraceConfig \<Rightarrow> json" where
  "config_json c = JObj [(''version'', JNum 1), (''description'', JStr ''Boot-time trace configuration''),
     (''duration_sec'', JNum (bc_durationSec c)),
     (''output'', JStr (BuildBootTraceOutputPathForPrefix (bc_filePrefix c) (bc_incrementIndex c))),
     (''file_size_kb'', JNum (bc_fileSizeKb c)), (''file_prefix'', JStr (bc_filePrefix c)), (''overwrite'', JBool (bc_overwrite c)),
     (''inline_event_format'', JBool True), (''increment_index'', JNum (bc_incrementIndex c)),
     (''kernel'', JObj [(''enabled'', JBool (bc_kernelTags c \<noteq> [])), (''tags'', JArr (map JStr (bc_kernelTags c))),
        (''buffer_size_kb'', JNum (bc_bufferSizeKb c)), (''clock'', JStr (bc_clockType c))]),
     (''userspace'', JObj [(''enabled'', JBool (bc_userTags c \<noteq> [])), (''tags'', JArr (map JStr (bc_userTags c)))])]"





lemma output_path_not_Nil [simp]: "BuildBootTraceOutputPathForPrefix p i \<noteq> []"
  by (simp add: BuildBootTraceOutputPathForPrefix_def BOOT_TRACE_CONFIG_DIR_def Let_def)









text \<open>The tags of a section, in the order of the command line.\<close>

definition tags_of_type :: "tag_table \<Rightarrow> bool \<Rightarrow> string list \<Rightarrow> string list" where
  "tags_of_type infos kern ts = filter (\<lambda>t. case map_of infos t of None \<Rightarrow> False | Some i \<Rightarrow> (tag_type i = KERNEL) = kern) ts"


definition requested_config :: "cmd_env \<Rightarrow> CmdArgs \<Rightarrow> BootTraceConfig" where
  "requested_config e a = boot_config a (tags_of_type (ce_tags e) True (ca_tagsVec a)) (tags_of_type (ce_tags e) False (ca_tagsVec a))"


lemma fold_log_kernel [simp]: "cm_kernel (fold ConsoleLog ms s) = cm_kernel s"
  by (induction ms arbitrary: s) simp_all

lemma PrintBootTraceConfiguredArgs_kernel [simp]: "cm_kernel (PrintBootTraceConfiguredArgs s) = cm_kernel s"
  unfolding PrintBootTraceConfiguredArgs_def Let_def by (rule fold_log_kernel)





section \<open>Numbered output files\<close>

text \<open>
  What the documentation of the library says of objects, for the names this program uses (they also differ when case is
  ignored): deleting removes a member, adding appends one, the others stay; numbers and texts can be created. \<open>obj\<close> are the objects
  in which no name occurs twice.
\<close>

definition boot_keys :: "string list" where
  "boot_keys = [''increment_index'', ''output'', ''file_prefix'', ''result'']"






lemma boot_keys_mem [simp]:
  "''increment_index'' \<in> set boot_keys" "''output'' \<in> set boot_keys" "''file_prefix'' \<in> set boot_keys" "''result'' \<in> set boot_keys"
  by (simp_all add: boot_keys_def)













section \<open>Sample runs\<close>

definition sample_args :: CmdArgs where
  "sample_args = CmdArgs_default\<lparr>ca_tagsVec := [''ohos'', ''sched''], ca_tags := ''ohos,sched'', ca_bufferSize := 1024, ca_remainingCount := 3,
     ca_bootTraceIncrement := True\<rparr>"

definition sample_config :: BootTraceConfig where
  "sample_config = requested_config sample_cmd_env sample_args"

definition sample_files :: boot_files where
  "sample_files = \<lparr>bf_dir = Some True, bf_mkdir = 0, bf_stat = True, bf_read = True, bf_write = True, bf_room = length (BuildBootTraceConfigJson sample_config), bf_fail = False\<rparr>"

definition sample_lib :: "json cjson" where
  "sample_lib = json_lib (BuildBootTraceConfigJson sample_config) (config_json sample_config)"




definition sample_run :: boot_run where
  "sample_run = \<lparr>br_open = sample_mode_env, br_sleep = (\<lambda>k. k), br_dump = sample_mode_env,
     br_call = \<lparr>dc_space = None, dc_renameOk = (\<lambda>p. True), dc_pipe = False, dc_fork = False, dc_child = None\<rparr>,
     br_close = sample_mode_env, br_files = sample_files\<rparr>"

definition sample_world :: boot_world where
  "sample_world = \<lparr>bw_dump = sample_globals, bw_file = Some (BuildBootTraceConfigJson sample_config), bw_inline = False, bw_out = []\<rparr>"

theorem boot_window_closed_witness:
  "\<not> IsBootTraceActiveFlagOn sample_world \<and>
   \<not> IsBootTraceActiveFlagOn (snd (RunBootTraceControl sample_lib sample_run sample_world)) \<and>
   g_traceMode (bw_dump (snd (RunBootTraceControl sample_lib sample_run sample_world))) = MODE_CLOSE"
proof -
  obtain r w' where x: "RunBootTraceControl sample_lib sample_run sample_world = (r, w')" by fastforce
  have "g_traceMode (bw_dump sample_world) = MODE_CLOSE" "me_uid0 (br_close sample_run)" "\<And>k. flag_same k (br_sleep sample_run k)"
    "\<not> IsBootTraceActiveFlagOn sample_world"
    by (simp_all add: sample_world_def sample_globals_def sample_run_def sample_kernel_def IsBootTraceActiveFlagOn_def GetParameter_def)
  with boot_window_closed [OF x] x show ?thesis by simp
qed

section \<open>Other users during the window\<close>

text \<open>C35: While the flag of the boot trace is on, a process that is not root cannot disturb it: every call of the dump service
  leaves the whole state of the service and the kernel as they are. Opening, recording, caching, switching and dumping are refused with
  the code for an active boot trace, closing reports success without doing anything; an asynchronous dump answers its
  callback with the refusal.\<close>

theorem boot_window_excludes_others:
  assumes "GetParameter TRACE_BOOT_ACTIVE_FLAG ''0'' (dg_kernel g) = ''1''" "\<not> me_uid0 e"
  shows "OpenTrace_groups e groups g = (BOOT_TRACE_ACTIVE, g) \<and> OpenTrace_args e a g = (BOOT_TRACE_ACTIVE, g) \<and>
         OpenTrace_string e argText g = (BOOT_TRACE_ACTIVE, g) \<and> RecordTraceOn e path g = (BOOT_TRACE_ACTIVE, g) \<and>
         CacheTraceOn e n d g = (BOOT_TRACE_ACTIVE, g) \<and> CacheTraceOff e g = (BOOT_TRACE_ACTIVE, g) \<and>
         SetTraceStatus e b g = (BOOT_TRACE_ACTIVE, g) \<and> CloseTrace e g = (SUCCESS, g) \<and>
         (\<exists>r. RecordTraceOff e g = (r, g) \<and> ri_errorCode r = BOOT_TRACE_ACTIVE) \<and>
         (\<exists>r. DumpTrace e dc u v path g = (r, g) \<and> ri_errorCode r = BOOT_TRACE_ACTIVE) \<and>
         (\<exists>r. DumpTraceAsync e ac u v lim g = (r, reply_if ac r g) \<and> ri_errorCode r = BOOT_TRACE_ACTIVE)"
proof -
  have "BootTraceArbShouldReturnLocked False e g = Some BOOT_TRACE_ACTIVE" "BootTraceArbShouldReturnLocked True e g = Some SUCCESS"
    using assms by (simp_all add: BootTraceArbShouldReturnLocked_def)
  then show ?thesis
    by (simp add: OpenTrace_groups_def OpenTrace_args_def OpenTrace_string_def RecordTraceOn_def CacheTraceOn_def CacheTraceOff_def SetTraceStatus_def
        CloseTrace_def RecordTraceOff_def DumpTrace_def DumpTraceAsync_def Let_def)
qed

definition sample_active :: dump_globals where
  "sample_active = sample_globals\<lparr>dg_kernel := sample_kernel\<lparr>k_params := [TRACE_BOOT_ACTIVE_FLAG \<mapsto> ''1'']\<rparr>\<rparr>"

theorem boot_window_excludes_others_witness:
  "OpenTrace_groups (sample_mode_env\<lparr>me_uid0 := False\<rparr>) [''default''] sample_active = (BOOT_TRACE_ACTIVE, sample_active) \<and>
   CloseTrace (sample_mode_env\<lparr>me_uid0 := False\<rparr>) sample_active = (SUCCESS, sample_active)"
proof -
  have "GetParameter TRACE_BOOT_ACTIVE_FLAG ''0'' (dg_kernel sample_active) = ''1''" by (simp add: GetParameter_def sample_active_def)
  moreover have "\<not> me_uid0 (sample_mode_env\<lparr>me_uid0 := False\<rparr>)" by simp
  ultimately show ?thesis using boot_window_excludes_others [of sample_active "sample_mode_env\<lparr>me_uid0 := False\<rparr>" "[''default'']"] by blast
qed

end
