(* ===== verification/Symlink_Attr.thy ===== *)
theory Symlink_Attr
  imports Common_Utils
begin

text \<open>
  The link attribute of a trace file, \<^verbatim>\<open>AddSymlinkXattr\<close> and \<^verbatim>\<open>RemoveSymlinkXattr\<close> of
  \<^verbatim>\<open>interfaces/native/innerkits/src/hitrace_dump.cpp\<close>: the number of links to the file as decimal text, no
  attribute standing for no link. Ageing spares files that have it. The attributes are a map from paths to
  values; \<^verbatim>\<open>realpath\<close> and whether the file system accepts a change are arguments.
\<close>

section \<open>Operations\<close>

type_synonym attrs = "string \<rightharpoonup> string"

definition DEFAULT_XATTR_VALUE_SIZE :: nat where "DEFAULT_XATTR_VALUE_SIZE = 32"

text \<open>\<^verbatim>\<open>getxattr\<close> fails when there is no attribute and when the value does not fit the buffer.\<close>

definition getxattr :: "attrs \<Rightarrow> string \<Rightarrow> nat \<Rightarrow> string option" where
  "getxattr s p n = (case s p of None \<Rightarrow> None | Some v \<Rightarrow> if length v > n then None else Some v)"

definition c_string :: "string \<Rightarrow> string" where
  "c_string v = takeWhile (\<lambda>c. c \<noteq> char_of (0 :: nat)) v"

definition next_int :: "int \<Rightarrow> int" where
  "next_int n = sint (of_int (n + 1) :: 32 word)"

definition AddSymlinkXattr :: "(string \<Rightarrow> string option) \<Rightarrow> bool \<Rightarrow> string \<Rightarrow> attrs \<Rightarrow> bool \<times> attrs" where
  "AddSymlinkXattr realpath writable fileName s =
     (case IsTraceFilePathLegal realpath fileName PATH_MAX of None \<Rightarrow> (False, s)
      | Some p \<Rightarrow>
          (case getxattr s p DEFAULT_XATTR_VALUE_SIZE of
             None \<Rightarrow> if writable then (True, s(p \<mapsto> ''1'')) else (False, s)
           | Some v \<Rightarrow>
               if length v \<ge> DEFAULT_XATTR_VALUE_SIZE then (False, s)
               else case StringToInt (c_string v) of None \<Rightarrow> (False, s)
                 | Some n \<Rightarrow> if writable then (True, s(p \<mapsto> to_string_int (next_int n))) else (False, s)))"

definition RemoveSymlinkXattr :: "(string \<Rightarrow> string option) \<Rightarrow> bool \<Rightarrow> string \<Rightarrow> attrs \<Rightarrow> bool \<times> attrs" where
  "RemoveSymlinkXattr realpath writable fileName s =
     (case IsTraceFilePathLegal realpath fileName PATH_MAX of None \<Rightarrow> (False, s)
      | Some p \<Rightarrow>
          (case getxattr s p DEFAULT_XATTR_VALUE_SIZE of None \<Rightarrow> (False, s)
           | Some v \<Rightarrow>
               if length v \<ge> DEFAULT_XATTR_VALUE_SIZE then (False, s)
               else case StringToInt (c_string v) of None \<Rightarrow> (False, s)
                 | Some n \<Rightarrow>
                     if n = 1 then (if writable then (True, s(p := None)) else (False, s))
                     else if n > 1 then (if writable then (True, s(p \<mapsto> to_string_int (n - 1))) else (False, s))
                     else (False, s)))"

section \<open>A counter\<close>

text \<open>The attribute of a file with \<open>n\<close> links.\<close>

definition link_text :: "nat \<Rightarrow> string option" where
  "link_text n = (if n = 0 then None else Some (to_string_int (int n)))"

lemma number_text:
  assumes "n < 2 ^ 31"
  shows "StringToInt (c_string (to_string_int (int n))) = Some (int n)" "length (to_string_int (int n)) < DEFAULT_XATTR_VALUE_SIZE"
proof -
  have "c \<noteq> char_of (0 :: nat)" if "c \<in> set (dec_digits n)" for c
    using that dec_digits_digits [of n] by (auto simp: list_all_iff is_digit_def)
  then have "c_string (dec_digits n) = dec_digits n" by (simp add: c_string_def takeWhile_eq_all_conv)
  then show "StringToInt (c_string (to_string_int (int n))) = Some (int n)"
    using assms by (simp add: to_string_int_def StringToInt_def strtoll_result_def signed_value_def)
  show "length (to_string_int (int n)) < DEFAULT_XATTR_VALUE_SIZE"
    using length_dec_digits [of n 10] assms by (simp add: to_string_int_def DEFAULT_XATTR_VALUE_SIZE_def)
qed

lemma next_int_small: "n + 1 < 2 ^ 31 \<Longrightarrow> next_int (int n) = int (Suc n)"
proof -
  assume "n + 1 < 2 ^ 31"
  then have "int (Suc n) < 2 ^ 31" by simp
  then have "sint (of_int (int (Suc n)) :: 32 word) = int (Suc n)" by (simp only: signed_of_int) (simp add: signed_take_bit_int_eq_self)
  then show ?thesis by (simp add: next_int_def add.commute)
qed

lemma one_text: "to_string_int 1 = ''1''"
  by code_simp

text \<open>The counter as one step up and one step down.\<close>

locale link_counter =
  fixes path :: "string \<Rightarrow> string option" and up down :: "string \<Rightarrow> attrs \<Rightarrow> bool \<times> attrs" and limit :: nat
  assumes up: "path f = Some p \<Longrightarrow> s p = link_text n \<Longrightarrow> n + 1 < limit \<Longrightarrow> up f s = (True, s(p := link_text (n + 1)))"
    and down: "path f = Some p \<Longrightarrow> s p = link_text (n + 1) \<Longrightarrow> n + 1 < limit \<Longrightarrow> down f s = (True, s(p := link_text n))"
begin

lemma ups:
  assumes "path f = Some p" "s p = link_text n"
  shows "n + k < limit \<Longrightarrow> ((\<lambda>s. snd (up f s)) ^^ k) s = s(p := link_text (n + k))"
proof (induction k)
  case 0
  then show ?case using assms(2) by (simp add: fun_upd_idem)
next
  case (Suc k)
  have "up f (s(p := link_text (n + k))) = (True, s(p := link_text (n + k), p := link_text (n + k + 1)))"
    by (rule up [OF assms(1)]) (use Suc.prems in simp_all)
  moreover have "((\<lambda>s. snd (up f s)) ^^ k) s = s(p := link_text (n + k))" by (rule Suc.IH) (use Suc.prems in simp)
  ultimately show ?case by (simp only: funpow.simps comp_def snd_conv fun_upd_upd add_Suc_right add_0_right One_nat_def)
qed

lemma downs:
  assumes "path f = Some p"
  shows "s p = link_text (n + k) \<Longrightarrow> n + k < limit \<Longrightarrow> ((\<lambda>s. snd (down f s)) ^^ k) s = s(p := link_text n)"
proof (induction k arbitrary: s)
  case 0
  then show ?case by (simp add: fun_upd_idem)
next
  case (Suc k)
  have d: "down f s = (True, s(p := link_text (n + k)))" by (rule down [OF assms]) (use Suc.prems in simp_all)
  have "((\<lambda>s. snd (down f s)) ^^ k) (s(p := link_text (n + k))) = s(p := link_text (n + k), p := link_text n)"
    by (rule Suc.IH) (use Suc.prems in simp_all)
  then show ?case unfolding funpow_Suc_right comp_def d by simp
qed

lemma ups_downs:
  assumes "path f = Some p" "s p = link_text n" "n + k < limit"
  shows "((\<lambda>s. snd (down f s)) ^^ k) (((\<lambda>s. snd (up f s)) ^^ k) s) = s"
proof -
  have "((\<lambda>s. snd (down f s)) ^^ k) (s(p := link_text (n + k))) = s(p := link_text (n + k), p := link_text n)"
    by (rule downs [OF assms(1)]) (use assms in simp_all)
  then show ?thesis unfolding ups [where f = f and p = p and s = s and n = n and k = k, OF assms] using assms(2) by (simp add: fun_upd_idem)
qed

end

interpretation links: link_counter "\<lambda>f. IsTraceFilePathLegal realpath f PATH_MAX" "AddSymlinkXattr realpath True" "RemoveSymlinkXattr realpath True"
  "2 ^ 31" for realpath
proof
  fix f p and s :: attrs and n
  assume f: "IsTraceFilePathLegal realpath f PATH_MAX = Some p" and s: "s p = link_text n" and n: "n + 1 < (2 :: nat) ^ 31"
  show "AddSymlinkXattr realpath True f s = (True, s(p := link_text (n + 1)))"
  proof (cases "n = 0")
    case True
    then show ?thesis using s f by (simp add: AddSymlinkXattr_def getxattr_def link_text_def one_text)
  next
    case False
    then show ?thesis using s f n number_text [of n] next_int_small [of n]
      by (simp add: AddSymlinkXattr_def getxattr_def link_text_def)
  qed
next
  fix f p and s :: attrs and n
  assume f: "IsTraceFilePathLegal realpath f PATH_MAX = Some p" and s: "s p = link_text (n + 1)" and n: "n + 1 < (2 :: nat) ^ 31"
  show "RemoveSymlinkXattr realpath True f s = (True, s(p := link_text n))"
    using s f n number_text [of "n + 1"] by (auto simp: RemoveSymlinkXattr_def getxattr_def link_text_def)
qed

text \<open>The link attribute counts. For a file below the directory of the traces that has \<open>n\<close> links, adding a link
\<open>k\<close> times stores the decimal text of \<open>n + k\<close>, and removing a link \<open>k\<close> times afterwards restores every attribute, down
to its absence, as long as the count stays below the largest 32-bit integer; a removal without a link is an error
that changes nothing.\<close>

theorem link_count_roundtrip:
  assumes "IsTraceFilePathLegal realpath f PATH_MAX = Some p" "s p = link_text n" "n + k < 2 ^ 31"
  shows "((\<lambda>s. snd (AddSymlinkXattr realpath True f s)) ^^ k) s = s(p := link_text (n + k)) \<and>
    ((\<lambda>s. snd (RemoveSymlinkXattr realpath True f s)) ^^ k) (((\<lambda>s. snd (AddSymlinkXattr realpath True f s)) ^^ k) s) = s \<and>
    (n = 0 \<longrightarrow> RemoveSymlinkXattr realpath writable f s = (False, s))"
  using links.ups [where realpath = realpath and f = f and p = p and s = s and n = n and k = k, OF assms] links.ups_downs [where realpath = realpath and f = f and p = p and s = s and n = n and k = k, OF assms] assms(1,2)
  by (simp add: RemoveSymlinkXattr_def getxattr_def link_text_def)

theorem link_count_roundtrip_witness:
  "((\<lambda>s. snd (AddSymlinkXattr Some True ''/data/log/hitrace/a'' s)) ^^ 12) Map.empty = [''/data/log/hitrace/a'' \<mapsto> to_string_int 12]"
  using link_count_roundtrip [of Some "''/data/log/hitrace/a''" "''/data/log/hitrace/a''" Map.empty 0 12 True]
  by (simp add: IsTraceFilePathLegal_def TRACE_FILE_DEFAULT_DIR_def PATH_MAX_def substr_def link_text_def)

end
