(* ===== verification/Tag_Parser.thy ===== *)
theory Tag_Parser
  imports Cjson Trace_Setting File_Ageing
begin

text \<open>
  The configuration of the tracer: \<^verbatim>\<open>utils/trace_json_parser.cpp\<close>. The constructor of \<^verbatim>\<open>TraceJsonParser\<close> sets
  the defaults and reads two JSON files, the tags with their groups and the settings of the product. The library cJSON
  is an argument, and so are the files, what \<^verbatim>\<open>/proc/meminfo\<close> says, and the limits a product sets when it is built.
  The tables are \<^verbatim>\<open>std::map\<close>s: lists of entries in the order of their keys.
\<close>

section \<open>Ordered tables\<close>

definition map_insert :: "string \<Rightarrow> 'v \<Rightarrow> (string \<times> 'v) list \<Rightarrow> (string \<times> 'v) list" where
  "map_insert k v m = (if map_of m k = None then insort_key fst (k, v) m else m)"

definition map_assign :: "string \<Rightarrow> ('v \<Rightarrow> 'v) \<Rightarrow> (string \<times> 'v) list \<Rightarrow> (string \<times> 'v) list" where
  "map_assign k f m = map (\<lambda>(k', v). (k', if k' = k then f v else v)) m"

section \<open>Reading nodes\<close>

definition GetInt64FromJson :: "'j cjson \<Rightarrow> 'j \<Rightarrow> string \<Rightarrow> int option" where
  "GetInt64FromJson cj jsonNode name =
     (case cj_GetObjectItem cj jsonNode name of None \<Rightarrow> None
      | Some item \<Rightarrow> if cj_IsNumber cj item then Some (cj_valueint cj item) else None)"

definition GetIntFromJson :: "'j cjson \<Rightarrow> 'j \<Rightarrow> string \<Rightarrow> int option" where
  "GetIntFromJson cj jsonNode name =
     (case cj_GetObjectItem cj jsonNode name of None \<Rightarrow> None
      | Some item \<Rightarrow> if cj_IsNumber cj item then Some (cj_valueint cj item) else None)"

definition string_node :: "'j cjson \<Rightarrow> 'j \<Rightarrow> string option" where
  "string_node cj n = (if cj_IsString cj n then cj_valuestring cj n else None)"

definition GetStringFromJsonVector :: "'j cjson \<Rightarrow> 'j \<Rightarrow> string \<Rightarrow> string list \<Rightarrow> string list" where
  "GetStringFromJsonVector cj jsonNode name vec =
     (case cj_GetObjectItem cj jsonNode name of None \<Rightarrow> vec
      | Some node \<Rightarrow> if cj_IsArray cj node then vec @ List.map_filter (string_node cj) (cj_children cj node) else vec)"

text \<open>\<^verbatim>\<open>cJSON_Parse\<close> gets a C string, which ends at the first zero byte.\<close>

definition c_text :: "string \<Rightarrow> string" where
  "c_text t = takeWhile (\<lambda>c. c \<noteq> CHR 0x00) t"

definition ParseJsonFromFile :: "'j cjson \<Rightarrow> (string \<rightharpoonup> string) \<Rightarrow> string \<Rightarrow> 'j option" where
  "ParseJsonFromFile cj files filePath =
     (case files filePath of None \<Rightarrow> None | Some fileContent \<Rightarrow> cj_Parse cj (c_text fileContent))"

section \<open>Tags and groups\<close>

text \<open>
  \<^verbatim>\<open>TraceTag tag;\<close> leaves the bits and the type without a value, and a shift by an offset outside 0 to 63 or a cast
  of a number other than 0 and 1 has no defined result: \<open>undef\<close> gives what they are for the tag of a name.
\<close>

definition offset_bits :: "u64 \<Rightarrow> int \<Rightarrow> u64" where
  "offset_bits u off = (if 0 \<le> off \<and> off < 64 then push_bit (nat off) 1 else u)"

definition type_of_int :: "TraceType \<Rightarrow> int \<Rightarrow> TraceType" where
  "type_of_int u v = (if v = 0 then USER else if v = 1 then KERNEL else u)"

definition parse_tag :: "'j cjson \<Rightarrow> u64 \<times> TraceType \<Rightarrow> 'j \<Rightarrow> TraceTag" where
  "parse_tag cj u tagNode =
     \<lparr>tag_description = (case cj_GetObjectItem cj tagNode ''description'' of None \<Rightarrow> []
        | Some d \<Rightarrow> (case string_node cj d of None \<Rightarrow> [] | Some t \<Rightarrow> t)),
      tag_bits = (case GetIntFromJson cj tagNode ''tag_offset'' of None \<Rightarrow> fst u | Some off \<Rightarrow> offset_bits (fst u) off),
      tag_type = (case GetIntFromJson cj tagNode ''type'' of None \<Rightarrow> snd u | Some v \<Rightarrow> type_of_int (snd u) v),
      enablePath = GetStringFromJsonVector cj tagNode ''enable_path'' [],
      formatPath = GetStringFromJsonVector cj tagNode ''format_path'' []\<rparr>"

definition more_paths :: "'j cjson \<Rightarrow> 'j \<Rightarrow> TraceTag \<Rightarrow> TraceTag" where
  "more_paths cj tagNode t = t\<lparr>enablePath := GetStringFromJsonVector cj tagNode ''enable_path'' (enablePath t),
     formatPath := GetStringFromJsonVector cj tagNode ''format_path'' (formatPath t)\<rparr>"

definition tag_entry :: "'j cjson \<Rightarrow> (string \<Rightarrow> u64 \<times> TraceType) \<Rightarrow> string option \<times> 'j \<Rightarrow> tag_table \<Rightarrow> tag_table" where
  "tag_entry cj undef = (\<lambda>(name, tagNode) tagInfos.
     case name of None \<Rightarrow> tagInfos
     | Some n \<Rightarrow> if map_of tagInfos n \<noteq> None then map_assign n (more_paths cj tagNode) tagInfos
                 else map_insert n (parse_tag cj (undef n) tagNode) tagInfos)"

definition ParseTagCategory :: "'j cjson \<Rightarrow> (string \<Rightarrow> u64 \<times> TraceType) \<Rightarrow> 'j \<Rightarrow> tag_table \<Rightarrow> bool \<times> tag_table" where
  "ParseTagCategory cj undef jsonNode tagInfos =
     (case cj_GetObjectItem cj jsonNode ''tag_category'' of None \<Rightarrow> (False, tagInfos)
      | Some node \<Rightarrow> (True, fold (tag_entry cj undef) (cj_members cj node) tagInfos))"

definition group_entry :: "'j cjson \<Rightarrow> string option \<times> 'j \<Rightarrow> group_table \<Rightarrow> group_table" where
  "group_entry cj = (\<lambda>(name, node) groups.
     case name of None \<Rightarrow> groups | Some n \<Rightarrow> map_insert n (List.map_filter (string_node cj) (cj_children cj node)) groups)"

definition ParseTagGroups :: "'j cjson \<Rightarrow> 'j \<Rightarrow> group_table \<Rightarrow> bool \<times> group_table" where
  "ParseTagGroups cj jsonNode tagGroups =
     (case cj_GetObjectItem cj jsonNode ''tag_groups'' of None \<Rightarrow> (False, tagGroups)
      | Some node \<Rightarrow> (True, fold (group_entry cj) (cj_members cj node) tagGroups))"

section \<open>The parser\<close>

record TraceJsonParser =
  jp_tags :: tag_table
  jp_groups :: group_table
  jp_formats :: "string list"
  jp_bufferKb :: int
  jp_snapshot :: AgeingParam
  jp_record :: AgeingParam

definition AgeingParam_default :: AgeingParam where
  "AgeingParam_default = \<lparr>rootEnable = True, fileNumberLimit = 0, fileSizeKbLimit = 0\<rparr>"

definition TraceJsonParser_init :: TraceJsonParser where
  "TraceJsonParser_init = \<lparr>jp_tags = [], jp_groups = [], jp_formats = [], jp_bufferKb = 0,
     jp_snapshot = AgeingParam_default, jp_record = AgeingParam_default\<rparr>"

text \<open>What the build and the device decide; a limit of 0 means that the build does not set it.\<close>

record parser_env =
  pe_isHmKernel :: bool
  pe_meminfo :: "string list"
  pe_snapshotBuffer :: int
  pe_recordLimit :: int
  pe_snapshotLimit :: int

definition DEFAULT_SNAPSHOT_BUFFER_SIZE_KB :: int where "DEFAULT_SNAPSHOT_BUFFER_SIZE_KB = 12 * 1024"
definition HM_DEFAULT_SNAPSHOT_BUFFER_SIZE_KB :: int where "HM_DEFAULT_SNAPSHOT_BUFFER_SIZE_KB = 144 * 1024"
definition EXTRA_BUFFER_SIZE_KB_GE_16G_DEVICE :: int where "EXTRA_BUFFER_SIZE_KB_GE_16G_DEVICE = 48 * 1024"
definition MEM_GB :: int where "MEM_GB = 1024 * 1024"
definition DEFAULT_RECORD_FILE_NUMBER_LIMIT :: int where "DEFAULT_RECORD_FILE_NUMBER_LIMIT = 15"
definition DEFAULT_SNAPSHOT_FILE_NUMBER_LIMIT :: int where "DEFAULT_SNAPSHOT_FILE_NUMBER_LIMIT = 35"

definition InitSnapshotDefaultBufferSize :: "parser_env \<Rightarrow> TraceJsonParser \<Rightarrow> TraceJsonParser" where
  "InitSnapshotDefaultBufferSize e p =
     (let memTotal = GetMemInfoByName ''MemTotal'' (pe_meminfo e);
          sz = (if pe_isHmKernel e
                then HM_DEFAULT_SNAPSHOT_BUFFER_SIZE_KB +
                     (if (memTotal div MEM_GB + 4 - 1) div 4 * 4 \<ge> 16 then EXTRA_BUFFER_SIZE_KB_GE_16G_DEVICE else 0)
                else DEFAULT_SNAPSHOT_BUFFER_SIZE_KB)
      in p\<lparr>jp_bufferKb := (if pe_snapshotBuffer e \<noteq> 0 then pe_snapshotBuffer e else sz)\<rparr>)"

definition InitAgeingParam :: "parser_env \<Rightarrow> TraceJsonParser \<Rightarrow> TraceJsonParser" where
  "InitAgeingParam e p = p\<lparr>
     jp_record := (jp_record p)\<lparr>fileNumberLimit := (if pe_recordLimit e \<noteq> 0 then pe_recordLimit e else DEFAULT_RECORD_FILE_NUMBER_LIMIT)\<rparr>,
     jp_snapshot := (jp_snapshot p)\<lparr>fileNumberLimit := (if pe_snapshotLimit e \<noteq> 0 then pe_snapshotLimit e else DEFAULT_SNAPSHOT_FILE_NUMBER_LIMIT)\<rparr>\<rparr>"

definition when_int :: "int option \<Rightarrow> (int \<Rightarrow> TraceJsonParser \<Rightarrow> TraceJsonParser) \<Rightarrow> TraceJsonParser \<Rightarrow> TraceJsonParser" where
  "when_int r f p = (case r of None \<Rightarrow> p | Some v \<Rightarrow> f v p)"

definition ParseHitraceUtilsJson ::
  "'j cjson \<Rightarrow> (string \<Rightarrow> u64 \<times> TraceType) \<Rightarrow> (string \<rightharpoonup> string) \<Rightarrow> string \<Rightarrow> TraceJsonParser \<Rightarrow> TraceJsonParser" where
  "ParseHitraceUtilsJson cj undef files hitraceUtilsJson p =
     (case ParseJsonFromFile cj files hitraceUtilsJson of None \<Rightarrow> p
      | Some root \<Rightarrow>
          (let p1 = p\<lparr>jp_tags := snd (ParseTagCategory cj undef root (jp_tags p)),
                      jp_formats := GetStringFromJsonVector cj root ''base_format_path'' (jp_formats p),
                      jp_groups := snd (ParseTagGroups cj root (jp_groups p))\<rparr>;
               p2 = when_int (GetIntFromJson cj root ''snapshot_file_aging'')
                      (\<lambda>v p. p\<lparr>jp_snapshot := (jp_snapshot p)\<lparr>rootEnable := (v \<noteq> 0)\<rparr>\<rparr>) p1;
               p3 = when_int (GetIntFromJson cj root ''record_file_aging'')
                      (\<lambda>v p. p\<lparr>jp_record := (jp_record p)\<lparr>rootEnable := (v \<noteq> 0)\<rparr>\<rparr>) p2
           in when_int (GetIntFromJson cj root ''snapshot_buffer_kb'') (\<lambda>v p. if v \<noteq> 0 then p\<lparr>jp_bufferKb := v\<rparr> else p) p3))"

definition ParseProductConfigJson :: "'j cjson \<Rightarrow> (string \<rightharpoonup> string) \<Rightarrow> string \<Rightarrow> TraceJsonParser \<Rightarrow> TraceJsonParser" where
  "ParseProductConfigJson cj files productConfigJson p =
     (case ParseJsonFromFile cj files productConfigJson of None \<Rightarrow> p
      | Some root \<Rightarrow>
          (let p1 = when_int (GetInt64FromJson cj root ''record_file_kb_size'')
                      (\<lambda>v p. p\<lparr>jp_record := (jp_record p)\<lparr>fileSizeKbLimit := v\<rparr>\<rparr>) p;
               p2 = when_int (GetInt64FromJson cj root ''snapshot_file_kb_size'')
                      (\<lambda>v p. p\<lparr>jp_snapshot := (jp_snapshot p)\<lparr>fileSizeKbLimit := v\<rparr>\<rparr>) p1;
               p3 = when_int (GetIntFromJson cj root ''default_buffer_kb_size'') (\<lambda>v p. p\<lparr>jp_bufferKb := v\<rparr>) p2
           in when_int (GetIntFromJson cj root ''root_ageing_enable'')
                (\<lambda>v p. p\<lparr>jp_snapshot := (jp_snapshot p)\<lparr>rootEnable := (v \<noteq> 0)\<rparr>,
                         jp_record := (jp_record p)\<lparr>rootEnable := (v \<noteq> 0)\<rparr>\<rparr>) p3))"

definition TraceJsonParser_new ::
  "'j cjson \<Rightarrow> (string \<Rightarrow> u64 \<times> TraceType) \<Rightarrow> parser_env \<Rightarrow> (string \<rightharpoonup> string) \<Rightarrow> string \<Rightarrow> string \<Rightarrow> TraceJsonParser" where
  "TraceJsonParser_new cj undef e files hitraceUtilsJson productConfigJson =
     ParseProductConfigJson cj files productConfigJson
       (ParseHitraceUtilsJson cj undef files hitraceUtilsJson
         (InitAgeingParam e (InitSnapshotDefaultBufferSize e TraceJsonParser_init)))"

definition HTIRACE_UTILS_JSON :: string where "HTIRACE_UTILS_JSON = ''/system/etc/hiview/hitrace_utils.json''"
definition PRODUCT_CONFIG_JSON :: string where "PRODUCT_CONFIG_JSON = ''/sys_prod/etc/hiview/hitrace/hitrace_param.json''"

definition parser_Instance ::
  "'j cjson \<Rightarrow> (string \<Rightarrow> u64 \<times> TraceType) \<Rightarrow> parser_env \<Rightarrow> (string \<rightharpoonup> string) \<Rightarrow> TraceJsonParser" where
  "parser_Instance cj undef e files = TraceJsonParser_new cj undef e files HTIRACE_UTILS_JSON PRODUCT_CONFIG_JSON"

definition GetAgeingParam :: "TraceJsonParser \<Rightarrow> TraceDumpType \<Rightarrow> AgeingParam" where
  "GetAgeingParam p type =
     (if type = TRACE_RECORDING then jp_record p else if type = TRACE_SNAPSHOT then jp_snapshot p else AgeingParam_default)"

section \<open>Tables stay ordered\<close>

definition table_ok :: "(string \<times> 'v) list \<Rightarrow> bool" where
  "table_ok m \<longleftrightarrow> sorted (map fst m) \<and> distinct (map fst m)"

lemma table_ok_Nil: "table_ok []"
  by (simp add: table_ok_def)

lemma keys_insort: "map fst (insort_key fst x m) = insort (fst x) (map fst m)"
  by (induction m) auto

lemma map_of_insort: "map_of m k = None \<Longrightarrow> map_of (insort_key fst (k, v) m) k' = (if k' = k then Some v else map_of m k')"
  by (induction m) (auto split: if_splits)

lemma table_insert [simp]: "table_ok m \<Longrightarrow> table_ok (map_insert k v m)"
  by (auto simp: table_ok_def map_insert_def keys_insort sorted_insort distinct_insort map_of_eq_None_iff)

lemma map_assign_keys [simp]: "map fst (map_assign k f m) = map fst m"
  by (induction m) (auto simp: map_assign_def)

lemma map_of_insert: "map_of (map_insert k v m) k' = (if k' = k \<and> map_of m k = None then Some v else map_of m k')"
  by (auto simp: map_insert_def map_of_insort)

lemma map_of_assign: "map_of (map_assign k f m) k' = (if k' = k then map_option f (map_of m k) else map_of m k')"
  by (induction m) (auto simp: map_assign_def)

text \<open>A table is determined by its entries.\<close>

lemma table_unique:
  assumes "table_ok m" "table_ok m'" "set m = set m'"
  shows "m = m'"
proof (rule map_sorted_distinct_set_unique [of fst])
  show "inj_on fst (set m \<union> set m')" using assms by (simp add: table_ok_def distinct_map)
qed (use assms in \<open>auto simp: table_ok_def\<close>)

lemma table_sort: "distinct (map fst m) \<Longrightarrow> table_ok (sort_key fst m)"
  by (simp add: table_ok_def distinct_map) 

text \<open>
  Both readers go through the members of an object. An entry without a name is skipped, a new name is inserted, and what
  happens to a name that is known already is theirs: a tag gets more paths, a group stays as it is.
\<close>

locale map_reader =
  fixes entry :: "string option \<times> 'j \<Rightarrow> (string \<times> 'v) list \<Rightarrow> (string \<times> 'v) list"
    and new_value :: "string \<Rightarrow> 'j \<Rightarrow> 'v" and again :: "'j \<Rightarrow> 'v \<Rightarrow> 'v"
  assumes unnamed: "entry (None, n) m = m"
    and fresh: "map_of m k = None \<Longrightarrow> entry (Some k, n) m = map_insert k (new_value k n) m"
    and known: "map_of m k = Some v \<Longrightarrow> entry (Some k, n) m = map_assign k (again n) m"
begin

lemma entry_ok: "table_ok m \<Longrightarrow> table_ok (entry x m)"
proof (cases x)
  case (Pair nm n)
  then show "table_ok m \<Longrightarrow> table_ok (entry x m)"
  proof (cases nm)
    case (Some k)
    then show "table_ok m \<Longrightarrow> table_ok (entry x m)"
      using Pair fresh [of m k n] known [of m k _ n] by (cases "map_of m k") (auto simp: table_ok_def [of "map_assign _ _ _"], auto simp: table_ok_def)
  qed (simp add: unnamed)
qed

lemma read_ok: "table_ok m \<Longrightarrow> table_ok (fold entry xs m)"
  by (induction xs arbitrary: m) (simp_all add: entry_ok)

lemma read_fresh:
  "list_all2 (\<lambda>x p. fst x = Some (fst p) \<and> new_value (fst p) (snd x) = snd p) xs ps \<Longrightarrow> table_ok m \<Longrightarrow> distinct (map fst (m @ ps)) \<Longrightarrow>
   fold entry xs m = sort_key fst (m @ ps)"
proof (induction arbitrary: m rule: list_all2_induct)
  case Nil
  then show ?case using table_unique [of m "sort_key fst m"] table_sort [of m] by simp
next
  case (Cons x xs p ps)
  obtain k v where p: "p = (k, v)" by (cases p)
  have new: "map_of m k = None" using Cons.prems(2) p by (auto simp: map_of_eq_None_iff)
  with Cons.hyps(1) p have e: "entry x m = insort_key fst p m"
    by (cases x) (simp add: fresh map_insert_def)
  have "table_ok (entry x m)" using Cons.prems(1) by (rule entry_ok)
  moreover have "distinct (map fst (entry x m @ ps))"
    using Cons.prems(2) by (auto simp: e keys_insort distinct_insort set_insort_key)
  ultimately have "fold entry xs (entry x m) = sort_key fst (entry x m @ ps)" by (rule Cons.IH)
  also have "\<dots> = sort_key fst (m @ p # ps)"
    using \<open>distinct (map fst (entry x m @ ps))\<close> Cons.prems(2)
    by (intro table_unique table_sort) (auto simp: e set_insort_key)
  finally show ?case by simp
qed

end

interpretation tag_reader: map_reader "tag_entry cj undef" "\<lambda>k. parse_tag cj (undef k)" "more_paths cj" for cj undef
  by unfold_locales (auto simp: tag_entry_def)

interpretation group_reader: map_reader "group_entry cj" "\<lambda>k n. List.map_filter (string_node cj) (cj_children cj n)" "\<lambda>n v. v" for cj
  by unfold_locales (auto simp: group_entry_def map_insert_def map_assign_def)

section \<open>A configuration file\<close>

































text \<open>Whatever the files hold, the tables are ordered and no name occurs twice.\<close>

lemma when_int_frame: "(\<And>v p. g (f v p) = g p) \<Longrightarrow> g (when_int r f p) = g p"
  by (cases r) (simp_all add: when_int_def)

lemma utils_tables:
  "jp_tags (ParseHitraceUtilsJson cj undef files path p) =
     (case ParseJsonFromFile cj files path of None \<Rightarrow> jp_tags p | Some root \<Rightarrow> snd (ParseTagCategory cj undef root (jp_tags p)))"
  "jp_groups (ParseHitraceUtilsJson cj undef files path p) =
     (case ParseJsonFromFile cj files path of None \<Rightarrow> jp_groups p | Some root \<Rightarrow> snd (ParseTagGroups cj root (jp_groups p)))"
  by (cases "ParseJsonFromFile cj files path"; simp add: ParseHitraceUtilsJson_def Let_def when_int_frame [of jp_tags] when_int_frame [of jp_groups])+

lemma product_tables:
  "jp_tags (ParseProductConfigJson cj files path p) = jp_tags p" "jp_groups (ParseProductConfigJson cj files path p) = jp_groups p"
  by (cases "ParseJsonFromFile cj files path"; simp add: ParseProductConfigJson_def Let_def when_int_frame [of jp_tags] when_int_frame [of jp_groups])+

lemma tables_ordered:
  "table_ok (jp_tags (TraceJsonParser_new cj undef e files utils product)) \<and> table_ok (jp_groups (TraceJsonParser_new cj undef e files utils product))"
proof -
  let ?p = "InitAgeingParam e (InitSnapshotDefaultBufferSize e TraceJsonParser_init)"
  have "jp_tags ?p = []" "jp_groups ?p = []"
    by (simp_all add: InitAgeingParam_def InitSnapshotDefaultBufferSize_def TraceJsonParser_init_def Let_def)
  then show ?thesis
    by (auto simp: TraceJsonParser_new_def table_ok_Nil product_tables utils_tables ParseTagCategory_def ParseTagGroups_def
        tag_reader.read_ok group_reader.read_ok split: option.splits)
qed

end
