(* ===== verification/Dynamic_Buffer.thy ===== *)
theory Dynamic_Buffer
  imports Complex_Main Common_Utils
begin

text \<open>
  The sizes of the ring buffers of the cores: \<^verbatim>\<open>frameworks/native/dynamic_buffer.cpp\<close>. A core that traced more bytes a
  second than others gets a larger share of the memory that is added to the base size. The code computes with
  \<^verbatim>\<open>double\<close>: the result of an operation is the exact real number, rounded. The rounding is an argument, and so are
  \<^verbatim>\<open>strtod\<close> (finite numbers: the kernel prints no others) and the conversion of a \<^verbatim>\<open>double\<close> to an \<^verbatim>\<open>int\<close>,
  which is undefined outside the range of \<^verbatim>\<open>int\<close>.
\<close>

section \<open>The code\<close>

record doubles =
  d_round :: "real \<Rightarrow> real"
  d_parse :: "string \<Rightarrow> real option"
  d_toInt :: "real \<Rightarrow> int"

definition EXPANSION_SIZE :: int where "EXPANSION_SIZE = 1024 * 6"
definition LOW_THRESHOLD :: int where "LOW_THRESHOLD = 400 * 1024"
definition BASE_SIZE :: int where "BASE_SIZE = 12 * 1024"
definition PAGE_KB :: int where "PAGE_KB = 4"

text \<open>Division of \<^verbatim>\<open>int\<close> drops the fraction.\<close>

definition int_quotient :: "int \<Rightarrow> int \<Rightarrow> int" where
  "int_quotient a b = sgn a * sgn b * (\<bar>a\<bar> div \<bar>b\<bar>)"

record TraceStatsInfo =
  st_oldTs :: real
  st_nowTs :: real
  st_bytes :: int

definition TraceStatsInfo_default :: TraceStatsInfo where
  "TraceStatsInfo_default = \<lparr>st_oldTs = 0, st_nowTs = 0, st_bytes = 0\<rparr>"

definition stats_field :: "string \<Rightarrow> (string \<Rightarrow> 'a option) \<Rightarrow> ('a \<Rightarrow> TraceStatsInfo \<Rightarrow> TraceStatsInfo) \<Rightarrow> string \<Rightarrow>
    TraceStatsInfo \<Rightarrow> TraceStatsInfo option" where
  "stats_field name parse upd line st =
     (if str_find line name 0 = None then Some st
      else case parse (drop (length name) line) of None \<Rightarrow> None | Some v \<Rightarrow> Some (upd v st))"

definition stats_line :: "doubles \<Rightarrow> string \<Rightarrow> TraceStatsInfo \<Rightarrow> TraceStatsInfo option" where
  "stats_line fl line st =
     (case stats_field ''oldest event ts: '' (d_parse fl) (\<lambda>v s. s\<lparr>st_oldTs := v\<rparr>) line st of None \<Rightarrow> None
      | Some st1 \<Rightarrow>
          (case stats_field ''now ts: '' (d_parse fl) (\<lambda>v s. s\<lparr>st_nowTs := v\<rparr>) line st1 of None \<Rightarrow> None
           | Some st2 \<Rightarrow> stats_field ''bytes: '' StringToInt (\<lambda>v s. s\<lparr>st_bytes := v\<rparr>) line st2))"

primrec stats_lines :: "doubles \<Rightarrow> string list \<Rightarrow> TraceStatsInfo \<Rightarrow> TraceStatsInfo option" where
  "stats_lines fl [] st = Some st"
| "stats_lines fl (l # ls) st = (case stats_line fl l st of None \<Rightarrow> None | Some st' \<Rightarrow> stats_lines fl ls st')"

text \<open>\<open>stats\<close> gives the lines of the statistics of a core, \<open>None\<close> if the file cannot be opened.\<close>

definition GetPerCpuStatsInfo :: "doubles \<Rightarrow> (nat \<Rightarrow> string list option) \<Rightarrow> nat \<Rightarrow> TraceStatsInfo option" where
  "GetPerCpuStatsInfo fl stats cpuIndex =
     (case stats cpuIndex of None \<Rightarrow> None | Some ls \<Rightarrow> stats_lines fl ls TraceStatsInfo_default)"

record DynamicBuffer =
  db_cpuNums :: nat
  db_totalCpusLoad :: real
  db_maxAverage :: int

definition DynamicBuffer_new :: "nat \<Rightarrow> DynamicBuffer" where
  "DynamicBuffer_new cpuNums = \<lparr>db_cpuNums = cpuNums, db_totalCpusLoad = 0, db_maxAverage = 0\<rparr>"

definition cpu_duration :: "doubles \<Rightarrow> TraceStatsInfo \<Rightarrow> int" where
  "cpu_duration fl st = d_toInt fl (of_int \<lfloor>d_round fl (st_nowTs st - st_oldTs st)\<rfloor>)"

text \<open>The load of one core, which is added to the state.\<close>

definition cpu_load :: "doubles \<Rightarrow> TraceStatsInfo \<Rightarrow> DynamicBuffer \<Rightarrow> real \<times> DynamicBuffer" where
  "cpu_load fl st b =
     (let duration = cpu_duration fl st
      in if duration = 0 then (0, b)
         else let averageTrace = int_quotient (st_bytes st) duration;
                  freq = d_round fl (of_int averageTrace ^ 2)
              in (freq, b\<lparr>db_totalCpusLoad := d_round fl (db_totalCpusLoad b + freq), db_maxAverage := max (db_maxAverage b) averageTrace\<rparr>))"

primrec load_loop :: "doubles \<Rightarrow> (nat \<Rightarrow> string list option) \<Rightarrow> nat list \<Rightarrow> real list \<Rightarrow> DynamicBuffer \<Rightarrow> real list \<times> DynamicBuffer" where
  "load_loop fl stats [] traceLoad b = (traceLoad, b)"
| "load_loop fl stats (i # is) traceLoad b =
     (case GetPerCpuStatsInfo fl stats i of None \<Rightarrow> (traceLoad, b)
      | Some st \<Rightarrow> load_loop fl stats is (traceLoad @ [fst (cpu_load fl st b)]) (snd (cpu_load fl st b)))"

definition CalculateTraceLoad :: "doubles \<Rightarrow> (nat \<Rightarrow> string list option) \<Rightarrow> DynamicBuffer \<Rightarrow> real list \<times> DynamicBuffer" where
  "CalculateTraceLoad fl stats b = load_loop fl stats [0..<db_cpuNums b] [] b"

definition new_size :: "doubles \<Rightarrow> DynamicBuffer \<Rightarrow> real \<Rightarrow> int" where
  "new_size fl b cpuFrequency =
     (let totalBonus = EXPANSION_SIZE * int (db_cpuNums b);
          newSize = BASE_SIZE + d_toInt fl (of_int \<lfloor>d_round fl (d_round fl (cpuFrequency / db_totalCpusLoad b) * of_int totalBonus)\<rfloor>)
      in int_quotient newSize PAGE_KB * PAGE_KB)"

definition CalculateBufferSize :: "doubles \<Rightarrow> (nat \<Rightarrow> string list option) \<Rightarrow> DynamicBuffer \<Rightarrow> int list \<times> DynamicBuffer" where
  "CalculateBufferSize fl stats b =
     (case CalculateTraceLoad fl stats b of (allCpuFrequencies, b') \<Rightarrow>
        (if length allCpuFrequencies \<noteq> db_cpuNums b then []
         else if db_maxAverage b' \<le> LOW_THRESHOLD then replicate (db_cpuNums b) BASE_SIZE
         else map (new_size fl b') allCpuFrequencies, b'))"

section \<open>Rounding\<close>

text \<open>
  What IEEE 754 says of rounding, in any of its modes: it is monotone, keeps what it has rounded, and changes no integer up
  to 2^53; and what C++ says of the conversion: an integer in the range of \<^verbatim>\<open>int\<close> is kept.
\<close>

definition ieee :: "doubles \<Rightarrow> bool" where
  "ieee fl \<longleftrightarrow> mono (d_round fl) \<and> (\<forall>x. d_round fl (d_round fl x) = d_round fl x) \<and>
     (\<forall>n :: int. \<bar>n\<bar> \<le> 2 ^ 53 \<longrightarrow> d_round fl (of_int n) = of_int n) \<and>
     (\<forall>n :: int. - (2 ^ 31) \<le> n \<and> n < 2 ^ 31 \<longrightarrow> d_toInt fl (of_int n) = n)"

lemma round_mono: "ieee fl \<Longrightarrow> x \<le> y \<Longrightarrow> d_round fl x \<le> d_round fl y"
  by (auto simp: ieee_def mono_def)

lemma round_int: "ieee fl \<Longrightarrow> \<bar>n\<bar> \<le> 2 ^ 53 \<Longrightarrow> d_round fl (of_int n) = of_int n"
  by (simp add: ieee_def)

lemma round_0: "ieee fl \<Longrightarrow> d_round fl 0 = 0" using round_int [of fl 0] by simp
lemma round_1: "ieee fl \<Longrightarrow> d_round fl 1 = 1" using round_int [of fl 1] by simp

lemma round_nonneg: "ieee fl \<Longrightarrow> 0 \<le> x \<Longrightarrow> 0 \<le> d_round fl x"
  using round_mono [of fl 0 x] round_0 by simp

text \<open>The sum of rounded loads is at least every one of them, although each addition rounds.\<close>

definition loads_ok :: "doubles \<Rightarrow> real list \<Rightarrow> DynamicBuffer \<Rightarrow> bool" where
  "loads_ok fl ls b \<longleftrightarrow> (\<forall>l \<in> set ls. 0 \<le> l \<and> l \<le> db_totalCpusLoad b) \<and> 0 \<le> db_totalCpusLoad b \<and>
     d_round fl (db_totalCpusLoad b) = db_totalCpusLoad b \<and> (0 < db_maxAverage b \<longrightarrow> 0 < db_totalCpusLoad b)"

lemma cpu_load_ok:
  assumes "ieee fl" "loads_ok fl ls b"
  shows "loads_ok fl (ls @ [fst (cpu_load fl st b)]) (snd (cpu_load fl st b))"
proof (cases "cpu_duration fl st = 0")
  case True
  with assms(2) show ?thesis by (auto simp: cpu_load_def loads_ok_def)
next
  case False
  define a where "a = int_quotient (st_bytes st) (cpu_duration fl st)"
  define f where "f = d_round fl (of_int a ^ 2)"
  define t where "t = d_round fl (db_totalCpusLoad b + f)"
  have l: "cpu_load fl st b = (f, b\<lparr>db_totalCpusLoad := t, db_maxAverage := max (db_maxAverage b) a\<rparr>)"
    using False by (simp add: cpu_load_def Let_def a_def f_def t_def)
  have f: "0 \<le> f" "d_round fl f = f" using assms(1) by (simp_all add: f_def round_nonneg ieee_def)
  have old: "d_round fl (db_totalCpusLoad b) = db_totalCpusLoad b" "0 \<le> db_totalCpusLoad b" using assms(2) by (simp_all add: loads_ok_def)
  have tf: "f \<le> t" using round_mono [OF assms(1), of f "db_totalCpusLoad b + f"] f old(2) by (simp add: t_def)
  have tb: "db_totalCpusLoad b \<le> t" using round_mono [OF assms(1), of "db_totalCpusLoad b" "db_totalCpusLoad b + f"] f old by (simp add: t_def)
  have "0 < t" if "0 < a"
  proof -
    have "(1 :: real) \<le> of_int a ^ 2" using that by simp
    then have "1 \<le> f" using round_mono [OF assms(1), of 1 "of_int a ^ 2"] round_1 [OF assms(1)] by (simp add: f_def)
    with tf show ?thesis by simp
  qed
  moreover have "d_round fl t = t" using assms(1) by (simp add: t_def ieee_def)
  moreover have "\<forall>l \<in> set ls. 0 \<le> l \<and> l \<le> t" using assms(2) tb by (auto simp: loads_ok_def intro: order_trans)
  ultimately show ?thesis
    using assms(2) tf tb f(1) old(2) by (auto simp: l loads_ok_def max_def)
qed

lemma load_loop_ok: "ieee fl \<Longrightarrow> loads_ok fl ls b \<Longrightarrow> load_loop fl stats is ls b = (ls', b') \<Longrightarrow> loads_ok fl ls' b'"
  by (induction "is" arbitrary: ls b) (auto split: option.splits dest: cpu_load_ok)

lemma load_loop_cpus: "load_loop fl stats is ls b = (ls', b') \<Longrightarrow> db_cpuNums b' = db_cpuNums b"
  by (induction "is" arbitrary: ls b) (auto split: option.splits simp: cpu_load_def Let_def)

section \<open>The sizes\<close>

definition share :: "doubles \<Rightarrow> DynamicBuffer \<Rightarrow> real \<Rightarrow> int" where
  "share fl b l = \<lfloor>d_round fl (d_round fl (l / db_totalCpusLoad b) * of_int (EXPANSION_SIZE * int (db_cpuNums b)))\<rfloor>"

lemma share_range:
  assumes "ieee fl" "0 \<le> l" "l \<le> db_totalCpusLoad b" "0 < db_totalCpusLoad b" "EXPANSION_SIZE * int (db_cpuNums b) < 2 ^ 31"
  shows "0 \<le> share fl b l" "share fl b l \<le> EXPANSION_SIZE * int (db_cpuNums b)"
proof -
  let ?r = "d_round fl (l / db_totalCpusLoad b)"
  let ?n = "EXPANSION_SIZE * int (db_cpuNums b)"
  have n: "0 \<le> ?n" by (simp add: EXPANSION_SIZE_def)
  have r0: "0 \<le> ?r" using assms by (simp add: round_nonneg)
  have r1: "?r \<le> 1" using round_mono [OF assms(1), of "l / db_totalCpusLoad b" 1] round_1 [OF assms(1)] assms(3,4) by simp
  have "0 \<le> ?r * of_int ?n" using r0 n by (intro mult_nonneg_nonneg) (simp_all only: of_int_0_le_iff)
  then have "0 \<le> d_round fl (?r * of_int ?n)" by (rule round_nonneg [OF assms(1)])
  then show "0 \<le> share fl b l" by (simp add: share_def)
  have "?r * of_int ?n \<le> 1 * of_int ?n" using r1 n by (intro mult_right_mono) (simp_all only: of_int_0_le_iff)
  then have "d_round fl (?r * of_int ?n) \<le> d_round fl (of_int ?n)" using round_mono [OF assms(1)] by simp
  also have "\<dots> = of_int ?n" using round_int [OF assms(1), of ?n] n assms(5) by simp
  finally show "share fl b l \<le> ?n" unfolding share_def by (simp add: floor_le_iff)
qed

lemma new_size_share:
  assumes "ieee fl" "0 \<le> l" "l \<le> db_totalCpusLoad b" "0 < db_totalCpusLoad b" "EXPANSION_SIZE * int (db_cpuNums b) < 2 ^ 31"
  shows "new_size fl b l = (BASE_SIZE + share fl b l) div PAGE_KB * PAGE_KB"
proof -
  note r = share_range [OF assms]
  have "d_toInt fl (of_int (share fl b l)) = share fl b l" using assms(1,5) r by (simp add: ieee_def)
  then have "new_size fl b l = int_quotient (BASE_SIZE + share fl b l) PAGE_KB * PAGE_KB"
    by (simp only: new_size_def Let_def share_def)
  moreover have "0 < BASE_SIZE + share fl b l" using r(1) by (simp add: BASE_SIZE_def)
  ultimately show ?thesis by (simp add: int_quotient_def PAGE_KB_def)
qed

lemma share_mono:
  assumes "ieee fl" "l \<le> l'" "0 < db_totalCpusLoad b"
  shows "share fl b l \<le> share fl b l'"
proof -
  have "d_round fl (l / db_totalCpusLoad b) \<le> d_round fl (l' / db_totalCpusLoad b)"
    using assms by (intro round_mono) (simp_all add: divide_right_mono)
  then show ?thesis
    unfolding share_def by (intro floor_mono, intro round_mono [OF assms(1)], intro mult_right_mono) (simp_all add: EXPANSION_SIZE_def)
qed

lemma page_size: "0 \<le> x \<Longrightarrow> x \<le> m \<Longrightarrow> 12288 \<le> (12288 + x) div 4 * 4 \<and> (12288 + x) div 4 * 4 \<le> 12288 + (m :: int)"
  by presburger

text \<open>C38: Under IEEE rounding of any mode, the balancing either gives up or computes one size for each core; every size is a
whole number of 4 KB pages, at least 12 MB and at most 12 MB plus 6 MB for each core, and a core that traced at least as
much as another gets a buffer at least as large.\<close>

theorem buffer_sizes_bounded:
  assumes "ieee fl" "EXPANSION_SIZE * int n < 2 ^ 31" "CalculateBufferSize fl stats (DynamicBuffer_new n) = (sizes, b')"
    "CalculateTraceLoad fl stats (DynamicBuffer_new n) = (loads, b')"
  shows "sizes = [] \<or> length sizes = n \<and>
    (\<forall>s \<in> set sizes. 4 dvd s \<and> 12288 \<le> s \<and> s \<le> 12288 + 6144 * int n) \<and>
    (\<forall>i < n. \<forall>j < n. loads ! i \<le> loads ! j \<longrightarrow> sizes ! i \<le> sizes ! j)"
proof (cases "length loads = n \<and> db_maxAverage b' > LOW_THRESHOLD")
  case False
  with assms(3,4) have "sizes = [] \<or> sizes = replicate n 12288"
    by (auto simp: CalculateBufferSize_def DynamicBuffer_new_def BASE_SIZE_def split: if_splits)
  then show ?thesis by auto
next
  case True
  have n: "db_cpuNums b' = n" using load_loop_cpus assms(4) by (fastforce simp: CalculateTraceLoad_def DynamicBuffer_new_def)
  have "loads_ok fl [] (DynamicBuffer_new n)" using round_0 [OF assms(1)] by (simp add: loads_ok_def DynamicBuffer_new_def)
  with assms(1,4) have ok: "loads_ok fl loads b'" using load_loop_ok by (simp add: CalculateTraceLoad_def)
  then have pos: "0 < db_totalCpusLoad b'" using True by (simp add: loads_ok_def LOW_THRESHOLD_def)
  have sz: "sizes = map (new_size fl b') loads" using True assms(3,4) by (simp add: CalculateBufferSize_def DynamicBuffer_new_def)
  have lim: "EXPANSION_SIZE * int (db_cpuNums b') < 2 ^ 31" using assms(2) n by simp
  have each: "0 \<le> share fl b' l \<and> share fl b' l \<le> 6144 * int n \<and> new_size fl b' l = (12288 + share fl b' l) div 4 * 4" if "l \<in> set loads" for l
  proof -
    have "0 \<le> l" "l \<le> db_totalCpusLoad b'" using ok that by (auto simp: loads_ok_def)
    from share_range [OF assms(1) this pos lim] new_size_share [OF assms(1) this pos lim] n
    show ?thesis by (simp add: EXPANSION_SIZE_def BASE_SIZE_def PAGE_KB_def)
  qed
  have bounds: "4 dvd s \<and> 12288 \<le> s \<and> s \<le> 12288 + 6144 * int n" if "s \<in> set sizes" for s
  proof -
    obtain l where l: "l \<in> set loads" "s = new_size fl b' l" using \<open>s \<in> set sizes\<close> sz by auto
    from each [OF l(1)] l(2) show ?thesis using page_size [of "share fl b' l" "6144 * int n"] by simp
  qed
  have "sizes ! i \<le> sizes ! j" if "i < n" "j < n" "loads ! i \<le> loads ! j" for i j
    using each [of "loads ! i"] each [of "loads ! j"] share_mono [OF assms(1) that(3) pos] that True
    by (simp add: sz zdiv_mono1)
  then show ?thesis using bounds True by (simp add: sz)
qed

text \<open>Exact arithmetic is one of the roundings. Core 0 traced a megabyte in a second, core 1 nothing.\<close>

definition sample_doubles :: doubles where
  "sample_doubles = \<lparr>d_round = (\<lambda>x. x), d_parse = (\<lambda>t. if t = ''9'' then Some 9 else if t = ''8'' then Some 8 else None), d_toInt = (\<lambda>x. \<lfloor>x\<rfloor>)\<rparr>"

definition sample_stats :: "nat \<Rightarrow> string list option" where
  "sample_stats i = Some [''oldest event ts: 8'', ''now ts: 9'', if i = 0 then ''bytes: 1048576'' else ''bytes: 0'']"

lemma sample_ieee: "ieee sample_doubles"
  by (simp add: ieee_def sample_doubles_def mono_def)

lemma sample_numbers: "StringToInt ''1048576'' = Some 1048576" "StringToInt ''0'' = Some 0"
  by (simp_all add: StringToInt_def strtoll_result_def strto_scan_def is_space_def is_digit_def dec_value_def digit_value_def signed_value_def)

theorem buffer_sizes_bounded_witness:
  "fst (CalculateBufferSize sample_doubles sample_stats (DynamicBuffer_new 2)) = [24576, 12288] \<and>
   list_all (\<lambda>s. 4 dvd s \<and> 12288 \<le> s \<and> s \<le> 12288 + 6144 * int 2) (fst (CalculateBufferSize sample_doubles sample_stats (DynamicBuffer_new 2)))"
proof -
  obtain sizes b' where r: "CalculateBufferSize sample_doubles sample_stats (DynamicBuffer_new 2) = (sizes, b')" by fastforce
  obtain loads b'' where l: "CalculateTraceLoad sample_doubles sample_stats (DynamicBuffer_new 2) = (loads, b'')" by fastforce
  have "b'' = b'" using r l by (simp add: CalculateBufferSize_def)
  have st: "GetPerCpuStatsInfo sample_doubles sample_stats i = Some \<lparr>st_oldTs = 8, st_nowTs = 9, st_bytes = (if i = 0 then 1048576 else 0)\<rparr>" for i
    using sample_numbers by (simp add: GetPerCpuStatsInfo_def sample_stats_def TraceStatsInfo_default_def stats_line_def stats_field_def str_find_def sample_doubles_def)
  have f: "d_round sample_doubles = (\<lambda>x. x)" "d_toInt sample_doubles = floor" by (simp_all add: sample_doubles_def)
  have "CalculateTraceLoad sample_doubles sample_stats (DynamicBuffer_new 2) =
     ([1048576 ^ 2, 0], \<lparr>db_cpuNums = 2, db_totalCpusLoad = 1048576 ^ 2, db_maxAverage = 1048576\<rparr>)"
    by (simp add: CalculateTraceLoad_def DynamicBuffer_new_def upt_rec [of _ 2] st cpu_load_def cpu_duration_def f int_quotient_def)
  then have "sizes = [24576, 12288]"
    using r by (simp add: CalculateBufferSize_def LOW_THRESHOLD_def new_size_def f BASE_SIZE_def EXPANSION_SIZE_def PAGE_KB_def int_quotient_def DynamicBuffer_new_def)
  with buffer_sizes_bounded [OF sample_ieee _ r l [unfolded \<open>b'' = b'\<close>]] show ?thesis by (simp add: r EXPANSION_SIZE_def list_all_iff)
qed

end
