(* ===== verification/Hitrace_Chain.thy ===== *)
theory Hitrace_Chain
  imports Hitrace_Prelude
begin

text \<open>
  The call-chain component: the 128-bit trace identifier of
  \<^verbatim>\<open>interfaces/native/innerkits/include/hitrace/hitracechainc.h\<close> with its inline accessors and
  its byte encoding, and the per-thread chain operations of
  \<^verbatim>\<open>frameworks/native/hitracechainc.c\<close> (begin, end, span creation, tracepoints, save and
  restore). The bit-fields of the struct are words of exactly the declared widths, a null pointer
  is \<open>None\<close>, the thread-local identifier of every thread is an entry of a map from threads, and
  the clock and \<^verbatim>\<open>random()\<close> readings are arguments.
\<close>

section \<open>The identifier\<close>

record HiTraceIdStruct =
  valid :: "1 word"
  ver :: "3 word"
  chainId :: "60 word"
  flags :: "12 word"
  spanId :: "26 word"
  parentSpanId :: "26 word"

definition HITRACE_ID_INVALID :: "1 word" where "HITRACE_ID_INVALID = 0"
definition HITRACE_ID_VALID :: "1 word" where "HITRACE_ID_VALID = 1"
definition HITRACE_VER_1 :: "3 word" where "HITRACE_VER_1 = 0"

definition HITRACE_FLAG_MIN :: i32 where "HITRACE_FLAG_MIN = 0"
definition HITRACE_FLAG_DONOT_CREATE_SPAN :: i32 where "HITRACE_FLAG_DONOT_CREATE_SPAN = 2"
definition HITRACE_FLAG_TP_INFO :: i32 where "HITRACE_FLAG_TP_INFO = 4"
definition HITRACE_FLAG_NO_BE_INFO :: i32 where "HITRACE_FLAG_NO_BE_INFO = 8"
definition HITRACE_FLAG_DONOT_ENABLE_LOG :: i32 where "HITRACE_FLAG_DONOT_ENABLE_LOG = 16"
definition HITRACE_FLAG_D2D_TP_INFO :: i32 where "HITRACE_FLAG_D2D_TP_INFO = 64"
definition HITRACE_FLAG_MAX :: i32 where "HITRACE_FLAG_MAX = 127"

lemmas chain_consts =
  HITRACE_ID_INVALID_def HITRACE_ID_VALID_def HITRACE_VER_1_def HITRACE_FLAG_MIN_def
  HITRACE_FLAG_DONOT_CREATE_SPAN_def HITRACE_FLAG_TP_INFO_def HITRACE_FLAG_NO_BE_INFO_def
  HITRACE_FLAG_DONOT_ENABLE_LOG_def HITRACE_FLAG_D2D_TP_INFO_def HITRACE_FLAG_MAX_def

definition HiTraceChainInitId :: HiTraceIdStruct where
  "HiTraceChainInitId = \<lparr>valid = HITRACE_ID_INVALID, ver = 0, chainId = 0, flags = 0,
     spanId = 0, parentSpanId = 0\<rparr>"

fun HiTraceChainIsValid :: "HiTraceIdStruct option \<Rightarrow> bool" where
  "HiTraceChainIsValid None = False"
| "HiTraceChainIsValid (Some p) = (valid p = HITRACE_ID_VALID)"

text \<open>The enum \<^verbatim>\<open>HiTraceFlag\<close> is converted to \<^verbatim>\<open>uint64_t\<close> before the bit test.\<close>

fun HiTraceChainIsFlagEnabled :: "HiTraceIdStruct option \<Rightarrow> i32 \<Rightarrow> bool" where
  "HiTraceChainIsFlagEnabled None flag = False"
| "HiTraceChainIsFlagEnabled (Some p) flag =
     (HiTraceChainIsValid (Some p) \<and> ((ucast (flags p) :: u64) AND scast flag) \<noteq> 0)"

definition HiTraceChainEnableFlag :: "HiTraceIdStruct \<Rightarrow> i32 \<Rightarrow> HiTraceIdStruct" where
  "HiTraceChainEnableFlag p flag =
     (if HiTraceChainIsValid (Some p)
      then p\<lparr>flags := ucast ((ucast (flags p) :: u64) OR scast flag)\<rparr> else p)"

definition HiTraceChainGetFlags :: "HiTraceIdStruct option \<Rightarrow> i32" where
  "HiTraceChainGetFlags pId =
     (if \<not> HiTraceChainIsValid pId then 0 else ucast (flags (the pId)))"

definition HiTraceChainSetFlags :: "HiTraceIdStruct \<Rightarrow> i32 \<Rightarrow> HiTraceIdStruct" where
  "HiTraceChainSetFlags p fl =
     (if HiTraceChainIsValid (Some p) \<and> sint HITRACE_FLAG_MIN \<le> sint fl \<and> sint fl < sint HITRACE_FLAG_MAX
      then p\<lparr>flags := ucast (scast fl :: u64)\<rparr> else p)"

definition HiTraceChainGetChainId :: "HiTraceIdStruct option \<Rightarrow> u64" where
  "HiTraceChainGetChainId pId =
     (if \<not> HiTraceChainIsValid pId then 0 else ucast (chainId (the pId)))"

definition HiTraceChainSetChainId :: "HiTraceIdStruct \<Rightarrow> u64 \<Rightarrow> HiTraceIdStruct" where
  "HiTraceChainSetChainId p cid =
     (if cid = 0 then p
      else let q = (if \<not> HiTraceChainIsValid (Some p)
                    then p\<lparr>valid := HITRACE_ID_VALID, ver := HITRACE_VER_1, flags := 0,
                           spanId := 0, parentSpanId := 0\<rparr>
                    else p)
           in q\<lparr>chainId := ucast cid\<rparr>)"

definition HiTraceChainGetSpanId :: "HiTraceIdStruct option \<Rightarrow> u64" where
  "HiTraceChainGetSpanId pId =
     (if \<not> HiTraceChainIsValid pId then 0 else ucast (spanId (the pId)))"

definition HiTraceChainSetSpanId :: "HiTraceIdStruct \<Rightarrow> u64 \<Rightarrow> HiTraceIdStruct" where
  "HiTraceChainSetSpanId p s =
     (if HiTraceChainIsValid (Some p) then p\<lparr>spanId := ucast s\<rparr> else p)"

definition HiTraceChainGetParentSpanId :: "HiTraceIdStruct option \<Rightarrow> u64" where
  "HiTraceChainGetParentSpanId pId =
     (if \<not> HiTraceChainIsValid pId then 0 else ucast (parentSpanId (the pId)))"

definition HiTraceChainSetParentSpanId :: "HiTraceIdStruct \<Rightarrow> u64 \<Rightarrow> HiTraceIdStruct" where
  "HiTraceChainSetParentSpanId p s =
     (if HiTraceChainIsValid (Some p) then p\<lparr>parentSpanId := ucast s\<rparr> else p)"

section \<open>The byte encoding\<close>

text \<open>
  The two 64-bit words of the struct's memory. Both declared layouts (little and big endian) give
  these values: the first field of the little-endian layout takes the lowest bits.
\<close>

definition id_word0 :: "HiTraceIdStruct \<Rightarrow> u64" where
  "id_word0 p = ucast (valid p) OR push_bit 1 (ucast (ver p)) OR push_bit 4 (ucast (chainId p))"

definition id_word1 :: "HiTraceIdStruct \<Rightarrow> u64" where
  "id_word1 p = ucast (flags p) OR push_bit 12 (ucast (spanId p)) OR push_bit 38 (ucast (parentSpanId p))"

definition id_of_words :: "u64 \<Rightarrow> u64 \<Rightarrow> HiTraceIdStruct" where
  "id_of_words w0 w1 = \<lparr>valid = ucast w0, ver = ucast (drop_bit 1 w0), chainId = ucast (drop_bit 4 w0),
     flags = ucast w1, spanId = ucast (drop_bit 12 w1), parentSpanId = ucast (drop_bit 38 w1)\<rparr>"

text \<open>\<^verbatim>\<open>htobe64\<close> followed by a store, and a load followed by \<^verbatim>\<open>be64toh\<close>.\<close>

definition be64_bytes :: "u64 \<Rightarrow> bytes" where
  "be64_bytes w = map (\<lambda>i. ucast (drop_bit i w)) [56, 48, 40, 32, 24, 16, 8, 0]"

fun be64_of_bytes :: "bytes \<Rightarrow> u64" where
  "be64_of_bytes [b7, b6, b5, b4, b3, b2, b1, b0] =
     push_bit 56 (ucast b7) OR push_bit 48 (ucast b6) OR push_bit 40 (ucast b5) OR
     push_bit 32 (ucast b4) OR push_bit 24 (ucast b3) OR push_bit 16 (ucast b2) OR
     push_bit 8 (ucast b1) OR ucast b0"
| "be64_of_bytes _ = 0"

definition HITRACE_ID_LEN :: nat where "HITRACE_ID_LEN = 16"

text \<open>
  \<open>HiTraceChainIdToBytes pId arr len\<close> returns the C return value and the array afterwards;
  \<open>len\<close> is what the caller passes, so the array really has at least \<open>len\<close> bytes.
\<close>

definition HiTraceChainIdToBytes :: "HiTraceIdStruct option \<Rightarrow> bytes \<Rightarrow> int \<Rightarrow> nat \<times> bytes" where
  "HiTraceChainIdToBytes pId arr len =
     (if \<not> HiTraceChainIsValid pId \<or> len < int HITRACE_ID_LEN then (0, arr)
      else (HITRACE_ID_LEN,
            be64_bytes (id_word0 (the pId)) @ be64_bytes (id_word1 (the pId)) @ drop HITRACE_ID_LEN arr))"

definition HiTraceChainBytesToId :: "bytes option \<Rightarrow> int \<Rightarrow> HiTraceIdStruct" where
  "HiTraceChainBytesToId pIdArray len =
     (case pIdArray of None \<Rightarrow> HiTraceChainInitId
      | Some arr \<Rightarrow>
          if len \<noteq> int HITRACE_ID_LEN then HiTraceChainInitId
          else id_of_words (be64_of_bytes (take 8 arr)) (be64_of_bytes (take 8 (drop 8 arr))))"

text \<open>
  Bit-level reading of a field: the part of a word that a field of \<open>m\<close> bits at offset \<open>k\<close>
  contributes. The two round trips of the encoding follow from it bit by bit.
\<close>

lemma bit_field_in_word:
  "bit (push_bit k (ucast (f :: 'a::len word)) :: 'b::len word) n \<longleftrightarrow> n < LENGTH('b) \<and> k \<le> n \<and> bit f (n - k)"
  by (auto simp: bit_push_bit_iff bit_ucast_iff possible_bit_def dest: bit_imp_le_length)

lemma bit_shifted_word: "bit (drop_bit k (w :: 'b::len word)) n \<longleftrightarrow> bit w (k + n)"
  by (simp add: bit_drop_bit_eq)

lemma bit_low_field:
  "bit (ucast (w :: 'b::len word) :: 'a::len word) n \<longleftrightarrow> n < LENGTH('a) \<and> bit w n"
  by (auto simp: bit_ucast_iff possible_bit_def)

lemma bit_word_bound: "bit (w :: 'a::len word) n \<Longrightarrow> n < LENGTH('a)"
  by (rule bit_imp_le_length)

lemmas field_bits = bit_or_iff bit_field_in_word bit_low_field bit_shifted_word

lemma bit_chunk:
  "bit (push_bit k (ucast (ucast (drop_bit k w) :: u8)) :: u64) n \<longleftrightarrow> n < 64 \<and> k \<le> n \<and> n < k + 8 \<and> bit w n"
  for w :: u64
  unfolding field_bits by auto

lemma be64_of_bytes_be64_bytes [simp]: "be64_of_bytes (be64_bytes w) = w"
proof (rule bit_word_eqI)
  fix n assume n: "n < LENGTH(64)"
  have "bit (be64_of_bytes (be64_bytes w)) n \<longleftrightarrow>
      (\<exists>k \<in> {56, 48, 40, 32, 24, 16, 8}. k \<le> n \<and> n < k + 8) \<and> bit w n \<or> n < 8 \<and> bit w n"
    using n unfolding be64_bytes_def list.map be64_of_bytes.simps bit_or_iff bit_chunk
    by (simp add: bit_low_field) blast
  moreover have "(\<exists>k \<in> {56, 48, 40, 32, 24, 16, 8}. k \<le> n \<and> n < k + 8) \<or> n < 8"
    using n by simp presburger
  ultimately show "bit (be64_of_bytes (be64_bytes w)) n = bit w n" by blast
qed

lemma id_of_words_words [simp]: "id_of_words (id_word0 p) (id_word1 p) = p"
proof -
  have "(ucast (id_word0 p) :: 1 word) = valid p"
    by (rule bit_word_eqI) (unfold id_word0_def field_bits, auto)
  moreover have "(ucast (drop_bit 1 (id_word0 p)) :: 3 word) = ver p"
    by (rule bit_word_eqI) (unfold id_word0_def field_bits, auto dest: bit_word_bound)
  moreover have "(ucast (drop_bit 4 (id_word0 p)) :: 60 word) = chainId p"
    by (rule bit_word_eqI) (unfold id_word0_def field_bits, auto dest: bit_word_bound)
  moreover have "(ucast (id_word1 p) :: 12 word) = flags p"
    by (rule bit_word_eqI) (unfold id_word1_def field_bits, auto dest: bit_word_bound)
  moreover have "(ucast (drop_bit 12 (id_word1 p)) :: 26 word) = spanId p"
    by (rule bit_word_eqI) (unfold id_word1_def field_bits, auto dest: bit_word_bound)
  moreover have "(ucast (drop_bit 38 (id_word1 p)) :: 26 word) = parentSpanId p"
    by (rule bit_word_eqI) (unfold id_word1_def field_bits, auto dest: bit_word_bound)
  ultimately show ?thesis by (simp add: id_of_words_def)
qed

lemma id_words_of_words [simp]:
  "id_word0 (id_of_words w0 w1) = w0" "id_word1 (id_of_words w0 w1) = w1"
proof -
  show "id_word0 (id_of_words w0 w1) = w0"
  proof (rule bit_word_eqI)
    fix n assume "n < LENGTH(64)"
    then show "bit (id_word0 (id_of_words w0 w1)) n = bit w0 n"
      unfolding id_word0_def id_of_words_def HiTraceIdStruct.simps field_bits
      by (cases "n = 0"; cases "n < 4") auto
  qed
  show "id_word1 (id_of_words w0 w1) = w1"
  proof (rule bit_word_eqI)
    fix n assume "n < LENGTH(64)"
    then show "bit (id_word1 (id_of_words w0 w1)) n = bit w1 n"
      unfolding id_word1_def id_of_words_def HiTraceIdStruct.simps field_bits
      by (cases "n < 12"; cases "n < 38") auto
  qed
qed

section \<open>The chain state of the process\<close>

record HiTraceIdStructExtra =
  setTls :: "1 word"
  reserved :: "31 word"

record HiTraceIdStructInner =
  id_of :: HiTraceIdStruct
  extra :: HiTraceIdStructExtra

type_synonym thread = nat

text \<open>
  The static atomics \<^verbatim>\<open>deviceId\<close> and \<^verbatim>\<open>cpuId\<close> and the thread-local \<^verbatim>\<open>g_hiTraceId\<close> of every
  thread.
\<close>

record chain_world =
  deviceId :: u32
  cpuId :: u32
  g_hiTraceId :: "thread \<Rightarrow> HiTraceIdStructInner"

definition chain_world_init :: chain_world where
  "chain_world_init = \<lparr>deviceId = 0, cpuId = 0,
     g_hiTraceId = (\<lambda>_. \<lparr>id_of = \<lparr>valid = 0, ver = 0, chainId = 0, flags = 0, spanId = 0, parentSpanId = 0\<rparr>,
                         extra = \<lparr>setTls = 0, reserved = 0\<rparr>\<rparr>)\<rparr>"

record timeval =
  tv_sec :: i64
  tv_usec :: i64

datatype log_level = LOG_DEBUG | LOG_INFO | LOG_WARN

text \<open>What the operations emit: hilog records and the calls into the meter.\<close>

datatype chain_event =
    BeginLog log_level u32 string i32
  | EndLog log_level u32
  | EndInvalidEndId
  | EndInvalidThreadId
  | EndIdMismatch u64 u64
  | StartTraceChainPoint HiTraceIdStruct string
  | HiTraceFinishTrace u64
  | TracepointLog log_level u32 string string u64 u64 u64 string

definition level_of_domain :: "u32 \<Rightarrow> log_level" where
  "level_of_domain domain = (if domain = 0 then LOG_DEBUG else LOG_INFO)"

definition HiTraceChainGetId :: "thread \<Rightarrow> chain_world \<Rightarrow> HiTraceIdStruct" where
  "HiTraceChainGetId t w = id_of (g_hiTraceId w t)"

text \<open>The assignment \<^verbatim>\<open>pThreadId->id = ...\<close>: only the calling thread's identifier changes.\<close>

definition set_thread_id :: "thread \<Rightarrow> HiTraceIdStruct \<Rightarrow> chain_world \<Rightarrow> chain_world" where
  "set_thread_id t p w = w\<lparr>g_hiTraceId := (g_hiTraceId w)(t := (g_hiTraceId w t)\<lparr>id_of := p\<rparr>)\<rparr>"

definition HiTraceChainSetId :: "thread \<Rightarrow> HiTraceIdStruct option \<Rightarrow> chain_world \<Rightarrow> chain_world" where
  "HiTraceChainSetId t pId w =
     (if \<not> HiTraceChainIsValid pId then w else set_thread_id t (the pId) w)"

definition HiTraceChainClearId :: "thread \<Rightarrow> chain_world \<Rightarrow> chain_world" where
  "HiTraceChainClearId t w = set_thread_id t HiTraceChainInitId w"

definition HiTraceChainSaveAndSetId ::
  "thread \<Rightarrow> HiTraceIdStruct option \<Rightarrow> chain_world \<Rightarrow> HiTraceIdStruct \<times> chain_world" where
  "HiTraceChainSaveAndSetId t pId w =
     (HiTraceChainGetId t w,
      case pId of None \<Rightarrow> w
      | Some p \<Rightarrow> if valid p = HITRACE_ID_VALID then set_thread_id t p w else w)"

definition HiTraceChainRestoreId :: "thread \<Rightarrow> HiTraceIdStruct option \<Rightarrow> chain_world \<Rightarrow> chain_world" where
  "HiTraceChainRestoreId t pId w = (case pId of None \<Rightarrow> w | Some p \<Rightarrow> set_thread_id t p w)"

section \<open>Device, cpu and chain numbers\<close>

text \<open>
  The loop \<^verbatim>\<open>do { desired = random(); } while (desired == 0)\<close> over the values that \<^verbatim>\<open>random()\<close>
  returns; \<open>None\<close> means that the loop has not ended within the given draws.
\<close>

primrec draw_desired :: "u32 list \<Rightarrow> u32 option" where
  "draw_desired [] = None"
| "draw_desired (r # rs) = (if r = 0 then draw_desired rs else Some r)"

text \<open>\<^verbatim>\<open>atomic_compare_exchange_strong(&deviceId, &expected, desired)\<close> with \<^verbatim>\<open>expected\<close> 0.\<close>

definition device_cas :: "u32 \<Rightarrow> chain_world \<Rightarrow> chain_world" where
  "device_cas desired w = (if deviceId w = 0 then w\<lparr>deviceId := desired\<rparr> else w)"

definition HiTraceChainGetDeviceId :: "u32 list \<Rightarrow> chain_world \<Rightarrow> (u32 \<times> chain_world) option" where
  "HiTraceChainGetDeviceId draws w =
     (if deviceId w \<noteq> 0 then Some (deviceId w, w)
      else case draw_desired draws of None \<Rightarrow> None
           | Some desired \<Rightarrow> let w' = device_cas desired w in Some (deviceId w', w'))"

definition HiTraceChainGetCpuId :: "chain_world \<Rightarrow> u32 \<times> chain_world" where
  "HiTraceChainGetCpuId w = (let ret = cpuId w in (ret + 1, w\<lparr>cpuId := cpuId w + 1\<rparr>))"

text \<open>The bit-fields of \<^verbatim>\<open>HiTraceChainIdStruct\<close> and the \<^verbatim>\<open>chainId\<close> view of the union.\<close>

record HiTraceChainIdStruct =
  usecond :: "20 word"
  second :: "16 word"
  cpu :: "4 word"
  device :: "20 word"

definition chain_union :: "HiTraceChainIdStruct \<Rightarrow> 60 word" where
  "chain_union c = ucast (usecond c) OR push_bit 20 (ucast (second c)) OR
     push_bit 36 (ucast (cpu c)) OR push_bit 40 (ucast (device c))"

definition HiTraceChainCreateChainId ::
  "timeval \<Rightarrow> u32 list \<Rightarrow> chain_world \<Rightarrow> (u64 \<times> chain_world) option" where
  "HiTraceChainCreateChainId tv draws w =
     (case HiTraceChainGetDeviceId draws w of None \<Rightarrow> None
      | Some (dev, w1) \<Rightarrow>
          let (cid, w2) = HiTraceChainGetCpuId w1
          in Some (ucast (chain_union \<lparr>usecond = ucast (tv_usec tv), second = ucast (tv_sec tv),
                                       cpu = ucast cid, device = ucast dev\<rparr>), w2))"

section \<open>Begin and end\<close>

text \<open>\<open>None\<close> only when the draw of the device number has not ended.\<close>

definition HiTraceChainBeginWithDomain ::
  "timeval \<Rightarrow> u32 list \<Rightarrow> thread \<Rightarrow> string option \<Rightarrow> i32 \<Rightarrow> u32 \<Rightarrow> chain_world
     \<Rightarrow> (HiTraceIdStruct \<times> chain_world \<times> chain_event list) option" where
  "HiTraceChainBeginWithDomain tv draws t name fl domain w =
     (if sint fl < sint HITRACE_FLAG_MIN \<or> sint HITRACE_FLAG_MAX < sint fl
      then Some (HiTraceChainInitId, w, [])
      else if HiTraceChainIsValid (Some (HiTraceChainGetId t w)) then Some (HiTraceChainInitId, w, [])
      else case HiTraceChainCreateChainId tv draws w of None \<Rightarrow> None
        | Some (cid, w1) \<Rightarrow>
            let p = \<lparr>valid = HITRACE_ID_VALID, ver = HITRACE_VER_1, chainId = ucast cid,
                     flags = ucast (scast fl :: u64), spanId = 0, parentSpanId = 0\<rparr>
            in Some (p, set_thread_id t p w1,
                 if \<not> HiTraceChainIsFlagEnabled (Some p) HITRACE_FLAG_NO_BE_INFO
                 then [BeginLog (level_of_domain domain) domain
                         (case name of None \<Rightarrow> '''' | Some n \<Rightarrow> n) (ucast (flags p))]
                 else []))"

definition HiTraceChainEndWithDomain ::
  "thread \<Rightarrow> HiTraceIdStruct option \<Rightarrow> u32 \<Rightarrow> chain_world \<Rightarrow> chain_world \<times> chain_event list" where
  "HiTraceChainEndWithDomain t pId domain w =
     (let p = HiTraceChainGetId t w in
      if \<not> HiTraceChainIsValid pId then (w, [EndInvalidEndId])
      else if \<not> HiTraceChainIsValid (Some p) then (w, [EndInvalidThreadId])
      else if HiTraceChainGetChainId pId \<noteq> HiTraceChainGetChainId (Some p)
      then (w, [EndIdMismatch (ucast (chainId (the pId))) (ucast (chainId p))])
      else (set_thread_id t HiTraceChainInitId w,
            if \<not> HiTraceChainIsFlagEnabled (Some p) HITRACE_FLAG_NO_BE_INFO
            then [EndLog (level_of_domain domain) domain] else []))"

definition HiTraceChainBegin ::
  "timeval \<Rightarrow> u32 list \<Rightarrow> thread \<Rightarrow> string option \<Rightarrow> i32 \<Rightarrow> chain_world
     \<Rightarrow> (HiTraceIdStruct \<times> chain_world \<times> chain_event list) option" where
  "HiTraceChainBegin tv draws t name fl w = HiTraceChainBeginWithDomain tv draws t name fl 0 w"

definition HiTraceChainEnd ::
  "thread \<Rightarrow> HiTraceIdStruct option \<Rightarrow> chain_world \<Rightarrow> chain_world \<times> chain_event list" where
  "HiTraceChainEnd t pId w = HiTraceChainEndWithDomain t pId 0 w"

section \<open>Spans\<close>

text \<open>
  \<^verbatim>\<open>HashFunc\<close> reads the data through a plain \<^verbatim>\<open>char\<close> pointer; whether that type is signed
  depends on the target, so it is a parameter.
\<close>

definition char_to_u32 :: "bool \<Rightarrow> u8 \<Rightarrow> u32" where
  "char_to_u32 char_signed b = (if char_signed then scast b else ucast b)"

definition HashFunc :: "bool \<Rightarrow> bytes option \<Rightarrow> u32" where
  "HashFunc char_signed pData =
     (case pData of None \<Rightarrow> 0
      | Some data \<Rightarrow> foldl (\<lambda>hash b. hash * 131 + char_to_u32 char_signed b) 0 data)"

text \<open>The bytes of a \<^verbatim>\<open>uint32_t\<close> in the memory of a little-endian target.\<close>

definition le32_bytes :: "u32 \<Rightarrow> bytes" where
  "le32_bytes v = map (\<lambda>i. ucast (drop_bit i v)) [0, 8, 16, 24]"

definition HiTraceChainCreateSpan ::
  "bool \<Rightarrow> timeval \<Rightarrow> u32 list \<Rightarrow> thread \<Rightarrow> chain_world \<Rightarrow> (HiTraceIdStruct \<times> chain_world) option" where
  "HiTraceChainCreateSpan char_signed tv draws t w =
     (let p = HiTraceChainGetId t w in
      if \<not> HiTraceChainIsValid (Some p) then Some (p, w)
      else if HiTraceChainIsFlagEnabled (Some p) HITRACE_FLAG_DONOT_CREATE_SPAN then Some (p, w)
      else case HiTraceChainGetDeviceId draws w of None \<Rightarrow> None
        | Some (dev, w1) \<Rightarrow>
            let hashData = [dev, ucast (parentSpanId p), ucast (spanId p),
                            ucast (tv_sec tv), ucast (tv_usec tv)];
                hash = HashFunc char_signed (Some (concat (map le32_bytes hashData)))
            in Some (p\<lparr>parentSpanId := spanId p, spanId := ucast hash\<rparr>, w1))"

section \<open>Tracepoints\<close>

text \<open>
  \<^verbatim>\<open>HiTraceTracepointType\<close> (CS 0, CR 1, SS 2, SR 3, GENERAL 4) and
  \<^verbatim>\<open>HiTraceCommunicationMode\<close> (DEFAULT 0, THREAD 1, PROCESS 2, DEVICE 3) are plain C enums, so
  that a caller can pass any integer; they are integers here too.
\<close>

definition HITRACE_TP_CS :: int where "HITRACE_TP_CS = 0"
definition HITRACE_TP_CR :: int where "HITRACE_TP_CR = 1"
definition HITRACE_TP_SS :: int where "HITRACE_TP_SS = 2"
definition HITRACE_TP_SR :: int where "HITRACE_TP_SR = 3"
definition HITRACE_TP_GENERAL :: int where "HITRACE_TP_GENERAL = 4"
definition HITRACE_CM_DEFAULT :: int where "HITRACE_CM_DEFAULT = 0"
definition HITRACE_CM_DEVICE :: int where "HITRACE_CM_DEVICE = 3"
definition HITRACE_TAG_OHOS :: u64 where "HITRACE_TAG_OHOS = push_bit 30 1"

lemmas tp_consts = HITRACE_TP_CS_def HITRACE_TP_CR_def HITRACE_TP_SS_def HITRACE_TP_SR_def
  HITRACE_TP_GENERAL_def HITRACE_CM_DEFAULT_def HITRACE_CM_DEVICE_def

definition hiTraceTypeStr :: "string list" where
  "hiTraceTypeStr = [''CS'', ''CR'', ''SS'', ''SR'', ''GENERAL'']"

definition hiTraceModeStr :: "string list" where
  "hiTraceModeStr = [''DEFAULT'', ''THREAD'', ''PROCESS'', ''DEVICE'']"

definition TracepointParamsCheck :: "int \<Rightarrow> int \<Rightarrow> HiTraceIdStruct option \<Rightarrow> bool" where
  "TracepointParamsCheck mode type pId =
     (\<not> (mode < 0 \<or> mode > 3 \<or> type < 0 \<or> type > 4 \<or> \<not> HiTraceChainIsValid pId))"

text \<open>
  \<open>text\<close> is what \<^verbatim>\<open>vsnprintf_s\<close> stores behind the three mask bytes, \<open>None\<close> when it returns
  \<^verbatim>\<open>-1\<close>. The mask byte is only defined for the four directed types, and only those pass the
  whole buffer on.
\<close>

definition tp_mask_char :: "int \<Rightarrow> char" where
  "tp_mask_char type = (if type = HITRACE_TP_CS \<or> type = HITRACE_TP_CR then CHR ''C'' else CHR ''S'')"

definition HiTraceChainTracepointInner ::
  "int \<Rightarrow> int \<Rightarrow> HiTraceIdStruct option \<Rightarrow> u32 \<Rightarrow> string option \<Rightarrow> chain_event list" where
  "HiTraceChainTracepointInner mode type pId domain text =
     (if \<not> TracepointParamsCheck mode type pId then []
      else case text of None \<Rightarrow> []
        | Some txt \<Rightarrow>
            (if type = HITRACE_TP_CS \<or> type = HITRACE_TP_SR
             then [StartTraceChainPoint (the pId) ([tp_mask_char type, CHR ''#'', CHR ''#''] @ txt)] else []) @
            (if type = HITRACE_TP_CR \<or> type = HITRACE_TP_SS
             then [HiTraceFinishTrace HITRACE_TAG_OHOS] else []) @
            (if \<not> HiTraceChainIsFlagEnabled pId HITRACE_FLAG_TP_INFO \<and>
                \<not> HiTraceChainIsFlagEnabled pId HITRACE_FLAG_D2D_TP_INFO then []
             else if \<not> HiTraceChainIsFlagEnabled pId HITRACE_FLAG_TP_INFO \<and> mode \<noteq> HITRACE_CM_DEVICE then []
             else [TracepointLog (level_of_domain domain) domain
                     (hiTraceModeStr ! nat mode) (hiTraceTypeStr ! nat type)
                     (ucast (chainId (the pId))) (ucast (spanId (the pId)))
                     (ucast (parentSpanId (the pId))) txt]))"

definition HiTraceChainTracepoint ::
  "int \<Rightarrow> HiTraceIdStruct option \<Rightarrow> string option \<Rightarrow> chain_event list" where
  "HiTraceChainTracepoint type pId text =
     HiTraceChainTracepointInner HITRACE_CM_DEFAULT type pId 0 text"

definition HiTraceChainTracepointEx ::
  "int \<Rightarrow> int \<Rightarrow> HiTraceIdStruct option \<Rightarrow> string option \<Rightarrow> chain_event list" where
  "HiTraceChainTracepointEx mode type pId text = HiTraceChainTracepointInner mode type pId 0 text"

definition HiTraceChainTracepointExWithDomain ::
  "int \<Rightarrow> int \<Rightarrow> HiTraceIdStruct option \<Rightarrow> u32 \<Rightarrow> string option \<Rightarrow> chain_event list" where
  "HiTraceChainTracepointExWithDomain mode type pId domain text =
     HiTraceChainTracepointInner mode type pId domain text"

section \<open>What the logging library reads\<close>

datatype info_result = HITRACE_INFO_FAIL | HITRACE_INFO_ALL_VALID | HITRACE_INFO_ALL_VALID_EXCEPT_SPAN

text \<open>
  The out-parameters are given as pointers, \<open>None\<close> for a null one and the old content otherwise;
  the result carries their contents afterwards.
\<close>

definition HiTraceChainGetInfo ::
  "thread \<Rightarrow> chain_world \<Rightarrow> u64 option \<Rightarrow> u32 option \<Rightarrow> u64 option \<Rightarrow> u64 option
     \<Rightarrow> info_result \<times> u64 option \<times> u32 option \<times> u64 option \<times> u64 option" where
  "HiTraceChainGetInfo t w pc pf ps pp =
     (let p = HiTraceChainGetId t w in
      if pc = None \<or> pf = None \<or> ps = None \<or> pp = None then (HITRACE_INFO_FAIL, pc, pf, ps, pp)
      else if \<not> HiTraceChainIsValid (Some p) then (HITRACE_INFO_FAIL, pc, pf, ps, pp)
      else if HiTraceChainIsFlagEnabled (Some p) HITRACE_FLAG_DONOT_ENABLE_LOG
      then (HITRACE_INFO_FAIL, pc, pf, ps, pp)
      else if HiTraceChainIsFlagEnabled (Some p) HITRACE_FLAG_DONOT_CREATE_SPAN
      then (HITRACE_INFO_ALL_VALID_EXCEPT_SPAN, Some (HiTraceChainGetChainId (Some p)),
            Some (HiTraceChainGetFlags (Some p)), Some 0, Some 0)
      else (HITRACE_INFO_ALL_VALID, Some (HiTraceChainGetChainId (Some p)),
            Some (HiTraceChainGetFlags (Some p)), Some (HiTraceChainGetSpanId (Some p)),
            Some (HiTraceChainGetParentSpanId (Some p))))"

section \<open>The C++ classes\<close>

text \<open>
  \<^verbatim>\<open>class HiTraceId\<close> of \<^verbatim>\<open>frameworks/native/hitraceid.cpp\<close> holds one identifier, and the static
  methods of \<^verbatim>\<open>class HiTraceChain\<close> of \<^verbatim>\<open>frameworks/native/hitracechain.cpp\<close> pass it on to the
  C functions.
\<close>

record HiTraceId =
  hid :: HiTraceIdStruct

definition HiTraceId_default :: HiTraceId where
  "HiTraceId_default = \<lparr>hid = \<lparr>valid = HITRACE_ID_INVALID, ver = 0, chainId = 0, flags = 0,
     spanId = 0, parentSpanId = 0\<rparr>\<rparr>"

definition HiTraceId_of_struct :: "HiTraceIdStruct \<Rightarrow> HiTraceId" where
  "HiTraceId_of_struct p = \<lparr>hid = p\<rparr>"

definition HiTraceId_of_bytes :: "bytes option \<Rightarrow> int \<Rightarrow> HiTraceId" where
  "HiTraceId_of_bytes pIdArray len = \<lparr>hid = HiTraceChainBytesToId pIdArray len\<rparr>"

definition HiTraceId_IsValid :: "HiTraceId \<Rightarrow> bool" where
  "HiTraceId_IsValid h = HiTraceChainIsValid (Some (hid h))"

definition HiTraceId_IsFlagEnabled :: "HiTraceId \<Rightarrow> i32 \<Rightarrow> bool" where
  "HiTraceId_IsFlagEnabled h flag = HiTraceChainIsFlagEnabled (Some (hid h)) flag"

definition HiTraceId_EnableFlag :: "HiTraceId \<Rightarrow> i32 \<Rightarrow> HiTraceId" where
  "HiTraceId_EnableFlag h flag = h\<lparr>hid := HiTraceChainEnableFlag (hid h) flag\<rparr>"

definition HiTraceId_GetFlags :: "HiTraceId \<Rightarrow> i32" where
  "HiTraceId_GetFlags h = HiTraceChainGetFlags (Some (hid h))"

definition HiTraceId_SetFlags :: "HiTraceId \<Rightarrow> i32 \<Rightarrow> HiTraceId" where
  "HiTraceId_SetFlags h fl = h\<lparr>hid := HiTraceChainSetFlags (hid h) fl\<rparr>"

definition HiTraceId_GetChainId :: "HiTraceId \<Rightarrow> u64" where
  "HiTraceId_GetChainId h = HiTraceChainGetChainId (Some (hid h))"

definition HiTraceId_SetChainId :: "HiTraceId \<Rightarrow> u64 \<Rightarrow> HiTraceId" where
  "HiTraceId_SetChainId h cid = h\<lparr>hid := HiTraceChainSetChainId (hid h) cid\<rparr>"

definition HiTraceId_GetSpanId :: "HiTraceId \<Rightarrow> u64" where
  "HiTraceId_GetSpanId h = HiTraceChainGetSpanId (Some (hid h))"

definition HiTraceId_SetSpanId :: "HiTraceId \<Rightarrow> u64 \<Rightarrow> HiTraceId" where
  "HiTraceId_SetSpanId h s = h\<lparr>hid := HiTraceChainSetSpanId (hid h) s\<rparr>"

definition HiTraceId_GetParentSpanId :: "HiTraceId \<Rightarrow> u64" where
  "HiTraceId_GetParentSpanId h = HiTraceChainGetParentSpanId (Some (hid h))"

definition HiTraceId_SetParentSpanId :: "HiTraceId \<Rightarrow> u64 \<Rightarrow> HiTraceId" where
  "HiTraceId_SetParentSpanId h s = h\<lparr>hid := HiTraceChainSetParentSpanId (hid h) s\<rparr>"

definition HiTraceId_ToBytes :: "HiTraceId \<Rightarrow> bytes \<Rightarrow> int \<Rightarrow> nat \<times> bytes" where
  "HiTraceId_ToBytes h arr len = HiTraceChainIdToBytes (Some (hid h)) arr len"

definition Chain_Begin ::
  "timeval \<Rightarrow> u32 list \<Rightarrow> thread \<Rightarrow> string \<Rightarrow> i32 \<Rightarrow> u32 \<Rightarrow> chain_world
     \<Rightarrow> (HiTraceId \<times> chain_world \<times> chain_event list) option" where
  "Chain_Begin tv draws t name fl domain w =
     map_option (\<lambda>(p, r). (HiTraceId_of_struct p, r))
       (HiTraceChainBeginWithDomain tv draws t (Some name) fl domain w)"

definition Chain_End :: "thread \<Rightarrow> HiTraceId \<Rightarrow> u32 \<Rightarrow> chain_world \<Rightarrow> chain_world \<times> chain_event list" where
  "Chain_End t h domain w = HiTraceChainEndWithDomain t (Some (hid h)) domain w"

definition Chain_GetId :: "thread \<Rightarrow> chain_world \<Rightarrow> HiTraceId" where
  "Chain_GetId t w = HiTraceId_of_struct (HiTraceChainGetId t w)"

definition Chain_SetId :: "thread \<Rightarrow> HiTraceId \<Rightarrow> chain_world \<Rightarrow> chain_world" where
  "Chain_SetId t h w = HiTraceChainSetId t (Some (hid h)) w"

definition Chain_ClearId :: "thread \<Rightarrow> chain_world \<Rightarrow> chain_world" where
  "Chain_ClearId t w = HiTraceChainClearId t w"

definition Chain_CreateSpan ::
  "bool \<Rightarrow> timeval \<Rightarrow> u32 list \<Rightarrow> thread \<Rightarrow> chain_world \<Rightarrow> (HiTraceId \<times> chain_world) option" where
  "Chain_CreateSpan sg tv draws t w =
     map_option (\<lambda>(p, w'). (HiTraceId_of_struct p, w')) (HiTraceChainCreateSpan sg tv draws t w)"

definition Chain_Tracepoint :: "int \<Rightarrow> int \<Rightarrow> HiTraceId \<Rightarrow> u32 \<Rightarrow> string option \<Rightarrow> chain_event list" where
  "Chain_Tracepoint mode type h domain text =
     HiTraceChainTracepointInner mode type (Some (hid h)) domain text"

definition Chain_SaveAndSet :: "thread \<Rightarrow> HiTraceId \<Rightarrow> chain_world \<Rightarrow> HiTraceId \<times> chain_world" where
  "Chain_SaveAndSet t h w =
     (let (old, w') = HiTraceChainSaveAndSetId t (Some (hid h)) w in (HiTraceId_of_struct old, w'))"

definition Chain_Restore :: "thread \<Rightarrow> HiTraceId \<Rightarrow> chain_world \<Rightarrow> chain_world" where
  "Chain_Restore t h w = HiTraceChainRestoreId t (Some (hid h)) w"

section \<open>A thread's slot\<close>

text \<open>
  The interface between the operations and the thread-local storage: a slot per thread with a
  read and a write. What the save and restore bracket needs follows from its laws alone.
\<close>

locale thread_slot =
  fixes get :: "thread \<Rightarrow> 'w \<Rightarrow> 'v" and put :: "thread \<Rightarrow> 'v \<Rightarrow> 'w \<Rightarrow> 'w"
  assumes get_put_same: "get t (put t v w) = v"
    and get_put_other: "t' \<noteq> t \<Longrightarrow> get t' (put t v w) = get t' w"
    and put_get: "put t (get t w) w = w"
    and put_put: "put t v' (put t v w) = put t v' w"
begin

lemma get_put: "get t' (put t v w) = (if t' = t then v else get t' w)"
  by (simp add: get_put_same get_put_other)

lemma restore_after_put: "put t (get t w) (put t v w) = w"
  by (simp add: put_put put_get)

lemma put_eq_cancel: "put t v w = put t v' w \<longleftrightarrow> v = v'"
  by (metis get_put_same)

end

interpretation tls: thread_slot HiTraceChainGetId set_thread_id
  by unfold_locales (auto simp: HiTraceChainGetId_def set_thread_id_def)

lemmas tls_simps = tls.get_put tls.put_put tls.restore_after_put tls.put_get

declare tls_simps [simp]

lemma set_thread_id_frame [simp]:
  "deviceId (set_thread_id t p w) = deviceId w"
  "cpuId (set_thread_id t p w) = cpuId w"
  "extra (g_hiTraceId (set_thread_id t p w) t') = extra (g_hiTraceId w t')"
  by (simp_all add: set_thread_id_def)

lemma InitId_invalid [simp]: "\<not> HiTraceChainIsValid (Some HiTraceChainInitId)"
  by (simp add: HiTraceChainInitId_def chain_consts)

section \<open>Every operation's frame\<close>

text \<open>The numbers drawn for a chain identifier never touch a thread's slot.\<close>

lemma GetDeviceId_Some:
  assumes "HiTraceChainGetDeviceId draws w = Some (d, w')"
  shows "d \<noteq> 0" "deviceId w' = d" "deviceId w \<noteq> 0 \<Longrightarrow> d = deviceId w"
    "cpuId w' = cpuId w" "g_hiTraceId w' = g_hiTraceId w"
proof -
  have nz: "draw_desired draws = Some r \<Longrightarrow> r \<noteq> 0" for r
    by (induction draws) (auto split: if_splits)
  show "d \<noteq> 0" "deviceId w' = d" "deviceId w \<noteq> 0 \<Longrightarrow> d = deviceId w"
    "cpuId w' = cpuId w" "g_hiTraceId w' = g_hiTraceId w"
    using assms nz by (auto simp: HiTraceChainGetDeviceId_def device_cas_def Let_def
      split: if_splits option.splits)
qed

lemma CreateChainId_Some:
  assumes "HiTraceChainCreateChainId tv draws w = Some (c, w')"
  shows "c = ucast (chain_union \<lparr>usecond = ucast (tv_usec tv), second = ucast (tv_sec tv),
             cpu = ucast (cpuId w + 1), device = ucast (deviceId w')\<rparr>)"
    "deviceId w' \<noteq> 0" "deviceId w \<noteq> 0 \<Longrightarrow> deviceId w' = deviceId w"
    "cpuId w' = cpuId w + 1" "g_hiTraceId w' = g_hiTraceId w"
proof -
  obtain d w1 where dev: "HiTraceChainGetDeviceId draws w = Some (d, w1)"
    using assms by (auto simp: HiTraceChainCreateChainId_def split: option.splits)
  note f = GetDeviceId_Some [OF dev]
  show "c = ucast (chain_union \<lparr>usecond = ucast (tv_usec tv), second = ucast (tv_sec tv),
             cpu = ucast (cpuId w + 1), device = ucast (deviceId w')\<rparr>)"
    "deviceId w' \<noteq> 0" "deviceId w \<noteq> 0 \<Longrightarrow> deviceId w' = deviceId w"
    "cpuId w' = cpuId w + 1" "g_hiTraceId w' = g_hiTraceId w"
    using assms dev f
    by (auto simp: HiTraceChainCreateChainId_def HiTraceChainGetCpuId_def Let_def)
qed

lemma GetId_frame: "g_hiTraceId w' = g_hiTraceId w \<Longrightarrow> HiTraceChainGetId t w' = HiTraceChainGetId t w"
  by (simp add: HiTraceChainGetId_def)

lemma draw_desired_total: "\<exists>r \<in> set draws. r \<noteq> 0 \<Longrightarrow> \<exists>r. draw_desired draws = Some r"
  by (induction draws) auto

section \<open>Interleavings\<close>

text \<open>
  One call of a chain operation by thread \<open>t\<close>, and a run: calls of several threads in the order in
  which they happen.
\<close>

inductive chain_step :: "thread \<Rightarrow> chain_world \<Rightarrow> chain_world \<Rightarrow> bool" where
  step_begin: "HiTraceChainBeginWithDomain tv draws t name fl domain w = Some (p, w', ev) \<Longrightarrow> chain_step t w w'"
| step_end: "HiTraceChainEndWithDomain t pId domain w = (w', ev) \<Longrightarrow> chain_step t w w'"
| step_set: "chain_step t w (HiTraceChainSetId t pId w)"
| step_clear: "chain_step t w (HiTraceChainClearId t w)"
| step_span: "HiTraceChainCreateSpan sg tv draws t w = Some (p, w') \<Longrightarrow> chain_step t w w'"
| step_save: "HiTraceChainSaveAndSetId t pId w = (p, w') \<Longrightarrow> chain_step t w w'"
| step_restore: "chain_step t w (HiTraceChainRestoreId t pId w)"

inductive chain_run :: "thread list \<Rightarrow> chain_world \<Rightarrow> chain_world \<Rightarrow> bool" where
  run_nil: "chain_run [] w w"
| run_cons: "chain_step t w w1 \<Longrightarrow> chain_run ts w1 w2 \<Longrightarrow> chain_run (t # ts) w w2"

inductive_cases chain_run_ConsE: "chain_run (t # ts) w w'"

lemma Begin_cases:
  assumes "HiTraceChainBeginWithDomain tv draws t name fl domain w = Some (p, w', ev)"
  obtains (rejected) "p = HiTraceChainInitId" "w' = w" "ev = []"
  | (started) c w1 where "\<not> HiTraceChainIsValid (Some (HiTraceChainGetId t w))"
      "HiTraceChainCreateChainId tv draws w = Some (c, w1)"
      "p = \<lparr>valid = HITRACE_ID_VALID, ver = HITRACE_VER_1, chainId = ucast c,
            flags = ucast (scast fl :: u64), spanId = 0, parentSpanId = 0\<rparr>"
      "w' = set_thread_id t p w1"
  using assms by (fastforce simp: HiTraceChainBeginWithDomain_def Let_def split: if_splits option.splits)

lemma Begin_started:
  assumes "sint HITRACE_FLAG_MIN \<le> sint fl" "sint fl \<le> sint HITRACE_FLAG_MAX"
    "\<not> HiTraceChainIsValid (Some (HiTraceChainGetId t w))" "deviceId w \<noteq> 0 \<or> (\<exists>r \<in> set draws. r \<noteq> 0)"
  shows "\<exists>c w1. HiTraceChainCreateChainId tv draws w = Some (c, w1)"
proof -
  have "\<exists>d w1. HiTraceChainGetDeviceId draws w = Some (d, w1)"
  proof (cases "deviceId w = 0")
    case True
    with assms(4) obtain r where "draw_desired draws = Some r" using draw_desired_total by blast
    with True show ?thesis by (simp add: HiTraceChainGetDeviceId_def Let_def)
  qed (simp add: HiTraceChainGetDeviceId_def)
  then show ?thesis by (auto simp: HiTraceChainCreateChainId_def HiTraceChainGetCpuId_def Let_def)
qed

lemma Span_cases:
  assumes "HiTraceChainCreateSpan sg tv draws t w = Some (p, w')"
  obtains (kept) "p = HiTraceChainGetId t w" "w' = w"
    "\<not> HiTraceChainIsValid (Some p) \<or> HiTraceChainIsFlagEnabled (Some p) HITRACE_FLAG_DONOT_CREATE_SPAN"
  | (child) d where "HiTraceChainGetDeviceId draws w = Some (d, w')"
      "p = (HiTraceChainGetId t w)\<lparr>parentSpanId := spanId (HiTraceChainGetId t w), spanId := spanId p\<rparr>"
      "HiTraceChainIsValid (Some (HiTraceChainGetId t w))"
proof (cases "HiTraceChainIsValid (Some (HiTraceChainGetId t w)) \<and>
    \<not> HiTraceChainIsFlagEnabled (Some (HiTraceChainGetId t w)) HITRACE_FLAG_DONOT_CREATE_SPAN")
  case True
  with assms obtain d where dev: "HiTraceChainGetDeviceId draws w = Some (d, w')"
    by (auto simp: HiTraceChainCreateSpan_def Let_def split: option.splits)
  show ?thesis
    by (rule child [OF dev]) (use True assms dev in \<open>auto simp: HiTraceChainCreateSpan_def Let_def\<close>)
next
  case False
  show ?thesis
    by (rule kept) (use False assms in \<open>auto simp: HiTraceChainCreateSpan_def Let_def split: if_splits\<close>)
qed

lemma chain_step_frame:
  assumes "chain_step t w w'"
  shows "t' \<noteq> t \<Longrightarrow> HiTraceChainGetId t' w' = HiTraceChainGetId t' w"
    and "deviceId w \<noteq> 0 \<Longrightarrow> deviceId w' = deviceId w"
proof -
  have "(t' \<noteq> t \<longrightarrow> HiTraceChainGetId t' w' = HiTraceChainGetId t' w) \<and>
      (deviceId w \<noteq> 0 \<longrightarrow> deviceId w' = deviceId w)"
    using assms
  proof cases
    case (step_begin tv draws name fl domain p ev)
    then show ?thesis
    proof (cases rule: Begin_cases)
      case (started c w1)
      note f = CreateChainId_Some [OF started(2)]
      show ?thesis using f(3) GetId_frame [OF f(5)] by (simp add: started(4))
    qed simp
  next
    case (step_end pId domain ev)
    then show ?thesis by (auto simp: HiTraceChainEndWithDomain_def Let_def split: if_splits)
  next
    case (step_span sg tv draws p)
    then show ?thesis
    proof (cases rule: Span_cases)
      case (child d)
      note f = GetDeviceId_Some [OF child(1)]
      show ?thesis using f(2,3) GetId_frame [OF f(5)] by simp
    qed simp
  next
    case (step_save pId p)
    then show ?thesis by (auto simp: HiTraceChainSaveAndSetId_def split: option.splits if_splits)
  qed (auto simp: HiTraceChainSetId_def HiTraceChainClearId_def HiTraceChainRestoreId_def split: option.splits)
  then show "t' \<noteq> t \<Longrightarrow> HiTraceChainGetId t' w' = HiTraceChainGetId t' w"
    and "deviceId w \<noteq> 0 \<Longrightarrow> deviceId w' = deviceId w" by blast+
qed

lemma chain_run_frame:
  assumes "chain_run ts w w'" "t \<notin> set ts"
  shows "HiTraceChainGetId t w' = HiTraceChainGetId t w"
  using assms by (induction rule: chain_run.induct) (simp_all add: chain_step_frame(1))

section \<open>Correctness of the chain component\<close>

lemma flags_fit:
  assumes "0 \<le> sint fl" "sint fl < 4096"
  shows "(ucast (ucast (scast fl :: u64) :: 12 word) :: i32) = fl"
proof -
  have self: "take_bit n (sint fl) = sint fl" if "12 \<le> n" for n
  proof -
    have "(2::int) ^ 12 \<le> 2 ^ n" using that by (simp only: power_increasing_iff)
    then show ?thesis using assms by (intro take_bit_int_eq_self) auto
  qed
  have "uint fl = take_bit LENGTH(32) (sint fl)" by (rule uint_sint)
  then have "uint fl = sint fl" using self [of 32] by simp
  moreover have "uint (scast fl :: u64) = sint fl"
    unfolding scast_eq uint_word_of_int_eq using self [of 64] by simp
  ultimately have "uint (ucast (ucast (scast fl :: u64) :: 12 word) :: i32) = uint fl"
    using self [of 12] self [of 32] by (simp add: unsigned_ucast_eq unsigned_take_bit_eq)
  then show ?thesis by (simp only: word_uint_eq_iff)
qed

lemma length_be64_bytes [simp]: "length (be64_bytes w) = 8"
  by (simp add: be64_bytes_def)

lemma length_8E:
  assumes "length (bs :: bytes) = 8"
  obtains b7 b6 b5 b4 b3 b2 b1 b0 where "bs = [b7, b6, b5, b4, b3, b2, b1, b0]"
  using assms by (auto simp: length_Suc_conv numeral_eq_Suc)

lemma be64_bytes_of_bytes:
  assumes "length bs = 8" shows "be64_bytes (be64_of_bytes bs) = bs"
proof -
  from assms obtain b7 b6 b5 b4 b3 b2 b1 b0 where bs: "bs = [b7, b6, b5, b4, b3, b2, b1, b0]"
    by (rule length_8E)
  let ?w = "be64_of_bytes bs"
  have byte: "(ucast (drop_bit k ?w) :: u8) = b"
    if "\<And>n. n < 8 \<Longrightarrow> bit ?w (k + n) \<longleftrightarrow> bit b n" for k b
    by (rule bit_word_eqI) (use that in \<open>simp add: bit_low_field bit_shifted_word\<close>)
  have "be64_bytes ?w = [b7, b6, b5, b4, b3, b2, b1, b0]"
    unfolding be64_bytes_def list.map
    by (intro list.simps(1) [THEN iffD2] conjI byte refl; unfold bs be64_of_bytes.simps field_bits)
      (auto dest: bit_word_bound)
  with bs show ?thesis by simp
qed

subsection \<open>The byte encoding\<close>

text \<open>C16: Writing a valid identifier into an array of at least 16 bytes and reading the first 16
bytes back gives the identifier again; the rest of the array is untouched.\<close>

theorem id_bytes_roundtrip:
  assumes "HiTraceChainIsValid (Some p)" "16 \<le> len" "len \<le> int (length arr)"
    "HiTraceChainIdToBytes (Some p) arr len = (n, arr')"
  shows "n = 16 \<and> length arr' = length arr \<and> drop 16 arr' = drop 16 arr \<and>
    HiTraceChainBytesToId (Some (take 16 arr')) (int n) = p"
  using assms by (auto simp: HiTraceChainIdToBytes_def HiTraceChainBytesToId_def HITRACE_ID_LEN_def)

definition sample_id :: HiTraceIdStruct where
  "sample_id = \<lparr>valid = 1, ver = 0, chainId = 4660, flags = 9, spanId = 33, parentSpanId = 7\<rparr>"

lemma sample_id_valid: "HiTraceChainIsValid (Some sample_id)"
  by (simp add: sample_id_def chain_consts)

theorem id_bytes_roundtrip_witness:
  "HiTraceChainBytesToId
     (Some (take 16 (snd (HiTraceChainIdToBytes (Some sample_id) (replicate 20 0) 20)))) 16 = sample_id"
  using id_bytes_roundtrip [OF sample_id_valid, of 20 "replicate 20 0" 16
      "snd (HiTraceChainIdToBytes (Some sample_id) (replicate 20 0) 20)"]
  by (simp add: HiTraceChainIdToBytes_def HITRACE_ID_LEN_def sample_id_def chain_consts)

text \<open>Any 16 bytes whose eighth byte is odd (the valid bit) decode to a valid identifier, and
encoding that identifier gives the same 16 bytes; with that bit clear the decoded identifier is
invalid and nothing is written.\<close>

theorem bytes_id_roundtrip:
  assumes "length bs = 16"
  shows "HiTraceChainIdToBytes (Some (HiTraceChainBytesToId (Some bs) 16)) (replicate 16 0) 16 =
     (if odd (bs ! 7) then (16, bs) else (0, replicate 16 0))"
proof -
  have l8: "length (take 8 bs) = 8" "length (take 8 (drop 8 bs)) = 8" using assms by auto
  note bk = be64_bytes_of_bytes [OF l8(1)] be64_bytes_of_bytes [OF l8(2)]
  obtain b7 b6 b5 b4 b3 b2 b1 b0 where b: "take 8 bs = [b7, b6, b5, b4, b3, b2, b1, b0]"
    using l8(1) by (rule length_8E)
  have b0: "bs ! 7 = b0" using arg_cong [OF b, of "\<lambda>l. l ! 7"] assms by simp
  have low: "bit (be64_of_bytes (take 8 bs)) 0 \<longleftrightarrow> bit b0 0"
    unfolding b be64_of_bytes.simps field_bits by simp
  have "(ucast w :: 1 word) = 1 \<longleftrightarrow> bit w 0" for w :: u64
  proof -
    have "(ucast w :: 1 word) = 1 \<longleftrightarrow> (\<forall>n < LENGTH(1). bit (ucast w :: 1 word) n = bit (1 :: 1 word) n)"
      by (metis bit_word_eqI)
    also have "\<dots> \<longleftrightarrow> bit w 0" by (simp add: bit_low_field)
    finally show ?thesis .
  qed
  with low b0 have "HiTraceChainIsValid (Some (HiTraceChainBytesToId (Some bs) 16)) \<longleftrightarrow> odd (bs ! 7)"
    by (simp add: HiTraceChainBytesToId_def HITRACE_ID_LEN_def id_of_words_def chain_consts bit_0)
  moreover have "take 8 bs @ take 8 (drop 8 bs) = bs"
    using assms append_take_drop_id [of 8 bs] by simp
  ultimately show ?thesis
    using assms bk
    by (auto simp: HiTraceChainIdToBytes_def HITRACE_ID_LEN_def HiTraceChainBytesToId_def)
qed

theorem bytes_id_roundtrip_witness:
  "HiTraceChainIdToBytes (Some (HiTraceChainBytesToId (Some (replicate 16 3)) 16)) (replicate 16 0) 16
     = (16, replicate 16 3)"
  using bytes_id_roundtrip [of "replicate 16 3"] by simp

subsection \<open>Life of a chain\<close>

text \<open>On a thread without a chain, a begin with flags between 0 and 127 returns (as soon as
\<^verbatim>\<open>random()\<close> has drawn a number other than 0 or the device number is known), stores a valid
identifier with those flags and no span in the thread and in no other thread, refuses every
further begin, and the matching end clears the thread again.\<close>

theorem begin_end_life:
  assumes "sint HITRACE_FLAG_MIN \<le> sint fl" "sint fl \<le> sint HITRACE_FLAG_MAX"
    "\<not> HiTraceChainIsValid (Some (HiTraceChainGetId t w))" "deviceId w \<noteq> 0 \<or> (\<exists>r \<in> set draws. r \<noteq> 0)"
  shows "\<exists>p w' ev. HiTraceChainBeginWithDomain tv draws t name fl domain w = Some (p, w', ev) \<and>
    HiTraceChainIsValid (Some p) \<and> HiTraceChainGetFlags (Some p) = fl \<and>
    HiTraceChainGetSpanId (Some p) = 0 \<and> HiTraceChainGetParentSpanId (Some p) = 0 \<and>
    (\<forall>t'. HiTraceChainGetId t' w' = (if t' = t then p else HiTraceChainGetId t' w)) \<and>
    (\<forall>tv2 draws2 name2 fl2 domain2.
       HiTraceChainBeginWithDomain tv2 draws2 t name2 fl2 domain2 w' = Some (HiTraceChainInitId, w', [])) \<and>
    HiTraceChainGetId t (fst (HiTraceChainEndWithDomain t (Some p) domain w')) = HiTraceChainInitId"
proof -
  obtain c w1 where c: "HiTraceChainCreateChainId tv draws w = Some (c, w1)"
    using Begin_started [OF assms] by blast
  let ?p = "\<lparr>valid = HITRACE_ID_VALID, ver = HITRACE_VER_1, chainId = ucast c,
             flags = ucast (scast fl :: u64), spanId = 0, parentSpanId = 0\<rparr>"
  have slots: "HiTraceChainGetId t' w1 = HiTraceChainGetId t' w" for t'
    using CreateChainId_Some(5) [OF c] by (rule GetId_frame)
  have small: "\<not> sint fl < sint HITRACE_FLAG_MIN" "\<not> sint HITRACE_FLAG_MAX < sint fl"
    using assms(1,2) by auto
  then obtain ev where "HiTraceChainBeginWithDomain tv draws t name fl domain w =
      Some (?p, set_thread_id t ?p w1, ev)"
    using c assms(3) by (auto simp: HiTraceChainBeginWithDomain_def Let_def)
  moreover have "HiTraceChainIsValid (Some ?p)" by simp
  moreover have "(ucast (ucast (scast fl :: u64) :: 12 word) :: i32) = fl"
    using assms(1,2) by (intro flags_fit) (simp_all add: chain_consts)
  ultimately show ?thesis using slots
    by (auto simp: HiTraceChainGetFlags_def HiTraceChainGetSpanId_def HiTraceChainGetParentSpanId_def
      HiTraceChainBeginWithDomain_def HiTraceChainEndWithDomain_def Let_def)
qed

theorem begin_end_life_witness:
  "\<exists>p w' ev. HiTraceChainBeginWithDomain \<lparr>tv_sec = 5, tv_usec = 6\<rparr> [0, 77] 1 None 127 0 chain_world_init =
      Some (p, w', ev) \<and> HiTraceChainGetId 1 (fst (HiTraceChainEndWithDomain 1 (Some p) 0 w')) = HiTraceChainInitId"
  using begin_end_life [of 127 1 chain_world_init "[0, 77]" "\<lparr>tv_sec = 5, tv_usec = 6\<rparr>" None 0]
  by (fastforce simp: chain_consts chain_world_init_def HiTraceChainGetId_def)

text \<open>Saving a valid identifier over a thread's own one and restoring what was saved brings the
process back to exactly the state before; between the two the thread carries the given identifier,
and whatever chain operations the thread performs inside the bracket, restoring gives every thread
the identifier it had before.\<close>

theorem save_restore_bracket:
  assumes "HiTraceChainIsValid (Some q)" "HiTraceChainSaveAndSetId t (Some q) w = (old, w1)"
  shows "HiTraceChainGetId t w1 = q \<and> HiTraceChainRestoreId t (Some old) w1 = w \<and>
    (\<forall>n w2 t'. chain_run (replicate n t) w1 w2 \<longrightarrow>
       HiTraceChainGetId t' (HiTraceChainRestoreId t (Some old) w2) = HiTraceChainGetId t' w)"
  using assms chain_run_frame [of "replicate n t" for n]
  by (auto simp: HiTraceChainSaveAndSetId_def HiTraceChainRestoreId_def split: if_splits)

theorem save_restore_bracket_witness:
  "HiTraceChainRestoreId 2 (Some (fst (HiTraceChainSaveAndSetId 2 (Some sample_id) chain_world_init)))
     (snd (HiTraceChainSaveAndSetId 2 (Some sample_id) chain_world_init)) = chain_world_init"
  using save_restore_bracket [OF sample_id_valid, of 2 chain_world_init] by (metis prod.collapse)

text \<open>Whatever sequence of chain operations other threads perform, in any interleaving, a
thread's identifier stays what it was.\<close>

theorem chain_thread_isolation:
  assumes "chain_run ts w w'" "t \<notin> set ts"
  shows "HiTraceChainGetId t w' = HiTraceChainGetId t w"
  using assms by (rule chain_run_frame)

theorem chain_thread_isolation_witness:
  "HiTraceChainGetId 1 (HiTraceChainClearId 3 (HiTraceChainSetId 2 (Some sample_id) chain_world_init)) =
   HiTraceChainGetId 1 chain_world_init"
  by (rule chain_thread_isolation [of "[2, 3]"])
    (auto intro: chain_run.intros chain_step.intros)

text \<open>Two chain identifiers created by a process are equal only if the microseconds agree in 20
bits, the seconds in 16, the call counters in 4 and the device numbers in 20: every field keeps
its place in the 60 bits.\<close>

theorem chain_union_inj: "chain_union c = chain_union d \<longleftrightarrow> c = d"
proof
  assume eq: "chain_union c = chain_union d"
  have us: "usecond c = ucast (chain_union c)" for c
    by (rule bit_word_eqI) (unfold chain_union_def field_bits, auto)
  have se: "second c = ucast (drop_bit 20 (chain_union c))" for c
    by (rule bit_word_eqI) (unfold chain_union_def field_bits, auto dest: bit_word_bound)
  have cp: "cpu c = ucast (drop_bit 36 (chain_union c))" for c
    by (rule bit_word_eqI) (unfold chain_union_def field_bits, auto dest: bit_word_bound)
  have de: "device c = ucast (drop_bit 40 (chain_union c))" for c
    by (rule bit_word_eqI) (unfold chain_union_def field_bits, auto dest: bit_word_bound)
  show "c = d"
    using eq us [of c] us [of d] se [of c] se [of d] cp [of c] cp [of d] de [of c] de [of d]
    by (cases c; cases d) simp
qed simp

text \<open>A child span keeps the chain, the version and the flags of the thread's identifier, takes
the thread's span as its parent, leaves every thread's identifier alone, and is refused (the
identifier is returned as it is) without a chain or with the do-not-create-span flag.\<close>

theorem create_span_child:
  assumes "HiTraceChainCreateSpan sg tv draws t w = Some (p, w')"
  shows "chainId p = chainId (HiTraceChainGetId t w) \<and> flags p = flags (HiTraceChainGetId t w) \<and>
    valid p = valid (HiTraceChainGetId t w) \<and> ver p = ver (HiTraceChainGetId t w) \<and>
    g_hiTraceId w' = g_hiTraceId w \<and>
    (if HiTraceChainIsValid (Some (HiTraceChainGetId t w)) \<and>
        \<not> HiTraceChainIsFlagEnabled (Some (HiTraceChainGetId t w)) HITRACE_FLAG_DONOT_CREATE_SPAN
     then parentSpanId p = spanId (HiTraceChainGetId t w) else p = HiTraceChainGetId t w)"
  using assms
proof (cases rule: Span_cases)
  case kept
  then show ?thesis by auto
next
  case (child d)
  have "\<not> HiTraceChainIsFlagEnabled (Some (HiTraceChainGetId t w)) HITRACE_FLAG_DONOT_CREATE_SPAN \<or>
      p = HiTraceChainGetId t w"
    using assms by (auto simp: HiTraceChainCreateSpan_def Let_def split: if_splits)
  moreover have "chainId p = chainId (HiTraceChainGetId t w)" "flags p = flags (HiTraceChainGetId t w)"
    "valid p = valid (HiTraceChainGetId t w)" "ver p = ver (HiTraceChainGetId t w)"
    "parentSpanId p = spanId (HiTraceChainGetId t w)"
    using arg_cong [OF child(2), of chainId] arg_cong [OF child(2), of flags]
      arg_cong [OF child(2), of valid] arg_cong [OF child(2), of ver]
      arg_cong [OF child(2), of parentSpanId] by simp_all
  ultimately show ?thesis using child(3) GetDeviceId_Some(5) [OF child(1)] by auto
qed

theorem create_span_child_witness:
  "\<exists>p w'. HiTraceChainCreateSpan True \<lparr>tv_sec = 5, tv_usec = 6\<rparr> [77] 1
       (HiTraceChainSetId 1 (Some sample_id) chain_world_init) = Some (p, w') \<and>
     chainId p = 4660 \<and> parentSpanId p = 33"
proof -
  let ?w = "HiTraceChainSetId 1 (Some sample_id) chain_world_init"
  have id: "HiTraceChainGetId 1 ?w = sample_id"
    using sample_id_valid by (simp add: HiTraceChainSetId_def)
  have fl: "\<not> HiTraceChainIsFlagEnabled (Some sample_id) HITRACE_FLAG_DONOT_CREATE_SPAN"
    by (simp add: sample_id_def chain_consts)
  have "HiTraceChainCreateSpan True \<lparr>tv_sec = 5, tv_usec = 6\<rparr> [77] 1 ?w \<noteq> None"
    unfolding HiTraceChainCreateSpan_def id by (simp add: HiTraceChainGetDeviceId_def Let_def split: option.splits)
  then obtain p w' where some: "HiTraceChainCreateSpan True \<lparr>tv_sec = 5, tv_usec = 6\<rparr> [77] 1 ?w = Some (p, w')"
    by auto
  then show ?thesis
    using create_span_child [OF some] fl sample_id_valid unfolding id by (simp add: sample_id_def)
qed

subsection \<open>The device number under concurrency\<close>

text \<open>
  \<^verbatim>\<open>HiTraceChainGetDeviceId\<close> at the grain of its atomic accesses: the test of the static, the draws
  of \<^verbatim>\<open>random()\<close>, the compare-exchange, and the load that is returned. Threads interleave freely.
\<close>

datatype device_pc = DevTest | DevDraw | DevCas u32 | DevReturn | DevDone u32

inductive device_step ::
  "u32 \<times> (thread \<Rightarrow> device_pc) \<Rightarrow> u32 \<times> (thread \<Rightarrow> device_pc) \<Rightarrow> bool" where
  dev_test_set: "pcs t = DevTest \<Longrightarrow> d \<noteq> 0 \<Longrightarrow> device_step (d, pcs) (d, pcs(t := DevReturn))"
| dev_test_zero: "pcs t = DevTest \<Longrightarrow> d = 0 \<Longrightarrow> device_step (d, pcs) (d, pcs(t := DevDraw))"
| dev_draw: "pcs t = DevDraw \<Longrightarrow>
    device_step (d, pcs) (d, pcs(t := (if r = 0 then DevDraw else DevCas r)))"
| dev_cas: "pcs t = DevCas r \<Longrightarrow>
    device_step (d, pcs) (if d = 0 then r else d, pcs(t := DevReturn))"
| dev_return: "pcs t = DevReturn \<Longrightarrow> device_step (d, pcs) (d, pcs(t := DevDone d))"

fun device_pc_ok :: "u32 \<Rightarrow> device_pc \<Rightarrow> bool" where
  "device_pc_ok d (DevCas r) = (r \<noteq> 0)"
| "device_pc_ok d DevReturn = (d \<noteq> 0)"
| "device_pc_ok d (DevDone v) = (v = d \<and> v \<noteq> 0)"
| "device_pc_ok d _ = True"

definition device_inv :: "u32 \<times> (thread \<Rightarrow> device_pc) \<Rightarrow> bool" where
  "device_inv s = (\<forall>t. device_pc_ok (fst s) (snd s t))"

lemma device_pc_ok_first: "device_pc_ok 0 pc \<Longrightarrow> device_pc_ok d pc"
  by (cases pc) auto

lemma device_inv_step: "device_step s s' \<Longrightarrow> device_inv s \<Longrightarrow> device_inv s'"
proof (induction rule: device_step.induct)
  case (dev_cas pcs t r d)
  then have inv: "device_pc_ok d (pcs u)" for u by (simp add: device_inv_def)
  from inv [of t] dev_cas have "r \<noteq> 0" by simp
  then show ?case using inv device_pc_ok_first by (auto simp: device_inv_def)
next
  case (dev_return pcs t d)
  from dev_return(2) have "device_pc_ok d (pcs t)" by (simp add: device_inv_def)
  then have "d \<noteq> 0" by (simp add: dev_return(1))
  with dev_return show ?case by (auto simp: device_inv_def)
qed (auto simp: device_inv_def)

text \<open>C23: However the threads interleave inside the first use of the device number, every thread
that has returned has returned the same number, and it is not 0.\<close>

theorem device_id_agreement:
  assumes "device_step\<^sup>*\<^sup>* (0, \<lambda>_. DevTest) (d, pcs)" "pcs t = DevDone v" "pcs u = DevDone v'"
  shows "v = v' \<and> v \<noteq> 0"
proof -
  have "device_inv (d, pcs)"
    using assms(1) by (induction rule: rtranclp_induct) (simp add: device_inv_def, rule device_inv_step)
  then have "device_pc_ok d (pcs t)" "device_pc_ok d (pcs u)" by (simp_all add: device_inv_def)
  with assms(2,3) show ?thesis by auto
qed

definition device_run_end :: "thread \<Rightarrow> device_pc" where
  "device_run_end = (\<lambda>_. DevTest)(1 := DevDone 9, 2 := DevDone 9)"

text \<open>Two threads that both saw 0 and drew 9 and 5.\<close>

lemma device_run_example: "device_step\<^sup>*\<^sup>* (0, \<lambda>_. DevTest) (9, device_run_end)"
proof -
  let ?p = "\<lambda>a b. (\<lambda>_. DevTest)(1 := a, 2 := b)"
  have a: "device_step (0, \<lambda>_. DevTest) (0, ?p DevDraw DevTest)"
    using dev_test_zero [of "\<lambda>_. DevTest" 1 0] by (simp add: fun_upd_idem)
  have b: "device_step (0, ?p DevDraw DevTest) (0, ?p DevDraw DevDraw)"
    using dev_test_zero [of "?p DevDraw DevTest" 2 0] by simp
  have c: "device_step (0, ?p DevDraw DevDraw) (0, ?p (DevCas 9) DevDraw)"
    using dev_draw [of "?p DevDraw DevDraw" 1 0 9] by (simp add: fun_upd_twist)
  have d: "device_step (0, ?p (DevCas 9) DevDraw) (0, ?p (DevCas 9) (DevCas 5))"
    using dev_draw [of "?p (DevCas 9) DevDraw" 2 0 5] by simp
  have e: "device_step (0, ?p (DevCas 9) (DevCas 5)) (9, ?p DevReturn (DevCas 5))"
    using dev_cas [of "?p (DevCas 9) (DevCas 5)" 1 9 0] by (simp add: fun_upd_twist)
  have f: "device_step (9, ?p DevReturn (DevCas 5)) (9, ?p DevReturn DevReturn)"
    using dev_cas [of "?p DevReturn (DevCas 5)" 2 5 9] by simp
  have g: "device_step (9, ?p DevReturn DevReturn) (9, ?p (DevDone 9) DevReturn)"
    using dev_return [of "?p DevReturn DevReturn" 1 9] by (simp add: fun_upd_twist)
  have h: "device_step (9, ?p (DevDone 9) DevReturn) (9, device_run_end)"
    using dev_return [of "?p (DevDone 9) DevReturn" 2 9] by (simp add: device_run_end_def)
  show ?thesis using a b c d e f g h by (meson converse_rtranclp_into_rtranclp rtranclp.rtrancl_refl)
qed

theorem device_id_agreement_witness:
  "device_run_end 1 = DevDone 9 \<and> device_run_end 2 = DevDone 9 \<and> (9::u32) \<noteq> 0"
  using device_id_agreement [OF device_run_example, of 1 9 2 9] by (simp add: device_run_end_def)

subsection \<open>Tracepoints and what the log reads\<close>

text \<open>A tracepoint with a valid identifier, mode and type whose text could be formatted opens
a meter slice exactly for client-send and server-receive, closes one exactly for client-receive and
server-send, and logs exactly when tracepoint logging is on, or device-to-device tracepoint logging
is on and the mode is device to device; in every other case it emits nothing.\<close>

theorem tracepoint_effects:
  "HiTraceChainTracepointInner mode type pId domain text =
     (case (pId, text) of
        (Some p, Some txt) \<Rightarrow>
          if 0 \<le> mode \<and> mode \<le> 3 \<and> 0 \<le> type \<and> type \<le> 4 \<and> HiTraceChainIsValid (Some p)
          then (if type = HITRACE_TP_CS then [StartTraceChainPoint p (''C##'' @ txt)]
                else if type = HITRACE_TP_SR then [StartTraceChainPoint p (''S##'' @ txt)]
                else if type \<noteq> HITRACE_TP_GENERAL then [HiTraceFinishTrace HITRACE_TAG_OHOS] else []) @
               (if HiTraceChainIsFlagEnabled (Some p) HITRACE_FLAG_TP_INFO \<or>
                   HiTraceChainIsFlagEnabled (Some p) HITRACE_FLAG_D2D_TP_INFO \<and> mode = HITRACE_CM_DEVICE
                then [TracepointLog (if domain = 0 then LOG_DEBUG else LOG_INFO) domain
                        (hiTraceModeStr ! nat mode) (hiTraceTypeStr ! nat type)
                        (HiTraceChainGetChainId (Some p)) (HiTraceChainGetSpanId (Some p))
                        (HiTraceChainGetParentSpanId (Some p)) txt]
                else [])
          else []
      | _ \<Rightarrow> [])"
  by (auto simp: HiTraceChainTracepointInner_def TracepointParamsCheck_def tp_mask_char_def
      level_of_domain_def HiTraceChainGetChainId_def HiTraceChainGetSpanId_def
      HiTraceChainGetParentSpanId_def tp_consts split: option.splits)

subsection \<open>Setters\<close>

lemma ucast_ucast_60: "(ucast (ucast (c :: u64) :: 60 word) :: u64) = take_bit 60 c"
  by (rule bit_word_eqI) (auto simp: bit_low_field bit_take_bit_iff)

text \<open>Setting flags on a valid identifier takes effect exactly for 0 up to 126: the largest flag
word, 127, which a begin accepts, is ignored like a negative one.\<close>

theorem set_flags_range:
  assumes "HiTraceChainIsValid (Some p)"
  shows "HiTraceChainGetFlags (Some (HiTraceChainSetFlags p fl)) =
    (if 0 \<le> sint fl \<and> sint fl < 127 then fl else HiTraceChainGetFlags (Some p))"
  using assms flags_fit [of fl]
  by (simp add: HiTraceChainSetFlags_def HiTraceChainGetFlags_def HITRACE_FLAG_MIN_def HITRACE_FLAG_MAX_def)

theorem set_flags_range_witness:
  "HiTraceChainGetFlags (Some (HiTraceChainSetFlags sample_id 127)) = 9 \<and>
   HiTraceChainGetFlags (Some (HiTraceChainSetFlags sample_id 126)) = 126"
  using set_flags_range [OF sample_id_valid, of 127] set_flags_range [OF sample_id_valid, of 126]
  by (simp add: HiTraceChainGetFlags_def sample_id_def chain_consts)

text \<open>Setting a chain number other than 0 always gives a valid identifier carrying the low 60
bits of the number; an identifier that was invalid starts with no flags and no span, a valid one
keeps them.\<close>

theorem set_chain_id_effect:
  assumes "cid \<noteq> 0"
  shows "HiTraceChainIsValid (Some (HiTraceChainSetChainId p cid)) \<and>
    HiTraceChainGetChainId (Some (HiTraceChainSetChainId p cid)) = take_bit 60 cid \<and>
    HiTraceChainGetFlags (Some (HiTraceChainSetChainId p cid)) = HiTraceChainGetFlags (Some p) \<and>
    HiTraceChainGetSpanId (Some (HiTraceChainSetChainId p cid)) = HiTraceChainGetSpanId (Some p) \<and>
    HiTraceChainGetParentSpanId (Some (HiTraceChainSetChainId p cid)) = HiTraceChainGetParentSpanId (Some p)"
  using assms
  by (simp add: HiTraceChainSetChainId_def Let_def HiTraceChainGetChainId_def HiTraceChainGetFlags_def
      HiTraceChainGetSpanId_def HiTraceChainGetParentSpanId_def unsigned_ucast_eq ucast_ucast_60)

theorem set_chain_id_effect_witness:
  "HiTraceChainIsValid (Some (HiTraceChainSetChainId HiTraceChainInitId (push_bit 60 1))) \<and>
   HiTraceChainGetChainId (Some (HiTraceChainSetChainId HiTraceChainInitId (push_bit 60 1))) = 0"
  using set_chain_id_effect [of "push_bit 60 1" HiTraceChainInitId] by (simp add: take_bit_push_bit)

end
