(* ===== verification/Meter_Text.thy ===== *)
theory Meter_Text
  imports Hitrace_Chain
begin

text \<open>
  The text layer of \<^verbatim>\<open>interfaces/native/innerkits/src/hitrace_meter.cpp\<close>: the bounded writers of
  the namespace \<^verbatim>\<open>StringUtil\<close>, the tag digits of \<^verbatim>\<open>ParseTagBits\<close>, and the four record
  writers. A buffer is the text written so far together with its capacity, so that the pointer
  \<^verbatim>\<open>dst\<close> of the code is the length of the text and \<^verbatim>\<open>end\<close> is the capacity.
\<close>

section \<open>StringUtil\<close>

definition NUM_TO_CHAR_MAPS :: string where "NUM_TO_CHAR_MAPS = ''0123456789abcdef''"

text \<open>
  With no room left \<^verbatim>\<open>memcpy_s\<close> is called with size 0 and fails, which leaves the pointer where it
  is: the empty copy has the same effect.
\<close>

definition AddStringToBuffer :: "nat \<Rightarrow> string \<Rightarrow> string \<Rightarrow> string" where
  "AddStringToBuffer cap dst src =
     (let buffSize = cap - length dst;
          copySize = (if length src \<le> buffSize then length src else buffSize)
      in dst @ take copySize src)"

definition AddCharToBuffer :: "nat \<Rightarrow> string \<Rightarrow> char \<Rightarrow> string" where
  "AddCharToBuffer cap dst value = (if length dst < cap then dst @ [value] else dst)"

text \<open>
  The digit loops fill a local array from its end; the text is what lies between the start pointer
  and the end of that array.
\<close>

function hex_loop :: "u64 \<Rightarrow> string \<Rightarrow> string" where
  "hex_loop value acc =
     (if value = 0 then acc
      else hex_loop (drop_bit 4 value) (NUM_TO_CHAR_MAPS ! unat (value AND 15) # acc))"
  by auto

lemma unat_drop_bit: "unat (drop_bit k (v :: 'a::len word)) = unat v div 2 ^ k"
  unfolding unsigned_drop_bit_eq take_bit_nat_eq_self [OF unsigned_less] by (rule drop_bit_eq_div)

lemma unat_pos: "v \<noteq> 0 \<Longrightarrow> 0 < unat (v :: 'a::len word)"
  by (simp add: unat_gt_0)

termination hex_loop
  by (relation "measure (\<lambda>(v, _). unat v)") (auto simp: unat_drop_bit intro!: div_less_dividend unat_pos)

function dec_loop32 :: "u32 \<Rightarrow> string \<Rightarrow> string" where
  "dec_loop32 value acc =
     (if value = 0 then acc else dec_loop32 (value div 10) (NUM_TO_CHAR_MAPS ! unat (value mod 10) # acc))"
  by auto

termination dec_loop32
  by (relation "measure (\<lambda>(v, _). unat v)") (auto simp: unat_div intro!: div_less_dividend unat_pos)

function dec_loop64 :: "u64 \<Rightarrow> string \<Rightarrow> string" where
  "dec_loop64 value acc =
     (if value = 0 then acc else dec_loop64 (value div 10) (NUM_TO_CHAR_MAPS ! unat (value mod 10) # acc))"
  by auto

termination dec_loop64
  by (relation "measure (\<lambda>(v, _). unat v)") (auto simp: unat_div intro!: div_less_dividend unat_pos)

declare hex_loop.simps [simp del] dec_loop32.simps [simp del] dec_loop64.simps [simp del]

definition AddUInt64HexValueToBuffer :: "nat \<Rightarrow> string \<Rightarrow> u64 \<Rightarrow> string" where
  "AddUInt64HexValueToBuffer cap dst value =
     (if value = 0 then AddCharToBuffer cap dst (CHR ''0'')
      else AddStringToBuffer cap dst (hex_loop value []))"

definition AddUInt32DecValueToBuffer :: "nat \<Rightarrow> string \<Rightarrow> u32 \<Rightarrow> string" where
  "AddUInt32DecValueToBuffer cap dst value =
     (if value = 0 then AddCharToBuffer cap dst (CHR ''0'')
      else AddStringToBuffer cap dst (dec_loop32 value []))"

definition INT64_MIN :: i64 where "INT64_MIN = push_bit 63 1"

definition AddInt64DecValue :: "nat \<Rightarrow> string \<Rightarrow> i64 \<Rightarrow> string" where
  "AddInt64DecValue cap dst value =
     (if value = 0 then AddCharToBuffer cap dst (CHR ''0'')
      else let neg = (sint value < 0);
               dst1 = (if neg then AddCharToBuffer cap dst (CHR ''-'') else dst);
               unsignedValue = (if neg \<and> value \<noteq> INT64_MIN then - value else value)
           in AddStringToBuffer cap dst1 (dec_loop64 unsignedValue []))"

section \<open>Reference text of the numbers\<close>

fun hex_digits :: "nat \<Rightarrow> string" where
  "hex_digits n = (if n < 16 then [NUM_TO_CHAR_MAPS ! n]
                   else hex_digits (n div 16) @ [NUM_TO_CHAR_MAPS ! (n mod 16)])"

declare hex_digits.simps [simp del]

lemma num_map_digit: "d < 10 \<Longrightarrow> NUM_TO_CHAR_MAPS ! d = digit_char d"
proof -
  assume "d < 10"
  then have "d \<in> {0, 1, 2, 3, 4, 5, 6, 7, 8, 9}" by auto
  then show ?thesis by (auto simp: NUM_TO_CHAR_MAPS_def digit_char_def char_of_def bit_0)
qed

lemma unat_and_15: "unat (v AND 15 :: u64) = unat v mod 16"
proof -
  have "v AND 15 = take_bit 4 v"
    by (simp add: take_bit_eq_mask mask_eq_exp_minus_1)
  then show ?thesis by (simp only: unsigned_take_bit_eq) (simp add: take_bit_eq_mod)
qed

lemma hex_loop_digits: "v \<noteq> 0 \<Longrightarrow> hex_loop v acc = hex_digits (unat v) @ acc"
proof (induction v acc rule: hex_loop.induct)
  case (1 v acc)
  have q: "unat (drop_bit 4 v) = unat v div 16" by (simp add: unat_drop_bit)
  show ?case
  proof (cases "drop_bit 4 v = 0")
    case True
    then have "unat v div 16 = 0" using q by simp
    then have "unat v < 16" by (simp add: div_eq_0_iff)
    with True 1(2) show ?thesis
      by (simp add: hex_loop.simps [of v] hex_loop.simps [of 0] hex_digits.simps [of "unat v"] unat_and_15)
  next
    case False
    then have "unat v div 16 \<noteq> 0" using q by (metis unat_eq_zero)
    then have "\<not> unat v < 16" by (simp add: div_eq_0_iff)
    with 1 False show ?thesis
      by (simp add: hex_loop.simps [of v] hex_digits.simps [of "unat v"] unat_and_15 q)
  qed
qed

lemma dec_loop32_digits: "v \<noteq> 0 \<Longrightarrow> dec_loop32 v acc = dec_digits (unat v) @ acc"
proof (induction v acc rule: dec_loop32.induct)
  case (1 v acc)
  have q: "unat (v div 10) = unat v div 10" "unat (v mod 10) = unat v mod 10"
    by (simp_all add: unat_div unat_mod)
  show ?case
  proof (cases "v div 10 = 0")
    case True
    then have "unat v div 10 = 0" using q(1) by simp
    then have "unat v < 10" by (simp add: div_eq_0_iff)
    with True 1(2) show ?thesis
      by (simp add: dec_loop32.simps [of v] dec_loop32.simps [of 0] dec_digits.simps [of "unat v"] q num_map_digit)
  next
    case False
    then have "unat v div 10 \<noteq> 0" using q(1) by (metis unat_eq_zero)
    then have "\<not> unat v < 10" by (simp add: div_eq_0_iff)
    with 1 False show ?thesis
      by (simp add: dec_loop32.simps [of v] dec_digits.simps [of "unat v"] q num_map_digit)
  qed
qed

lemma dec_loop64_digits: "v \<noteq> 0 \<Longrightarrow> dec_loop64 v acc = dec_digits (unat v) @ acc"
proof (induction v acc rule: dec_loop64.induct)
  case (1 v acc)
  have q: "unat (v div 10) = unat v div 10" "unat (v mod 10) = unat v mod 10"
    by (simp_all add: unat_div unat_mod)
  show ?case
  proof (cases "v div 10 = 0")
    case True
    then have "unat v div 10 = 0" using q(1) by simp
    then have "unat v < 10" by (simp add: div_eq_0_iff)
    with True 1(2) show ?thesis
      by (simp add: dec_loop64.simps [of v] dec_loop64.simps [of 0] dec_digits.simps [of "unat v"] q num_map_digit)
  next
    case False
    then have "unat v div 10 \<noteq> 0" using q(1) by (metis unat_eq_zero)
    then have "\<not> unat v < 10" by (simp add: div_eq_0_iff)
    with 1 False show ?thesis
      by (simp add: dec_loop64.simps [of v] dec_digits.simps [of "unat v"] q num_map_digit)
  qed
qed

section \<open>Bounded writers\<close>

text \<open>
  The contract every \<^verbatim>\<open>StringUtil\<close> writer keeps: what it appends to a buffer that already holds
  a clipped text is the clipped longer text. Nothing is ever written behind the end, nothing
  already written changes, and a full buffer stays as it is.
\<close>

locale bounded_writer =
  fixes put :: "nat \<Rightarrow> string \<Rightarrow> 'a \<Rightarrow> string" and shown :: "'a \<Rightarrow> string"
  assumes put_clipped: "put cap (take cap s) x = take cap (s @ shown x)"
begin

lemma put_fits: "length s \<le> cap \<Longrightarrow> length (put cap s x) \<le> cap"
  using put_clipped [of cap s x] by simp

lemma put_extends: "length s \<le> cap \<Longrightarrow> prefix s (put cap s x)"
  using put_clipped [of cap s x] by (simp add: take_all prefixI)

lemma put_full: "length s = cap \<Longrightarrow> put cap s x = s"
  using put_clipped [of cap s x] by simp

lemma put_start: "put cap [] x = take cap (shown x)"
  using put_clipped [of cap "[]" x] by simp

end

interpretation str_writer: bounded_writer AddStringToBuffer "\<lambda>s. s"
proof
  fix cap :: nat and s x :: string
  show "AddStringToBuffer cap (take cap s) x = take cap (s @ x)"
    by (cases "length s \<le> cap") (auto simp: AddStringToBuffer_def Let_def min_def)
qed

interpretation char_writer: bounded_writer AddCharToBuffer "\<lambda>c. [c]"
proof
  fix cap :: nat and s :: string and x :: char
  show "AddCharToBuffer cap (take cap s) x = take cap (s @ [x])"
    by (cases "length s < cap") (auto simp: AddCharToBuffer_def min_def)
qed

definition hex_text :: "u64 \<Rightarrow> string" where "hex_text v = hex_digits (unat v)"

lemma digits_zero [simp]: "hex_digits 0 = ''0''" "dec_digits 0 = ''0''"
  by (simp_all add: hex_digits.simps dec_digits.simps NUM_TO_CHAR_MAPS_def digit_char_def char_of_def bit_0)

interpretation hex_writer: bounded_writer AddUInt64HexValueToBuffer hex_text
  by unfold_locales
    (simp add: AddUInt64HexValueToBuffer_def hex_text_def hex_loop_digits
      str_writer.put_clipped char_writer.put_clipped)

interpretation dec32_writer: bounded_writer AddUInt32DecValueToBuffer "\<lambda>v. to_string_nat (unat v)"
  by unfold_locales
    (simp add: AddUInt32DecValueToBuffer_def to_string_nat_def dec_loop32_digits
      str_writer.put_clipped char_writer.put_clipped)

lemma magnitude64:
  assumes "sint v < 0"
  shows "unat (if v \<noteq> INT64_MIN then - v else v) = nat (- sint v)"
proof -
  have "unat (- v) = nat (- sint v)"
  proof -
    have b: "- (2 ^ 63) \<le> sint v" using sint_ge [of v] by simp
    have "- v = word_of_int (- sint v)" by simp
    then have "uint (- v) = (- sint v) mod 2 ^ LENGTH(64)" by (simp only: uint_word_of_int)
    also have "\<dots> = (- sint v) mod 2 ^ 64" by simp
    also have "\<dots> = - sint v" using b assms by (intro mod_pos_pos_trivial) auto
    finally show ?thesis by (simp add: unat_eq_nat_uint)
  qed
  moreover have "- INT64_MIN = INT64_MIN" by (simp add: INT64_MIN_def)
  ultimately show ?thesis by (cases "v = INT64_MIN") auto
qed

interpretation dec64_writer: bounded_writer AddInt64DecValue "\<lambda>v. to_string_int (sint v)"
proof
  fix cap :: nat and s :: string and v :: i64
  show "AddInt64DecValue cap (take cap s) v = take cap (s @ to_string_int (sint v))"
  proof (cases "v = 0")
    case True
    then show ?thesis by (simp add: AddInt64DecValue_def to_string_int_def char_writer.put_clipped)
  next
    case nz: False
    show ?thesis
    proof (cases "sint v < 0")
      case True
      let ?u = "if v \<noteq> INT64_MIN then - v else v"
      have "?u \<noteq> 0" using nz by auto
      moreover have "unat ?u = nat (- sint v)" using True by (rule magnitude64)
      ultimately show ?thesis using True nz
        by (simp add: AddInt64DecValue_def Let_def to_string_int_def char_writer.put_clipped
            str_writer.put_clipped dec_loop64_digits split del: if_split del: take_append)
    next
      case False
      then have "uint v = sint v"
        using sint_lt [of v] uint_sint [of v] by (simp add: take_bit_int_eq_self)
      then have "unat v = nat (sint v)" by (simp add: unat_eq_nat_uint)
      with False nz show ?thesis
        by (simp add: AddInt64DecValue_def Let_def to_string_int_def str_writer.put_clipped dec_loop64_digits)
    qed
  qed
qed

lemmas writer_clipped =
  str_writer.put_clipped char_writer.put_clipped hex_writer.put_clipped
  dec32_writer.put_clipped dec64_writer.put_clipped

lemmas writer_start = str_writer.put_start char_writer.put_start

section \<open>Tag digits\<close>

text \<open>The tag constants of \<^verbatim>\<open>hitrace_meter.h\<close> are written \<^verbatim>\<open>1ULL << i\<close>.\<close>

definition tag_bit :: "nat \<Rightarrow> u64" where "tag_bit i = push_bit i 1"

definition HITRACE_TAG_ALWAYS :: u64 where "HITRACE_TAG_ALWAYS = tag_bit 0"
definition HITRACE_TAG_COMMERCIAL :: u64 where "HITRACE_TAG_COMMERCIAL = tag_bit 5"

definition two_digits :: "nat \<Rightarrow> string" where
  "two_digits n = [digit_char (n div 10), digit_char (n mod 10)]"

text \<open>\<^verbatim>\<open>__builtin_ctzll\<close> of a value other than 0.\<close>

definition builtin_ctzll :: "u64 \<Rightarrow> nat" where
  "builtin_ctzll w = length (takeWhile (\<lambda>i. \<not> bit w i) [0..<64])"

function ParseTagBits_loop :: "int \<Rightarrow> u64 \<Rightarrow> nat \<Rightarrow> string \<Rightarrow> string" where
  "ParseTagBits_loop bitStrSize curTag offsetBit bitStr =
     (if curTag = 0 then bitStr
      else ParseTagBits_loop bitStrSize (drop_bit 1 curTag) (offsetBit + 1)
        (if (curTag AND 1) \<noteq> 0 \<and> int (length bitStr) < bitStrSize - 3
         then bitStr @ two_digits offsetBit else bitStr))"
  by auto

termination ParseTagBits_loop
proof (relation "measure (\<lambda>(_, v, _). unat v)", goal_cases)
  case (2 bitStrSize curTag offsetBit bitStr)
  have "unat (drop_bit 1 curTag) = unat curTag div 2" using unat_drop_bit [of 1 curTag] by simp
  then show ?case using unat_pos [OF 2] by simp
qed simp

declare ParseTagBits_loop.simps [simp del]

text \<open>
  The string in \<^verbatim>\<open>bitStr\<close> up to its NUL. The digits of the option are overwritten when the loop
  over all bits runs, because it starts again at index 0.
\<close>

definition ParseTagBits :: "u64 \<Rightarrow> int \<Rightarrow> string" where
  "ParseTagBits tag bitStrSize =
     (let tagOptionMask = HITRACE_TAG_ALWAYS OR HITRACE_TAG_COMMERCIAL;
          tagOption = tag AND tagOptionMask;
          tagWithoutOption = tag AND NOT tagOptionMask;
          option_digits = (if tagOption = HITRACE_TAG_ALWAYS then ''00''
                           else if tagOption = HITRACE_TAG_COMMERCIAL then ''05'' else '''')
      in if tagOption = HITRACE_TAG_ALWAYS \<and> tagWithoutOption = 0 then ''00''
         else if (tagWithoutOption AND (tagWithoutOption - 1)) = 0 \<and> tagWithoutOption \<noteq> 0
         then option_digits @ two_digits (builtin_ctzll tagWithoutOption)
         else ParseTagBits_loop bitStrSize (drop_bit 1 tag) 1 '''')"

lemma ParseTagBits_loop_length:
  assumes "even (length bitStr)" "length bitStr \<le> 4"
  shows "length (ParseTagBits_loop 7 curTag offsetBit bitStr) \<le> 4"
  using assms
proof (induction "7 :: int" curTag offsetBit bitStr rule: ParseTagBits_loop.induct)
  case (1 curTag offsetBit bitStr)
  show ?case
  proof (cases "curTag = 0")
    case True
    with 1 show ?thesis by (simp add: ParseTagBits_loop.simps [of _ 0])
  next
    case False
    have "length bitStr = 0 \<or> length bitStr = 2 \<or> length bitStr = 4" using 1(2,3) by presburger
    then show ?thesis
      using 1(1) [OF False] 1(2,3) False
      by (subst ParseTagBits_loop.simps) (auto simp: two_digits_def)
  qed
qed

section \<open>Records\<close>

datatype MarkerType = MARKER_BEGIN | MARKER_END | MARKER_ASYNC_BEGIN | MARKER_ASYNC_END | MARKER_INT

fun MARK_TYPES :: "MarkerType \<Rightarrow> char" where
  "MARK_TYPES MARKER_BEGIN = CHR ''B''"
| "MARK_TYPES MARKER_END = CHR ''E''"
| "MARK_TYPES MARKER_ASYNC_BEGIN = CHR ''S''"
| "MARK_TYPES MARKER_ASYNC_END = CHR ''F''"
| "MARK_TYPES MARKER_INT = CHR ''C''"

definition TRACE_LEVEL :: "int \<Rightarrow> char" where "TRACE_LEVEL level = ''DICM'' ! nat level"

text \<open>A null character pointer is \<open>None\<close>, a null identifier pointer too.\<close>

record TraceMarker =
  mtype :: MarkerType
  level :: int
  tag :: u64
  mvalue :: i64
  mname :: "string option"
  customCategory :: "string option"
  customArgs :: "string option"
  hiTraceIdStruct :: "HiTraceIdStruct option"
  pid :: i32

definition c_str :: "string option \<Rightarrow> string" where
  "c_str s = (case s of None \<Rightarrow> '''' | Some t \<Rightarrow> t)"

definition SetNullptrToEmpty :: "TraceMarker \<Rightarrow> TraceMarker" where
  "SetNullptrToEmpty m = m\<lparr>mname := Some (c_str (mname m)),
     customCategory := Some (c_str (customCategory m)), customArgs := Some (c_str (customArgs m))\<rparr>"

text \<open>\<open>cur\<close> is the calling thread's chain identifier, the result of \<^verbatim>\<open>HiTraceChain::GetId()\<close>.\<close>

definition WriteHitraceId :: "HiTraceId \<Rightarrow> TraceMarker \<Rightarrow> nat \<Rightarrow> string \<Rightarrow> string" where
  "WriteHitraceId cur m cap dst =
     (let h = (case hiTraceIdStruct m of None \<Rightarrow> cur | Some p \<Rightarrow> HiTraceId_of_struct p) in
      if HiTraceId_IsValid h then
        let d1 = AddCharToBuffer cap dst (CHR ''['');
            d2 = AddUInt64HexValueToBuffer cap d1 (HiTraceId_GetChainId h);
            d3 = AddCharToBuffer cap d2 (CHR '','');
            d4 = AddUInt64HexValueToBuffer cap d3 (HiTraceId_GetSpanId h);
            d5 = AddCharToBuffer cap d4 (CHR '','');
            d6 = AddUInt64HexValueToBuffer cap d5 (HiTraceId_GetParentSpanId h)
        in AddStringToBuffer cap d6 '']#''
      else dst)"

definition WriteSyncBeginRecord :: "HiTraceId \<Rightarrow> TraceMarker \<Rightarrow> string \<Rightarrow> nat \<Rightarrow> string" where
  "WriteSyncBeginRecord cur m bitStr cap =
     (let d1 = AddStringToBuffer cap '''' ''B|'';
          d2 = AddUInt32DecValueToBuffer cap d1 (pid m);
          d3 = AddStringToBuffer cap d2 ''|H:'';
          d4 = WriteHitraceId cur m cap d3;
          d5 = AddStringToBuffer cap d4 (c_str (mname m));
          d6 = AddCharToBuffer cap d5 (CHR ''|'');
          d7 = AddCharToBuffer cap d6 (TRACE_LEVEL (level m));
          d8 = AddStringToBuffer cap d7 bitStr
      in if c_str (customArgs m) \<noteq> ''''
         then AddStringToBuffer cap (AddCharToBuffer cap d8 (CHR ''|'')) (c_str (customArgs m))
         else d8)"

definition WriteSyncEndRecord :: "TraceMarker \<Rightarrow> string \<Rightarrow> nat \<Rightarrow> string" where
  "WriteSyncEndRecord m bitStr cap =
     (let d1 = AddStringToBuffer cap '''' ''E|'';
          d2 = AddUInt32DecValueToBuffer cap d1 (pid m);
          d3 = AddCharToBuffer cap d2 (CHR ''|'');
          d4 = AddCharToBuffer cap d3 (TRACE_LEVEL (level m))
      in AddStringToBuffer cap d4 bitStr)"

definition WriteAsyncBeginRecord :: "HiTraceId \<Rightarrow> TraceMarker \<Rightarrow> string \<Rightarrow> nat \<Rightarrow> string" where
  "WriteAsyncBeginRecord cur m bitStr cap =
     (let d1 = AddStringToBuffer cap '''' ''S|'';
          d2 = AddUInt32DecValueToBuffer cap d1 (pid m);
          d3 = AddStringToBuffer cap d2 ''|H:'';
          d4 = WriteHitraceId cur m cap d3;
          d5 = AddStringToBuffer cap d4 (c_str (mname m));
          d6 = AddCharToBuffer cap d5 (CHR ''|'');
          d7 = AddInt64DecValue cap d6 (mvalue m);
          d8 = AddCharToBuffer cap d7 (CHR ''|'');
          d9 = AddCharToBuffer cap d8 (TRACE_LEVEL (level m));
          d10 = AddStringToBuffer cap d9 bitStr
      in if c_str (customCategory m) \<noteq> '''' then
           let d11 = AddCharToBuffer cap d10 (CHR ''|'');
               d12 = AddStringToBuffer cap d11 (c_str (customCategory m))
           in if c_str (customArgs m) \<noteq> ''''
              then AddStringToBuffer cap (AddCharToBuffer cap d12 (CHR ''|'')) (c_str (customArgs m))
              else d12
         else if c_str (customArgs m) \<noteq> '''' then
           let d11 = AddCharToBuffer cap d10 (CHR ''|'');
               d12 = AddStringToBuffer cap d11 (c_str (customCategory m));
               d13 = AddCharToBuffer cap d12 (CHR ''|'')
           in AddStringToBuffer cap d13 (c_str (customArgs m))
         else d10)"

definition WriteOtherTypeRecord :: "HiTraceId \<Rightarrow> TraceMarker \<Rightarrow> string \<Rightarrow> nat \<Rightarrow> string" where
  "WriteOtherTypeRecord cur m bitStr cap =
     (let d1 = AddCharToBuffer cap '''' (MARK_TYPES (mtype m));
          d2 = AddCharToBuffer cap d1 (CHR ''|'');
          d3 = AddUInt32DecValueToBuffer cap d2 (pid m);
          d4 = AddStringToBuffer cap d3 ''|H:'';
          d5 = WriteHitraceId cur m cap d4;
          d6 = AddStringToBuffer cap d5 (c_str (mname m));
          d7 = AddCharToBuffer cap d6 (CHR ''|'');
          d8 = AddInt64DecValue cap d7 (mvalue m);
          d9 = AddCharToBuffer cap d8 (CHR ''|'');
          d10 = AddCharToBuffer cap d9 (TRACE_LEVEL (level m))
      in AddStringToBuffer cap d10 bitStr)"

section \<open>What the records say\<close>

text \<open>The text of a record without any limit, which the four writers clip to the buffer.\<close>

definition id_text :: "HiTraceId \<Rightarrow> TraceMarker \<Rightarrow> string" where
  "id_text cur m =
     (let h = (case hiTraceIdStruct m of None \<Rightarrow> cur | Some p \<Rightarrow> HiTraceId_of_struct p) in
      if HiTraceId_IsValid h
      then ''['' @ hex_text (HiTraceId_GetChainId h) @ '','' @ hex_text (HiTraceId_GetSpanId h) @ '','' @
           hex_text (HiTraceId_GetParentSpanId h) @ '']#''
      else '''')"

definition args_text :: "TraceMarker \<Rightarrow> string" where
  "args_text m =
     (let cat = c_str (customCategory m); args = c_str (customArgs m) in
      case mtype m of
        MARKER_BEGIN \<Rightarrow> if args = '''' then '''' else ''|'' @ args
      | MARKER_ASYNC_BEGIN \<Rightarrow> if args \<noteq> '''' then ''|'' @ cat @ ''|'' @ args
                             else if cat \<noteq> '''' then ''|'' @ cat else ''''
      | _ \<Rightarrow> '''')"

definition record_text :: "HiTraceId \<Rightarrow> TraceMarker \<Rightarrow> string \<Rightarrow> string" where
  "record_text cur m bitStr =
     [MARK_TYPES (mtype m)] @ ''|'' @ to_string_nat (unat (pid m)) @ ''|'' @
     (if mtype m = MARKER_END then ''''
      else ''H:'' @ id_text cur m @ c_str (mname m) @ ''|'' @
           (if mtype m = MARKER_BEGIN then '''' else to_string_int (sint (mvalue m)) @ ''|'')) @
     [TRACE_LEVEL (level m)] @ bitStr @ args_text m"

lemmas record_simps = writer_clipped writer_start Let_def append_assoc append.simps

lemma WriteHitraceId_clipped [simp]:
  "WriteHitraceId cur m cap (take cap s) = take cap (s @ id_text cur m)"
  unfolding WriteHitraceId_def id_text_def Let_def writer_clipped
  by (simp del: take_append split: if_split)

lemma WriteSyncBeginRecord_clipped:
  "mtype m = MARKER_BEGIN \<Longrightarrow> WriteSyncBeginRecord cur m bitStr cap = take cap (record_text cur m bitStr)"
  unfolding WriteSyncBeginRecord_def Let_def writer_start WriteHitraceId_clipped writer_clipped
  by (simp add: record_text_def args_text_def del: take_append)

lemma WriteSyncEndRecord_clipped:
  "mtype m = MARKER_END \<Longrightarrow> WriteSyncEndRecord m bitStr cap = take cap (record_text cur m bitStr)"
  unfolding WriteSyncEndRecord_def Let_def writer_start writer_clipped
  by (simp add: record_text_def args_text_def del: take_append)

lemma WriteAsyncBeginRecord_clipped:
  "mtype m = MARKER_ASYNC_BEGIN \<Longrightarrow> WriteAsyncBeginRecord cur m bitStr cap = take cap (record_text cur m bitStr)"
  unfolding WriteAsyncBeginRecord_def Let_def writer_start WriteHitraceId_clipped writer_clipped
  by (simp add: record_text_def args_text_def del: take_append)

lemma WriteOtherTypeRecord_clipped:
  "mtype m \<in> {MARKER_ASYNC_END, MARKER_INT} \<Longrightarrow>
     WriteOtherTypeRecord cur m bitStr cap = take cap (record_text cur m bitStr)"
  unfolding WriteOtherTypeRecord_def Let_def writer_start WriteHitraceId_clipped writer_clipped
  by (auto simp add: record_text_def args_text_def simp del: take_append)

lemma bit_tag: "bit (tag_bit i) n \<longleftrightarrow> n = i \<and> n < 64"
  unfolding tag_bit_def bit_push_bit_iff by (auto simp: bit_1_iff)

lemmas option_consts = HITRACE_TAG_ALWAYS_def HITRACE_TAG_COMMERCIAL_def

lemma single_bit:
  assumes "i < 64"
  shows "(tag_bit i) \<noteq> 0" "(tag_bit i AND (tag_bit i - 1)) = 0"
    "builtin_ctzll (tag_bit i) = i"
proof -
  have one: "bit (tag_bit i) i" using assms by (simp only: bit_tag)
  show "(tag_bit i) \<noteq> 0"
  proof
    assume "(tag_bit i) = 0"
    with one show False by simp
  qed
  have m: "(tag_bit i - 1) = mask i" by (simp add: tag_bit_def mask_eq_exp_minus_1)
  show "(tag_bit i AND (tag_bit i - 1)) = 0"
    unfolding m by (rule bit_word_eqI) (unfold bit_and_iff bit_tag bit_mask_iff, simp)
  have "[0..<64] = [0..<i] @ i # [Suc i..<64]"
    using assms by (metis less_imp_le_nat upt_add_eq_append le_add_diff_inverse zero_le upt_conv_Cons)
  moreover have "takeWhile (\<lambda>j. \<not> (j = i \<and> j < 64)) ([0..<i] @ i # [Suc i..<64]) = [0..<i]"
    by (subst takeWhile_append2) (use assms in auto)
  ultimately show "builtin_ctzll (tag_bit i) = i" unfolding builtin_ctzll_def bit_tag by simp
qed

lemma option_split:
  assumes "i < 64" "i \<noteq> 0" "i \<noteq> 5"
  defines "m \<equiv> tag_bit 0 OR tag_bit 5 :: u64"
  shows "(tag_bit i AND m) = 0" "(tag_bit i AND NOT m) = tag_bit i"
    "((tag_bit i OR tag_bit 0) AND m) = tag_bit 0"
    "((tag_bit i OR tag_bit 0) AND NOT m) = tag_bit i"
    "((tag_bit i OR tag_bit 5) AND m) = tag_bit 5"
    "((tag_bit i OR tag_bit 5) AND NOT m) = tag_bit i"
  unfolding m_def
  by (rule bit_word_eqI, unfold bit_and_iff bit_or_iff bit_not_iff bit_tag, use assms(1-3) in auto)+

text \<open>A tag with one bit other than the two options prints as the two decimal digits of that bit,
preceded by 00 with the always option and by 05 with the commercial option; whatever the tag, at most
four characters are printed, so that the seven byte buffer is never overrun.\<close>

theorem tag_digits:
  assumes "i < 64" "i \<noteq> 0" "i \<noteq> 5"
  shows "ParseTagBits (tag_bit i) 7 = two_digits i \<and>
    ParseTagBits (tag_bit i OR HITRACE_TAG_ALWAYS) 7 = ''00'' @ two_digits i \<and>
    ParseTagBits (tag_bit i OR HITRACE_TAG_COMMERCIAL) 7 = ''05'' @ two_digits i \<and>
    length (ParseTagBits t 7) \<le> 4"
proof (intro conjI)
  note split = option_split [OF assms]
  have opts: "tag_bit 5 \<noteq> 0" "tag_bit 0 \<noteq> 0" "tag_bit 5 \<noteq> tag_bit 0"
    by (simp_all add: tag_bit_def)
  show "ParseTagBits (tag_bit i) 7 = two_digits i"
    using opts split(1,2) single_bit [OF assms(1)] by (simp add: ParseTagBits_def Let_def option_consts)
  show "ParseTagBits (tag_bit i OR HITRACE_TAG_ALWAYS) 7 = ''00'' @ two_digits i"
    using opts split(3,4) single_bit [OF assms(1)] by (simp add: ParseTagBits_def Let_def option_consts)
  show "ParseTagBits (tag_bit i OR HITRACE_TAG_COMMERCIAL) 7 = ''05'' @ two_digits i"
    using opts split(5,6) single_bit [OF assms(1)] by (simp add: ParseTagBits_def Let_def option_consts)
  show "length (ParseTagBits t 7) \<le> 4"
    using ParseTagBits_loop_length [of "''''" "drop_bit 1 t" 1]
    by (simp add: ParseTagBits_def Let_def two_digits_def)
qed

theorem tag_digits_witness:
  "ParseTagBits (tag_bit 62 OR HITRACE_TAG_ALWAYS) 7 = ''0062''"
  using tag_digits [of 62] by (simp add: two_digits_def digit_char_def char_of_def bit_0)

end
