(* ===== verification/Meter_Registry.thy ===== *)
theory Meter_Registry
  imports Meter_Text
begin

text \<open>
  The listeners of the application tag in \<^verbatim>\<open>hitrace_meter.cpp\<close>: the class
  \<^verbatim>\<open>HiTraceCallbackRegistry\<close>, the single worker thread of the class \<^verbatim>\<open>TaskQueue\<close> that runs
  the callbacks, and \<^verbatim>\<open>HandleAppTagChange\<close>. A callback is an address, 0 the null pointer; the
  calls the worker makes are recorded in order. The stored Napi and Ani functions matter only by
  being set or not.
\<close>

section \<open>Registry and task queue\<close>

datatype HiTraceCallbackType = NATIVE | NAPI | ANI

record HiTraceCallbackHandle =
  callback :: nat
  htype :: HiTraceCallbackType

datatype listener_task = TaskExecuteAll bool | TaskExecuteOne int bool

datatype listener_call = CallNative nat bool | CallNapi nat bool | CallAni nat bool
  | DeleteNapi nat | DeleteAni nat

record registry =
  callbacks :: "int \<rightharpoonup> HiTraceCallbackHandle"
  g_isCallbacksEmpty :: bool
  executeCallbackNapi :: bool
  deleteCallbackNapi :: bool
  executeCallbackAni :: bool
  deleteCallbackAni :: bool
  task_queue :: "listener_task list"
  calls :: "listener_call list"

definition registry_init :: registry where
  "registry_init = \<lparr>callbacks = Map.empty, g_isCallbacksEmpty = True,
     executeCallbackNapi = False, deleteCallbackNapi = False,
     executeCallbackAni = False, deleteCallbackAni = False, task_queue = [], calls = []\<rparr>"

definition MAX_CALLBACKS :: int where "MAX_CALLBACKS = 10"
definition INVALID_PARAMETER :: int where "INVALID_PARAMETER = -2"
definition REACH_MAX_CALLBACKS :: int where "REACH_MAX_CALLBACKS = -1"
definition INVALID_INDEX :: int where "INVALID_INDEX = -2"
definition INDEX_NOT_REGISTERED :: int where "INDEX_NOT_REGISTERED = -1"
definition SUCCESS_UNREGISTER :: int where "SUCCESS_UNREGISTER = 0"

lemmas registry_consts = MAX_CALLBACKS_def INVALID_PARAMETER_def REACH_MAX_CALLBACKS_def
  INVALID_INDEX_def INDEX_NOT_REGISTERED_def SUCCESS_UNREGISTER_def

definition HITRACE_TAG_APP :: u64 where "HITRACE_TAG_APP = tag_bit 62"

definition app_tag_on :: "u64 \<Rightarrow> bool" where "app_tag_on tags = ((tags AND HITRACE_TAG_APP) \<noteq> 0)"

definition Enqueue :: "listener_task \<Rightarrow> registry \<Rightarrow> registry" where
  "Enqueue task r = r\<lparr>task_queue := task_queue r @ [task]\<rparr>"

definition HandleAppTagChange :: "u64 \<Rightarrow> u64 \<Rightarrow> registry \<Rightarrow> registry" where
  "HandleAppTagChange oldTags newTags r =
     (let oldAppTag = app_tag_on oldTags; newAppTag = app_tag_on newTags in
      if newAppTag \<noteq> oldAppTag \<and> \<not> g_isCallbacksEmpty r
      then Enqueue (TaskExecuteAll newAppTag) r else r)"

text \<open>The loop over the indexes: the first one that is not in the map.\<close>

primrec first_free :: "(int \<rightharpoonup> HiTraceCallbackHandle) \<Rightarrow> int list \<Rightarrow> int option" where
  "first_free m [] = None"
| "first_free m (i # is) = (if m i \<noteq> None then first_free m is else Some i)"

text \<open>\<open>tags\<close> is the disjunction of the two tag words at the time of the call.\<close>

definition Register :: "u64 \<Rightarrow> nat \<Rightarrow> HiTraceCallbackType \<Rightarrow> registry \<Rightarrow> int \<times> registry" where
  "Register tags cb ty r =
     (if cb = 0 then (INVALID_PARAMETER, r)
      else case first_free (callbacks r) [0 .. MAX_CALLBACKS - 1] of
             None \<Rightarrow> (REACH_MAX_CALLBACKS, r)
           | Some index \<Rightarrow>
               (index,
                Enqueue (TaskExecuteOne index (app_tag_on tags))
                  (r\<lparr>callbacks := (callbacks r)(index \<mapsto> \<lparr>callback = cb, htype = ty\<rparr>),
                     g_isCallbacksEmpty := False\<rparr>)))"

definition delete_calls :: "registry \<Rightarrow> HiTraceCallbackHandle \<Rightarrow> listener_call list" where
  "delete_calls r h =
     (case htype h of
        NAPI \<Rightarrow> if deleteCallbackNapi r then [DeleteNapi (callback h)] else []
      | ANI \<Rightarrow> if deleteCallbackAni r then [DeleteAni (callback h)] else []
      | NATIVE \<Rightarrow> [])"

definition Unregister :: "int \<Rightarrow> registry \<Rightarrow> int \<times> registry" where
  "Unregister index r =
     (if index < 0 \<or> MAX_CALLBACKS \<le> index then (INVALID_INDEX, r)
      else case callbacks r index of None \<Rightarrow> (INDEX_NOT_REGISTERED, r)
        | Some h \<Rightarrow>
            (let m = (callbacks r)(index := None)
             in (SUCCESS_UNREGISTER,
                 r\<lparr>callbacks := m,
                   g_isCallbacksEmpty := (if \<forall>i \<in> {0..<MAX_CALLBACKS}. m i = None then True
                                          else g_isCallbacksEmpty r),
                   calls := calls r @ delete_calls r h\<rparr>)))"

definition execute_calls :: "registry \<Rightarrow> bool \<Rightarrow> HiTraceCallbackHandle \<Rightarrow> listener_call list" where
  "execute_calls r on h =
     (case htype h of
        NATIVE \<Rightarrow> [CallNative (callback h) on]
      | NAPI \<Rightarrow> if executeCallbackNapi r then [CallNapi (callback h) on] else []
      | ANI \<Rightarrow> if executeCallbackAni r then [CallAni (callback h) on] else [])"

text \<open>
  \<open>order\<close> is the order in which the unordered map is iterated, which the language leaves open: any
  arrangement of its keys.
\<close>

definition ExecuteAll :: "int list \<Rightarrow> bool \<Rightarrow> registry \<Rightarrow> registry" where
  "ExecuteAll order on r =
     r\<lparr>calls := calls r @ concat (map (\<lambda>i. case callbacks r i of None \<Rightarrow> []
                                            | Some h \<Rightarrow> execute_calls r on h) order)\<rparr>"

definition ExecuteOne :: "int \<Rightarrow> bool \<Rightarrow> registry \<Rightarrow> registry" where
  "ExecuteOne index on r =
     (case callbacks r index of None \<Rightarrow> r
      | Some h \<Rightarrow> r\<lparr>calls := calls r @ execute_calls r on h\<rparr>)"

definition SetCallbacksNapi :: "bool \<Rightarrow> bool \<Rightarrow> registry \<Rightarrow> registry" where
  "SetCallbacksNapi ex del r = r\<lparr>executeCallbackNapi := ex, deleteCallbackNapi := del\<rparr>"

definition SetCallbacksAni :: "bool \<Rightarrow> bool \<Rightarrow> registry \<Rightarrow> registry" where
  "SetCallbacksAni ex del r = r\<lparr>executeCallbackAni := ex, deleteCallbackAni := del\<rparr>"

text \<open>One round of the worker's loop with a non-empty queue: take the front task and run it.\<close>

definition ProcessTasks_step :: "int list \<Rightarrow> registry \<Rightarrow> registry option" where
  "ProcessTasks_step order r =
     (case task_queue r of [] \<Rightarrow> None
      | task # rest \<Rightarrow>
          Some (case task of
                  TaskExecuteAll on \<Rightarrow> ExecuteAll order on (r\<lparr>task_queue := rest\<rparr>)
                | TaskExecuteOne i on \<Rightarrow> ExecuteOne i on (r\<lparr>task_queue := rest\<rparr>)))"

section \<open>Invariant\<close>

text \<open>
  The keys are the ten indexes, the flag \<^verbatim>\<open>g_isCallbacksEmpty\<close> tells whether the map is empty, and
  no stored callback is null.
\<close>

definition registry_inv :: "registry \<Rightarrow> bool" where
  "registry_inv r \<longleftrightarrow> dom (callbacks r) \<subseteq> {0..<MAX_CALLBACKS} \<and>
     (g_isCallbacksEmpty r \<longleftrightarrow> callbacks r = Map.empty) \<and>
     (\<forall>i h. callbacks r i = Some h \<longrightarrow> callback h \<noteq> 0)"

inductive registry_step :: "registry \<Rightarrow> registry \<Rightarrow> bool" where
  reg_register: "Register tags cb ty r = (ret, r') \<Longrightarrow> registry_step r r'"
| reg_unregister: "Unregister index r = (ret, r') \<Longrightarrow> registry_step r r'"
| reg_tags: "registry_step r (HandleAppTagChange oldTags newTags r)"
| reg_work: "ProcessTasks_step order r = Some r' \<Longrightarrow> registry_step r r'"
| reg_napi: "registry_step r (SetCallbacksNapi ex del r)"
| reg_ani: "registry_step r (SetCallbacksAni ex del r)"

lemma first_free_Some:
  "first_free m is = Some i \<Longrightarrow> i \<in> set is \<and> m i = None \<and> (\<forall>j \<in> set (takeWhile (\<lambda>j. j \<noteq> i) is). m j \<noteq> None)"
  by (induction "is") (auto split: if_splits)

lemma first_free_None: "first_free m is = None \<longleftrightarrow> (\<forall>i \<in> set is. m i \<noteq> None)"
  by (induction "is") auto

lemma empty_on_range:
  assumes "dom m \<subseteq> S"
  shows "(\<forall>i \<in> S. m i = None) \<longleftrightarrow> m = Map.empty"
  using assms by (metis domIff ext subsetD)

lemma registry_inv_step:
  assumes "registry_step r r'" "registry_inv r"
  shows "registry_inv r'"
  using assms
proof (induction rule: registry_step.induct)
  case (reg_register tags cb ty r ret r')
  show ?case
  proof (cases "cb = 0 \<or> first_free (callbacks r) [0 .. MAX_CALLBACKS - 1] = None")
    case True
    with reg_register show ?thesis by (auto simp: Register_def split: if_splits)
  next
    case False
    then obtain i where i: "first_free (callbacks r) [0 .. MAX_CALLBACKS - 1] = Some i" by auto
    then have "0 \<le> i" "i < MAX_CALLBACKS" using first_free_Some [OF i] by auto
    moreover from i False reg_register(1) have
      "r' = Enqueue (TaskExecuteOne i (app_tag_on tags))
         (r\<lparr>callbacks := (callbacks r)(i \<mapsto> \<lparr>callback = cb, htype = ty\<rparr>), g_isCallbacksEmpty := False\<rparr>)"
      by (auto simp: Register_def)
    ultimately show ?thesis using reg_register(2) False by (auto simp: registry_inv_def Enqueue_def)
  qed
next
  case (reg_unregister index r ret r')
  show ?case
  proof (cases "index < 0 \<or> MAX_CALLBACKS \<le> index \<or> callbacks r index = None")
    case True
    with reg_unregister show ?thesis by (auto simp: Unregister_def split: if_splits option.splits)
  next
    case False
    then obtain h where h: "callbacks r index = Some h" by auto
    let ?m = "(callbacks r)(index := None)"
    have empty: "(\<forall>i \<in> {0..<MAX_CALLBACKS}. ?m i = None) \<longleftrightarrow> ?m = Map.empty"
      by (rule empty_on_range) (use reg_unregister(2) in \<open>auto simp: registry_inv_def split: if_splits\<close>)
    have "\<not> g_isCallbacksEmpty r" using reg_unregister(2) h by (auto simp: registry_inv_def)
    moreover have "r' = r\<lparr>callbacks := ?m, g_isCallbacksEmpty := (if ?m = Map.empty then True
        else g_isCallbacksEmpty r), calls := calls r @ delete_calls r h\<rparr>"
      using reg_unregister(1) False h empty by (auto simp: Unregister_def Let_def)
    ultimately show ?thesis using reg_unregister(2)
      by (auto simp: registry_inv_def split: if_splits)
  qed
next
  case (reg_work order r r')
  then show ?case
    by (auto simp: ProcessTasks_step_def ExecuteAll_def ExecuteOne_def registry_inv_def
        split: list.splits listener_task.splits option.splits)
qed (auto simp: HandleAppTagChange_def Enqueue_def SetCallbacksNapi_def SetCallbacksAni_def
    registry_inv_def Let_def)

section \<open>Correctness\<close>

lemma registry_inv_init: "registry_inv registry_init"
  by (simp add: registry_inv_def registry_init_def)

text \<open>Whatever listeners are registered and removed, whatever tags change and however far the
worker thread has got, the registry keeps at most the ten indexes 0 to 9, never holds a null
callback, and its empty flag tells exactly whether a listener is registered.\<close>

theorem registry_reachable_inv:
  assumes "registry_step\<^sup>*\<^sup>* registry_init r"
  shows "registry_inv r"
  using assms by (induction rule: rtranclp_induct) (auto simp: registry_inv_init intro: registry_inv_step)

theorem registry_reachable_inv_witness:
  "registry_inv (snd (Register 0 7 NAPI registry_init))"
  by (rule registry_reachable_inv, rule r_into_rtranclp, rule reg_register) (rule prod.collapse [symmetric])

lemma Register_Some:
  assumes "first_free (callbacks r) [0 .. MAX_CALLBACKS - 1] = Some i" "cb \<noteq> 0"
  shows "Register tags cb ty r = (i, Enqueue (TaskExecuteOne i (app_tag_on tags))
     (r\<lparr>callbacks := (callbacks r)(i \<mapsto> \<lparr>callback = cb, htype = ty\<rparr>), g_isCallbacksEmpty := False\<rparr>))"
  using assms by (simp add: Register_def)

lemma takeWhile_upto: "a \<le> i \<Longrightarrow> i \<le> b \<Longrightarrow> set (takeWhile (\<lambda>j. j \<noteq> i) [a..b]) = {a..<i}"
proof -
  assume i: "a \<le> i" "i \<le> b"
  have s: "[a..b] = [a..i - 1] @ i # [i + 1..b]"
    using i upto_split2 [of a i b] upto_rec1 [of i b] upto_split1 by (metis upto_split3)
  have "takeWhile (\<lambda>j. j \<noteq> i) [a..b] = [a..i - 1]"
    unfolding s by (subst takeWhile_append2) auto
  then show ?thesis by auto
qed

text \<open>A registration with a callback uses the smallest free index, is refused exactly when all
ten are taken, schedules one call of the new listener with the present state of the application
tag, and leaves the other listeners alone; unregistering the returned index removes the listener
again and gives back the previous map.\<close>

theorem register_unregister:
  assumes "cb \<noteq> 0" "registry_inv r"
  shows "(if \<forall>i \<in> {0..<10}. callbacks r i \<noteq> None then Register tags cb ty r = (REACH_MAX_CALLBACKS, r)
    else \<exists>i r'. Register tags cb ty r = (i, r') \<and> 0 \<le> i \<and> i < 10 \<and>
      callbacks r i = None \<and> (\<forall>j \<in> {0..<i}. callbacks r j \<noteq> None) \<and>
      callbacks r' = (callbacks r)(i \<mapsto> \<lparr>callback = cb, htype = ty\<rparr>) \<and>
      task_queue r' = task_queue r @ [TaskExecuteOne i (app_tag_on tags)] \<and>
      fst (Unregister i r') = SUCCESS_UNREGISTER \<and> callbacks (snd (Unregister i r')) = callbacks r)"
proof (cases "first_free (callbacks r) [0 .. MAX_CALLBACKS - 1]")
  case None
  then have "\<forall>i \<in> {0..<10}. callbacks r i \<noteq> None" by (auto simp: first_free_None registry_consts)
  with None assms show ?thesis by (simp add: Register_def)
next
  case (Some i)
  note f = first_free_Some [OF Some]
  have i: "0 \<le> i" "i < 10" using f by (auto simp: registry_consts)
  moreover have "\<forall>j \<in> {0..<i}. callbacks r j \<noteq> None"
    using f takeWhile_upto [of 0 i "MAX_CALLBACKS - 1"] i by (auto simp: registry_consts)
  moreover have "callbacks r i = None" using f by blast
  moreover from this have "(callbacks r)(i := None) = callbacks r" by (simp add: fun_upd_idem)
  ultimately show ?thesis using Register_Some [OF Some assms(1), of tags ty]
    by (auto simp: Enqueue_def Unregister_def Let_def registry_consts)
qed

theorem register_unregister_witness:
  "fst (Register 0 7 NATIVE registry_init) = 0"
proof -
  have free: "callbacks registry_init j = None" for j by (simp add: registry_init_def)
  then have "\<not> (\<forall>i \<in> {0..<10::int}. callbacks registry_init i \<noteq> None)"
    by (metis atLeastLessThan_iff order_refl zero_less_numeral)
  then obtain i r' where r: "Register 0 7 NATIVE registry_init = (i, r')" "0 \<le> i"
    "\<forall>j \<in> {0..<i}. callbacks registry_init j \<noteq> None"
    using register_unregister [of 7 registry_init 0 NATIVE] registry_inv_init
    unfolding if_not_P [OF \<open>\<not> (\<forall>i \<in> {0..<10::int}. callbacks registry_init i \<noteq> None)\<close>] by auto
  then have "i = 0" using free by (metis atLeastLessThan_iff order_le_less order_refl)
  with r show ?thesis by simp
qed

lemma execute_calls_queue [simp]: "execute_calls (r\<lparr>task_queue := q\<rparr>) on h = execute_calls r on h"
  by (simp add: execute_calls_def)

text \<open>When the worker runs a scheduled notification of all listeners, every native listener
registered at that moment is called exactly once with the announced state, and Napi and Ani
listeners likewise when their bridge is installed; the order among listeners is the map's, and
nothing else is called.\<close>

theorem notify_all_once:
  assumes "task_queue r = TaskExecuteAll on # rest" "distinct order" "set order = dom (callbacks r)"
  shows "\<exists>r'. ProcessTasks_step order r = Some r' \<and> task_queue r' = rest \<and> callbacks r' = callbacks r \<and>
    (\<exists>new. calls r' = calls r @ new \<and>
       (\<forall>a. count_list new (CallNative a on) =
          card {i. \<exists>h. callbacks r i = Some h \<and> htype h = NATIVE \<and> callback h = a}) \<and>
       set new \<subseteq> {c. \<exists>i h. callbacks r i = Some h \<and> c \<in> set (execute_calls r on h)})"
proof -
  let ?one = "\<lambda>i. case callbacks r i of None \<Rightarrow> [] | Some h \<Rightarrow> execute_calls r on h"
  have cnt: "count_list (concat (map ?one xs)) (CallNative a on) =
      card {i \<in> set xs. \<exists>h. callbacks r i = Some h \<and> htype h = NATIVE \<and> callback h = a}"
    if "distinct xs" for xs a
    using that
  proof (induction xs)
    case (Cons x xs)
    let ?P = "\<lambda>i. \<exists>h. callbacks r i = Some h \<and> htype h = NATIVE \<and> callback h = a"
    have "{i \<in> set (x # xs). ?P i} = (if ?P x then insert x {i \<in> set xs. ?P i} else {i \<in> set xs. ?P i})"
      by auto
    moreover have "count_list (?one x) (CallNative a on) = (if ?P x then 1 else 0)"
      by (auto simp: execute_calls_def split: option.splits HiTraceCallbackType.splits)
    ultimately show ?case using Cons by auto
  qed simp
  have dom: "{i \<in> set order. \<exists>h. callbacks r i = Some h \<and> htype h = NATIVE \<and> callback h = a} =
      {i. \<exists>h. callbacks r i = Some h \<and> htype h = NATIVE \<and> callback h = a}" for a
    using assms(3) by auto
  have sub: "set (concat (map ?one order)) \<subseteq> {c. \<exists>i h. callbacks r i = Some h \<and> c \<in> set (execute_calls r on h)}"
    by (auto split: option.splits) (metis)
  let ?r = "r\<lparr>task_queue := rest, calls := calls r @ concat (map ?one order)\<rparr>"
  have "ProcessTasks_step order r = Some ?r"
    using assms(1) by (simp add: ProcessTasks_step_def ExecuteAll_def cong: option.case_cong)
  moreover have "\<forall>a. count_list (concat (map ?one order)) (CallNative a on) =
      card {i. \<exists>h. callbacks r i = Some h \<and> htype h = NATIVE \<and> callback h = a}"
    using cnt [OF assms(2)] dom by simp
  ultimately show ?thesis using sub by (intro exI [of _ ?r] conjI exI [of _ "concat (map ?one order)"]) auto
qed

theorem notify_all_once_witness:
  "\<exists>r'. ProcessTasks_step [3] (registry_init\<lparr>callbacks := [3 \<mapsto> \<lparr>callback = 8, htype = NATIVE\<rparr>],
      g_isCallbacksEmpty := False, task_queue := [TaskExecuteAll True]\<rparr>) = Some r' \<and> task_queue r' = []"
  using notify_all_once [of "registry_init\<lparr>callbacks := [3 \<mapsto> \<lparr>callback = 8, htype = NATIVE\<rparr>],
      g_isCallbacksEmpty := False, task_queue := [TaskExecuteAll True]\<rparr>" True "[]" "[3]"]
  by auto

end
