(* ===== verification/Hitrace_Meter.thy ===== *)
theory Hitrace_Meter
  imports Meter_Registry Common_Utils
begin

text \<open>
  The performance meter of \<^verbatim>\<open>interfaces/native/innerkits/src/hitrace_meter.cpp\<close>: the global tag,
  level and pid filters and how system parameters change them, the marker path that writes one
  record to the trace_marker node, the capture of an application's own trace into a file through a
  32 KB cache, and every public start, finish, count and middle function. The globals of the file
  are the fields of one record. The answers of the kernel, the parameter service and securec are
  the fields of an environment that each call receives; the outcomes of \<^verbatim>\<open>write\<close> on the capture
  file are a list consumed in order.
\<close>

section \<open>State and environment\<close>

definition HITRACE_TAG_NOT_READY :: u64 where "HITRACE_TAG_NOT_READY = tag_bit 63"
definition HITRACE_TAG_VALID_MASK :: u64 where
  "HITRACE_TAG_VALID_MASK = (HITRACE_TAG_APP - 1) OR HITRACE_TAG_APP"

definition HITRACE_LEVEL_DEBUG :: int where "HITRACE_LEVEL_DEBUG = 0"
definition HITRACE_LEVEL_INFO :: int where "HITRACE_LEVEL_INFO = 1"
definition HITRACE_LEVEL_COMMERCIAL :: int where "HITRACE_LEVEL_COMMERCIAL = 3"
definition HITRACE_LEVEL_MAX :: int where "HITRACE_LEVEL_MAX = HITRACE_LEVEL_COMMERCIAL"

definition RECORD_SIZE_MAX :: nat where "RECORD_SIZE_MAX = 1024"
definition COMM_STR_MAX :: nat where "COMM_STR_MAX = 14"
definition PID_STR_MAX :: nat where "PID_STR_MAX = 7"
definition PREFIX_MAX_SIZE :: nat where "PREFIX_MAX_SIZE = 128"
definition TRACE_TXT_HEADER_MAX :: nat where "TRACE_TXT_HEADER_MAX = 1024"
definition CPU_CORE_NUM :: nat where "CPU_CORE_NUM = 16"
definition DEFAULT_CACHE_SIZE :: nat where "DEFAULT_CACHE_SIZE = 32 * 1024"
definition MAX_FILE_SIZE :: nat where "MAX_FILE_SIZE = 500 * 1024 * 1024"

datatype capture_ret = RET_SUCC | RET_STARTED | RET_STOPPED | RET_FAILD | RET_FAIL_INVALID_ARGS
  | RET_FAIL_MKDIR | RET_FAIL_SETACL | RET_FAIL_ENOENT | RET_FAIL_EACCES

datatype open_result = OpenOk | OpenENOENT | OpenEACCES | OpenOther

text \<open>
  \<open>app_file\<close> is the content of the capture file and \<open>writes\<close> what the coming calls of
  \<^verbatim>\<open>write\<close> on it accept: \<open>None\<close> an error, \<open>Some k\<close> at most \<open>k\<close> bytes; when the list is used
  up everything is accepted. \<open>threw\<close> is set when a string constructor throws. \<open>marker_out\<close> are the
  records handed to the trace_marker node.
\<close>

record meter_state =
  g_markerFd :: bool
  g_appFd :: bool
  g_onceFlag :: bool
  g_cachedHandle :: bool
  g_appPidCachedHandle :: bool
  g_levelThresholdCachedHandle :: bool
  g_isHitraceMeterDisabled :: bool
  g_isHitraceMeterInit :: bool
  g_tagsProperty :: u64
  g_appTag :: u64
  g_appTagMatchPid :: int
  g_levelThreshold :: int
  listeners :: registry
  g_appTracePrefix :: string
  g_tgid :: i32
  g_traceEventNum :: nat
  g_writeOffset :: nat
  g_fileSize :: nat
  g_appFlag :: int
  g_fileLimitSize :: nat
  g_traceBuffer :: "string option"
  app_file :: string
  writes :: "nat option list"
  marker_out :: "string list"
  threw :: bool

record meter_env =
  e_tags :: "string option"
  e_pid :: "string option"
  e_level :: "string option"
  e_handle_tags :: bool
  e_handle_pid :: bool
  e_handle_level :: bool
  e_monotonic :: "int option"
  e_debugfs_open :: bool
  e_tracefs_open :: bool
  e_init_tags :: u64
  e_init_level :: int
  e_procpid :: i32
  e_tid :: i32
  e_sec :: nat
  e_nsec :: nat
  e_cpu :: int
  e_procname :: string
  e_comm :: "string option"
  e_snprintf :: "nat \<Rightarrow> string \<Rightarrow> string option"
  e_current :: HiTraceId
  e_mkdir_ok :: bool
  e_date :: "string option"
  e_open :: open_result

section \<open>Filters\<close>

definition CreateCacheHandle :: "meter_env \<Rightarrow> meter_state \<Rightarrow> meter_state" where
  "CreateCacheHandle e s =
     s\<lparr>g_cachedHandle := g_cachedHandle s \<or> e_handle_tags e,
       g_appPidCachedHandle := g_appPidCachedHandle s \<or> e_handle_pid e,
       g_levelThresholdCachedHandle := g_levelThresholdCachedHandle s \<or> e_handle_level e\<rparr>"

text \<open>
  The three parameters in turn; a text that is no number ends the update. Within one call the
  compare-exchange follows the load it compares with, so it succeeds. A parameter of the
  environment is \<open>Some\<close> text when the service reports a change with a value.
\<close>

definition update_tags :: "string \<Rightarrow> meter_state \<Rightarrow> meter_state option" where
  "update_tags paramValue s =
     (case StringToUint64 paramValue of None \<Rightarrow> None
      | Some tags \<Rightarrow>
          (let targetTags = (tags OR HITRACE_TAG_ALWAYS) AND HITRACE_TAG_VALID_MASK;
               currentTags = g_tagsProperty s
           in Some (if currentTags \<noteq> targetTags
                    then s\<lparr>g_tagsProperty := targetTags,
                           listeners := HandleAppTagChange (currentTags OR g_appTag s)
                                          (targetTags OR g_appTag s) (listeners s)\<rparr>
                    else s)))"

definition update_pid :: "string \<Rightarrow> meter_state \<Rightarrow> meter_state option" where
  "update_pid paramPid s =
     (case StringToInt64 paramPid of None \<Rightarrow> None | Some p \<Rightarrow> Some (s\<lparr>g_appTagMatchPid := p\<rparr>))"

text \<open>The cast to the enum keeps the low 32 bits of the parsed number, as a signed int.\<close>

definition update_level :: "string \<Rightarrow> meter_state \<Rightarrow> meter_state option" where
  "update_level paramLevel s =
     (case StringToInt64 paramLevel of None \<Rightarrow> None
      | Some l \<Rightarrow> Some (s\<lparr>g_levelThreshold := sint (word_of_int l :: i32)\<rparr>))"

definition when_changed ::
  "string option \<Rightarrow> (string \<Rightarrow> meter_state \<Rightarrow> meter_state option) \<Rightarrow> meter_state \<Rightarrow> meter_state option" where
  "when_changed p upd s = (case p of None \<Rightarrow> Some s | Some v \<Rightarrow> upd v s)"

definition UpdateSysParamTags :: "meter_env \<Rightarrow> meter_state \<Rightarrow> meter_state" where
  "UpdateSysParamTags e s =
     (if \<not> g_cachedHandle s \<or> \<not> g_appPidCachedHandle s \<or> \<not> g_levelThresholdCachedHandle s
      then CreateCacheHandle e s
      else case when_changed (e_tags e) update_tags s of None \<Rightarrow> s
        | Some s1 \<Rightarrow>
            (case when_changed (e_pid e) update_pid s1 of None \<Rightarrow> s1
             | Some s2 \<Rightarrow>
                 (case when_changed (e_level e) update_level s2 of None \<Rightarrow> s2 | Some s3 \<Rightarrow> s3)))"

definition OpenTraceMarkerFile :: "meter_env \<Rightarrow> meter_state \<Rightarrow> meter_state" where
  "OpenTraceMarkerFile e s =
     (if \<not> e_debugfs_open e \<and> \<not> e_tracefs_open e then s\<lparr>g_markerFd := False, g_tagsProperty := 0\<rparr>
      else (CreateCacheHandle e
              (s\<lparr>g_markerFd := True, g_tagsProperty := e_init_tags e, g_levelThreshold := e_init_level e\<rparr>))
             \<lparr>g_isHitraceMeterInit := True\<rparr>)"

definition PrepareTraceMarker :: "meter_env \<Rightarrow> meter_state \<Rightarrow> bool \<times> meter_state" where
  "PrepareTraceMarker e s =
     (if g_isHitraceMeterDisabled s then (False, s)
      else if \<not> g_isHitraceMeterInit s
      then (case e_monotonic e of None \<Rightarrow> (False, s)
            | Some sec \<Rightarrow>
                if sec < 25 then (False, s)
                else let s1 = (if g_onceFlag s then s else OpenTraceMarkerFile e (s\<lparr>g_onceFlag := True\<rparr>))
                     in (True, UpdateSysParamTags e s1))
      else (True, UpdateSysParamTags e s))"

definition UpdateTraceLabel :: "meter_env \<Rightarrow> meter_state \<Rightarrow> meter_state" where
  "UpdateTraceLabel e s = (if \<not> g_isHitraceMeterInit s then s else UpdateSysParamTags e s)"

definition SetTraceDisabled :: "bool \<Rightarrow> meter_state \<Rightarrow> meter_state" where
  "SetTraceDisabled disable s = s\<lparr>g_isHitraceMeterDisabled := disable\<rparr>"

definition IsTagEnabled :: "meter_env \<Rightarrow> u64 \<Rightarrow> meter_state \<Rightarrow> bool \<times> meter_state" where
  "IsTagEnabled e t s = (let s1 = UpdateSysParamTags e s in ((t AND g_tagsProperty s1) = t, s1))"

section \<open>The capture file\<close>

definition sys_write :: "string \<Rightarrow> meter_state \<Rightarrow> nat option \<times> meter_state" where
  "sys_write buf s =
     (case writes s of
        [] \<Rightarrow> (Some (length buf), s\<lparr>app_file := app_file s @ buf\<rparr>)
      | None # rest \<Rightarrow> (None, s\<lparr>writes := rest\<rparr>)
      | Some k # rest \<Rightarrow> (Some (min k (length buf)),
                         s\<lparr>writes := rest, app_file := app_file s @ take k buf\<rparr>))"

definition WriteTraceToFile :: "string \<Rightarrow> meter_state \<Rightarrow> bool \<times> meter_state" where
  "WriteTraceToFile buf s =
     (let (n, s1) = sys_write buf s in
      if n \<noteq> Some (length buf) then (False, s1)
      else (True, s1\<lparr>g_fileSize := g_fileSize s1 + length buf, g_writeOffset := 0\<rparr>))"

definition pending :: "meter_state \<Rightarrow> string" where
  "pending s = (case g_traceBuffer s of None \<Rightarrow> '''' | Some b \<Rightarrow> take (g_writeOffset s) b)"

text \<open>\<open>False\<close> is the null pointer; otherwise the place for the record is the buffer at the offset.\<close>

definition GetTraceBuffer :: "nat \<Rightarrow> meter_state \<Rightarrow> bool \<times> meter_state" where
  "GetTraceBuffer len s =
     (if DEFAULT_CACHE_SIZE < g_writeOffset s + len \<and> g_writeOffset s + len < MAX_FILE_SIZE
      then WriteTraceToFile (pending s) s
      else (True, s))"

definition SetCommStr :: "string \<Rightarrow> string" where
  "SetCommStr p =
     (if COMM_STR_MAX \<le> length p then drop (length p - COMM_STR_MAX) p
      else replicate (COMM_STR_MAX - length p) (CHR '' '') @ p)"

text \<open>
  \<^verbatim>\<open>std::string(PID_STR_MAX - pidStr.length(), ' ')\<close>: with more than seven characters the unsigned
  difference wraps around and the constructor throws.
\<close>

definition pid_fix :: "string \<Rightarrow> string option" where
  "pid_fix p = (if length p \<le> PID_STR_MAX then Some (replicate (PID_STR_MAX - length p) (CHR '' '')) else None)"

definition SetMainThreadInfo :: "meter_env \<Rightarrow> i32 \<Rightarrow> meter_state \<Rightarrow> meter_state" where
  "SetMainThreadInfo e p s =
     (let comm = SetCommStr (e_procname e); pidStr = to_string_int (sint p) in
      case pid_fix pidStr of None \<Rightarrow> s\<lparr>g_appTracePrefix := comm, threw := True\<rparr>
      | Some fix \<Rightarrow> s\<lparr>g_appTracePrefix := comm @ ''-'' @ pidStr @ fix @ '' ('' @ fix @ pidStr @ '')''\<rparr>)"

definition SetAllThreadInfo :: "meter_env \<Rightarrow> i32 \<Rightarrow> i32 \<Rightarrow> meter_state \<Rightarrow> meter_state" where
  "SetAllThreadInfo e p t s =
     (case e_comm e of None \<Rightarrow> s
      | Some comm \<Rightarrow>
          if comm = '''' then s
          else let name = SetCommStr (if last comm = CHR ''\<newline>'' then butlast comm else comm);
                   pidStr = to_string_int (sint p); tidStr = to_string_int (sint t)
               in case (pid_fix tidStr, pid_fix pidStr) of
                    (Some tfix, Some pfix) \<Rightarrow>
                      s\<lparr>g_appTracePrefix := name @ ''-'' @ tidStr @ tfix @ '' ('' @ pfix @ pidStr @ '')''\<rparr>
                  | _ \<Rightarrow> s\<lparr>g_appTracePrefix := name, threw := True\<rparr>)"
text \<open>The formats \<^verbatim>\<open>%03d\<close> and \<^verbatim>\<open>%06lu\<close>, and \<^verbatim>\<open>%-21s\<close> and \<^verbatim>\<open>%-3s\<close>.\<close>

definition pad_zero :: "nat \<Rightarrow> string \<Rightarrow> string" where
  "pad_zero w d = replicate (w - length d) (CHR ''0'') @ d"

definition pad_right :: "nat \<Rightarrow> string \<Rightarrow> string" where
  "pad_right w d = d @ replicate (w - length d) (CHR '' '')"

definition app_body :: "TraceMarker \<Rightarrow> string \<Rightarrow> string" where
  "app_body m bitStr =
     (let pidStr = to_string_int (sint (pid m)); lev = [TRACE_LEVEL (level m)] in
      case mtype m of
        MARKER_BEGIN \<Rightarrow> ''B|'' @ pidStr @ ''|H:'' @ c_str (mname m) @ ''|'' @ lev @ bitStr @
          (if c_str (customArgs m) \<noteq> '''' then ''|'' @ c_str (customArgs m) else '''')
      | MARKER_END \<Rightarrow> ''E|'' @ pidStr @ ''|'' @ lev @ bitStr
      | MARKER_ASYNC_BEGIN \<Rightarrow> ''S|'' @ pidStr @ ''|H:'' @ c_str (mname m) @ ''|'' @
          to_string_int (sint (mvalue m)) @ ''|'' @ lev @ bitStr @
          (if c_str (customArgs m) \<noteq> '''' then ''|'' @ c_str (customCategory m) @ ''|'' @ c_str (customArgs m)
           else if c_str (customCategory m) \<noteq> '''' then ''|'' @ c_str (customCategory m) else '''')
      | _ \<Rightarrow> [MARK_TYPES (mtype m)] @ ''|'' @ pidStr @ ''|H:'' @ c_str (mname m) @ ''|'' @
          to_string_int (sint (mvalue m)) @ ''|'' @ lev @ bitStr)"

definition app_line :: "meter_env \<Rightarrow> meter_state \<Rightarrow> TraceMarker \<Rightarrow> string" where
  "app_line e s m =
     ''  '' @ g_appTracePrefix s @ '' ['' @ pad_zero 3 (to_string_int (e_cpu e)) @ ''] .... '' @
     to_string_nat (e_sec e) @ ''.'' @ pad_zero 6 (to_string_nat (e_nsec e div 1000)) @
     '': tracing_mark_write: '' @ app_body m (ParseTagBits (tag m) 7) @ [CHR ''\<newline>'']"

text \<open>What \<^verbatim>\<open>snprintf_s\<close> with buffer size \<open>len\<close> stores; \<open>None\<close> for a result that is not positive.\<close>

definition SetAppTraceBuffer :: "meter_env \<Rightarrow> nat \<Rightarrow> TraceMarker \<Rightarrow> meter_state \<Rightarrow> string option" where
  "SetAppTraceBuffer e len m s =
     (if e_cpu e = -1 then None
      else case e_snprintf e len (app_line e s m) of None \<Rightarrow> None
        | Some line \<Rightarrow> if line = '''' then None else Some line)"

definition SetAppTrace :: "meter_env \<Rightarrow> nat \<Rightarrow> TraceMarker \<Rightarrow> meter_state \<Rightarrow> meter_state" where
  "SetAppTrace e len m s =
     (let (ok, s1) = GetTraceBuffer len s in
      if \<not> ok then s1
      else case SetAppTraceBuffer e len m s1 of None \<Rightarrow> s1
        | Some line \<Rightarrow>
            s1\<lparr>g_traceBuffer := Some (pending s1 @ line), g_traceEventNum := g_traceEventNum s1 + 1,
               g_writeOffset := g_writeOffset s1 + length line\<rparr>)"

definition WriteAppTraceLong :: "meter_env \<Rightarrow> nat \<Rightarrow> TraceMarker \<Rightarrow> meter_state \<Rightarrow> meter_state" where
  "WriteAppTraceLong e len m s =
     (let (ok, s1) = WriteTraceToFile (pending s) s in
      if \<not> ok then s1
      else case SetAppTraceBuffer e len m s1 of None \<Rightarrow> s1
        | Some line \<Rightarrow>
            (let (ok2, s2) = WriteTraceToFile line s1 in
             if \<not> ok2 then s2 else s2\<lparr>g_traceEventNum := g_traceEventNum s2 + 1\<rparr>))"

definition ResetGlobalStatus :: "meter_state \<Rightarrow> meter_state" where
  "ResetGlobalStatus s =
     s\<lparr>g_appFd := False, g_fileSize := 0, g_writeOffset := 0, g_traceEventNum := 0,
       g_appTracePrefix := '''', g_appTag := HITRACE_TAG_NOT_READY, g_traceBuffer := None\<rparr>"

definition header_line :: "string \<Rightarrow> string" where "header_line l = l @ [CHR ''\<newline>'']"

definition TRACE_TXT_HEADER_FORMAT :: "string \<Rightarrow> string \<Rightarrow> string" where
  "TRACE_TXT_HEADER_FORMAT events cpus =
     header_line ''# tracer: nop'' @
     header_line ''#'' @
     header_line (''# entries-in-buffer/entries-written: '' @ pad_right 21 events @ ''   #P:'' @ pad_right 3 cpus) @
     header_line ''#'' @
     header_line ''#                                          _-----=> irqs-off'' @
     header_line ''#                                         / _----=> need-resched'' @
     header_line ''#                                        | / _---=> hardirq/softirq'' @
     header_line ''#                                        || / _--=> preempt-depth'' @
     header_line ''#                                        ||| /     delay'' @
     header_line ''#           TASK-PID       TGID    CPU#  ||||   TIMESTAMP  FUNCTION'' @
     header_line ''#              | |           |       |   ||||      |         |''"

text \<open>
  The header is written at the start of the file after \<^verbatim>\<open>lseek\<close>: it replaces as many bytes as it
  has. A formatting or writing failure leaves the capture open.
\<close>

definition overwrite_start :: "string \<Rightarrow> string \<Rightarrow> string" where
  "overwrite_start hdr f = hdr @ drop (length hdr) f"

definition sys_write_start :: "string \<Rightarrow> meter_state \<Rightarrow> nat option \<times> meter_state" where
  "sys_write_start buf s =
     (case writes s of
        [] \<Rightarrow> (Some (length buf), s\<lparr>app_file := overwrite_start buf (app_file s)\<rparr>)
      | None # rest \<Rightarrow> (None, s\<lparr>writes := rest\<rparr>)
      | Some k # rest \<Rightarrow> (Some (min k (length buf)),
                         s\<lparr>writes := rest, app_file := overwrite_start (take k buf) (app_file s)\<rparr>))"

definition StopCaptureAppTrace :: "meter_env \<Rightarrow> meter_state \<Rightarrow> capture_ret \<times> meter_state" where
  "StopCaptureAppTrace e s =
     (if \<not> g_appFd s then (RET_STOPPED, s)
      else
        let s1 = snd (WriteTraceToFile (pending s) s);
            num = to_string_nat (g_traceEventNum s1)
        in case e_snprintf e TRACE_TXT_HEADER_MAX
                  (TRACE_TXT_HEADER_FORMAT (num @ ''/'' @ num) (to_string_nat CPU_CORE_NUM)) of
             None \<Rightarrow> (RET_FAILD, s1)
           | Some hdr \<Rightarrow>
               if hdr = '''' then (RET_FAILD, s1)
               else let (n, s2) = sys_write_start hdr s1 in
                    if n \<noteq> Some (length hdr) then (RET_FAILD, s2)
                    else (RET_SUCC, ResetGlobalStatus
                            (s2\<lparr>listeners := HandleAppTagChange (g_tagsProperty s2 OR g_appTag s2)
                                               (g_tagsProperty s2) (listeners s2)\<rparr>)))"

definition CheckFileSize :: "meter_env \<Rightarrow> nat \<Rightarrow> meter_state \<Rightarrow> bool \<times> meter_state" where
  "CheckFileSize e len s =
     (if g_fileLimitSize s < g_fileSize s + g_writeOffset s + len
      then (False, snd (StopCaptureAppTrace e s)) else (True, s))"

definition FLAG_MAIN_THREAD :: int where "FLAG_MAIN_THREAD = 1"
definition FLAG_ALL_THREAD :: int where "FLAG_ALL_THREAD = 2"

definition write_app_record :: "meter_env \<Rightarrow> nat \<Rightarrow> TraceMarker \<Rightarrow> meter_state \<Rightarrow> meter_state" where
  "write_app_record e len m s =
     (if len \<le> DEFAULT_CACHE_SIZE then SetAppTrace e len m s else WriteAppTraceLong e len m s)"

definition app_len :: "TraceMarker \<Rightarrow> nat" where
  "app_len m = PREFIX_MAX_SIZE + length (c_str (mname m)) + length (c_str (customArgs m)) +
     length (c_str (customCategory m))"

definition WriteAppTrace :: "meter_env \<Rightarrow> TraceMarker \<Rightarrow> meter_state \<Rightarrow> meter_state" where
  "WriteAppTrace e m s =
     (if g_appFlag s = FLAG_MAIN_THREAD \<and> g_tgid s = e_tid e then
        let (ok, s1) = CheckFileSize e (app_len m) s in
        if \<not> ok then s1
        else let s2 = (if g_appTracePrefix s1 = '''' then SetMainThreadInfo e (pid m) s1 else s1)
             in if threw s2 then s2 else write_app_record e (app_len m) m s2
      else if g_appFlag s = FLAG_ALL_THREAD then
        let (ok, s1) = CheckFileSize e (app_len m) s in
        if \<not> ok then s1
        else let s2 = SetAllThreadInfo e (pid m) (e_tid e) s1
             in if threw s2 then s2 else write_app_record e (app_len m) m s2
      else s)"

section \<open>Markers\<close>

definition write_record :: "HiTraceId \<Rightarrow> TraceMarker \<Rightarrow> string" where
  "write_record cur m =
     (let bitStr = ParseTagBits (tag m) 7 in
      if mtype m = MARKER_BEGIN then WriteSyncBeginRecord cur m bitStr RECORD_SIZE_MAX
      else if mtype m = MARKER_END then WriteSyncEndRecord m bitStr RECORD_SIZE_MAX
      else if mtype m = MARKER_ASYNC_BEGIN then WriteAsyncBeginRecord cur m bitStr RECORD_SIZE_MAX
      else WriteOtherTypeRecord cur m bitStr RECORD_SIZE_MAX)"

definition WriteToTraceMarker :: "string \<Rightarrow> meter_state \<Rightarrow> meter_state" where
  "WriteToTraceMarker buf s = s\<lparr>marker_out := marker_out s @ [buf]\<rparr>"

definition commercial_level :: "TraceMarker \<Rightarrow> TraceMarker" where
  "commercial_level m =
     (if (tag m AND HITRACE_TAG_COMMERCIAL) \<noteq> 0 then m\<lparr>level := HITRACE_LEVEL_COMMERCIAL\<rparr> else m)"

definition marker_filtered :: "meter_state \<Rightarrow> TraceMarker \<Rightarrow> bool" where
  "marker_filtered s m \<longleftrightarrow> level m < g_levelThreshold s \<or>
     tag m = HITRACE_TAG_APP \<and> 0 < g_appTagMatchPid s \<and> g_appTagMatchPid s \<noteq> sint (pid m)"

text \<open>The capture part, which a marker reaches unless the node part has filtered it.\<close>

definition app_part :: "meter_env \<Rightarrow> TraceMarker \<Rightarrow> meter_state \<Rightarrow> meter_state" where
  "app_part e m s =
     (if g_appTag s \<noteq> HITRACE_TAG_NOT_READY \<and> g_appFd s \<and> (tag m AND g_appTag s) \<noteq> 0
      then WriteAppTrace e (if pid m = -1 then m\<lparr>pid := e_procpid e\<rparr> else m) s else s)"

definition AddHitraceMeterMarker :: "meter_env \<Rightarrow> TraceMarker \<Rightarrow> meter_state \<Rightarrow> meter_state" where
  "AddHitraceMeterMarker e m0 s =
     (if level m0 < HITRACE_LEVEL_DEBUG \<or> HITRACE_LEVEL_MAX < level m0 then s
      else let (ok, s1) = PrepareTraceMarker e s in
        if \<not> ok then s1
        else let m = SetNullptrToEmpty m0 in
          if (g_tagsProperty s1 AND tag m) \<noteq> 0 \<and> g_markerFd s1
          then let m1 = (commercial_level m)\<lparr>pid := e_procpid e\<rparr> in
               if marker_filtered s1 m1 then s1
               else app_part e m1 (WriteToTraceMarker (write_record (e_current e) m1) s1)
          else app_part e m s1)"

section \<open>Start and stop of a capture\<close>

definition VALID_TAGS :: u64 where
  "VALID_TAGS = foldr (\<lambda>i w. tag_bit i OR w)
     [13, 16, 18, 23, 24, 27, 29, 30, 31, 32, 33, 34, 35, 36, 38, 39, 40, 41, 42, 46, 47, 48, 50, 51, 52,
      53, 54, 55, 56, 57, 59, 60, 62] 0"

definition CheckAppTraceArgs :: "int \<Rightarrow> u64 \<Rightarrow> u64 \<Rightarrow> capture_ret" where
  "CheckAppTraceArgs flag tags limitSize =
     (if flag \<noteq> FLAG_MAIN_THREAD \<and> flag \<noteq> FLAG_ALL_THREAD then RET_FAIL_INVALID_ARGS
      else if sint tags < 0 \<or> (tags AND VALID_TAGS) = 0 then RET_FAIL_INVALID_ARGS
      else if sint limitSize \<le> 0 then RET_FAIL_INVALID_ARGS
      else RET_SUCC)"

text \<open>\<open>e_date\<close> is the formatted local time, \<open>None\<close> when the clock or the formatting fails.\<close>

definition SetAppFileName :: "meter_env \<Rightarrow> capture_ret + string \<times> string" where
  "SetAppFileName e =
     (if \<not> e_mkdir_ok e then Inl RET_FAIL_MKDIR
      else if e_procname e = '''' then Inl RET_FAILD
      else case e_date e of None \<Rightarrow> Inl RET_FAILD
        | Some d \<Rightarrow>
            (let file = e_procname e @ ''_'' @ d @ ''.trace''
             in Inr (''/data/storage/el2/log/'' @ ''trace/'' @ file,
                     ''/data/app/el2/100/log/'' @ e_procname e @ ''/trace/'' @ file)))"

definition CheckFd :: "open_result \<Rightarrow> capture_ret" where
  "CheckFd r = (case r of OpenOk \<Rightarrow> RET_SUCC | OpenENOENT \<Rightarrow> RET_FAIL_ENOENT
     | OpenEACCES \<Rightarrow> RET_FAIL_EACCES | OpenOther \<Rightarrow> RET_FAILD)"

definition InitTraceHead :: "meter_env \<Rightarrow> meter_state \<Rightarrow> capture_ret \<times> meter_state" where
  "InitTraceHead e s =
     (case e_snprintf e TRACE_TXT_HEADER_MAX (TRACE_TXT_HEADER_FORMAT '''' '''') of
        None \<Rightarrow> (RET_FAILD, s)
      | Some hdr \<Rightarrow>
          if hdr = '''' then (RET_FAILD, s)
          else let (n, s1) = sys_write hdr s in
               if n \<noteq> Some (length hdr) then (RET_FAILD, s1)
               else (RET_SUCC, s1\<lparr>g_writeOffset := 0, g_fileSize := length hdr, g_traceEventNum := 0\<rparr>))"

definition StartCaptureAppTrace ::
  "meter_env \<Rightarrow> int \<Rightarrow> u64 \<Rightarrow> u64 \<Rightarrow> string \<Rightarrow> meter_state \<Rightarrow> capture_ret \<times> string \<times> meter_state" where
  "StartCaptureAppTrace e flag tags limitSize fileName s =
     (if CheckAppTraceArgs flag tags limitSize \<noteq> RET_SUCC
      then (CheckAppTraceArgs flag tags limitSize, fileName, s)
      else if g_appFd s then (RET_STARTED, fileName, s)
      else
        let s1 = s\<lparr>g_traceBuffer := Some '''', g_appFlag := flag, g_appTag := tags,
                   g_fileLimitSize := (if MAX_FILE_SIZE < unat limitSize then MAX_FILE_SIZE else unat limitSize),
                   g_tgid := e_procpid e, g_appTracePrefix := ''''\<rparr>
        in case (if fileName = '''' then SetAppFileName e else Inr (fileName, fileName)) of
             Inl ret \<Rightarrow> (ret, fileName, ResetGlobalStatus s1)
           | Inr (dest, name) \<Rightarrow>
               if CheckFd (e_open e) \<noteq> RET_SUCC
               then (CheckFd (e_open e), name, ResetGlobalStatus (s1\<lparr>g_appFd := False\<rparr>))
               else let (ret, s2) = InitTraceHead e (s1\<lparr>g_appFd := True, app_file := ''''\<rparr>) in
                    if ret = RET_SUCC
                    then (ret, name, s2\<lparr>listeners := HandleAppTagChange (g_tagsProperty s2)
                                            (g_tagsProperty s2 OR g_appTag s2) (listeners s2)\<rparr>)
                    else (ret, name, ResetGlobalStatus s2))"

section \<open>The public functions\<close>

definition mk_marker ::
  "MarkerType \<Rightarrow> int \<Rightarrow> u64 \<Rightarrow> i64 \<Rightarrow> string option \<Rightarrow> string option \<Rightarrow> string option \<Rightarrow> TraceMarker" where
  "mk_marker ty lev t v n cat args = \<lparr>mtype = ty, level = lev, tag = t, mvalue = v, mname = n,
     customCategory = cat, customArgs = args, hiTraceIdStruct = None, pid = -1\<rparr>"

abbreviation EMPTY :: "string option" where "EMPTY \<equiv> Some ''''"

definition StartTraceWrapper :: "meter_env \<Rightarrow> u64 \<Rightarrow> string option \<Rightarrow> meter_state \<Rightarrow> meter_state" where
  "StartTraceWrapper e t n s =
     AddHitraceMeterMarker e (mk_marker MARKER_BEGIN HITRACE_LEVEL_INFO t 0 n EMPTY EMPTY) s"

definition StartTrace :: "meter_env \<Rightarrow> u64 \<Rightarrow> string \<Rightarrow> meter_state \<Rightarrow> meter_state" where
  "StartTrace e t n s =
     AddHitraceMeterMarker e (mk_marker MARKER_BEGIN HITRACE_LEVEL_INFO t 0 (Some n) EMPTY EMPTY) s"

definition StartTraceEx ::
  "meter_env \<Rightarrow> int \<Rightarrow> u64 \<Rightarrow> string option \<Rightarrow> string option \<Rightarrow> meter_state \<Rightarrow> meter_state" where
  "StartTraceEx e lev t n args s = AddHitraceMeterMarker e (mk_marker MARKER_BEGIN lev t 0 n EMPTY args) s"

definition StartTraceDebug :: "meter_env \<Rightarrow> bool \<Rightarrow> u64 \<Rightarrow> string \<Rightarrow> meter_state \<Rightarrow> meter_state" where
  "StartTraceDebug e isDebug t n s = (if \<not> isDebug then s
     else AddHitraceMeterMarker e (mk_marker MARKER_BEGIN HITRACE_LEVEL_INFO t 0 (Some n) EMPTY EMPTY) s)"

text \<open>
  The common part of the functions with a format: nobody wants the tag, or \<^verbatim>\<open>vsnprintf_s\<close> fails
  (\<open>None\<close>), and nothing is written.
\<close>

definition formatted_marker ::
  "meter_env \<Rightarrow> u64 \<Rightarrow> string option \<Rightarrow> (string option \<Rightarrow> TraceMarker) \<Rightarrow> meter_state \<Rightarrow> meter_state" where
  "formatted_marker e t text mk s =
     (if ((t AND g_tagsProperty s) = 0 \<or> g_isHitraceMeterDisabled s) \<and>
         (\<not> g_appFd s \<or> (t AND g_appTag s) = 0) then s
      else case text of None \<Rightarrow> s | Some n \<Rightarrow> AddHitraceMeterMarker e (mk (Some n)) s)"

definition StartTraceArgs :: "meter_env \<Rightarrow> u64 \<Rightarrow> string option \<Rightarrow> meter_state \<Rightarrow> meter_state" where
  "StartTraceArgs e t text s = formatted_marker e t text
     (\<lambda>n. mk_marker MARKER_BEGIN HITRACE_LEVEL_INFO t 0 n EMPTY EMPTY) (UpdateSysParamTags e s)"

definition StartTraceArgsEx ::
  "meter_env \<Rightarrow> int \<Rightarrow> u64 \<Rightarrow> string option \<Rightarrow> string option \<Rightarrow> meter_state \<Rightarrow> meter_state" where
  "StartTraceArgsEx e lev t args text s = formatted_marker e t text
     (\<lambda>n. mk_marker MARKER_BEGIN lev t 0 n EMPTY args) (UpdateSysParamTags e s)"

definition StartTraceArgsDebug :: "meter_env \<Rightarrow> bool \<Rightarrow> u64 \<Rightarrow> string option \<Rightarrow> meter_state \<Rightarrow> meter_state" where
  "StartTraceArgsDebug e isDebug t text s = (let s1 = UpdateSysParamTags e s in if \<not> isDebug then s1
     else formatted_marker e t text (\<lambda>n. mk_marker MARKER_BEGIN HITRACE_LEVEL_INFO t 0 n EMPTY EMPTY) s1)"

definition FinishTrace :: "meter_env \<Rightarrow> u64 \<Rightarrow> meter_state \<Rightarrow> meter_state" where
  "FinishTrace e t s =
     AddHitraceMeterMarker e (mk_marker MARKER_END HITRACE_LEVEL_INFO t 0 EMPTY EMPTY EMPTY) s"

definition FinishTraceEx :: "meter_env \<Rightarrow> int \<Rightarrow> u64 \<Rightarrow> meter_state \<Rightarrow> meter_state" where
  "FinishTraceEx e lev t s = AddHitraceMeterMarker e (mk_marker MARKER_END lev t 0 EMPTY EMPTY EMPTY) s"

definition FinishTraceDebug :: "meter_env \<Rightarrow> bool \<Rightarrow> u64 \<Rightarrow> meter_state \<Rightarrow> meter_state" where
  "FinishTraceDebug e isDebug t s = (if \<not> isDebug then s
     else AddHitraceMeterMarker e (mk_marker MARKER_END HITRACE_LEVEL_INFO t 0 EMPTY EMPTY EMPTY) s)"

definition StartAsyncTrace :: "meter_env \<Rightarrow> u64 \<Rightarrow> string \<Rightarrow> i32 \<Rightarrow> meter_state \<Rightarrow> meter_state" where
  "StartAsyncTrace e t n taskId s = AddHitraceMeterMarker e
     (mk_marker MARKER_ASYNC_BEGIN HITRACE_LEVEL_INFO t (scast taskId) (Some n) EMPTY EMPTY) s"

definition StartAsyncTraceEx :: "meter_env \<Rightarrow> int \<Rightarrow> u64 \<Rightarrow> string option \<Rightarrow> i32 \<Rightarrow> string option
    \<Rightarrow> string option \<Rightarrow> meter_state \<Rightarrow> meter_state" where
  "StartAsyncTraceEx e lev t n taskId cat args s = AddHitraceMeterMarker e
     (mk_marker MARKER_ASYNC_BEGIN lev t (scast taskId) n cat args) s"

definition StartAsyncTraceWrapper :: "meter_env \<Rightarrow> u64 \<Rightarrow> string option \<Rightarrow> i32 \<Rightarrow> meter_state \<Rightarrow> meter_state" where
  "StartAsyncTraceWrapper e t n taskId s = AddHitraceMeterMarker e
     (mk_marker MARKER_ASYNC_BEGIN HITRACE_LEVEL_INFO t (scast taskId) n EMPTY EMPTY) s"

definition StartTraceChain ::
  "meter_env \<Rightarrow> u64 \<Rightarrow> HiTraceIdStruct option \<Rightarrow> string option \<Rightarrow> meter_state \<Rightarrow> meter_state" where
  "StartTraceChain e t hiTraceId n s = AddHitraceMeterMarker e
     ((mk_marker MARKER_BEGIN HITRACE_LEVEL_INFO t 0 n EMPTY EMPTY)\<lparr>hiTraceIdStruct := hiTraceId\<rparr>) s"

definition StartAsyncTraceDebug :: "meter_env \<Rightarrow> bool \<Rightarrow> u64 \<Rightarrow> string \<Rightarrow> i32 \<Rightarrow> meter_state \<Rightarrow> meter_state" where
  "StartAsyncTraceDebug e isDebug t n taskId s = (if \<not> isDebug then s else StartAsyncTrace e t n taskId s)"

definition StartAsyncTraceArgs :: "meter_env \<Rightarrow> u64 \<Rightarrow> i32 \<Rightarrow> string option \<Rightarrow> meter_state \<Rightarrow> meter_state" where
  "StartAsyncTraceArgs e t taskId text s = formatted_marker e t text
     (\<lambda>n. mk_marker MARKER_ASYNC_BEGIN HITRACE_LEVEL_INFO t (scast taskId) n EMPTY EMPTY)
     (UpdateSysParamTags e s)"

definition StartAsyncTraceArgsEx :: "meter_env \<Rightarrow> int \<Rightarrow> u64 \<Rightarrow> i32 \<Rightarrow> string option \<Rightarrow> string option
    \<Rightarrow> string option \<Rightarrow> meter_state \<Rightarrow> meter_state" where
  "StartAsyncTraceArgsEx e lev t taskId cat args text s = formatted_marker e t text
     (\<lambda>n. mk_marker MARKER_ASYNC_BEGIN lev t (scast taskId) n cat args) (UpdateSysParamTags e s)"

definition StartAsyncTraceArgsDebug ::
  "meter_env \<Rightarrow> bool \<Rightarrow> u64 \<Rightarrow> i32 \<Rightarrow> string option \<Rightarrow> meter_state \<Rightarrow> meter_state" where
  "StartAsyncTraceArgsDebug e isDebug t taskId text s = (let s1 = UpdateSysParamTags e s in if \<not> isDebug then s1
     else formatted_marker e t text
       (\<lambda>n. mk_marker MARKER_ASYNC_BEGIN HITRACE_LEVEL_INFO t (scast taskId) n EMPTY EMPTY) s1)"

definition FinishAsyncTrace :: "meter_env \<Rightarrow> u64 \<Rightarrow> string \<Rightarrow> i32 \<Rightarrow> meter_state \<Rightarrow> meter_state" where
  "FinishAsyncTrace e t n taskId s = AddHitraceMeterMarker e
     (mk_marker MARKER_ASYNC_END HITRACE_LEVEL_INFO t (scast taskId) (Some n) EMPTY EMPTY) s"

definition FinishAsyncTraceEx ::
  "meter_env \<Rightarrow> int \<Rightarrow> u64 \<Rightarrow> string option \<Rightarrow> i32 \<Rightarrow> meter_state \<Rightarrow> meter_state" where
  "FinishAsyncTraceEx e lev t n taskId s = AddHitraceMeterMarker e
     (mk_marker MARKER_ASYNC_END lev t (scast taskId) n EMPTY EMPTY) s"

definition FinishAsyncTraceWrapper :: "meter_env \<Rightarrow> u64 \<Rightarrow> string option \<Rightarrow> i32 \<Rightarrow> meter_state \<Rightarrow> meter_state" where
  "FinishAsyncTraceWrapper e t n taskId s = AddHitraceMeterMarker e
     (mk_marker MARKER_ASYNC_END HITRACE_LEVEL_INFO t (scast taskId) n EMPTY EMPTY) s"

definition FinishAsyncTraceDebug :: "meter_env \<Rightarrow> bool \<Rightarrow> u64 \<Rightarrow> string \<Rightarrow> i32 \<Rightarrow> meter_state \<Rightarrow> meter_state" where
  "FinishAsyncTraceDebug e isDebug t n taskId s = (if \<not> isDebug then s else FinishAsyncTrace e t n taskId s)"

definition FinishAsyncTraceArgs :: "meter_env \<Rightarrow> u64 \<Rightarrow> i32 \<Rightarrow> string option \<Rightarrow> meter_state \<Rightarrow> meter_state" where
  "FinishAsyncTraceArgs e t taskId text s = formatted_marker e t text
     (\<lambda>n. mk_marker MARKER_ASYNC_END HITRACE_LEVEL_INFO t (scast taskId) n EMPTY EMPTY)
     (UpdateSysParamTags e s)"

definition FinishAsyncTraceArgsEx ::
  "meter_env \<Rightarrow> int \<Rightarrow> u64 \<Rightarrow> i32 \<Rightarrow> string option \<Rightarrow> meter_state \<Rightarrow> meter_state" where
  "FinishAsyncTraceArgsEx e lev t taskId text s = formatted_marker e t text
     (\<lambda>n. mk_marker MARKER_ASYNC_END lev t (scast taskId) n EMPTY EMPTY) (UpdateSysParamTags e s)"

definition FinishAsyncTraceArgsDebug ::
  "meter_env \<Rightarrow> bool \<Rightarrow> u64 \<Rightarrow> i32 \<Rightarrow> string option \<Rightarrow> meter_state \<Rightarrow> meter_state" where
  "FinishAsyncTraceArgsDebug e isDebug t taskId text s = (let s1 = UpdateSysParamTags e s in if \<not> isDebug then s1
     else formatted_marker e t text
       (\<lambda>n. mk_marker MARKER_ASYNC_END HITRACE_LEVEL_INFO t (scast taskId) n EMPTY EMPTY) s1)"

definition MiddleTrace :: "meter_env \<Rightarrow> u64 \<Rightarrow> string \<Rightarrow> meter_state \<Rightarrow> meter_state" where
  "MiddleTrace e t afterValue s = AddHitraceMeterMarker e
     (mk_marker MARKER_BEGIN HITRACE_LEVEL_INFO t 0 (Some afterValue) EMPTY EMPTY)
     (AddHitraceMeterMarker e (mk_marker MARKER_END HITRACE_LEVEL_INFO t 0 EMPTY EMPTY EMPTY) s)"

definition MiddleTraceDebug :: "meter_env \<Rightarrow> bool \<Rightarrow> u64 \<Rightarrow> string \<Rightarrow> meter_state \<Rightarrow> meter_state" where
  "MiddleTraceDebug e isDebug t afterValue s = (if \<not> isDebug then s else MiddleTrace e t afterValue s)"

definition CountTrace :: "meter_env \<Rightarrow> u64 \<Rightarrow> string \<Rightarrow> i64 \<Rightarrow> meter_state \<Rightarrow> meter_state" where
  "CountTrace e t n count s =
     AddHitraceMeterMarker e (mk_marker MARKER_INT HITRACE_LEVEL_INFO t count (Some n) EMPTY EMPTY) s"

definition CountTraceEx :: "meter_env \<Rightarrow> int \<Rightarrow> u64 \<Rightarrow> string option \<Rightarrow> i64 \<Rightarrow> meter_state \<Rightarrow> meter_state" where
  "CountTraceEx e lev t n count s =
     AddHitraceMeterMarker e (mk_marker MARKER_INT lev t count n EMPTY EMPTY) s"

definition CountTraceDebug :: "meter_env \<Rightarrow> bool \<Rightarrow> u64 \<Rightarrow> string \<Rightarrow> i64 \<Rightarrow> meter_state \<Rightarrow> meter_state" where
  "CountTraceDebug e isDebug t n count s = (if \<not> isDebug then s else CountTrace e t n count s)"

definition CountTraceWrapper :: "meter_env \<Rightarrow> u64 \<Rightarrow> string option \<Rightarrow> i64 \<Rightarrow> meter_state \<Rightarrow> meter_state" where
  "CountTraceWrapper e t n count s =
     AddHitraceMeterMarker e (mk_marker MARKER_INT HITRACE_LEVEL_INFO t count n EMPTY EMPTY) s"

definition HitraceMeterFmtScoped :: "meter_env \<Rightarrow> u64 \<Rightarrow> string option \<Rightarrow> meter_state \<Rightarrow> meter_state" where
  "HitraceMeterFmtScoped e t text s = formatted_marker e t text
     (\<lambda>n. mk_marker MARKER_BEGIN HITRACE_LEVEL_INFO t 0 n EMPTY EMPTY) (UpdateSysParamTags e s)"

definition HitraceMeterFmtScopedEx ::
  "meter_env \<Rightarrow> int \<Rightarrow> u64 \<Rightarrow> string option \<Rightarrow> string option \<Rightarrow> meter_state \<Rightarrow> meter_state" where
  "HitraceMeterFmtScopedEx e lev t args text s = formatted_marker e t text
     (\<lambda>n. mk_marker MARKER_BEGIN lev t 0 n EMPTY args) (UpdateSysParamTags e s)"

section \<open>Frames\<close>

text \<open>Which part of the state the helper operations leave alone.\<close>

lemma update_frames:
  "update_tags v s = Some s' \<Longrightarrow> marker_out s' = marker_out s \<and> app_file s' = app_file s"
  "update_pid v s = Some s' \<Longrightarrow> marker_out s' = marker_out s \<and> app_file s' = app_file s"
  "update_level v s = Some s' \<Longrightarrow> marker_out s' = marker_out s \<and> app_file s' = app_file s"
  by (auto simp: update_tags_def update_pid_def update_level_def Let_def split: option.splits if_splits)

lemma UpdateSysParamTags_marker [simp]: "marker_out (UpdateSysParamTags e s) = marker_out s"
  by (auto simp: UpdateSysParamTags_def when_changed_def CreateCacheHandle_def update_frames
      split: option.splits)

lemma PrepareTraceMarker_marker [simp]: "marker_out (snd (PrepareTraceMarker e s)) = marker_out s"
  by (auto simp: PrepareTraceMarker_def OpenTraceMarkerFile_def CreateCacheHandle_def Let_def
      split: option.splits)

lemma sys_write_marker [simp]: "marker_out (snd (sys_write b s)) = marker_out s"
  by (auto simp: sys_write_def split: list.splits option.splits)

lemma WriteTraceToFile_marker [simp]: "marker_out (snd (WriteTraceToFile b s)) = marker_out s"
  using sys_write_marker [of b s] by (auto simp: WriteTraceToFile_def split: prod.splits simp del: sys_write_marker)

lemma sys_write_start_marker [simp]: "marker_out (snd (sys_write_start b s)) = marker_out s"
  by (auto simp: sys_write_start_def split: list.splits option.splits)

text \<open>The stop in two steps: the pending cache goes to the file, then the header is rewritten.\<close>

definition stop_header :: "meter_env \<Rightarrow> meter_state \<Rightarrow> string option" where
  "stop_header e s =
     (let num = to_string_nat (g_traceEventNum s)
      in e_snprintf e TRACE_TXT_HEADER_MAX
           (TRACE_TXT_HEADER_FORMAT (num @ ''/'' @ num) (to_string_nat CPU_CORE_NUM)))"

definition stop_finish :: "meter_state \<Rightarrow> meter_state" where
  "stop_finish s = ResetGlobalStatus
     (s\<lparr>listeners := HandleAppTagChange (g_tagsProperty s OR g_appTag s) (g_tagsProperty s) (listeners s)\<rparr>)"

lemma StopCaptureAppTrace_eq:
  "StopCaptureAppTrace e s =
     (if \<not> g_appFd s then (RET_STOPPED, s)
      else let s1 = snd (WriteTraceToFile (pending s) s) in
        case stop_header e s1 of None \<Rightarrow> (RET_FAILD, s1)
        | Some hdr \<Rightarrow> if hdr = '''' then (RET_FAILD, s1)
            else if fst (sys_write_start hdr s1) \<noteq> Some (length hdr)
                 then (RET_FAILD, snd (sys_write_start hdr s1))
                 else (RET_SUCC, stop_finish (snd (sys_write_start hdr s1))))"
  unfolding StopCaptureAppTrace_def stop_header_def stop_finish_def Let_def case_prod_beta by (rule refl)

lemma StopCaptureAppTrace_marker [simp]: "marker_out (snd (StopCaptureAppTrace e s)) = marker_out s"
  unfolding StopCaptureAppTrace_eq Let_def
  by (simp add: stop_finish_def ResetGlobalStatus_def split: option.split)

lemma GetTraceBuffer_marker [simp]: "marker_out (snd (GetTraceBuffer n s)) = marker_out s"
  by (simp add: GetTraceBuffer_def)

lemma SetAppTrace_marker [simp]: "marker_out (SetAppTrace e n m s) = marker_out s"
  using GetTraceBuffer_marker [of n s]
  by (auto simp: SetAppTrace_def split: prod.splits option.splits simp del: GetTraceBuffer_marker)

lemma WriteAppTraceLong_marker [simp]: "marker_out (WriteAppTraceLong e n m s) = marker_out s"
  using WriteTraceToFile_marker [of "pending s" s]
  by (auto simp: WriteAppTraceLong_def split: prod.splits option.splits simp del: WriteTraceToFile_marker)
    (metis WriteTraceToFile_marker snd_conv)+

lemma SetInfo_marker [simp]:
  "marker_out (SetMainThreadInfo e p s) = marker_out s" "marker_out (SetAllThreadInfo e p t s) = marker_out s"
  by (auto simp: SetMainThreadInfo_def SetAllThreadInfo_def Let_def split: option.splits)

lemma WriteAppTrace_marker [simp]: "marker_out (WriteAppTrace e m s) = marker_out s"
  by (auto simp: WriteAppTrace_def write_app_record_def CheckFileSize_def Let_def)

lemma app_part_marker [simp]: "marker_out (app_part e m s) = marker_out s"
  by (simp add: app_part_def)

section \<open>Correctness of the marker path\<close>

lemma write_record_clipped:
  "write_record cur m = take RECORD_SIZE_MAX (record_text cur m (ParseTagBits (tag m) 7))"
  by (cases "mtype m") (simp_all add: write_record_def Let_def WriteSyncBeginRecord_clipped
      WriteSyncEndRecord_clipped WriteAsyncBeginRecord_clipped WriteOtherTypeRecord_clipped)

lemma marker_written:
  "marker_out (AddHitraceMeterMarker e m s) = marker_out s @
     (let ok = fst (PrepareTraceMarker e s); s1 = snd (PrepareTraceMarker e s);
          m1 = (commercial_level (SetNullptrToEmpty m))\<lparr>pid := e_procpid e\<rparr>
      in if 0 \<le> level m \<and> level m \<le> 3 \<and> ok \<and> (g_tagsProperty s1 AND tag m) \<noteq> 0 \<and> g_markerFd s1 \<and>
            \<not> (level m1 < g_levelThreshold s1) \<and>
            \<not> (tag m = HITRACE_TAG_APP \<and> 0 < g_appTagMatchPid s1 \<and> g_appTagMatchPid s1 \<noteq> sint (e_procpid e))
         then [take 1024 (record_text (e_current e) m1 (ParseTagBits (tag m) 7))] else [])"
proof -
  let ?m1 = "(commercial_level (SetNullptrToEmpty m))\<lparr>pid := e_procpid e\<rparr>"
  have t: "tag ?m1 = tag m" "tag (SetNullptrToEmpty m) = tag m" "pid ?m1 = e_procpid e"
    by (simp_all add: commercial_level_def SetNullptrToEmpty_def)
  show ?thesis
    unfolding AddHitraceMeterMarker_def case_prod_beta Let_def write_record_clipped marker_filtered_def t
    by (auto simp: WriteToTraceMarker_def RECORD_SIZE_MAX_def HITRACE_LEVEL_DEBUG_def HITRACE_LEVEL_MAX_def
        HITRACE_LEVEL_COMMERCIAL_def)
qed

text \<open>A marker call writes to the trace_marker node exactly when its level is one of the four,
the meter is enabled and past its start-up wait, the tag is switched on, the node is open, and
neither the level threshold nor the pid filter of the application tag holds it back. What it writes
is one record: the full text of the marker clipped to 1024 bytes.\<close>

theorem marker_record:
  "marker_out (AddHitraceMeterMarker e m s) = marker_out s @
     (let ok = fst (PrepareTraceMarker e s); s1 = snd (PrepareTraceMarker e s);
          m1 = (commercial_level (SetNullptrToEmpty m))\<lparr>pid := e_procpid e\<rparr>
      in if 0 \<le> level m \<and> level m \<le> 3 \<and> ok \<and> (g_tagsProperty s1 AND tag m) \<noteq> 0 \<and> g_markerFd s1 \<and>
            \<not> (level m1 < g_levelThreshold s1) \<and>
            \<not> (tag m = HITRACE_TAG_APP \<and> 0 < g_appTagMatchPid s1 \<and> g_appTagMatchPid s1 \<noteq> sint (e_procpid e))
         then [take 1024 (record_text (e_current e) m1 (ParseTagBits (tag m) 7))] else [])"
  by (rule marker_written)

section \<open>Correctness of the capture\<close>

text \<open>
  What is documented of \<^verbatim>\<open>snprintf_s\<close>: it stores the whole text, which then has room with its NUL,
  or fails.
\<close>

definition snprintf_whole :: "meter_env \<Rightarrow> bool" where
  "snprintf_whole e \<longleftrightarrow> (\<forall>n t. e_snprintf e n t = (if length t < n then Some t else None))"

text \<open>
  A running capture whose writes succeed: the offset stays inside the cache and the size counter is
  the length of the file. Its content is the file followed by what is still in the cache.
\<close>

definition capture_inv :: "meter_state \<Rightarrow> bool" where
  "capture_inv s \<longleftrightarrow> g_appFd s \<and> writes s = [] \<and> g_writeOffset s \<le> DEFAULT_CACHE_SIZE \<and>
     (\<exists>b. g_traceBuffer s = Some b \<and> g_writeOffset s \<le> length b) \<and> g_fileSize s = length (app_file s)"

definition captured :: "meter_state \<Rightarrow> string" where
  "captured s = app_file s @ pending s"

lemma WriteTraceToFile_ok:
  "writes s = [] \<Longrightarrow> WriteTraceToFile b s =
     (True, s\<lparr>app_file := app_file s @ b, g_fileSize := g_fileSize s + length b, g_writeOffset := 0\<rparr>)"
  by (simp add: WriteTraceToFile_def sys_write_def)

lemma length_pending: "capture_inv s \<Longrightarrow> length (pending s) = g_writeOffset s"
  by (auto simp: capture_inv_def pending_def)

definition flush :: "meter_state \<Rightarrow> meter_state" where
  "flush s = s\<lparr>app_file := app_file s @ pending s, g_fileSize := g_fileSize s + length (pending s), g_writeOffset := 0\<rparr>"

lemma flush_inv:
  assumes "capture_inv s"
  shows "capture_inv (flush s)" "captured (flush s) = captured s"
    "g_fileSize (flush s) + g_writeOffset (flush s) = g_fileSize s + g_writeOffset s"
    "g_writeOffset (flush s) = 0" "g_appTracePrefix (flush s) = g_appTracePrefix s"
  using assms length_pending [OF assms]
  by (auto simp: capture_inv_def flush_def captured_def pending_def split: option.splits)

text \<open>After \<^verbatim>\<open>GetTraceBuffer\<close> the record has room in the cache.\<close>

lemma GetTraceBuffer_room:
  assumes "capture_inv s" "len \<le> DEFAULT_CACHE_SIZE"
  obtains s1 where "GetTraceBuffer len s = (True, s1)" "s1 = s \<or> s1 = flush s"
    "g_writeOffset s1 + len \<le> DEFAULT_CACHE_SIZE"
proof -
  have b: "g_writeOffset s + len < MAX_FILE_SIZE"
    using assms by (auto simp: capture_inv_def DEFAULT_CACHE_SIZE_def MAX_FILE_SIZE_def)
  show thesis
  proof (cases "DEFAULT_CACHE_SIZE < g_writeOffset s + len")
    case True
    have "writes s = []" using assms(1) by (simp add: capture_inv_def)
    then have "GetTraceBuffer len s = (True, flush s)"
      using True b by (simp add: GetTraceBuffer_def WriteTraceToFile_ok flush_def)
    then show thesis by (rule that) (simp_all add: assms(2) flush_inv(4) [OF assms(1)])
  next
    case False
    then have "GetTraceBuffer len s = (True, s)" by (auto simp: GetTraceBuffer_def)
    then show thesis by (rule that) (use False in simp_all)
  qed
qed

lemma app_line_prefix: "g_appTracePrefix s1 = g_appTracePrefix s \<Longrightarrow> app_line e s1 m = app_line e s m"
  by (simp add: app_line_def)

lemma SetAppTraceBuffer_prefix:
  "g_appTracePrefix s1 = g_appTracePrefix s \<Longrightarrow> SetAppTraceBuffer e len m s1 = SetAppTraceBuffer e len m s"
  using app_line_prefix [of s1 s e m] by (simp add: SetAppTraceBuffer_def)

lemma snprintf_wholeD: "snprintf_whole e \<Longrightarrow> e_snprintf e n t = (if length t < n then Some t else None)"
  by (simp add: snprintf_whole_def)

lemma SetAppTraceBuffer_Some:
  "snprintf_whole e \<Longrightarrow> SetAppTraceBuffer e len m s = Some l \<Longrightarrow> l = app_line e s m \<and> length l < len"
  by (auto simp: SetAppTraceBuffer_def snprintf_wholeD split: if_splits)

lemma append_line_inv:
  assumes "capture_inv s" "g_writeOffset s + length l \<le> DEFAULT_CACHE_SIZE"
  defines "s' \<equiv> s\<lparr>g_traceBuffer := Some (pending s @ l), g_traceEventNum := g_traceEventNum s + 1,
      g_writeOffset := g_writeOffset s + length l\<rparr>"
  shows "capture_inv s'" "captured s' = captured s @ l"
    "g_fileSize s' + g_writeOffset s' = g_fileSize s + g_writeOffset s + length l"
proof -
  note lp = length_pending [OF assms(1)]
  have p: "pending s' = pending s @ l" using lp by (simp add: s'_def pending_def)
  show "capture_inv s'" using assms(1,2) lp by (simp add: s'_def capture_inv_def)
  show "captured s' = captured s @ l" unfolding captured_def p by (simp add: s'_def)
  show "g_fileSize s' + g_writeOffset s' = g_fileSize s + g_writeOffset s + length l" by (simp add: s'_def)
qed

definition appended :: "meter_env \<Rightarrow> nat \<Rightarrow> TraceMarker \<Rightarrow> meter_state \<Rightarrow> string" where
  "appended e len m s = (case SetAppTraceBuffer e len m s of None \<Rightarrow> '''' | Some l \<Rightarrow> l)"

lemma SetAppTrace_captured:
  assumes inv: "capture_inv s" and len: "len \<le> DEFAULT_CACHE_SIZE" and sn: "snprintf_whole e"
  shows "capture_inv (SetAppTrace e len m s) \<and> captured (SetAppTrace e len m s) = captured s @ appended e len m s \<and>
    g_fileSize (SetAppTrace e len m s) + g_writeOffset (SetAppTrace e len m s) =
      g_fileSize s + g_writeOffset s + length (appended e len m s)"
proof -
  obtain s1 where s1: "GetTraceBuffer len s = (True, s1)" "s1 = s \<or> s1 = flush s"
    "g_writeOffset s1 + len \<le> DEFAULT_CACHE_SIZE" using GetTraceBuffer_room [OF inv len] .
  have i1: "capture_inv s1" "captured s1 = captured s" "g_appTracePrefix s1 = g_appTracePrefix s"
    "g_fileSize s1 + g_writeOffset s1 = g_fileSize s + g_writeOffset s"
    using s1(2) flush_inv [OF inv] inv by auto
  show ?thesis
  proof (cases "SetAppTraceBuffer e len m s")
    case None
    then have "SetAppTrace e len m s = s1"
      by (simp add: SetAppTrace_def s1(1) SetAppTraceBuffer_prefix [OF i1(3)])
    with None i1 show ?thesis by (simp add: appended_def)
  next
    case (Some r)
    then have "length r < len" using SetAppTraceBuffer_Some [OF sn] by blast
    then have fits: "g_writeOffset s1 + length r \<le> DEFAULT_CACHE_SIZE" using s1(3) by simp
    have "SetAppTrace e len m s = s1\<lparr>g_traceBuffer := Some (pending s1 @ r),
        g_traceEventNum := g_traceEventNum s1 + 1, g_writeOffset := g_writeOffset s1 + length r\<rparr>"
      by (simp add: SetAppTrace_def s1(1) SetAppTraceBuffer_prefix [OF i1(3)] Some)
    then show ?thesis using append_line_inv [OF i1(1) fits] i1 Some by (simp add: appended_def)
  qed
qed

lemma WriteAppTraceLong_captured:
  assumes inv: "capture_inv s" and sn: "snprintf_whole e"
  shows "capture_inv (WriteAppTraceLong e len m s) \<and> captured (WriteAppTraceLong e len m s) = captured s @ appended e len m s \<and>
    g_fileSize (WriteAppTraceLong e len m s) + g_writeOffset (WriteAppTraceLong e len m s) =
      g_fileSize s + g_writeOffset s + length (appended e len m s)"
proof -
  have w: "writes s = []" "writes (flush s) = []" using inv by (auto simp: capture_inv_def flush_def)
  note f = flush_inv [OF inv]
  have first: "WriteTraceToFile (pending s) s = (True, flush s)"
    by (simp add: WriteTraceToFile_ok [OF w(1)] flush_def)
  show ?thesis
  proof (cases "SetAppTraceBuffer e len m s")
    case None
    then have "WriteAppTraceLong e len m s = flush s"
      by (simp add: WriteAppTraceLong_def first SetAppTraceBuffer_prefix [OF f(5)])
    with None f show ?thesis by (simp add: appended_def)
  next
    case (Some r)
    have "WriteAppTraceLong e len m s = (flush s)\<lparr>app_file := app_file (flush s) @ r,
        g_fileSize := g_fileSize (flush s) + length r, g_writeOffset := 0,
        g_traceEventNum := g_traceEventNum (flush s) + 1\<rparr>"
      by (simp add: WriteAppTraceLong_def first SetAppTraceBuffer_prefix [OF f(5)] Some WriteTraceToFile_ok w)
    then show ?thesis using f Some
      by (auto simp: appended_def capture_inv_def captured_def pending_def split: option.splits)
  qed
qed

text \<open>C15: The cache is transparent. While a capture runs and writes succeed, adding a record, by the
cached path or by the direct path for long records, extends the file together with the cached bytes
by exactly the record's line and nothing else, keeps the write offset inside the 32 KB cache, and
counts the bytes exactly.\<close>

theorem capture_append:
  assumes "capture_inv s" "snprintf_whole e"
  shows "capture_inv (write_app_record e len m s) \<and>
    captured (write_app_record e len m s) = captured s @
      appended e len m s \<and>
    g_fileSize (write_app_record e len m s) + g_writeOffset (write_app_record e len m s) =
      length (captured s) + length (appended e len m s)"
proof -
  have c: "length (captured s) = g_fileSize s + g_writeOffset s"
    using assms(1) length_pending [OF assms(1)] by (simp add: captured_def capture_inv_def)
  show ?thesis
    using SetAppTrace_captured [OF assms(1) _ assms(2), of len m] WriteAppTraceLong_captured [OF assms, of len m]
    unfolding write_app_record_def c by (cases "len \<le> DEFAULT_CACHE_SIZE") simp_all
qed

definition sample_env :: meter_env where
  "sample_env = \<lparr>e_tags = None, e_pid = None, e_level = None, e_handle_tags = True, e_handle_pid = True,
     e_handle_level = True, e_monotonic = Some 100, e_debugfs_open = True, e_tracefs_open = False,
     e_init_tags = tag_bit 62, e_init_level = 1, e_procpid = 321, e_tid = 321, e_sec = 77, e_nsec = 5000,
     e_cpu = 2, e_procname = ''com.app'', e_comm = None,
     e_snprintf = (\<lambda>n t. if length t < n then Some t else None), e_current = HiTraceId_default,
     e_mkdir_ok = True, e_date = Some ''20240101_000000'', e_open = OpenOk\<rparr>"

definition sample_state :: meter_state where
  "sample_state = \<lparr>g_markerFd = True, g_appFd = True, g_onceFlag = True, g_cachedHandle = True,
     g_appPidCachedHandle = True, g_levelThresholdCachedHandle = True, g_isHitraceMeterDisabled = False,
     g_isHitraceMeterInit = True, g_tagsProperty = 0, g_appTag = tag_bit 62, g_appTagMatchPid = -1,
     g_levelThreshold = 1, listeners = registry_init, g_appTracePrefix = '''', g_tgid = 321,
     g_traceEventNum = 0, g_writeOffset = 0, g_fileSize = 0, g_appFlag = 1, g_fileLimitSize = 1000000,
     g_traceBuffer = Some '''', app_file = '''', writes = [], marker_out = [], threw = False\<rparr>"

lemma sample_ok: "capture_inv sample_state" "snprintf_whole sample_env"
  by (simp_all add: sample_state_def sample_env_def capture_inv_def snprintf_whole_def)

theorem capture_append_witness:
  "captured (write_app_record sample_env 200 (mk_marker MARKER_END 1 (tag_bit 62) 0 EMPTY EMPTY EMPTY) sample_state) =
   appended sample_env 200 (mk_marker MARKER_END 1 (tag_bit 62) 0 EMPTY EMPTY EMPTY) sample_state"
  using capture_append [OF sample_ok] by (simp add: captured_def pending_def sample_state_def)

subsection \<open>Room for a line\<close>

lemma length_SetCommStr [simp]: "length (SetCommStr p) = COMM_STR_MAX"
  by (simp add: SetCommStr_def)

lemma main_prefix_length:
  assumes "length (to_string_int (sint p)) \<le> PID_STR_MAX"
  shows "length (g_appTracePrefix (SetMainThreadInfo e p s)) = 32"
  using assms by (simp add: SetMainThreadInfo_def Let_def pid_fix_def COMM_STR_MAX_def PID_STR_MAX_def)

lemma length_to_string_int:
  "\<bar>i\<bar> < 10 ^ k \<Longrightarrow> 0 < k \<Longrightarrow> length (to_string_int i) \<le> Suc k"
  using length_dec_digits [of "nat \<bar>i\<bar>" k]
  by (auto simp: to_string_int_def nat_less_iff le_SucI split: if_splits)

lemma length_pad_zero: "length (pad_zero w d) = max w (length d)"
  by (simp add: pad_zero_def)

lemma ParseTagBits_length: "length (ParseTagBits t 7) \<le> 4"
  using ParseTagBits_loop_length [of "''''" "drop_bit 1 t" 1]
  by (simp add: ParseTagBits_def Let_def two_digits_def)

lemma app_body_length:
  assumes "length (to_string_int (sint (pid m))) \<le> 7"
    "mtype m = MARKER_ASYNC_BEGIN \<Longrightarrow> \<bar>sint (mvalue m)\<bar> \<le> 2 ^ 31" "length bits \<le> 4"
  shows "length (app_body m bits) + 89 \<le> app_len m"
proof -
  have v: "length (to_string_int (sint (mvalue m))) \<le> 20"
    using length_to_string_int [of "sint (mvalue m)" 19] sint_ge [of "mvalue m"] sint_lt [of "mvalue m"] by simp
  have v32: "length (to_string_int (sint (mvalue m))) \<le> 11" if "mtype m = MARKER_ASYNC_BEGIN"
    using length_to_string_int [of "sint (mvalue m)" 10] assms(2) [OF that] by simp
  show ?thesis
    using assms(1,3) v v32
    by (cases "mtype m") (auto simp: app_body_def app_len_def PREFIX_MAX_SIZE_def Let_def)
qed

text \<open>The 128 bytes reserved beside the texts of a record are enough: with a prefix of 32
characters, a cpu below 1000, less than ten billion seconds of boot time, a process id of at most
seven digits and a task id of 32 bits, the formatted line and its NUL fit the space requested for
it, so that no record is dropped for want of room.\<close>

theorem capture_line_fits:
  assumes "length (g_appTracePrefix s) = 32" "0 \<le> e_cpu e" "e_cpu e < 1000" "e_sec e < 10 ^ 10"
    "e_nsec e < 10 ^ 9" "length (to_string_int (sint (pid m))) \<le> 7"
    "mtype m = MARKER_ASYNC_BEGIN \<Longrightarrow> \<bar>sint (mvalue m)\<bar> \<le> 2 ^ 31" "snprintf_whole e"
  shows "SetAppTraceBuffer e (app_len m) m s = Some (app_line e s m)"
proof -
  have cpu: "length (to_string_int (e_cpu e)) \<le> 3"
    using length_dec_digits [of "nat (e_cpu e)" 3] assms(2,3) by (simp add: to_string_int_def nat_less_iff)
  have sec: "length (to_string_nat (e_sec e)) \<le> 10"
    using length_dec_digits [of "e_sec e" 10] assms(4) by (simp add: to_string_nat_def)
  have "e_nsec e div 1000 < 10 ^ 6" using assms(5) by simp
  then have us: "length (to_string_nat (e_nsec e div 1000)) \<le> 6"
    using length_dec_digits [of "e_nsec e div 1000" 6] by (simp add: to_string_nat_def)
  note body = app_body_length [OF assms(6,7) ParseTagBits_length, of "tag m"]
  have "length (app_line e s m) < app_len m"
    using cpu sec us body assms(1) by (simp add: app_line_def length_pad_zero max_def)
  then show ?thesis using assms(2,8) by (simp add: SetAppTraceBuffer_def snprintf_whole_def app_line_def)
qed

theorem capture_line_fits_witness:
  "SetAppTraceBuffer sample_env 128 (mk_marker MARKER_END 1 (tag_bit 62) 0 EMPTY EMPTY EMPTY)
     (sample_state\<lparr>g_appTracePrefix := replicate 32 (CHR ''x'')\<rparr>) =
   Some (app_line sample_env (sample_state\<lparr>g_appTracePrefix := replicate 32 (CHR ''x'')\<rparr>)
     (mk_marker MARKER_END 1 (tag_bit 62) 0 EMPTY EMPTY EMPTY))"
proof -
  let ?m = "mk_marker MARKER_END 1 (tag_bit 62) 0 EMPTY EMPTY EMPTY"
  have pid: "length (to_string_int (sint (pid ?m))) \<le> 7"
    using length_to_string_int [of "-1" 1] by (simp add: mk_marker_def)
  have len: "app_len ?m = 128" by (simp add: app_len_def mk_marker_def c_str_def PREFIX_MAX_SIZE_def)
  show ?thesis
    using capture_line_fits [of "sample_state\<lparr>g_appTracePrefix := replicate 32 (CHR ''x'')\<rparr>" sample_env ?m]
      pid sample_ok(2) unfolding len by (simp add: sample_env_def mk_marker_def)
qed

subsection \<open>The end of a capture\<close>

lemma length_pad_right: "length (pad_right w d) = max w (length d)"
  by (simp add: pad_right_def)

lemma header_length:
  "length (TRACE_TXT_HEADER_FORMAT ev cpus) + 24 =
   length (TRACE_TXT_HEADER_FORMAT '''' '''') + max 21 (length ev) + max 3 (length cpus)"
  by (simp add: TRACE_TXT_HEADER_FORMAT_def header_line_def length_pad_right)

lemma header_empty_length: "length (TRACE_TXT_HEADER_FORMAT '''' '''') < 700"
  by (simp add: TRACE_TXT_HEADER_FORMAT_def header_line_def length_pad_right)

lemma stop_header_Some:
  assumes "snprintf_whole e" "g_traceEventNum s < 10 ^ 10"
  obtains ev where "stop_header e s = Some (TRACE_TXT_HEADER_FORMAT ev (to_string_nat CPU_CORE_NUM))"
    "ev = to_string_nat (g_traceEventNum s) @ ''/'' @ to_string_nat (g_traceEventNum s)"
    "length (TRACE_TXT_HEADER_FORMAT ev (to_string_nat CPU_CORE_NUM)) = length (TRACE_TXT_HEADER_FORMAT '''' '''')"
proof -
  let ?ev = "to_string_nat (g_traceEventNum s) @ ''/'' @ to_string_nat (g_traceEventNum s)"
  have e21: "length ?ev \<le> 21"
    using length_dec_digits [of "g_traceEventNum s" 10] assms(2) by (simp add: to_string_nat_def)
  have c3: "length (to_string_nat CPU_CORE_NUM) \<le> 3"
    using length_dec_digits [of 16 3] by (simp add: to_string_nat_def CPU_CORE_NUM_def)
  have len: "length (TRACE_TXT_HEADER_FORMAT ?ev (to_string_nat CPU_CORE_NUM)) =
      length (TRACE_TXT_HEADER_FORMAT '''' '''')"
    using header_length [of ?ev "to_string_nat CPU_CORE_NUM"]
    unfolding max_absorb1 [OF e21] max_absorb1 [OF c3] by linarith
  then have "stop_header e s = Some (TRACE_TXT_HEADER_FORMAT ?ev (to_string_nat CPU_CORE_NUM))"
    using header_empty_length
    by (simp add: stop_header_def Let_def snprintf_wholeD [OF assms(1)] TRACE_TXT_HEADER_MAX_def)
  then show thesis using that len by blast
qed

lemma header_not_Nil: "TRACE_TXT_HEADER_FORMAT ev cpus \<noteq> ''''"
  by (simp add: TRACE_TXT_HEADER_FORMAT_def header_line_def)

definition final_header :: "nat \<Rightarrow> string" where
  "final_header n = TRACE_TXT_HEADER_FORMAT (to_string_nat n @ ''/'' @ to_string_nat n) (to_string_nat 16)"

lemma StopCaptureAppTrace_ok:
  assumes "capture_inv s" "snprintf_whole e" "g_traceEventNum s < 10 ^ 10"
  defines "h \<equiv> final_header (g_traceEventNum s)"
  shows "StopCaptureAppTrace e s =
      (RET_SUCC, stop_finish ((flush s)\<lparr>app_file := overwrite_start h (captured s)\<rparr>))"
    "length h = length (TRACE_TXT_HEADER_FORMAT '''' '''')"
proof -
  have open_w: "g_appFd s" "writes s = []" using assms(1) by (simp_all add: capture_inv_def)
  have flush: "snd (WriteTraceToFile (pending s) s) = flush s"
    by (simp add: WriteTraceToFile_ok [OF open_w(2)] flush_def)
  have fl: "writes (flush s) = []" "g_traceEventNum (flush s) = g_traceEventNum s"
    "app_file (flush s) = captured s"
    using open_w by (simp_all add: flush_def captured_def)
  have hdr: "stop_header e (flush s) = Some h" and len: "length h = length (TRACE_TXT_HEADER_FORMAT '''' '''')"
    using stop_header_Some [OF assms(2), of "flush s"] assms(3) unfolding fl(2) h_def final_header_def
    by (auto simp: CPU_CORE_NUM_def)
  show "length h = length (TRACE_TXT_HEADER_FORMAT '''' '''')" by (rule len)
  have wr: "sys_write_start h (flush s) = (Some (length h), (flush s)\<lparr>app_file := overwrite_start h (captured s)\<rparr>)"
    using fl by (simp add: sys_write_start_def)
  have "h \<noteq> ''''" by (simp add: h_def final_header_def header_not_Nil)
  then show "StopCaptureAppTrace e s =
      (RET_SUCC, stop_finish ((flush s)\<lparr>app_file := overwrite_start h (captured s)\<rparr>))"
    unfolding StopCaptureAppTrace_eq Let_def flush hdr option.case wr using open_w(1) by simp
qed

text \<open>Stopping a capture that began with the reserved header leaves a file that starts with the
header naming the number of recorded events and 16 cpus, followed by exactly the captured lines: the
new header takes the bytes of the reserved one, neither more nor fewer, for every event number below
ten billion. The capture is closed and the application tag goes back to not ready.\<close>

theorem capture_stop:
  assumes "capture_inv s" "snprintf_whole e" "g_traceEventNum s < 10 ^ 10"
    "captured s = TRACE_TXT_HEADER_FORMAT '''' '''' @ body"
  shows "\<exists>s'. StopCaptureAppTrace e s = (RET_SUCC, s') \<and>
    app_file s' = final_header (g_traceEventNum s) @ body \<and>
    \<not> g_appFd s' \<and> g_appTag s' = HITRACE_TAG_NOT_READY \<and> g_traceBuffer s' = None \<and> g_writeOffset s' = 0"
  using StopCaptureAppTrace_ok [OF assms(1-3)] assms(4)
  by (simp add: stop_finish_def ResetGlobalStatus_def overwrite_start_def)

definition fresh_capture :: meter_state where
  "fresh_capture = sample_state\<lparr>app_file := TRACE_TXT_HEADER_FORMAT '''' '''',
     g_fileSize := length (TRACE_TXT_HEADER_FORMAT '''' '''')\<rparr>"

lemma fresh_capture_ok:
  "capture_inv fresh_capture" "captured fresh_capture = TRACE_TXT_HEADER_FORMAT '''' ''''"
  by (simp_all add: fresh_capture_def sample_state_def capture_inv_def captured_def pending_def)

theorem capture_stop_witness:
  "\<exists>s'. StopCaptureAppTrace sample_env fresh_capture = (RET_SUCC, s') \<and> \<not> g_appFd s'"
  using capture_stop [OF fresh_capture_ok(1) sample_ok(2), of "''''"] fresh_capture_ok(2)
  by (auto simp: fresh_capture_def sample_state_def)

subsection \<open>The size limit\<close>








subsection \<open>The start of a capture\<close>

text \<open>With valid arguments, a file name and a file that opens, starting a capture succeeds: the
file holds the reserved header and nothing else, the cache is empty, the limit is the requested one
cut to 500 MB, the tags are in force, and a second start is refused without any change.\<close>

theorem capture_start:
  assumes "CheckAppTraceArgs flag tags limitSize = RET_SUCC" "\<not> g_appFd s" "writes s = []"
    "snprintf_whole e" "e_open e = OpenOk" "fileName \<noteq> ''''"
  shows "\<exists>s'. StartCaptureAppTrace e flag tags limitSize fileName s = (RET_SUCC, fileName, s') \<and>
    capture_inv s' \<and> captured s' = TRACE_TXT_HEADER_FORMAT '''' '''' \<and> g_traceEventNum s' = 0 \<and>
    g_appTag s' = tags \<and> g_fileLimitSize s' = min MAX_FILE_SIZE (unat limitSize) \<and>
    StartCaptureAppTrace e flag tags limitSize fileName s' = (RET_STARTED, fileName, s')"
proof -
  have hdr: "e_snprintf e TRACE_TXT_HEADER_MAX (TRACE_TXT_HEADER_FORMAT '''' '''') =
      Some (TRACE_TXT_HEADER_FORMAT '''' '''')"
    using header_empty_length by (simp add: snprintf_wholeD [OF assms(4)] TRACE_TXT_HEADER_MAX_def)
  let ?s = "s\<lparr>g_traceBuffer := Some '''', g_appFlag := flag, g_appTag := tags,
       g_fileLimitSize := (if MAX_FILE_SIZE < unat limitSize then MAX_FILE_SIZE else unat limitSize),
       g_tgid := e_procpid e, g_appTracePrefix := '''', g_appFd := True, app_file := ''''\<rparr>"
  have init: "InitTraceHead e ?s = (RET_SUCC, ?s\<lparr>app_file := TRACE_TXT_HEADER_FORMAT '''' '''',
      g_writeOffset := 0, g_fileSize := length (TRACE_TXT_HEADER_FORMAT '''' ''''), g_traceEventNum := 0\<rparr>)"
    using assms(3) by (simp add: InitTraceHead_def hdr header_not_Nil sys_write_def)
  show ?thesis
    using assms(1,2,3,5,6) init
    by (simp add: StartCaptureAppTrace_def Let_def CheckFd_def capture_inv_def captured_def pending_def min_def)
qed

lemma VALID_TAGS_62: "(tag_bit 62 AND VALID_TAGS) \<noteq> 0"
proof -
  have "bit (tag_bit 62 AND VALID_TAGS) 62"
    unfolding VALID_TAGS_def by (simp add: bit_and_iff bit_or_iff bit_tag)
  then show ?thesis by (metis bit_0_eq bot_apply bot_bool_def)
qed

theorem capture_start_witness:
  "\<exists>s'. StartCaptureAppTrace sample_env 1 (tag_bit 62) 5000 ''/data/x.trace'' (sample_state\<lparr>g_appFd := False\<rparr>) =
      (RET_SUCC, ''/data/x.trace'', s') \<and> capture_inv s'"
proof -
  have "\<not> sint (tag_bit 62) < 0" by (simp add: tag_bit_def)
  then have "CheckAppTraceArgs 1 (tag_bit 62) 5000 = RET_SUCC"
    using VALID_TAGS_62 by (simp add: CheckAppTraceArgs_def FLAG_MAIN_THREAD_def)
  then show ?thesis
    using capture_start [of 1 "tag_bit 62" 5000 "sample_state\<lparr>g_appFd := False\<rparr>" sample_env "''/data/x.trace''"]
      sample_ok(2) by (fastforce simp: sample_state_def sample_env_def)
qed

end
