(* ===== verification/Chain_Interfaces.thy ===== *)
theory Chain_Interfaces
  imports Hitrace_Chain
begin

text \<open>
  The interfaces other languages and applications use to reach the call chain: the NDK
  (\<^verbatim>\<open>frameworks/hitrace_ndk/hitrace_chain_ndk.c\<close>), the C wrapper for Rust
  (\<^verbatim>\<open>frameworks/native/c_wrapper/source/hitracechain_c_wrapper.c\<close>) and the foreign functions of Cangjie
  (\<^verbatim>\<open>interfaces/cj/kits/ffi/src/hitracechain_impl.cpp\<close>, \<^verbatim>\<open>hitracechain_ffi.cpp\<close>), where an identifier crosses
  the border as a struct of plain numbers. As in the model of the chain, \<open>t\<close> is the calling thread, the text of a
  tracepoint is what the format gives, and the clock and the random numbers are arguments.
\<close>

definition TRACE_DOMAIN :: u32 where "TRACE_DOMAIN = 0xD002D33"

section \<open>The NDK\<close>

definition OH_HiTrace_BeginChain where
  "OH_HiTrace_BeginChain tv draws t name fl w = HiTraceChainBeginWithDomain tv draws t name fl TRACE_DOMAIN w"

definition OH_HiTrace_EndChain :: "thread \<Rightarrow> chain_world \<Rightarrow> chain_world \<times> chain_event list" where
  "OH_HiTrace_EndChain t w = (let ident = HiTraceChainGetId t w in HiTraceChainEndWithDomain t (Some ident) TRACE_DOMAIN w)"

definition OH_HiTrace_GetId :: "thread \<Rightarrow> chain_world \<Rightarrow> HiTraceIdStruct" where
  "OH_HiTrace_GetId t w = HiTraceChainGetId t w"

definition OH_HiTrace_SetId :: "thread \<Rightarrow> HiTraceIdStruct option \<Rightarrow> chain_world \<Rightarrow> chain_world" where
  "OH_HiTrace_SetId t ident w = HiTraceChainSetId t ident w"

definition OH_HiTrace_ClearId :: "thread \<Rightarrow> chain_world \<Rightarrow> chain_world" where
  "OH_HiTrace_ClearId t w = HiTraceChainClearId t w"

definition OH_HiTrace_CreateSpan where
  "OH_HiTrace_CreateSpan char_signed tv draws t w = HiTraceChainCreateSpan char_signed tv draws t w"

definition HiTraceChainTracepointExWithArgsDomain ::
  "int \<Rightarrow> int \<Rightarrow> HiTraceIdStruct option \<Rightarrow> u32 \<Rightarrow> string option \<Rightarrow> chain_event list" where
  "HiTraceChainTracepointExWithArgsDomain mode type pId domain text = HiTraceChainTracepointInner mode type pId domain text"

definition OH_HiTrace_Tracepoint :: "int \<Rightarrow> int \<Rightarrow> HiTraceIdStruct option \<Rightarrow> string option \<Rightarrow> chain_event list" where
  "OH_HiTrace_Tracepoint mode type ident text = HiTraceChainTracepointExWithArgsDomain mode type ident TRACE_DOMAIN text"

definition OH_HiTrace_InitId :: HiTraceIdStruct where "OH_HiTrace_InitId = HiTraceChainInitId"

definition OH_HiTrace_IdFromBytes :: "bytes option \<Rightarrow> int \<Rightarrow> HiTraceIdStruct" where
  "OH_HiTrace_IdFromBytes pIdArray len = HiTraceChainBytesToId pIdArray len"

definition OH_HiTrace_IsIdValid :: "HiTraceIdStruct option \<Rightarrow> bool" where
  "OH_HiTrace_IsIdValid ident = HiTraceChainIsValid ident"

definition OH_HiTrace_IsFlagEnabled :: "HiTraceIdStruct option \<Rightarrow> i32 \<Rightarrow> bool" where
  "OH_HiTrace_IsFlagEnabled ident flag = HiTraceChainIsFlagEnabled ident flag"

definition OH_HiTrace_EnableFlag :: "HiTraceIdStruct \<Rightarrow> i32 \<Rightarrow> HiTraceIdStruct" where
  "OH_HiTrace_EnableFlag ident flag = HiTraceChainEnableFlag ident flag"

definition OH_HiTrace_GetFlags :: "HiTraceIdStruct option \<Rightarrow> i32" where
  "OH_HiTrace_GetFlags ident = HiTraceChainGetFlags ident"

definition OH_HiTrace_SetFlags :: "HiTraceIdStruct \<Rightarrow> i32 \<Rightarrow> HiTraceIdStruct" where
  "OH_HiTrace_SetFlags ident fl = HiTraceChainSetFlags ident fl"

definition OH_HiTrace_GetChainId :: "HiTraceIdStruct option \<Rightarrow> u64" where
  "OH_HiTrace_GetChainId ident = HiTraceChainGetChainId ident"

definition OH_HiTrace_SetChainId :: "HiTraceIdStruct \<Rightarrow> u64 \<Rightarrow> HiTraceIdStruct" where
  "OH_HiTrace_SetChainId ident c = HiTraceChainSetChainId ident c"

definition OH_HiTrace_GetSpanId :: "HiTraceIdStruct option \<Rightarrow> u64" where
  "OH_HiTrace_GetSpanId ident = HiTraceChainGetSpanId ident"

definition OH_HiTrace_SetSpanId :: "HiTraceIdStruct \<Rightarrow> u64 \<Rightarrow> HiTraceIdStruct" where
  "OH_HiTrace_SetSpanId ident s = HiTraceChainSetSpanId ident s"

definition OH_HiTrace_GetParentSpanId :: "HiTraceIdStruct option \<Rightarrow> u64" where
  "OH_HiTrace_GetParentSpanId ident = HiTraceChainGetParentSpanId ident"

definition OH_HiTrace_SetParentSpanId :: "HiTraceIdStruct \<Rightarrow> u64 \<Rightarrow> HiTraceIdStruct" where
  "OH_HiTrace_SetParentSpanId ident s = HiTraceChainSetParentSpanId ident s"

definition OH_HiTrace_IdToBytes :: "HiTraceIdStruct option \<Rightarrow> bytes \<Rightarrow> int \<Rightarrow> nat \<times> bytes" where
  "OH_HiTrace_IdToBytes ident pIdArray len = HiTraceChainIdToBytes ident pIdArray len"

section \<open>The C wrapper\<close>

definition HiTraceChainTracepointExWrapper :: "int \<Rightarrow> int \<Rightarrow> HiTraceIdStruct option \<Rightarrow> string option \<Rightarrow> chain_event list" where
  "HiTraceChainTracepointExWrapper mode type pId text = HiTraceChainTracepointInner mode type pId 0 text"

definition HiTraceChainTracepointExWithDomainWrapper ::
  "int \<Rightarrow> int \<Rightarrow> HiTraceIdStruct option \<Rightarrow> u32 \<Rightarrow> string option \<Rightarrow> chain_event list" where
  "HiTraceChainTracepointExWithDomainWrapper mode type pId domain text = HiTraceChainTracepointInner mode type pId domain text"

text \<open>A \<^verbatim>\<open>bool\<close> becomes the \<^verbatim>\<open>int\<close> 0 or 1.\<close>

definition HiTraceChainIsFlagEnabledWrapper :: "HiTraceIdStruct option \<Rightarrow> i32 \<Rightarrow> int" where
  "HiTraceChainIsFlagEnabledWrapper pId flag = of_bool (HiTraceChainIsFlagEnabled pId flag)"

definition HiTraceChainEnableFlagWrapper :: "HiTraceIdStruct \<Rightarrow> i32 \<Rightarrow> HiTraceIdStruct" where
  "HiTraceChainEnableFlagWrapper pId flag = HiTraceChainEnableFlag pId flag"

definition HiTraceChainIsValidWrapper :: "HiTraceIdStruct option \<Rightarrow> int" where
  "HiTraceChainIsValidWrapper pId = of_bool (HiTraceChainIsValid pId)"

definition HiTraceChainSetFlagsWrapper :: "HiTraceIdStruct \<Rightarrow> i32 \<Rightarrow> HiTraceIdStruct" where
  "HiTraceChainSetFlagsWrapper pId fl = HiTraceChainSetFlags pId fl"

definition HiTraceChainGetFlagsWrapper :: "HiTraceIdStruct option \<Rightarrow> i32" where
  "HiTraceChainGetFlagsWrapper pId = HiTraceChainGetFlags pId"

definition HiTraceChainSetChainIdWrapper :: "HiTraceIdStruct \<Rightarrow> u64 \<Rightarrow> HiTraceIdStruct" where
  "HiTraceChainSetChainIdWrapper pId c = HiTraceChainSetChainId pId c"

definition HiTraceChainGetChainIdWrapper :: "HiTraceIdStruct option \<Rightarrow> u64" where
  "HiTraceChainGetChainIdWrapper pId = HiTraceChainGetChainId pId"

definition HiTraceChainSetSpanIdWrapper :: "HiTraceIdStruct \<Rightarrow> u64 \<Rightarrow> HiTraceIdStruct" where
  "HiTraceChainSetSpanIdWrapper pId s = HiTraceChainSetSpanId pId s"

definition HiTraceChainGetSpanIdWrapper :: "HiTraceIdStruct option \<Rightarrow> u64" where
  "HiTraceChainGetSpanIdWrapper pId = HiTraceChainGetSpanId pId"

definition HiTraceChainSetParentSpanIdWrapper :: "HiTraceIdStruct \<Rightarrow> u64 \<Rightarrow> HiTraceIdStruct" where
  "HiTraceChainSetParentSpanIdWrapper pId s = HiTraceChainSetParentSpanId pId s"

definition HiTraceChainGetParentSpanIdWrapper :: "HiTraceIdStruct option \<Rightarrow> u64" where
  "HiTraceChainGetParentSpanIdWrapper pId = HiTraceChainGetParentSpanId pId"

definition HiTraceChainIdToBytesWrapper :: "HiTraceIdStruct option \<Rightarrow> bytes \<Rightarrow> int \<Rightarrow> nat \<times> bytes" where
  "HiTraceChainIdToBytesWrapper pId pIdArray len = HiTraceChainIdToBytes pId pIdArray len"

definition HiTraceChainBytesToIdWrapper :: "bytes option \<Rightarrow> int \<Rightarrow> HiTraceIdStruct" where
  "HiTraceChainBytesToIdWrapper pIdArray len = HiTraceChainBytesToId pIdArray len"

section \<open>Cangjie\<close>

definition HiTraceChainImpl_Begin where
  "HiTraceChainImpl_Begin tv draws t name fl w =
     Chain_Begin tv draws t (case name of None \<Rightarrow> '''' | Some n \<Rightarrow> n) fl TRACE_DOMAIN w"

definition HiTraceChainImpl_End :: "thread \<Rightarrow> HiTraceId \<Rightarrow> chain_world \<Rightarrow> chain_world \<times> chain_event list" where
  "HiTraceChainImpl_End t ident w = Chain_End t ident TRACE_DOMAIN w"

definition HiTraceChainImpl_GetId :: "thread \<Rightarrow> chain_world \<Rightarrow> HiTraceId" where
  "HiTraceChainImpl_GetId t w = Chain_GetId t w"

definition HiTraceChainImpl_SetId :: "thread \<Rightarrow> HiTraceId \<Rightarrow> chain_world \<Rightarrow> chain_world" where
  "HiTraceChainImpl_SetId t ident w = Chain_SetId t ident w"

definition HiTraceChainImpl_ClearId :: "thread \<Rightarrow> chain_world \<Rightarrow> chain_world" where
  "HiTraceChainImpl_ClearId t w = Chain_ClearId t w"

definition HiTraceChainImpl_CreateSpan where
  "HiTraceChainImpl_CreateSpan sg tv draws t w = Chain_CreateSpan sg tv draws t w"

definition HiTraceChainImpl_Tracepoint :: "u32 \<Rightarrow> u32 \<Rightarrow> HiTraceId \<Rightarrow> string option \<Rightarrow> chain_event list" where
  "HiTraceChainImpl_Tracepoint mode type ident msg = Chain_Tracepoint (uint mode) (uint type) ident TRACE_DOMAIN msg"

definition HiTraceChainImpl_IsValid :: "HiTraceId \<Rightarrow> bool" where
  "HiTraceChainImpl_IsValid ident = HiTraceId_IsValid ident"

definition HiTraceChainImpl_IsFlagEnabled :: "HiTraceId \<Rightarrow> i32 \<Rightarrow> bool" where
  "HiTraceChainImpl_IsFlagEnabled traceId flag = HiTraceId_IsFlagEnabled traceId flag"

definition HiTraceChainImpl_EnableFlag :: "HiTraceId \<Rightarrow> i32 \<Rightarrow> HiTraceId" where
  "HiTraceChainImpl_EnableFlag traceId flag = HiTraceId_EnableFlag traceId flag"

record CHiTraceId =
  c_chainId :: u64
  c_spanId :: u64
  c_parentSpanId :: u64
  c_flags :: i32

definition Parse_id :: "HiTraceId \<Rightarrow> CHiTraceId" where
  "Parse_id ident = \<lparr>c_chainId = HiTraceId_GetChainId ident, c_spanId = HiTraceId_GetSpanId ident,
     c_parentSpanId = HiTraceId_GetParentSpanId ident, c_flags = HiTraceId_GetFlags ident\<rparr>"

definition Parse_struct :: "CHiTraceId \<Rightarrow> HiTraceId" where
  "Parse_struct ident = HiTraceId_SetFlags (HiTraceId_SetParentSpanId (HiTraceId_SetSpanId
     (HiTraceId_SetChainId HiTraceId_default (c_chainId ident)) (c_spanId ident)) (c_parentSpanId ident)) (c_flags ident)"

definition FfiOHOSHiTraceChainBegin where
  "FfiOHOSHiTraceChainBegin tv draws t name flag w =
     map_option (\<lambda>(ident, r). (Parse_id ident, r)) (HiTraceChainImpl_Begin tv draws t name flag w)"

definition FfiOHOSHiTraceChainEnd :: "thread \<Rightarrow> CHiTraceId \<Rightarrow> chain_world \<Rightarrow> chain_world \<times> chain_event list" where
  "FfiOHOSHiTraceChainEnd t ident w = HiTraceChainImpl_End t (Parse_struct ident) w"

definition FfiOHOSHiTraceChainGetId :: "thread \<Rightarrow> chain_world \<Rightarrow> CHiTraceId" where
  "FfiOHOSHiTraceChainGetId t w = Parse_id (HiTraceChainImpl_GetId t w)"

definition FfiOHOSHiTraceChainSetId :: "thread \<Rightarrow> CHiTraceId \<Rightarrow> chain_world \<Rightarrow> chain_world" where
  "FfiOHOSHiTraceChainSetId t ident w = HiTraceChainImpl_SetId t (Parse_struct ident) w"

definition FfiOHOSHiTraceChainClearId :: "thread \<Rightarrow> chain_world \<Rightarrow> chain_world" where
  "FfiOHOSHiTraceChainClearId t w = HiTraceChainImpl_ClearId t w"

definition FfiOHOSHiTraceChainCreateSpan where
  "FfiOHOSHiTraceChainCreateSpan sg tv draws t w =
     map_option (\<lambda>(ident, w'). (Parse_id ident, w')) (HiTraceChainImpl_CreateSpan sg tv draws t w)"

definition FfiOHOSHiTraceChainTracepoint :: "u32 \<Rightarrow> u32 \<Rightarrow> CHiTraceId \<Rightarrow> string option \<Rightarrow> chain_event list" where
  "FfiOHOSHiTraceChainTracepoint mode type ident str = HiTraceChainImpl_Tracepoint mode type (Parse_struct ident) str"

definition FfiOHOSHiTraceChainIsValid :: "CHiTraceId \<Rightarrow> bool" where
  "FfiOHOSHiTraceChainIsValid ident = HiTraceChainImpl_IsValid (Parse_struct ident)"

definition FfiOHOSHiTraceChainIsFlagEnabled :: "CHiTraceId \<Rightarrow> i32 \<Rightarrow> bool" where
  "FfiOHOSHiTraceChainIsFlagEnabled ident flag = HiTraceChainImpl_IsFlagEnabled (Parse_struct ident) flag"

text \<open>The struct comes by value; the flag is set in a local object, and the result is what the caller holds afterwards.\<close>

definition FfiOHOSHiTraceChainEnableFlag :: "CHiTraceId \<Rightarrow> i32 \<Rightarrow> CHiTraceId" where
  "FfiOHOSHiTraceChainEnableFlag ident flag = (let traceId = HiTraceChainImpl_EnableFlag (Parse_struct ident) flag in ident)"

section \<open>An identifier across the border\<close>

lemma widen_narrow:
  "(ucast (ucast (c :: 60 word) :: u64) :: 60 word) = c" "(ucast (ucast (s :: 26 word) :: u64) :: 26 word) = s"
  by (rule bit_word_eqI; auto simp: bit_low_field bit_unsigned_iff)+

lemma widened_zero: "(ucast (c :: 60 word) :: u64) = 0 \<longleftrightarrow> c = 0"
  using widen_narrow(1) [of c] by (auto simp: unsigned_0)

lemma flags_widened:
  "(ucast (scast (ucast (f :: 12 word) :: i32) :: u64) :: 12 word) = f" "sint (ucast (f :: 12 word) :: i32) = uint f"
proof -
  have f: "0 \<le> uint f" "uint f < 2 ^ 12" using uint_bounded [of f] by simp_all
  have "sint (ucast f :: i32) = signed_take_bit 31 (uint f)" by (simp add: sint_uint unsigned_ucast_eq take_bit_word_eq_self unsigned_take_bit_eq [symmetric])
  also have "\<dots> = uint f" using f by (intro signed_take_bit_int_eq_self) (rule order_trans [of _ 0], simp_all)
  finally show s: "sint (ucast f :: i32) = uint f" .
  have n: "(ucast (ucast g :: i32) :: 12 word) = g" for g :: "12 word" by (rule bit_word_eqI) (auto simp: bit_low_field bit_unsigned_iff)
  have "(ucast (ucast (scast (ucast f :: i32) :: u64) :: 12 word) :: i32) = ucast f" using f s by (intro flags_fit) simp_all
  from arg_cong [OF this, of "ucast :: i32 \<Rightarrow> 12 word"] show "(ucast (scast (ucast f :: i32) :: u64) :: 12 word) = f" by (simp only: n)
qed


text \<open>The identifier that comes back from Cangjie: a flag word of 127 or more, which a begin accepts, is lost.\<close>

definition crossed :: "HiTraceIdStruct \<Rightarrow> HiTraceIdStruct" where
  "crossed p = p\<lparr>ver := HITRACE_VER_1, flags := (if uint (flags p) < 127 then flags p else 0)\<rparr>"

lemma parse_back:
  assumes "HiTraceChainIsValid (Some p)" "chainId p \<noteq> 0"
  shows "Parse_struct (Parse_id (HiTraceId_of_struct p)) = HiTraceId_of_struct (crossed p)"
  using assms
  by (simp add: Parse_struct_def Parse_id_def HiTraceId_of_struct_def HiTraceId_default_def crossed_def
      HiTraceId_GetChainId_def HiTraceId_GetSpanId_def HiTraceId_GetParentSpanId_def HiTraceId_GetFlags_def
      HiTraceId_SetChainId_def HiTraceId_SetSpanId_def HiTraceId_SetParentSpanId_def HiTraceId_SetFlags_def
      HiTraceChainGetChainId_def HiTraceChainGetSpanId_def HiTraceChainGetParentSpanId_def HiTraceChainGetFlags_def
      HiTraceChainSetChainId_def HiTraceChainSetSpanId_def HiTraceChainSetParentSpanId_def HiTraceChainSetFlags_def
      widen_narrow widened_zero flags_widened chain_consts)

lemma parse_invalid: "\<not> HiTraceChainIsValid (Some p) \<Longrightarrow> Parse_struct (Parse_id (HiTraceId_of_struct p)) = HiTraceId_default"
  by (simp add: Parse_struct_def Parse_id_def HiTraceId_of_struct_def HiTraceId_default_def
      HiTraceId_GetChainId_def HiTraceId_SetChainId_def HiTraceId_SetSpanId_def HiTraceId_SetParentSpanId_def HiTraceId_SetFlags_def
      HiTraceChainGetChainId_def HiTraceChainSetChainId_def HiTraceChainSetSpanId_def HiTraceChainSetParentSpanId_def HiTraceChainSetFlags_def
      chain_consts)

text \<open>C39: A thread that reads its identifier through the Cangjie interface and hands it to another thread through the same
interface gives it the chain, the span and the parent span unchanged and every flag word below 127, a larger one as 0; and a
thread that ends the chain with what it read is cleared, while every other thread keeps its identifier.\<close>

theorem cangjie_identifier_kept:
  assumes "HiTraceChainIsValid (Some (HiTraceChainGetId t w))" "chainId (HiTraceChainGetId t w) \<noteq> 0"
  shows "HiTraceChainGetId t' (FfiOHOSHiTraceChainSetId t' (FfiOHOSHiTraceChainGetId t w) w) = crossed (HiTraceChainGetId t w) \<and>
    (\<forall>u. HiTraceChainGetId u (fst (FfiOHOSHiTraceChainEnd t (FfiOHOSHiTraceChainGetId t w) w)) =
       (if u = t then HiTraceChainInitId else HiTraceChainGetId u w))"
proof -
  let ?p = "HiTraceChainGetId t w"
  have p: "Parse_struct (FfiOHOSHiTraceChainGetId t w) = HiTraceId_of_struct (crossed ?p)"
    using parse_back [OF assms] by (simp add: FfiOHOSHiTraceChainGetId_def HiTraceChainImpl_GetId_def Chain_GetId_def)
  have v: "HiTraceChainIsValid (Some (crossed ?p))" "HiTraceChainGetChainId (Some (crossed ?p)) = HiTraceChainGetChainId (Some ?p)"
    using assms(1) by (simp_all add: crossed_def HiTraceChainGetChainId_def)
  have "HiTraceChainGetId t' (FfiOHOSHiTraceChainSetId t' (FfiOHOSHiTraceChainGetId t w) w) = crossed ?p"
    using v(1) by (simp add: FfiOHOSHiTraceChainSetId_def HiTraceChainImpl_SetId_def Chain_SetId_def p HiTraceChainSetId_def HiTraceId_of_struct_def)
  moreover have "fst (FfiOHOSHiTraceChainEnd t (FfiOHOSHiTraceChainGetId t w) w) = set_thread_id t HiTraceChainInitId w"
    using v assms(1)
    by (simp add: FfiOHOSHiTraceChainEnd_def HiTraceChainImpl_End_def Chain_End_def p HiTraceChainEndWithDomain_def HiTraceId_of_struct_def Let_def)
  ultimately show ?thesis by simp
qed

theorem cangjie_identifier_kept_witness:
  "HiTraceChainGetId 2 (FfiOHOSHiTraceChainSetId 2 (FfiOHOSHiTraceChainGetId 1 (set_thread_id 1 sample_id chain_world_init))
     (set_thread_id 1 sample_id chain_world_init)) = sample_id"
  using cangjie_identifier_kept [of 1 "set_thread_id 1 sample_id chain_world_init" 2]
  by (simp add: crossed_def sample_id_def chain_consts)

text \<open>Ending through the NDK needs no identifier: it always leaves the thread without a chain and no other thread is touched.\<close>

lemma ndk_end_clears:
  "\<not> HiTraceChainIsValid (Some (OH_HiTrace_GetId t (fst (OH_HiTrace_EndChain t w)))) \<and>
   (u \<noteq> t \<longrightarrow> OH_HiTrace_GetId u (fst (OH_HiTrace_EndChain t w)) = OH_HiTrace_GetId u w)"
  by (simp add: OH_HiTrace_GetId_def OH_HiTrace_EndChain_def HiTraceChainEndWithDomain_def Let_def HiTraceChainInitId_def chain_consts)

end
