(* ===== verification/Meter_Interfaces.thy ===== *)
theory Meter_Interfaces
  imports Hitrace_Meter Chain_Interfaces
begin

text \<open>
  The interfaces in C to the meter: the listeners of \<^verbatim>\<open>hitrace_meter.cpp\<close>, the wrapper
  \<^verbatim>\<open>hitrace_meter_wrapper.cpp\<close>, the functions \<^verbatim>\<open>hitrace_meter_c.c\<close> offers to system services and
  \<^verbatim>\<open>frameworks/hitrace_ndk/hitrace_meter_ndk.c\<close> to applications. The call chain reaches the meter through two of
  them, which joins the two components: what a tracepoint writes into the kernel.
\<close>

section \<open>Listeners\<close>

definition register_listener :: "HiTraceCallbackType \<Rightarrow> nat \<Rightarrow> meter_state \<Rightarrow> int \<times> meter_state" where
  "register_listener ty cb s =
     (case Register (g_tagsProperty s OR g_appTag s) cb ty (listeners s) of (i, r) \<Rightarrow> (i, s\<lparr>listeners := r\<rparr>))"

definition RegisterTraceListener :: "nat \<Rightarrow> meter_state \<Rightarrow> int \<times> meter_state" where
  "RegisterTraceListener cb s = register_listener NATIVE cb s"

definition RegisterTraceListenerNapi :: "nat \<Rightarrow> meter_state \<Rightarrow> int \<times> meter_state" where
  "RegisterTraceListenerNapi cb s = register_listener NAPI cb s"

definition RegisterTraceListenerAni :: "nat \<Rightarrow> meter_state \<Rightarrow> int \<times> meter_state" where
  "RegisterTraceListenerAni cb s = register_listener ANI cb s"

definition UnregisterTraceListener :: "int \<Rightarrow> meter_state \<Rightarrow> int \<times> meter_state" where
  "UnregisterTraceListener index s = (case Unregister index (listeners s) of (i, r) \<Rightarrow> (i, s\<lparr>listeners := r\<rparr>))"

definition UnregisterTraceListenerNapi :: "int \<Rightarrow> meter_state \<Rightarrow> int \<times> meter_state" where
  "UnregisterTraceListenerNapi index s = (case Unregister index (listeners s) of (i, r) \<Rightarrow> (i, s\<lparr>listeners := r\<rparr>))"

definition UnregisterTraceListenerAni :: "int \<Rightarrow> meter_state \<Rightarrow> int \<times> meter_state" where
  "UnregisterTraceListenerAni index s = (case Unregister index (listeners s) of (i, r) \<Rightarrow> (i, s\<lparr>listeners := r\<rparr>))"

section \<open>The wrapper\<close>

definition StartTraceCwrapper :: "meter_env \<Rightarrow> u64 \<Rightarrow> string option \<Rightarrow> meter_state \<Rightarrow> meter_state" where
  "StartTraceCwrapper e t n s = StartTraceEx e HITRACE_LEVEL_INFO t n EMPTY s"

definition FinishTraceCwrapper :: "meter_env \<Rightarrow> u64 \<Rightarrow> meter_state \<Rightarrow> meter_state" where
  "FinishTraceCwrapper e t s = FinishTraceEx e HITRACE_LEVEL_INFO t s"

definition StartAsyncTraceCwrapper :: "meter_env \<Rightarrow> u64 \<Rightarrow> string option \<Rightarrow> i32 \<Rightarrow> meter_state \<Rightarrow> meter_state" where
  "StartAsyncTraceCwrapper e t n taskId s = StartAsyncTraceEx e HITRACE_LEVEL_INFO t n taskId EMPTY EMPTY s"

definition FinishAsyncTraceCwrapper :: "meter_env \<Rightarrow> u64 \<Rightarrow> string option \<Rightarrow> i32 \<Rightarrow> meter_state \<Rightarrow> meter_state" where
  "FinishAsyncTraceCwrapper e t n taskId s = FinishAsyncTraceEx e HITRACE_LEVEL_INFO t n taskId s"

definition CountTraceCwrapper :: "meter_env \<Rightarrow> u64 \<Rightarrow> string option \<Rightarrow> i64 \<Rightarrow> meter_state \<Rightarrow> meter_state" where
  "CountTraceCwrapper e t n count s = CountTraceEx e HITRACE_LEVEL_INFO t n count s"

definition chain_point :: "meter_env \<Rightarrow> HiTraceIdStruct option \<Rightarrow> string option \<Rightarrow> meter_state \<Rightarrow> meter_state" where
  "chain_point e hiTraceId v s = StartTraceChain e HITRACE_TAG_OHOS hiTraceId v s"

definition StartTraceExCwrapper :: "meter_env \<Rightarrow> int \<Rightarrow> u64 \<Rightarrow> string option \<Rightarrow> string option \<Rightarrow> meter_state \<Rightarrow> meter_state" where
  "StartTraceExCwrapper e lev t n args s = StartTraceEx e lev t n args s"

definition FinishTraceExCwrapper :: "meter_env \<Rightarrow> int \<Rightarrow> u64 \<Rightarrow> meter_state \<Rightarrow> meter_state" where
  "FinishTraceExCwrapper e lev t s = FinishTraceEx e lev t s"

definition StartAsyncTraceExCwrapper ::
  "meter_env \<Rightarrow> int \<Rightarrow> u64 \<Rightarrow> string option \<Rightarrow> i32 \<Rightarrow> string option \<Rightarrow> string option \<Rightarrow> meter_state \<Rightarrow> meter_state" where
  "StartAsyncTraceExCwrapper e lev t n taskId cat args s = StartAsyncTraceEx e lev t n taskId cat args s"

definition FinishAsyncTraceExCwrapper :: "meter_env \<Rightarrow> int \<Rightarrow> u64 \<Rightarrow> string option \<Rightarrow> i32 \<Rightarrow> meter_state \<Rightarrow> meter_state" where
  "FinishAsyncTraceExCwrapper e lev t n taskId s = FinishAsyncTraceEx e lev t n taskId s"

definition CountTraceExCwrapper :: "meter_env \<Rightarrow> int \<Rightarrow> u64 \<Rightarrow> string option \<Rightarrow> i64 \<Rightarrow> meter_state \<Rightarrow> meter_state" where
  "CountTraceExCwrapper e lev t n count s = CountTraceEx e lev t n count s"

definition IsTagEnabledCwrapper :: "meter_env \<Rightarrow> u64 \<Rightarrow> meter_state \<Rightarrow> bool \<times> meter_state" where
  "IsTagEnabledCwrapper e t s = IsTagEnabled e t s"

definition RegisterTraceListenerCwrapper :: "nat \<Rightarrow> meter_state \<Rightarrow> int \<times> meter_state" where
  "RegisterTraceListenerCwrapper cb s = RegisterTraceListener cb s"

definition UnregisterTraceListenerCwrapper :: "int \<Rightarrow> meter_state \<Rightarrow> int \<times> meter_state" where
  "UnregisterTraceListenerCwrapper index s = UnregisterTraceListener index s"

section \<open>Functions for system services\<close>

definition HiTraceStartTrace :: "meter_env \<Rightarrow> u64 \<Rightarrow> string option \<Rightarrow> meter_state \<Rightarrow> meter_state" where
  "HiTraceStartTrace e t n s = StartTraceCwrapper e t n s"

definition finish_trace :: "meter_env \<Rightarrow> u64 \<Rightarrow> meter_state \<Rightarrow> meter_state" where
  "finish_trace e t s = FinishTraceCwrapper e t s"

definition HiTraceStartAsyncTrace :: "meter_env \<Rightarrow> u64 \<Rightarrow> string option \<Rightarrow> i32 \<Rightarrow> meter_state \<Rightarrow> meter_state" where
  "HiTraceStartAsyncTrace e t n taskId s = StartAsyncTraceCwrapper e t n taskId s"

definition HiTraceFinishAsyncTrace :: "meter_env \<Rightarrow> u64 \<Rightarrow> string option \<Rightarrow> i32 \<Rightarrow> meter_state \<Rightarrow> meter_state" where
  "HiTraceFinishAsyncTrace e t n taskId s = FinishAsyncTraceCwrapper e t n taskId s"

definition HiTraceCountTrace :: "meter_env \<Rightarrow> u64 \<Rightarrow> string option \<Rightarrow> i64 \<Rightarrow> meter_state \<Rightarrow> meter_state" where
  "HiTraceCountTrace e t n count s = CountTraceCwrapper e t n count s"

definition HiTraceStartTraceEx :: "meter_env \<Rightarrow> int \<Rightarrow> u64 \<Rightarrow> string option \<Rightarrow> string option \<Rightarrow> meter_state \<Rightarrow> meter_state" where
  "HiTraceStartTraceEx e lev t n args s = StartTraceExCwrapper e lev t n args s"

definition HiTraceFinishTraceEx :: "meter_env \<Rightarrow> int \<Rightarrow> u64 \<Rightarrow> meter_state \<Rightarrow> meter_state" where
  "HiTraceFinishTraceEx e lev t s = FinishTraceExCwrapper e lev t s"

definition HiTraceStartAsyncTraceEx ::
  "meter_env \<Rightarrow> int \<Rightarrow> u64 \<Rightarrow> string option \<Rightarrow> i32 \<Rightarrow> string option \<Rightarrow> string option \<Rightarrow> meter_state \<Rightarrow> meter_state" where
  "HiTraceStartAsyncTraceEx e lev t n taskId cat args s = StartAsyncTraceExCwrapper e lev t n taskId cat args s"

definition HiTraceFinishAsyncTraceEx :: "meter_env \<Rightarrow> int \<Rightarrow> u64 \<Rightarrow> string option \<Rightarrow> i32 \<Rightarrow> meter_state \<Rightarrow> meter_state" where
  "HiTraceFinishAsyncTraceEx e lev t n taskId s = FinishAsyncTraceExCwrapper e lev t n taskId s"

definition HiTraceCountTraceEx :: "meter_env \<Rightarrow> int \<Rightarrow> u64 \<Rightarrow> string option \<Rightarrow> i64 \<Rightarrow> meter_state \<Rightarrow> meter_state" where
  "HiTraceCountTraceEx e lev t n count s = CountTraceExCwrapper e lev t n count s"

definition HiTraceIsTagEnabled :: "meter_env \<Rightarrow> u64 \<Rightarrow> meter_state \<Rightarrow> bool \<times> meter_state" where
  "HiTraceIsTagEnabled e t s = IsTagEnabledCwrapper e t s"

definition HiTraceRegisterTraceListener :: "nat \<Rightarrow> meter_state \<Rightarrow> int \<times> meter_state" where
  "HiTraceRegisterTraceListener cb s = RegisterTraceListenerCwrapper cb s"

definition HiTraceUnregisterTraceListener :: "int \<Rightarrow> meter_state \<Rightarrow> int \<times> meter_state" where
  "HiTraceUnregisterTraceListener index s = UnregisterTraceListenerCwrapper index s"

section \<open>Functions for applications\<close>

definition OH_HiTrace_StartTrace :: "meter_env \<Rightarrow> string option \<Rightarrow> meter_state \<Rightarrow> meter_state" where
  "OH_HiTrace_StartTrace e n s = StartTraceExCwrapper e HITRACE_LEVEL_COMMERCIAL HITRACE_TAG_APP n EMPTY s"

definition OH_HiTrace_FinishTrace :: "meter_env \<Rightarrow> meter_state \<Rightarrow> meter_state" where
  "OH_HiTrace_FinishTrace e s = FinishTraceExCwrapper e HITRACE_LEVEL_COMMERCIAL HITRACE_TAG_APP s"

definition OH_HiTrace_StartAsyncTrace :: "meter_env \<Rightarrow> string option \<Rightarrow> i32 \<Rightarrow> meter_state \<Rightarrow> meter_state" where
  "OH_HiTrace_StartAsyncTrace e n taskId s =
     StartAsyncTraceExCwrapper e HITRACE_LEVEL_COMMERCIAL HITRACE_TAG_APP n taskId EMPTY EMPTY s"

definition OH_HiTrace_FinishAsyncTrace :: "meter_env \<Rightarrow> string option \<Rightarrow> i32 \<Rightarrow> meter_state \<Rightarrow> meter_state" where
  "OH_HiTrace_FinishAsyncTrace e n taskId s = FinishAsyncTraceExCwrapper e HITRACE_LEVEL_COMMERCIAL HITRACE_TAG_APP n taskId s"

definition OH_HiTrace_CountTrace :: "meter_env \<Rightarrow> string option \<Rightarrow> i64 \<Rightarrow> meter_state \<Rightarrow> meter_state" where
  "OH_HiTrace_CountTrace e n count s = CountTraceExCwrapper e HITRACE_LEVEL_COMMERCIAL HITRACE_TAG_APP n count s"

definition OH_HiTrace_StartTraceEx :: "meter_env \<Rightarrow> int \<Rightarrow> string option \<Rightarrow> string option \<Rightarrow> meter_state \<Rightarrow> meter_state" where
  "OH_HiTrace_StartTraceEx e lev n args s = StartTraceExCwrapper e lev HITRACE_TAG_APP n args s"

definition OH_HiTrace_FinishTraceEx :: "meter_env \<Rightarrow> int \<Rightarrow> meter_state \<Rightarrow> meter_state" where
  "OH_HiTrace_FinishTraceEx e lev s = FinishTraceExCwrapper e lev HITRACE_TAG_APP s"

definition OH_HiTrace_StartAsyncTraceEx ::
  "meter_env \<Rightarrow> int \<Rightarrow> string option \<Rightarrow> i32 \<Rightarrow> string option \<Rightarrow> string option \<Rightarrow> meter_state \<Rightarrow> meter_state" where
  "OH_HiTrace_StartAsyncTraceEx e lev n taskId cat args s = StartAsyncTraceExCwrapper e lev HITRACE_TAG_APP n taskId cat args s"

definition OH_HiTrace_FinishAsyncTraceEx :: "meter_env \<Rightarrow> int \<Rightarrow> string option \<Rightarrow> i32 \<Rightarrow> meter_state \<Rightarrow> meter_state" where
  "OH_HiTrace_FinishAsyncTraceEx e lev n taskId s = FinishAsyncTraceExCwrapper e lev HITRACE_TAG_APP n taskId s"

definition OH_HiTrace_CountTraceEx :: "meter_env \<Rightarrow> int \<Rightarrow> string option \<Rightarrow> i64 \<Rightarrow> meter_state \<Rightarrow> meter_state" where
  "OH_HiTrace_CountTraceEx e lev n count s = CountTraceExCwrapper e lev HITRACE_TAG_APP n count s"

definition OH_HiTrace_IsTraceEnabled :: "meter_env \<Rightarrow> meter_state \<Rightarrow> bool \<times> meter_state" where
  "OH_HiTrace_IsTraceEnabled e s = IsTagEnabledCwrapper e HITRACE_TAG_APP s"

definition OH_HiTrace_RegisterTraceListener :: "nat \<Rightarrow> meter_state \<Rightarrow> int \<times> meter_state" where
  "OH_HiTrace_RegisterTraceListener cb s = RegisterTraceListenerCwrapper cb s"

definition OH_HiTrace_UnregisterTraceListener :: "int \<Rightarrow> meter_state \<Rightarrow> int \<times> meter_state" where
  "OH_HiTrace_UnregisterTraceListener index s = UnregisterTraceListenerCwrapper index s"

section \<open>Scopes\<close>

text \<open>The constructors and destructors of the classes of \<^verbatim>\<open>hitrace_meter.h\<close>; the body of the block runs in between.\<close>

definition HitraceScoped :: "meter_env \<Rightarrow> u64 \<Rightarrow> string \<Rightarrow> (meter_state \<Rightarrow> meter_state) \<Rightarrow> meter_state \<Rightarrow> meter_state" where
  "HitraceScoped e t n body s = FinishTrace e t (body (StartTrace e t n s))"

definition HitraceScopedEx ::
  "meter_env \<Rightarrow> int \<Rightarrow> u64 \<Rightarrow> string option \<Rightarrow> string option \<Rightarrow> (meter_state \<Rightarrow> meter_state) \<Rightarrow> meter_state \<Rightarrow> meter_state" where
  "HitraceScopedEx e lev t n args body s = FinishTraceEx e lev t (body (StartTraceEx e lev t n args s))"

definition fmt_scope :: "meter_env \<Rightarrow> u64 \<Rightarrow> string option \<Rightarrow> (meter_state \<Rightarrow> meter_state) \<Rightarrow> meter_state \<Rightarrow> meter_state" where
  "fmt_scope e t formatted body s = FinishTrace e t (body (HitraceMeterFmtScoped e t formatted s))"

definition fmt_scope_ex ::
  "meter_env \<Rightarrow> int \<Rightarrow> u64 \<Rightarrow> string option \<Rightarrow> string option \<Rightarrow> (meter_state \<Rightarrow> meter_state) \<Rightarrow> meter_state \<Rightarrow> meter_state" where
  "fmt_scope_ex e lev t args formatted body s = FinishTraceEx e lev t (body (HitraceMeterFmtScopedEx e lev t args formatted s))"

text \<open>
  When the text of a formatted scope does not fit (\<^verbatim>\<open>vsnprintf_s\<close> fails), no slice begins, but the destructor
  ends one all the same: a record that closes the slice around it.
\<close>

definition end_marker :: "meter_env \<Rightarrow> u64 \<Rightarrow> TraceMarker" where
  "end_marker e t = mk_marker MARKER_END HITRACE_LEVEL_INFO t 0 EMPTY EMPTY EMPTY"

lemma fmt_scope_unbalanced:
  "fmt_scope e t None body s = AddHitraceMeterMarker e (end_marker e t) (body (UpdateSysParamTags e s))"
  by (simp add: fmt_scope_def HitraceMeterFmtScoped_def formatted_marker_def FinishTrace_def end_marker_def)

section \<open>A tracepoint in the trace\<close>

text \<open>The calls of the chain into the meter; the other events only write to the log.\<close>

fun run_event :: "meter_env \<Rightarrow> chain_event \<Rightarrow> meter_state \<Rightarrow> meter_state" where
  "run_event e (StartTraceChainPoint p v) s = chain_point e (Some p) (Some v) s"
| "run_event e (HiTraceFinishTrace t) s = finish_trace e t s"
| "run_event e _ s = s"

text \<open>The record of a slice at the level of information and with the tag of the system, if the meter lets it pass.\<close>

definition chain_marker :: "meter_env \<Rightarrow> MarkerType \<Rightarrow> string \<Rightarrow> HiTraceIdStruct option \<Rightarrow> TraceMarker" where
  "chain_marker e ty n p = \<lparr>mtype = ty, level = HITRACE_LEVEL_INFO, tag = HITRACE_TAG_OHOS, mvalue = 0, mname = Some n,
     customCategory = EMPTY, customArgs = EMPTY, hiTraceIdStruct = p, pid = e_procpid e\<rparr>"

definition passes :: "meter_env \<Rightarrow> meter_state \<Rightarrow> bool" where
  "passes e s \<longleftrightarrow> (case PrepareTraceMarker e s of (ok, s1) \<Rightarrow>
     ok \<and> (g_tagsProperty s1 AND HITRACE_TAG_OHOS) \<noteq> 0 \<and> g_markerFd s1 \<and> g_levelThreshold s1 \<le> HITRACE_LEVEL_INFO)"

lemma chain_marker_out:
  "marker_out (AddHitraceMeterMarker e ((mk_marker ty HITRACE_LEVEL_INFO HITRACE_TAG_OHOS 0 (Some n) EMPTY EMPTY)\<lparr>hiTraceIdStruct := p\<rparr>) s) =
   marker_out s @ (if passes e s then [take 1024 (record_text (e_current e) (chain_marker e ty n p) (ParseTagBits HITRACE_TAG_OHOS 7))] else [])"
proof -
  have "HITRACE_TAG_OHOS \<noteq> HITRACE_TAG_APP" "HITRACE_TAG_OHOS AND HITRACE_TAG_COMMERCIAL = 0"
    by (simp_all add: HITRACE_TAG_OHOS_def HITRACE_TAG_APP_def HITRACE_TAG_COMMERCIAL_def tag_bit_def)
  then show ?thesis
    by (auto simp: marker_written mk_marker_def SetNullptrToEmpty_def commercial_level_def passes_def chain_marker_def HITRACE_LEVEL_INFO_def c_str_def
        Let_def prod.case_eq_if)
qed

text \<open>C9: What a tracepoint of the NDK leaves in the trace. With a valid identifier and a mode and type in range, a client send and a
server receive add one record that begins a slice, with the mask of the side before the text and the identifier of the chain
in it; a client receive and a server send add one record that ends a slice; a general tracepoint adds none. Each record is
written exactly if the meter lets the tag of the system pass at that moment, and is clipped to 1024 bytes. Otherwise nothing
is added.\<close>

theorem tracepoint_in_trace:
  "marker_out (fold (run_event e) (OH_HiTrace_Tracepoint mode type p (Some msg)) s) = marker_out s @
     (if TracepointParamsCheck mode type p \<and> type \<noteq> HITRACE_TP_GENERAL \<and> passes e s
      then [take 1024 (record_text (e_current e)
              (if type = HITRACE_TP_CS then chain_marker e MARKER_BEGIN (''C##'' @ msg) p
               else if type = HITRACE_TP_SR then chain_marker e MARKER_BEGIN (''S##'' @ msg) p
               else chain_marker e MARKER_END [] None) (ParseTagBits HITRACE_TAG_OHOS 7))]
      else [])"
proof (cases "TracepointParamsCheck mode type p")
  case False
  then show ?thesis by (simp add: OH_HiTrace_Tracepoint_def HiTraceChainTracepointExWithArgsDomain_def HiTraceChainTracepointInner_def)
next
  case True
  then obtain q where q: "p = Some q" and ty: "0 \<le> type" "type \<le> 4" by (cases p) (auto simp: TracepointParamsCheck_def)
  have log: "fold (run_event e) (if b then [] else if c then [] else [TracepointLog l d m y x u v w]) z = z" for b c l d m y x u v w z by simp
  have fin: "finish_trace e HITRACE_TAG_OHOS z = AddHitraceMeterMarker e ((mk_marker MARKER_END HITRACE_LEVEL_INFO HITRACE_TAG_OHOS 0 (Some []) EMPTY EMPTY)\<lparr>hiTraceIdStruct := None\<rparr>) z" for z
    by (simp add: finish_trace_def FinishTraceCwrapper_def FinishTraceEx_def mk_marker_def)
  from ty have "type = 0 \<or> type = 1 \<or> type = 2 \<or> type = 3 \<or> type = 4" by arith
  then show ?thesis
    using True
    by (elim disjE; simp add: q OH_HiTrace_Tracepoint_def HiTraceChainTracepointExWithArgsDomain_def HiTraceChainTracepointInner_def log fin
        chain_point_def StartTraceChain_def chain_marker_out tp_mask_char_def HITRACE_TP_CS_def HITRACE_TP_CR_def HITRACE_TP_SS_def HITRACE_TP_SR_def HITRACE_TP_GENERAL_def)
qed

end
