(* ===== verification/Stoppable_Thread.thy ===== *)
theory Stoppable_Thread
  imports Main
begin

text \<open>
  The thread that repeats a task until it is told to stop: \<^verbatim>\<open>StoppableThreadHelper\<close> of
  \<^verbatim>\<open>interfaces/native/innerkits/src/hitrace_util.cpp\<close>. Every section under the mutex is one step. The worker is
  running its task, waiting on \<^verbatim>\<open>cvTask_\<close>, or on its way out; a call of \<^verbatim>\<open>StopSubThread\<close> that found a worker
  sleeps on \<^verbatim>\<open>cvFinished_\<close> until it is notified. The standard lets a condition variable wake up without a
  notification; whether that happens is a parameter of the step relation.
\<close>

section \<open>The code\<close>

datatype worker_pc = InTask | Waiting | Exiting
datatype stopper_pc = Asleep | Notified

record helper =
  isSubThreadRunning :: bool
  shouldSubThreadExit :: bool
  workers :: "worker_pc list"
  stoppers :: "stopper_pc list"

definition helper_init :: helper where
  "helper_init = \<lparr>isSubThreadRunning = False, shouldSubThreadExit = False, workers = [], stoppers = []\<rparr>"

definition StartSubThread :: "bool \<Rightarrow> helper \<Rightarrow> bool \<times> helper" where
  "StartSubThread hasTask h =
     (if \<not> hasTask \<or> isSubThreadRunning h then (False, h)
      else (True, h\<lparr>shouldSubThreadExit := False, isSubThreadRunning := True, workers := workers h @ [InTask]\<rparr>))"

text \<open>The task has returned \<open>goOn\<close>; the wait tests the flag before it sleeps.\<close>

definition after_task :: "bool \<Rightarrow> helper \<Rightarrow> worker_pc" where
  "after_task goOn h = (if goOn \<and> \<not> shouldSubThreadExit h then Waiting else Exiting)"

text \<open>The wait ends by a notification or by its timeout and gives the flag.\<close>

definition after_wait :: "helper \<Rightarrow> worker_pc" where
  "after_wait h = (if shouldSubThreadExit h then Exiting else InTask)"

definition remove_nth :: "nat \<Rightarrow> 'a list \<Rightarrow> 'a list" where
  "remove_nth i xs = take i xs @ drop (Suc i) xs"

text \<open>The end of the worker: \<^verbatim>\<open>notify_one\<close> wakes one of the sleeping callers, if there is one.\<close>

definition notify_one :: "nat \<Rightarrow> stopper_pc list \<Rightarrow> stopper_pc list" where
  "notify_one j ss = (if j < length ss \<and> ss ! j = Asleep then ss[j := Notified] else ss)"

definition worker_exit :: "nat \<Rightarrow> nat \<Rightarrow> helper \<Rightarrow> helper" where
  "worker_exit i j h = h\<lparr>isSubThreadRunning := False, workers := remove_nth i (workers h), stoppers := notify_one j (stoppers h)\<rparr>"

text \<open>\<open>Some b\<close> when the call returns at once, \<open>None\<close> when it goes to sleep.\<close>

definition StopSubThread :: "helper \<Rightarrow> bool option \<times> helper" where
  "StopSubThread h =
     (if isSubThreadRunning h then (None, h\<lparr>shouldSubThreadExit := True, stoppers := stoppers h @ [Asleep]\<rparr>)
      else (Some False, h))"

text \<open>A caller that has been woken tests the flag again: it returns or goes back to sleep.\<close>

definition stopper_wakes :: "nat \<Rightarrow> helper \<Rightarrow> bool option \<times> helper" where
  "stopper_wakes j h =
     (if isSubThreadRunning h then (None, h\<lparr>stoppers := (stoppers h)[j := Asleep]\<rparr>)
      else (Some True, h\<lparr>stoppers := remove_nth j (stoppers h)\<rparr>))"

section \<open>Interleavings\<close>

inductive worker_step :: "helper \<Rightarrow> helper \<Rightarrow> bool" where
  task: "i < length (workers h) \<Longrightarrow> workers h ! i = InTask \<Longrightarrow> worker_step h (h\<lparr>workers := (workers h)[i := after_task goOn h]\<rparr>)"
| wake: "i < length (workers h) \<Longrightarrow> workers h ! i = Waiting \<Longrightarrow> worker_step h (h\<lparr>workers := (workers h)[i := after_wait h]\<rparr>)"
| exit: "i < length (workers h) \<Longrightarrow> workers h ! i = Exiting \<Longrightarrow>
     (\<forall>k < length (stoppers h). stoppers h ! k = Asleep \<longrightarrow> j < length (stoppers h) \<and> stoppers h ! j = Asleep) \<Longrightarrow>
     worker_step h (worker_exit i j h)"

inductive caller_step :: "bool \<Rightarrow> helper \<Rightarrow> helper \<Rightarrow> bool" for spurious where
  stop: "StopSubThread h = (r, h') \<Longrightarrow> caller_step spurious h h'"
| woken: "j < length (stoppers h) \<Longrightarrow> stoppers h ! j = Notified \<Longrightarrow> stopper_wakes j h = (r, h') \<Longrightarrow> caller_step spurious h h'"
| spurious_wake: "spurious \<Longrightarrow> j < length (stoppers h) \<Longrightarrow> stoppers h ! j = Asleep \<Longrightarrow>
     caller_step spurious h (h\<lparr>stoppers := (stoppers h)[j := Notified]\<rparr>)"

inductive helper_reachable :: "bool \<Rightarrow> helper \<Rightarrow> bool" for spurious where
  initial: "helper_reachable spurious helper_init"
| started: "helper_reachable spurious h \<Longrightarrow> StartSubThread t h = (b, h') \<Longrightarrow> helper_reachable spurious h'"
| worker: "helper_reachable spurious h \<Longrightarrow> worker_step h h' \<Longrightarrow> helper_reachable spurious h'"
| caller: "helper_reachable spurious h \<Longrightarrow> caller_step spurious h h' \<Longrightarrow> helper_reachable spurious h'"

inductive_cases worker_stepE: "worker_step h h'"
inductive_cases caller_stepE: "caller_step spurious h h'"

section \<open>One worker\<close>






section \<open>Stopping\<close>











text \<open>
  Two callers: the worker notifies one of them. Without a wake-up that nobody sent, the other one sleeps until a later worker
  ends, if there ever is one.
\<close>

lemma second_stopper_sleeps:
  "\<exists>h. helper_reachable False h \<and> workers h = [] \<and> stoppers h = [Asleep] \<and>
     (\<forall>h'. (\<lambda>x y. worker_step x y \<or> caller_step False x y)\<^sup>*\<^sup>* h h' \<longrightarrow> h' = h)"
proof -
  let ?s = "\<lambda>b ws ss. \<lparr>isSubThreadRunning = b, shouldSubThreadExit = True, workers = ws, stoppers = ss\<rparr>"
  let ?i = "\<lparr>isSubThreadRunning = True, shouldSubThreadExit = False, workers = [InTask], stoppers = []\<rparr>"
  have "helper_reachable False ?i" by (rule started [OF initial, of True True]) (simp add: StartSubThread_def helper_init_def)
  then have "helper_reachable False (?s True [InTask] [Asleep])" by (rule caller, intro stop) (simp add: StopSubThread_def)
  then have "helper_reachable False (?s True [InTask] [Asleep, Asleep])" by (rule caller, intro stop) (simp add: StopSubThread_def)
  then have "helper_reachable False (?s True [Exiting] [Asleep, Asleep])"
    by (rule worker) (use task [of 0 "?s True [InTask] [Asleep, Asleep]" False] in \<open>simp add: after_task_def\<close>)
  then have "helper_reachable False (?s False [] [Notified, Asleep])"
    by (rule worker) (use exit [of 0 "?s True [Exiting] [Asleep, Asleep]" 0] in \<open>auto simp: worker_exit_def remove_nth_def notify_one_def less_Suc_eq nth_Cons'\<close>)
  then have r: "helper_reachable False (?s False [] [Asleep])"
    by (rule caller, intro woken [of 0]) (simp_all add: stopper_wakes_def remove_nth_def)
  have stay: "h' = ?s False [] [Asleep]" if "worker_step (?s False [] [Asleep]) h' \<or> caller_step False (?s False [] [Asleep]) h'" for h'
    using that by (auto elim!: worker_stepE caller_stepE simp: StopSubThread_def)
  have "h' = ?s False [] [Asleep]" if "(\<lambda>x y. worker_step x y \<or> caller_step False x y)\<^sup>*\<^sup>* (?s False [] [Asleep]) h'" for h'
    using that by (induction rule: rtranclp_induct) (use stay in blast)+
  with r show ?thesis by fastforce
qed

end
