(* ===== verification/Smart_Fd.thy ===== *)
theory Smart_Fd
  imports Main
begin

text \<open>
  The owner of a file descriptor: class \<^verbatim>\<open>SmartFd\<close> of \<^verbatim>\<open>common/smart_fd.h\<close>, as it is built for the device. The
  process has a table of its open descriptors, each with the owner tag of fdsan (set or not); closing a descriptor
  that is not open, or with the wrong tag, and tagging one that has a tag already is counted as a fault, for which fdsan
  ends the process.
\<close>

section \<open>The code\<close>

record fd_table =
  ft_tag :: "int \<rightharpoonup> bool"
  ft_faults :: nat

record SmartFd =
  sf_fd :: int
  sf_fdsan :: bool

definition fault :: "fd_table \<Rightarrow> fd_table" where "fault w = w\<lparr>ft_faults := Suc (ft_faults w)\<rparr>"

definition set_owner_tag :: "int \<Rightarrow> fd_table \<Rightarrow> fd_table" where
  "set_owner_tag fd w = (if ft_tag w fd = Some False then w\<lparr>ft_tag := (ft_tag w)(fd \<mapsto> True)\<rparr> else fault w)"

text \<open>\<^verbatim>\<open>fdsan_close_with_tag\<close> for \<open>tagged\<close>, \<^verbatim>\<open>close\<close> otherwise.\<close>

definition close_fd :: "bool \<Rightarrow> int \<Rightarrow> fd_table \<Rightarrow> fd_table" where
  "close_fd tagged fd w = (if ft_tag w fd = Some tagged then w\<lparr>ft_tag := (ft_tag w)(fd := None)\<rparr> else fault w)"

definition SmartFd_default :: SmartFd where "SmartFd_default = \<lparr>sf_fd = -1, sf_fdsan = False\<rparr>"

definition SmartFd_new :: "int \<Rightarrow> bool \<Rightarrow> fd_table \<Rightarrow> SmartFd \<times> fd_table" where
  "SmartFd_new fd fdsan w = (\<lparr>sf_fd = fd, sf_fdsan = fdsan\<rparr>, if fd \<ge> 0 \<and> fdsan then set_owner_tag fd w else w)"

definition SmartFd_Reset :: "SmartFd \<Rightarrow> fd_table \<Rightarrow> SmartFd \<times> fd_table" where
  "SmartFd_Reset f w =
     (if sf_fd f < 0 then (f, w)
      else if sf_fdsan f then (f\<lparr>sf_fdsan := False, sf_fd := -1\<rparr>, close_fd True (sf_fd f) w)
      else (f\<lparr>sf_fd := -1\<rparr>, close_fd False (sf_fd f) w))"

text \<open>The constructor and the assignment that move: the object, and what is left in the other one.\<close>

definition SmartFd_move :: "SmartFd \<Rightarrow> SmartFd \<times> SmartFd" where
  "SmartFd_move rhs = (\<lparr>sf_fd = sf_fd rhs, sf_fdsan = sf_fdsan rhs\<rparr>, rhs\<lparr>sf_fd := -1, sf_fdsan := False\<rparr>)"

definition SmartFd_assign :: "SmartFd \<Rightarrow> SmartFd \<Rightarrow> fd_table \<Rightarrow> SmartFd \<times> SmartFd \<times> fd_table" where
  "SmartFd_assign lhs rhs w =
     (let (l, w') = SmartFd_Reset lhs w
      in (l\<lparr>sf_fd := sf_fd rhs, sf_fdsan := sf_fdsan rhs\<rparr>, rhs\<lparr>sf_fd := -1, sf_fdsan := False\<rparr>, w'))"

definition SmartFd_bool :: "SmartFd \<Rightarrow> bool" where "SmartFd_bool f \<longleftrightarrow> sf_fd f \<ge> 0"
definition SmartFd_GetFd :: "SmartFd \<Rightarrow> int" where "SmartFd_GetFd f = sf_fd f"

section \<open>Objects of a process\<close>

text \<open>
  The live objects under their addresses, the table, and the descriptors other code owns, which may come and go as well.
  Every descriptor an object gets has just been opened.
\<close>

record fd_world =
  fw_table :: fd_table
  fw_objs :: "nat \<rightharpoonup> SmartFd"
  fw_foreign :: "int set"

definition fd_init :: fd_world where
  "fd_init = \<lparr>fw_table = \<lparr>ft_tag = Map.empty, ft_faults = 0\<rparr>, fw_objs = Map.empty, fw_foreign = {}\<rparr>"

definition fd_opened :: "int \<Rightarrow> fd_table \<Rightarrow> fd_table" where
  "fd_opened fd w = (if fd < 0 then w else w\<lparr>ft_tag := (ft_tag w)(fd \<mapsto> False)\<rparr>)"

inductive fd_step :: "fd_world \<Rightarrow> fd_world \<Rightarrow> bool" where
  make: "fw_objs s k = None \<Longrightarrow> fd = -1 \<or> 0 \<le> fd \<and> ft_tag (fw_table s) fd = None \<Longrightarrow>
     SmartFd_new fd fdsan (fd_opened fd (fw_table s)) = (f, w) \<Longrightarrow> fd_step s (s\<lparr>fw_table := w, fw_objs := (fw_objs s)(k \<mapsto> f)\<rparr>)"
| make_default: "fw_objs s k = None \<Longrightarrow> fd_step s (s\<lparr>fw_objs := (fw_objs s)(k \<mapsto> SmartFd_default)\<rparr>)"
| move: "fw_objs s k = None \<Longrightarrow> fw_objs s j = Some r \<Longrightarrow> SmartFd_move r = (f, r') \<Longrightarrow>
     fd_step s (s\<lparr>fw_objs := (fw_objs s)(j \<mapsto> r', k \<mapsto> f)\<rparr>)"
| assign: "fw_objs s k = Some l \<Longrightarrow> fw_objs s j = Some r \<Longrightarrow> k \<noteq> j \<Longrightarrow> SmartFd_assign l r (fw_table s) = (f, r', w) \<Longrightarrow>
     fd_step s (s\<lparr>fw_table := w, fw_objs := (fw_objs s)(j \<mapsto> r', k \<mapsto> f)\<rparr>)"
| reset: "fw_objs s k = Some f \<Longrightarrow> SmartFd_Reset f (fw_table s) = (f', w) \<Longrightarrow>
     fd_step s (s\<lparr>fw_table := w, fw_objs := (fw_objs s)(k \<mapsto> f')\<rparr>)"
| destroy: "fw_objs s k = Some f \<Longrightarrow> SmartFd_Reset f (fw_table s) = (f', w) \<Longrightarrow>
     fd_step s (s\<lparr>fw_table := w, fw_objs := (fw_objs s)(k := None)\<rparr>)"
| foreign_open: "0 \<le> fd \<Longrightarrow> ft_tag (fw_table s) fd = None \<Longrightarrow>
     fd_step s (s\<lparr>fw_table := fd_opened fd (fw_table s), fw_foreign := insert fd (fw_foreign s)\<rparr>)"
| foreign_close: "fd \<in> fw_foreign s \<Longrightarrow> fd_step s (s\<lparr>fw_table := close_fd False fd (fw_table s), fw_foreign := fw_foreign s - {fd}\<rparr>)"

inductive fd_reachable :: "fd_world \<Rightarrow> bool" where
  initial: "fd_reachable fd_init"
| step: "fd_reachable s \<Longrightarrow> fd_step s s' \<Longrightarrow> fd_reachable s'"

section \<open>Ownership\<close>

text \<open>
  What an object holds, and the rule of ownership as a contract: every open descriptor has one owner, an object or other code,
  and an object's tag is the one in the table. Objects acquire, release and hand over descriptors; nothing else happens to them.
\<close>

definition slot :: "SmartFd \<Rightarrow> (int \<times> bool) option" where
  "slot f = (if sf_fd f \<ge> 0 then Some (sf_fd f, sf_fdsan f) else None)"

definition held :: "(nat \<rightharpoonup> SmartFd) \<Rightarrow> nat \<rightharpoonup> int \<times> bool" where
  "held objs k = (case objs k of None \<Rightarrow> None | Some f \<Rightarrow> slot f)"

definition owned :: "(nat \<rightharpoonup> int \<times> bool) \<Rightarrow> (int \<rightharpoonup> bool) \<Rightarrow> int set \<Rightarrow> bool" where
  "owned h tags others \<longleftrightarrow>
     (\<forall>k fd b. h k = Some (fd, b) \<longrightarrow> tags fd = Some b \<and> fd \<notin> others) \<and>
     (\<forall>k j fd b b'. h k = Some (fd, b) \<longrightarrow> h j = Some (fd, b') \<longrightarrow> k = j) \<and>
     (\<forall>fd \<in> others. tags fd = Some False) \<and>
     (\<forall>fd. tags fd \<noteq> None \<longrightarrow> fd \<in> others \<or> (\<exists>k b. h k = Some (fd, b)))"

lemma owned_acquire: "owned h tags os \<Longrightarrow> h k = None \<Longrightarrow> tags fd = None \<Longrightarrow> owned (h(k \<mapsto> (fd, b))) (tags(fd \<mapsto> b)) os"
  unfolding owned_def by (auto split: if_splits) (metis option.distinct(1))

lemma owned_release: "owned h tags os \<Longrightarrow> h k = Some (fd, b) \<Longrightarrow> owned (h(k := None)) (tags(fd := None)) os"
  unfolding owned_def by (auto split: if_splits) (metis option.inject prod.inject)

lemma owned_hand_over:
  assumes "owned h tags os" "h k = None" "k \<noteq> j"
  shows "owned (h(j := None, k := h j)) tags os"
proof -
  let ?h = "h(j := None, k := h j)"
  have from_h: "\<exists>i. h i = Some x \<and> i = (if l = k then j else l)" if "?h l = Some x" for l x
    using that by (auto split: if_splits)
  have to_h: "\<exists>l. ?h l = Some x" if "h i = Some x" for i x
  proof (cases "i = j")
    case True
    then have "?h k = Some x" using that by simp
    then show ?thesis ..
  next
    case False
    then have "?h i = Some x" using that assms(2) by auto
    then show ?thesis ..
  qed
  have "tags fd = Some b \<and> fd \<notin> os" if "?h l = Some (fd, b)" for l fd b
    using from_h [OF that] assms(1) by (auto simp: owned_def)
  moreover have "l = m" if "?h l = Some (fd, b)" "?h m = Some (fd, b')" for l m fd b b'
    using that assms by (auto simp: owned_def split: if_splits)
  moreover have "fd \<in> os \<or> (\<exists>l b. ?h l = Some (fd, b))" if "tags fd \<noteq> None" for fd
    using to_h assms(1) that unfolding owned_def by meson
  ultimately show ?thesis using assms(1) unfolding owned_def by blast
qed

lemma owned_foreign_open: "owned h tags os \<Longrightarrow> tags fd = None \<Longrightarrow> owned h (tags(fd \<mapsto> False)) (insert fd os)"
  unfolding owned_def by (auto split: if_splits)

lemma owned_foreign_close: "owned h tags os \<Longrightarrow> fd \<in> os \<Longrightarrow> owned h (tags(fd := None)) (os - {fd})"
  unfolding owned_def by (auto split: if_splits)

lemma held_update: "held (objs(k \<mapsto> f)) = (held objs)(k := slot f)" "held (objs(k := None)) = (held objs)(k := None)"
  by (auto simp: held_def fun_eq_iff)

lemma held_at: "objs k = Some f \<Longrightarrow> held objs k = slot f" "objs k = None \<Longrightarrow> held objs k = None"
  by (simp_all add: held_def)

definition fd_inv :: "fd_world \<Rightarrow> bool" where
  "fd_inv s \<longleftrightarrow> ft_faults (fw_table s) = 0 \<and> owned (held (fw_objs s)) (ft_tag (fw_table s)) (fw_foreign s)"

lemma reset_releases:
  assumes "SmartFd_Reset f w = (f', w')" "owned h (ft_tag w) os" "h k = slot f"
  shows "owned (h(k := None)) (ft_tag w') os \<and> ft_faults w' = ft_faults w \<and> slot f' = None"
proof (cases "slot f")
  case None
  then have "h(k := None) = h" using assms(3) by auto
  with None assms show ?thesis by (auto simp: slot_def SmartFd_Reset_def split: if_splits)
next
  case (Some p)
  then have p: "0 \<le> sf_fd f" "h k = Some (sf_fd f, sf_fdsan f)" using assms(3) by (auto simp: slot_def split: if_splits)
  then have "ft_tag w (sf_fd f) = Some (sf_fdsan f)" using assms(2) by (auto simp: owned_def)
  then have "w' = w\<lparr>ft_tag := (ft_tag w)(sf_fd f := None)\<rparr>" "slot f' = None"
    using assms(1) p(1) by (auto simp: SmartFd_Reset_def close_fd_def slot_def split: if_splits)
  with owned_release [OF assms(2) p(2)] show ?thesis by simp
qed

lemma fd_inv_step: "fd_step s s' \<Longrightarrow> fd_inv s \<Longrightarrow> fd_inv s'"
proof (induction rule: fd_step.induct)
  case (make s k fd fdsan f w)
  then show ?case
    using owned_acquire [of "held (fw_objs s)" "ft_tag (fw_table s)" "fw_foreign s" k fd fdsan]
    by (auto simp: fd_inv_def SmartFd_new_def fd_opened_def set_owner_tag_def held_update held_at slot_def fun_upd_idem)
next
  case (make_default s k)
  then show ?case by (simp add: fd_inv_def held_update held_at slot_def SmartFd_default_def fun_upd_idem)
next
  case (move s k j r f r')
  then have "k \<noteq> j" "slot f = slot r" "slot r' = None" by (auto simp: SmartFd_move_def slot_def)
  with move show ?case
    using owned_hand_over [of "held (fw_objs s)" _ _ k j] by (simp add: fd_inv_def held_update held_at)
next
  case (assign s k l j r f r' w)
  obtain l1 where r: "SmartFd_Reset l (fw_table s) = (l1, w)" "slot f = slot r" "slot r' = None"
    using assign(4) by (auto simp: SmartFd_assign_def slot_def split: prod.splits)
  let ?h = "(held (fw_objs s))(k := None)"
  have "owned ?h (ft_tag w) (fw_foreign s) \<and> ft_faults w = ft_faults (fw_table s)"
    using reset_releases [OF r(1), of "held (fw_objs s)" "fw_foreign s" k] assign(1,5) by (simp add: fd_inv_def held_at)
  with owned_hand_over [of ?h "ft_tag w" "fw_foreign s" k j] assign r show ?case
    by (simp add: fd_inv_def held_update held_at fun_upd_twist)
next
  case (reset s k f f' w)
  then show ?case using reset_releases [of f "fw_table s" f' w "held (fw_objs s)" "fw_foreign s" k] by (simp add: fd_inv_def held_update held_at)
next
  case (destroy s k f f' w)
  then show ?case using reset_releases [of f "fw_table s" f' w "held (fw_objs s)" "fw_foreign s" k] by (simp add: fd_inv_def held_update held_at)
next
  case (foreign_open fd s)
  then show ?case using owned_foreign_open [of _ "ft_tag (fw_table s)"] by (simp add: fd_inv_def fd_opened_def)
next
  case (foreign_close fd s)
  then have "ft_tag (fw_table s) fd = Some False" by (simp add: fd_inv_def owned_def)
  with foreign_close show ?case using owned_foreign_close [of _ "ft_tag (fw_table s)"] by (simp add: fd_inv_def close_fd_def)
qed

lemma fd_inv_reachable: "fd_reachable s \<Longrightarrow> fd_inv s"
proof (induction rule: fd_reachable.induct)
  case initial
  then show ?case by (simp add: fd_init_def fd_inv_def owned_def held_def)
qed (rule fd_inv_step)

text \<open>C11: Whatever objects are made, moved, assigned, reset and destroyed in whatever order, beside other code that opens and
closes descriptors of its own: no descriptor is ever closed twice, closed while another object owns it, or closed or tagged
against its owner tag; two objects never hold the same descriptor; every open descriptor has an owner; and when the last
object is gone only descriptors of other code are open.\<close>

theorem descriptors_closed_once:
  assumes "fd_reachable s"
  shows "ft_faults (fw_table s) = 0 \<and>
    (\<forall>k j f g. fw_objs s k = Some f \<longrightarrow> fw_objs s j = Some g \<longrightarrow> SmartFd_bool f \<longrightarrow> SmartFd_GetFd f = SmartFd_GetFd g \<longrightarrow> k = j) \<and>
    (\<forall>k f. fw_objs s k = Some f \<longrightarrow> SmartFd_bool f \<longrightarrow> ft_tag (fw_table s) (SmartFd_GetFd f) = Some (sf_fdsan f)) \<and>
    (fw_objs s = Map.empty \<longrightarrow> dom (ft_tag (fw_table s)) = fw_foreign s)"
proof -
  have i: "ft_faults (fw_table s) = 0" "owned (held (fw_objs s)) (ft_tag (fw_table s)) (fw_foreign s)"
    using fd_inv_reachable [OF assms] by (simp_all add: fd_inv_def)
  have h: "held (fw_objs s) k = Some (sf_fd f, sf_fdsan f)" if "fw_objs s k = Some f" "0 \<le> sf_fd f" for k f
    using that by (simp add: held_def slot_def)
  have "k = j" if "fw_objs s k = Some f" "fw_objs s j = Some g" "0 \<le> sf_fd f" "sf_fd f = sf_fd g" for k j f g
    using i(2) h [OF that(1)] h [OF that(2)] that(3,4) by (auto simp: owned_def)
  moreover have "ft_tag (fw_table s) (sf_fd f) = Some (sf_fdsan f)" if "fw_objs s k = Some f" "0 \<le> sf_fd f" for k f
    using i(2) h [OF that] by (auto simp: owned_def)
  moreover have "dom (ft_tag (fw_table s)) = fw_foreign s" if "fw_objs s = Map.empty"
    using i(2) that by (auto simp: owned_def held_def)
  ultimately show ?thesis using i(1) by (auto simp: SmartFd_bool_def SmartFd_GetFd_def)
qed

theorem descriptors_closed_once_witness:
  "ft_faults (fw_table (fd_init\<lparr>fw_table := \<lparr>ft_tag = [5 \<mapsto> True], ft_faults = 0\<rparr>, fw_objs := [1 \<mapsto> \<lparr>sf_fd = 5, sf_fdsan = True\<rparr>, 0 \<mapsto> SmartFd_default]\<rparr>)) = 0"
proof -
  let ?s1 = "fd_init\<lparr>fw_table := \<lparr>ft_tag = [5 \<mapsto> True], ft_faults = 0\<rparr>, fw_objs := [0 \<mapsto> \<lparr>sf_fd = 5, sf_fdsan = True\<rparr>]\<rparr>"
  let ?s2 = "fd_init\<lparr>fw_table := \<lparr>ft_tag = [5 \<mapsto> True], ft_faults = 0\<rparr>, fw_objs := [1 \<mapsto> \<lparr>sf_fd = 5, sf_fdsan = True\<rparr>, 0 \<mapsto> SmartFd_default]\<rparr>"
  have "fd_step fd_init ?s1"
    using make [of fd_init 0 5 True "\<lparr>sf_fd = 5, sf_fdsan = True\<rparr>" "\<lparr>ft_tag = [5 \<mapsto> True], ft_faults = 0\<rparr>"]
    by (simp add: fd_init_def SmartFd_new_def fd_opened_def set_owner_tag_def)
  moreover have "fd_step ?s1 ?s2"
    using move [of ?s1 1 0 "\<lparr>sf_fd = 5, sf_fdsan = True\<rparr>" "\<lparr>sf_fd = 5, sf_fdsan = True\<rparr>" SmartFd_default]
    by (simp add: SmartFd_move_def SmartFd_default_def fun_upd_twist)
  ultimately have "fd_reachable ?s2" by (meson fd_reachable.intros)
  from descriptors_closed_once [OF this] show ?thesis by blast
qed

end
