(* ===== verification/Dump_Pipe.thy ===== *)
theory Dump_Pipe
  imports Dump_Tasks
begin

text \<open>
  The named pipes between the service and its dump process: the rest of
  \<^verbatim>\<open>frameworks/tracedump_executor/trace_dump_pipe.cpp\<close>. The pipes are the set of their names in the file system;
  whether a name that is free can be made, what \<^verbatim>\<open>open\<close> returns and whether \<^verbatim>\<open>epoll_ctl\<close> accepts a descriptor
  are arguments. Writing into a pipe and reading from one are in the theory of the tasks.
\<close>

section \<open>Making and removing the pipes\<close>

definition TRACE_TASK_SUBMIT_PIPE :: string where "TRACE_TASK_SUBMIT_PIPE = ''/data/log/hitrace/trace_task''"
definition TRACE_SYNC_RETURN_PIPE :: string where "TRACE_SYNC_RETURN_PIPE = ''/data/log/hitrace/trace_sync_return''"
definition TRACE_ASYNC_RETURN_PIPE :: string where "TRACE_ASYNC_RETURN_PIPE = ''/data/log/hitrace/trace_async_return''"

definition mkfifo :: "(string \<Rightarrow> bool) \<Rightarrow> string \<Rightarrow> string set \<Rightarrow> bool \<times> string set" where
  "mkfifo ok p fs = (if p \<in> fs \<or> \<not> ok p then (False, fs) else (True, insert p fs))"

definition unlink_pipe :: "string \<Rightarrow> string set \<Rightarrow> string set" where "unlink_pipe p fs = fs - {p}"

definition InitTraceDumpPipe :: "(string \<Rightarrow> bool) \<Rightarrow> string set \<Rightarrow> bool \<times> string set" where
  "InitTraceDumpPipe ok fs =
     (case mkfifo ok TRACE_TASK_SUBMIT_PIPE fs of (b1, fs1) \<Rightarrow>
        if \<not> b1 then (False, fs1)
        else case mkfifo ok TRACE_SYNC_RETURN_PIPE fs1 of (b2, fs2) \<Rightarrow>
          if \<not> b2 then (False, unlink_pipe TRACE_TASK_SUBMIT_PIPE fs2)
          else case mkfifo ok TRACE_ASYNC_RETURN_PIPE fs2 of (b3, fs3) \<Rightarrow>
            if \<not> b3 then (False, unlink_pipe TRACE_SYNC_RETURN_PIPE (unlink_pipe TRACE_TASK_SUBMIT_PIPE fs3))
            else (True, fs3))"

definition ClearTraceDumpPipe :: "string set \<Rightarrow> string set" where
  "ClearTraceDumpPipe fs =
     unlink_pipe TRACE_ASYNC_RETURN_PIPE (unlink_pipe TRACE_SYNC_RETURN_PIPE (unlink_pipe TRACE_TASK_SUBMIT_PIPE fs))"

section \<open>One end of the pipes\<close>

datatype open_flags = RdWrNonblock | RdOnlyNonblock | WrOnly

record HitraceDumpPipe =
  hp_isParent :: bool
  hp_epollInitialized :: bool
  hp_epollFd :: int
  hp_taskSubmitFd :: int
  hp_syncRetFd :: int
  hp_asyncRetFd :: int
  hp_watched :: "int list"

definition AddFdToEpoll :: "(int \<Rightarrow> bool) \<Rightarrow> int \<Rightarrow> HitraceDumpPipe \<Rightarrow> bool \<times> HitraceDumpPipe" where
  "AddFdToEpoll ctl fd p =
     (if \<not> hp_epollInitialized p \<or> hp_epollFd p < 0 then (False, p)
      else if \<not> ctl fd then (False, p) else (True, p\<lparr>hp_watched := hp_watched p @ [fd]\<rparr>))"

definition watch :: "(int \<Rightarrow> bool) \<Rightarrow> int \<Rightarrow> HitraceDumpPipe \<Rightarrow> HitraceDumpPipe" where
  "watch ctl fd p = (if fd < 0 then p else snd (AddFdToEpoll ctl fd p))"

definition InitPipeFd :: "(string \<Rightarrow> open_flags \<Rightarrow> int) \<Rightarrow> (int \<Rightarrow> bool) \<Rightarrow> HitraceDumpPipe \<Rightarrow> HitraceDumpPipe" where
  "InitPipeFd op ctl p =
     (if hp_isParent p
      then let p1 = p\<lparr>hp_taskSubmitFd := op TRACE_TASK_SUBMIT_PIPE RdWrNonblock\<rparr>;
               p2 = p1\<lparr>hp_syncRetFd := op TRACE_SYNC_RETURN_PIPE RdOnlyNonblock\<rparr>;
               p3 = watch ctl (hp_syncRetFd p2) p2;
               p4 = p3\<lparr>hp_asyncRetFd := op TRACE_ASYNC_RETURN_PIPE RdOnlyNonblock\<rparr>
           in watch ctl (hp_asyncRetFd p4) p4
      else let p1 = p\<lparr>hp_taskSubmitFd := op TRACE_TASK_SUBMIT_PIPE RdOnlyNonblock\<rparr>;
               p2 = watch ctl (hp_taskSubmitFd p1) p1
           in p2\<lparr>hp_syncRetFd := op TRACE_SYNC_RETURN_PIPE WrOnly, hp_asyncRetFd := op TRACE_ASYNC_RETURN_PIPE WrOnly\<rparr>)"

definition HitraceDumpPipe_new :: "int \<Rightarrow> (string \<Rightarrow> open_flags \<Rightarrow> int) \<Rightarrow> (int \<Rightarrow> bool) \<Rightarrow> bool \<Rightarrow> HitraceDumpPipe" where
  "HitraceDumpPipe_new epfd op ctl isParent =
     (let p = \<lparr>hp_isParent = isParent, hp_epollInitialized = False, hp_epollFd = epfd, hp_taskSubmitFd = -1, hp_syncRetFd = -1,
               hp_asyncRetFd = -1, hp_watched = []\<rparr>
      in if epfd < 0 then p else InitPipeFd op ctl (p\<lparr>hp_epollInitialized := True\<rparr>))"

definition CheckProcessRole :: "bool \<Rightarrow> HitraceDumpPipe \<Rightarrow> bool" where
  "CheckProcessRole shouldBeParent p \<longleftrightarrow> hp_isParent p = shouldBeParent"

definition CheckFdValidity :: "int \<Rightarrow> bool" where "CheckFdValidity fd \<longleftrightarrow> fd \<ge> 0"

text \<open>\<open>Some (Some t)\<close>: a task was read; \<open>Some None\<close>: none was; \<open>None\<close>: the events given do not reach the end.\<close>

definition read_from :: "HitraceDumpPipe \<Rightarrow> int \<Rightarrow> (epoll_event \<times> int) list \<Rightarrow> TraceDumpTask option option" where
  "read_from p timeoutMs events =
     (if \<not> hp_epollInitialized p \<or> hp_epollFd p < 0 then Some None else ReadFromPipe timeoutMs timeoutMs events)"

definition SubmitTraceDumpTask :: "HitraceDumpPipe \<Rightarrow> pipe_outcome \<Rightarrow> TraceDumpTask \<Rightarrow> bool \<times> TraceDumpTask" where
  "SubmitTraceDumpTask p out t =
     (if \<not> CheckProcessRole True p \<or> \<not> CheckFdValidity (hp_taskSubmitFd p) then (False, t) else WriteToPipe out t)"

definition ReadSyncDumpRet :: "HitraceDumpPipe \<Rightarrow> int \<Rightarrow> (epoll_event \<times> int) list \<Rightarrow> TraceDumpTask option option" where
  "ReadSyncDumpRet p timeout events =
     (if \<not> CheckProcessRole True p \<or> \<not> CheckFdValidity (hp_syncRetFd p) then Some None else read_from p (timeout * 1000) events)"

definition ReadAsyncDumpRet :: "HitraceDumpPipe \<Rightarrow> int \<Rightarrow> (epoll_event \<times> int) list \<Rightarrow> TraceDumpTask option option" where
  "ReadAsyncDumpRet p timeout events =
     (if \<not> CheckProcessRole True p \<or> \<not> CheckFdValidity (hp_asyncRetFd p) then Some None else read_from p (timeout * 1000) events)"

definition ReadTraceTask :: "HitraceDumpPipe \<Rightarrow> int \<Rightarrow> (epoll_event \<times> int) list \<Rightarrow> TraceDumpTask option option" where
  "ReadTraceTask p timeoutMs events =
     (if \<not> CheckProcessRole False p \<or> \<not> CheckFdValidity (hp_taskSubmitFd p) then Some None else read_from p timeoutMs events)"

section \<open>All pipes or none\<close>

lemma pipe_names: "distinct [TRACE_TASK_SUBMIT_PIPE, TRACE_SYNC_RETURN_PIPE, TRACE_ASYNC_RETURN_PIPE]"
  by (simp add: TRACE_TASK_SUBMIT_PIPE_def TRACE_SYNC_RETURN_PIPE_def TRACE_ASYNC_RETURN_PIPE_def)

definition pipes :: "string set" where
  "pipes = {TRACE_TASK_SUBMIT_PIPE, TRACE_SYNC_RETURN_PIPE, TRACE_ASYNC_RETURN_PIPE}"

lemma init_all_or_nothing:
  "InitTraceDumpPipe ok fs =
     (if (\<forall>p \<in> pipes. ok p \<and> p \<notin> fs) then (True, fs \<union> pipes) else (False, fs))"
  using pipe_names by (auto simp: InitTraceDumpPipe_def mkfifo_def unlink_pipe_def pipes_def)

lemma clear_pipes: "ClearTraceDumpPipe fs = fs - pipes"
  by (auto simp: ClearTraceDumpPipe_def unlink_pipe_def pipes_def)

lemma clear_init_clear: "ClearTraceDumpPipe (snd (InitTraceDumpPipe ok (ClearTraceDumpPipe fs))) = ClearTraceDumpPipe fs"
  by (auto simp: init_all_or_nothing clear_pipes)

section \<open>Roles\<close>

lemma watch_fields:
  "hp_isParent (watch ctl fd p) = hp_isParent p" "hp_epollInitialized (watch ctl fd p) = hp_epollInitialized p"
  "hp_epollFd (watch ctl fd p) = hp_epollFd p" "hp_taskSubmitFd (watch ctl fd p) = hp_taskSubmitFd p"
  "hp_syncRetFd (watch ctl fd p) = hp_syncRetFd p" "hp_asyncRetFd (watch ctl fd p) = hp_asyncRetFd p"
  by (simp_all add: watch_def AddFdToEpoll_def)

text \<open>Each end refuses the operations of the other, whatever its descriptors are.\<close>

lemma new_role: "hp_isParent (HitraceDumpPipe_new epfd op ctl isParent) = isParent"
  by (simp add: HitraceDumpPipe_new_def InitPipeFd_def Let_def watch_fields)

lemma other_role_refused:
  "SubmitTraceDumpTask (HitraceDumpPipe_new epfd op ctl False) out t = (False, t)"
  "ReadSyncDumpRet (HitraceDumpPipe_new epfd op ctl False) n ev = Some None"
  "ReadAsyncDumpRet (HitraceDumpPipe_new epfd op ctl False) n ev = Some None"
  "ReadTraceTask (HitraceDumpPipe_new epfd op ctl True) n ev = Some None"
  by (simp_all add: SubmitTraceDumpTask_def ReadSyncDumpRet_def ReadAsyncDumpRet_def ReadTraceTask_def CheckProcessRole_def new_role)

text \<open>The service and the dump process agree about the pipes. They are made all three or, when one cannot be made, not at all,
and clearing first leaves nothing of a former run in the way. With every descriptor open, the service watches exactly the
two pipes it reads answers from and the dump process exactly the one with the tasks; the service can submit tasks and read
answers, the dump process can read tasks, and each end refuses what is the other's.\<close>

theorem pipes_and_roles:
  assumes "0 \<le> epfd" "\<And>p f. 0 \<le> op p f" "\<And>fd. ctl fd" "p = HitraceDumpPipe_new epfd op ctl isParent"
  shows "InitTraceDumpPipe ok (ClearTraceDumpPipe fs) =
      (if (\<forall>p \<in> pipes. ok p) then (True, fs \<union> pipes) else (False, fs - pipes)) \<and>
    hp_watched p = (if isParent then [hp_syncRetFd p, hp_asyncRetFd p] else [hp_taskSubmitFd p]) \<and>
    SubmitTraceDumpTask p out t = (if isParent then WriteToPipe out t else (False, t)) \<and>
    ReadSyncDumpRet p n ev = (if isParent then ReadFromPipe (n * 1000) (n * 1000) ev else Some None) \<and>
    ReadAsyncDumpRet p n ev = (if isParent then ReadFromPipe (n * 1000) (n * 1000) ev else Some None) \<and>
    ReadTraceTask p n ev = (if isParent then Some None else ReadFromPipe n n ev)"
proof -
  have "\<not> op q f < 0" for q f using assms(2) [of q f] by simp
  then show ?thesis
    using assms(1,2,3)
    by (simp add: assms(4) init_all_or_nothing clear_pipes HitraceDumpPipe_new_def InitPipeFd_def Let_def watch_def AddFdToEpoll_def SubmitTraceDumpTask_def
        ReadSyncDumpRet_def ReadAsyncDumpRet_def ReadTraceTask_def CheckProcessRole_def CheckFdValidity_def read_from_def)
qed

theorem pipes_and_roles_witness:
  "hp_watched (HitraceDumpPipe_new 3 (\<lambda>p f. if f = RdWrNonblock then 4 else int (length p)) (\<lambda>_. True) True) = [35, 36] \<and>
   InitTraceDumpPipe (\<lambda>_. True) (ClearTraceDumpPipe {TRACE_TASK_SUBMIT_PIPE}) = (True, {TRACE_TASK_SUBMIT_PIPE} \<union> pipes)"
proof -
  let ?op = "\<lambda>p f. if f = RdWrNonblock then 4 else int (length (p :: string))"
  have "0 \<le> (3 :: int)" "\<And>p (f :: open_flags). 0 \<le> ?op p f" by simp_all
  from pipes_and_roles [where ctl = "\<lambda>_. True" and isParent = True and ok = "\<lambda>_. True" and fs = "{TRACE_TASK_SUBMIT_PIPE}", OF this TrueI refl]
  show ?thesis
    by (simp add: HitraceDumpPipe_new_def InitPipeFd_def Let_def watch_def AddFdToEpoll_def TRACE_SYNC_RETURN_PIPE_def TRACE_ASYNC_RETURN_PIPE_def)
qed

end
