(* ===== verification/Child_Process.thy ===== *)
theory Child_Process
  imports Trace_Mode
begin

text \<open>
  How the dump service waits for the child that writes a snapshot: \<^verbatim>\<open>EpollWaitforChildProcess\<close> and
  \<^verbatim>\<open>WaitForChildProcess\<close> of \<^verbatim>\<open>hitrace_dump.cpp\<close>, the handler of its signals, and \<^verbatim>\<open>IsProcessExist\<close> of
  \<^verbatim>\<open>common_utils.cpp\<close>. What the system calls return is an argument; what the service does meanwhile is a list of actions.
  The answer that was read is the result; \<open>ProcessDumpSync\<close> of \<open>Trace_Mode\<close> stores it in the state of the service.
\<close>

section \<open>The code\<close>

datatype child_act = EpollWait | StackTrace | KillChild | WaitPid | SleepMs int

definition maxWaitTime :: int where "maxWaitTime = 5000"
definition checkInterval :: int where "checkInterval = 100"

text \<open>The polls bring the results of \<^verbatim>\<open>waitpid\<close>; \<open>None\<close> when the given ones do not decide.\<close>

fun wait_loop :: "int \<Rightarrow> int list \<Rightarrow> (child_act list) option" where
  "wait_loop waitedTime rs =
     (if waitedTime \<ge> maxWaitTime then Some []
      else case rs of [] \<Rightarrow> None
        | r # rs' \<Rightarrow> if r \<noteq> 0 then Some [WaitPid]
                     else map_option (\<lambda>as. WaitPid # SleepMs checkInterval # as) (wait_loop (waitedTime + checkInterval) rs'))"

declare wait_loop.simps [simp del]

definition WaitForChildProcess :: "int list \<Rightarrow> (child_act list) option" where
  "WaitForChildProcess polls = wait_loop 0 polls"

text \<open>
  What one wait meets: whether the epoll descriptor can be made and the pipe added, the results of the waits of one second,
  what \<^verbatim>\<open>read\<close> stores (\<open>None\<close> when the pipe is at its end: the child has died) and the polls.
\<close>

record child_call =
  cc_epoll :: bool
  cc_ctl :: bool
  cc_waits :: "int list"
  cc_read :: "TraceDumpRet option"
  cc_polls :: "int list"

definition TraceDumpRet_default :: TraceDumpRet where
  "TraceDumpRet_default = \<lparr>ret_code = UNSET, ret_outputFile = [], ret_fileSize = 0, ret_traceStartTime = 0, ret_traceEndTime = 0\<rparr>"

fun epoll_rounds :: "nat \<Rightarrow> int \<Rightarrow> int list \<Rightarrow> (int \<times> child_act list) option" where
  "epoll_rounds 0 numEvents ws = Some (numEvents, [])"
| "epoll_rounds (Suc left) numEvents ws =
     (if numEvents > 0 then Some (numEvents, [])
      else case ws of [] \<Rightarrow> None
        | w # ws' \<Rightarrow> if w = -1 then Some (-1, [EpollWait])
                     else map_option (\<lambda>(n, as). (n, EpollWait # as)) (epoll_rounds left w ws'))"

definition EpollWaitforChildProcess :: "child_call \<Rightarrow> (TraceDumpRet option \<times> child_act list) option" where
  "EpollWaitforChildProcess c =
     (if \<not> cc_epoll c \<or> \<not> cc_ctl c then Some (None, [])
      else case epoll_rounds 10 0 (cc_waits c) of None \<Rightarrow> None
        | Some (numEvents, as) \<Rightarrow>
            if numEvents \<le> 0
            then map_option (\<lambda>bs. (None, as @ [StackTrace, KillChild] @ bs)) (WaitForChildProcess (cc_polls c))
            else let retVal = (case cc_read c of None \<Rightarrow> TraceDumpRet_default | Some r \<Rightarrow> r)
                 in map_option (\<lambda>bs. (Some retVal, as @ bs)) (WaitForChildProcess (cc_polls c)))"

text \<open>
  The handler of the two signals, over the process number of the dump process; \<open>None\<close> when the process exits. That
  number is forgotten when \<^verbatim>\<open>waitpid\<close> reports that the dump process has ended.
\<close>

datatype child_signal = SIGUSR1 | SIGCHLD | OtherSignal

definition TimeoutSignalHandler :: "child_signal \<Rightarrow> int \<Rightarrow> int \<Rightarrow> int option" where
  "TimeoutSignalHandler signum waitResult g_traceDumpTaskPid =
     (case signum of SIGUSR1 \<Rightarrow> None
      | SIGCHLD \<Rightarrow> Some (if g_traceDumpTaskPid > 0 \<and> waitResult > 0 then -1 else g_traceDumpTaskPid)
      | OtherSignal \<Rightarrow> Some g_traceDumpTaskPid)"

definition IsProcessExist :: "int \<Rightarrow> int \<Rightarrow> bool" where
  "IsProcessExist pid waitResult \<longleftrightarrow> pid > 0 \<and> waitResult = 0"

definition SetProcessName :: "string \<Rightarrow> string option" where
  "SetProcessName processName = (if processName = [] then None else Some (take 16 processName))"

section \<open>Time limits\<close>

lemma wait_loop_ends:
  "nat (maxWaitTime - waited) \<le> 100 * length rs \<Longrightarrow> \<exists>as. wait_loop waited rs = Some as \<and> KillChild \<notin> set as \<and> EpollWait \<notin> set as \<and>
     sum_list (map (\<lambda>a. case a of SleepMs n \<Rightarrow> n | _ \<Rightarrow> 0) as) \<le> max 0 (maxWaitTime + checkInterval - waited)"
proof (induction rs arbitrary: waited)
  case Nil
  then show ?case by (simp add: wait_loop.simps maxWaitTime_def)
next
  case (Cons r rs)
  show ?case
  proof (cases "waited \<ge> maxWaitTime \<or> r \<noteq> 0")
    case True
    then show ?thesis by (auto simp: wait_loop.simps)
  next
    case False
    then have "nat (maxWaitTime - (waited + checkInterval)) \<le> 100 * length rs" using Cons.prems by (simp add: checkInterval_def)
    from Cons.IH [OF this] obtain as where as: "wait_loop (waited + checkInterval) rs = Some as" "KillChild \<notin> set as" "EpollWait \<notin> set as"
      "sum_list (map (\<lambda>a. case a of SleepMs n \<Rightarrow> n | _ \<Rightarrow> 0) as) \<le> max 0 (maxWaitTime + checkInterval - (waited + checkInterval))" by blast
    with False show ?thesis by (auto simp: wait_loop.simps [of waited] checkInterval_def)
  qed
qed

lemma epoll_rounds_end:
  "left \<le> length ws \<Longrightarrow> \<exists>n as. epoll_rounds left m ws = Some (n, as) \<and> length as \<le> left \<and> set as \<subseteq> {EpollWait} \<and>
     (n > 0 \<longleftrightarrow> m > 0 \<or> (\<exists>i < left. ws ! i > 0 \<and> (\<forall>j < i. ws ! j \<noteq> -1)))"
proof (induction left arbitrary: m ws)
  case (Suc left)
  then obtain w ws' where ws: "ws = w # ws'" by (cases ws) auto
  have ex: "(\<exists>i < Suc left. (w # ws') ! i > 0 \<and> (\<forall>j < i. (w # ws') ! j \<noteq> -1)) \<longleftrightarrow>
      w > 0 \<or> w \<noteq> -1 \<and> (\<exists>i < left. ws' ! i > 0 \<and> (\<forall>j < i. ws' ! j \<noteq> -1))"
    by (auto simp: Ex_less_Suc2 All_less_Suc2)
  from Suc.IH [of ws' w] Suc.prems ws obtain n as where
    "epoll_rounds left w ws' = Some (n, as)" "length as \<le> left" "set as \<subseteq> {EpollWait}"
    "n > 0 \<longleftrightarrow> w > 0 \<or> (\<exists>i < left. ws' ! i > 0 \<and> (\<forall>j < i. ws' ! j \<noteq> -1))" by auto
  then show ?case unfolding ws ex by (auto simp: ws)
qed simp

text \<open>The service never waits for ever for the child that writes a snapshot: at most ten waits of one second and at most 5.1
seconds of polling. It has an answer exactly if one of the ten waits reports an event before one fails; otherwise it kills
the child, unless the epoll descriptor could not be set up: then the child is neither killed nor waited for.\<close>

theorem child_wait_bounded:
  assumes "10 \<le> length (cc_waits c)" "50 \<le> length (cc_polls c)"
  shows "\<exists>r as. EpollWaitforChildProcess c = Some (r, as) \<and> count_list as EpollWait \<le> 10 \<and>
    sum_list (map (\<lambda>a. case a of SleepMs n \<Rightarrow> n | _ \<Rightarrow> 0) as) \<le> 5100 \<and>
    (r \<noteq> None \<longleftrightarrow> cc_epoll c \<and> cc_ctl c \<and> (\<exists>i < 10. cc_waits c ! i > 0 \<and> (\<forall>j < i. cc_waits c ! j \<noteq> -1))) \<and>
    (KillChild \<in> set as \<longleftrightarrow> cc_epoll c \<and> cc_ctl c \<and> r = None) \<and> (WaitPid \<in> set as \<longrightarrow> cc_epoll c \<and> cc_ctl c)"
proof (cases "cc_epoll c \<and> cc_ctl c")
  case False
  then show ?thesis by (auto simp: EpollWaitforChildProcess_def)
next
  case True
  obtain n as where e: "epoll_rounds 10 0 (cc_waits c) = Some (n, as)" "length as \<le> 10" "set as \<subseteq> {EpollWait}"
    "n > 0 \<longleftrightarrow> (\<exists>i < 10. cc_waits c ! i > 0 \<and> (\<forall>j < i. cc_waits c ! j \<noteq> -1))"
    using epoll_rounds_end [OF assms(1), of 0] by auto
  have "nat (maxWaitTime - 0) \<le> 100 * length (cc_polls c)" using assms(2) by (simp add: maxWaitTime_def)
  from wait_loop_ends [OF this] obtain bs where w: "WaitForChildProcess (cc_polls c) = Some bs" "KillChild \<notin> set bs" "EpollWait \<notin> set bs"
    "sum_list (map (\<lambda>a. case a of SleepMs n \<Rightarrow> n | _ \<Rightarrow> 0) bs) \<le> 5100"
    by (auto simp: WaitForChildProcess_def maxWaitTime_def checkInterval_def)
  have z: "sum_list (map (\<lambda>a. case a of SleepMs n \<Rightarrow> n | _ \<Rightarrow> 0) as) = 0"
    using e(3) by (induction as) auto
  have c: "count_list as EpollWait \<le> 10" using e(2) count_le_length [of as EpollWait] by simp
  have k: "KillChild \<notin> set as" "count_list bs EpollWait = 0" using e(3) w(3) by (auto simp: count_list_0_iff)
  show ?thesis
    using True e(1,4) w z c k by (cases "n > 0") (auto simp: EpollWaitforChildProcess_def Let_def)
qed

end
