(* ===== verification/Spec2Isabelle.thy ===== *)
theory Spec2Isabelle
  imports Boot_Results Symlink_Attr Tag_Parser Dynamic_Buffer Meter_Interfaces Stoppable_Thread Smart_Fd Dump_Pipe Child_Process
begin

text \<open>
  \<^bold>\<open>Verification of hitrace.\<close> Hitrace is the tracing service of OpenHarmony. Programs mark what they do
  through two libraries, the call chain and the meter; a third library, the dump service, configures the
  tracing of the kernel, reads its ring buffers and writes trace files; a command line tool records traces and runs
  the boot trace. The theories of this development model these and the parts they are made of, from the sources
  under \<^verbatim>\<open>src/\<close>.

  \<^bold>\<open>The parts and how they interact.\<close>

  \<^item> The call chain (\<^verbatim>\<open>frameworks/native/hitracechainc.c\<close>, \<^verbatim>\<open>hitraceid.cpp\<close>, \<^verbatim>\<open>hitracechain.cpp\<close>) keeps an
    identifier of 128 bits per thread, hands it on to other threads and processes as 16 bytes, and writes
    trace points, among others into the meter.

  \<^item> The meter (\<^verbatim>\<open>interfaces/native/innerkits/src/hitrace_meter.cpp\<close>) turns the begin, end and count calls
    of a program into text records, subject to the enabled tags, the level and the process filter, and
    writes them to the kernel marker or, while an application captures itself, to a file of its own. It
    tells registered listeners of tag changes.

  \<^item> The dump service (\<^verbatim>\<open>interfaces/native/innerkits/src/hitrace_dump.cpp\<close>) is a mode machine (closed,
    open, recording, caching) guarded by one mutex. Opening configures the kernel through its nodes and
    parameters (trace settings, trace filter). A dump runs a strategy (\<^verbatim>\<open>trace_dump_strategy.cpp\<close>) that
    asks a source factory for the writers of the sections of a file, in a child process or through the task
    list that is shared with the dump process (\<^verbatim>\<open>trace_dump_executor.cpp\<close>, \<^verbatim>\<open>trace_dump_pipe.cpp\<close>). The
    raw pages go directly into the file or through a bounded pool of blocks (\<^verbatim>\<open>trace_buffer_manager.cpp\<close>).
    Recording and caching are loops in a thread of their own, stopped through \<^verbatim>\<open>TraceDumpState\<close>. File
    names carry the time window; old files are removed by ageing.

  \<^item> The command line tool (\<^verbatim>\<open>cmd/hitrace_cmd.cpp\<close>) parses its options into arguments and one task, and carries
    the task out through a trace collector, which is a service outside the repository, or through the nodes of the
    kernel. It also writes the configuration of the boot trace; at the next boot init starts it again to read the
    configuration and to capture through the dump service, while a system parameter keeps other users out.

  \<^item> The tags, their groups, the limits of ageing and the size of the buffer come from two JSON files
    (\<^verbatim>\<open>utils/trace_json_parser.cpp\<close>); the dump service, the ageing and the tool ask the one parser for them.

  \<^item> Other languages and applications reach the chain and the meter through thin interfaces in C (the NDK, the wrappers)
    and through the foreign functions of Cangjie.

  \<^bold>\<open>Which theory models what.\<close> Every theory opens with its own description; the definitions carry the names of
  the functions and types of the sources, and a state is a record with the fields of the class or the globals
  of the file it models.

  \<^item> \<open>Hitrace_Prelude\<close>: machine integers as words, the C++ string operations, decimal text.
  \<^item> \<open>Common_Utils\<close>: \<^verbatim>\<open>utils/common_utils.cpp\<close>, text to numbers, paths, small kernel files.
  \<^item> \<open>Hitrace_Chain\<close>: identifier, byte encoding, the thread-local operations and the C++ classes. Shown:
    both round trips of the encoding, the life of a chain on a thread, isolation of threads, agreement on the
    device number under every interleaving of the compare-and-swap steps.
  \<^item> \<open>Meter_Text\<close>, \<open>Meter_Registry\<close>, \<open>Hitrace_Meter\<close>: the bounded record writers, the listeners with their
    task queue (invariant of all reachable states), and the marker path with the application capture. Shown:
    the exact record of every call, that the capture file refines a list of appended records, its size limit.
  \<^item> \<open>Dump_State\<close>, \<open>Dump_Tasks\<close>, \<open>Dump_Executor\<close>: the loop state machine with the load and store of
    \<^verbatim>\<open>EndLoopDump\<close> as separate steps; the task list with reader, writer and monitor as a transition system
    (at most one answer per task, a written task leaves the list); the recording and the cache loop (a stopped
    recording ends and reports the files it wrote).
  \<^item> \<open>Trace_Files\<close>, \<open>File_Ageing\<close>, \<open>Symlink_Attr\<close>: names, listing, renaming and removal over an explicit file
    system; the ageing checkers; the link counter. Shown: the name carries the window, ageing only deletes,
    keeps the newest files and spares the newest ones that have a link.
  \<^item> \<open>Trace_Buffer\<close>, \<open>Trace_Content\<close>, \<open>Raw_Trace\<close>, \<open>Dump_Strategy\<close>: the block pool, the section writers, the raw
    pages in a time window, both ways from the pipe to the file, and the strategies with their loop. Shown: the
    memory bound of the pool, the layout of a snapshot file, that the way through memory writes the same
    bytes as the direct one, that a section written is read back, and that a strategy ends.
  \<^item> \<open>Trace_Setting\<close>, \<open>Trace_Filter\<close>: the kernel as its nodes and parameters. Shown: opening enables exactly the
    events of the chosen tags, the argument string round trip, the application filter against a reference.
  \<^item> \<open>Trace_Mode\<close>, \<open>Mode_Control\<close>, \<open>Mode_Results\<close>: every call of the dump service as a function on its globals.
    Shown: the service refines a small control machine over mode, loop state and loop thread; the values the
    mode takes; success of a dump exactly when files are returned; the window a request reads; what closing
    resets; two faults of the code as theorems.
  \<^item> \<open>Hitrace_Cmd\<close>, \<open>Cmd_Options\<close>, \<open>Cmd_Collector\<close>: the command line tool, its options as the sequence \<^verbatim>\<open>getopt_long\<close>
    returns, its effects as a list of events. Shown: the option loop against a reference, the bounds of accepted
    arguments, that one task is chosen, that recordings respect the protocol of the collector and close what they opened.
  \<^item> \<open>Cjson\<close>: the library cJSON as a record of its functions, and when its nodes stand for a JSON value.
  \<^item> \<open>Tag_Parser\<close>: \<^verbatim>\<open>TraceJsonParser\<close>, its defaults and both of its files. Shown: whatever the files hold the tables are
    ordered, and the files are read back exactly, with the precedence of product, tag file and defaults.
  \<^item> \<open>Boot_Trace\<close>, \<open>Boot_Results\<close>: the configuration file as written and as read, the capture with the calls of
    \<open>Trace_Mode\<close>, and the entry point of the tool. Shown: the window of the boot trace is closed on every path, other users
    cannot disturb it, the configuration is read back, numbered files are new.
  \<^item> \<open>Chain_Interfaces\<close>, \<open>Meter_Interfaces\<close>: the NDK, the C wrappers, Cangjie, the listeners and the scopes. Shown: what an
    identifier keeps when it crosses to Cangjie and back, and, through the chain and the meter together, exactly which
    record a tracepoint leaves in the trace.
  \<^item> \<open>Dynamic_Buffer\<close>: the sizes of the ring buffers; a \<^verbatim>\<open>double\<close> is a real number and every operation is followed by a
    rounding, which is a parameter with the laws of IEEE 754. Shown: the bounds of the sizes and that they follow the load.
  \<^item> \<open>Stoppable_Thread\<close>, \<open>Smart_Fd\<close>, \<open>Dump_Pipe\<close>: the thread that repeats a task, the owner of a descriptor, the named pipes
    of the dump process. Shown: stopping ends the one worker within two of its steps; descriptors are closed once, with
    their tag, and never leak; the pipes are made all or none and each process keeps to its role.
  \<^item> \<open>Child_Process\<close>: the wait for the child that writes a snapshot, and the handler of its signals. Shown: the wait is
    bounded, and the child is killed exactly when the wait was set up and no answer came.

  \<^bold>\<open>Interfaces.\<close> The locales state what one part needs of another, with the lemmas of the client inside: the bounded
  writers of the meter (\<open>bounded_writer\<close>), the thread-local identifier (\<open>thread_slot\<close>), the ageing checkers
  (\<open>ageing_checker\<close>), the writers of sections (\<open>content_writer\<close>), the trimming of file lists by the executor loops
  (\<open>front_trim\<close>), the link counter (\<open>link_counter\<close>), the tables that are filled from a JSON object (\<open>map_reader\<close>) and what accepted options keep (\<open>opt_invariant\<close>). Each is interpreted on the
  definitions of the model. What the program expects of code outside the repository is a named predicate over a
  parameter instead: \<open>closes\<close> for the trace collector, \<open>reads_config\<close>, \<open>object_laws\<close> and \<open>stands_for\<close>
  for the JSON library, \<open>ieee\<close> for the arithmetic of the processor.

  \<^bold>\<open>Loops, bounds, fuel.\<close> Loops over data are recursive functions with a termination proof. The retry loop of a
  strategy is bounded by six passes, which is proved and not assumed. The rounds of a recording or a cache are a
  list of what each round meets; \<open>None\<close> says that the loop still runs, and that a stopped loop ends is a theorem.
  The application filter is a \<^verbatim>\<open>partial_function\<close> in the option type, because the code does not end on an
  empty name. Integers whose width matters are words; others are integers, with the wrap-around of conversions
  written out.

  \<^bold>\<open>Parameters.\<close> The operating system and the libraries that are not in the repository are arguments: results of
  system calls, the clocks, the kernel nodes, the content of the configuration files, what a child process answers, what other
  threads and processes do between two steps.

  \<^bold>\<open>Not modelled.\<close> The clock synchronisation of \<^verbatim>\<open>MarkClockSync\<close>, which prints floating point numbers; the performance
  counters of \<^verbatim>\<open>HitracePerfScoped\<close>; the compression of a text trace by zlib, the help text and the time stamps of the
  tool; the bindings for JavaScript and ArkTS, which convert arguments by runtimes outside the repository and then
  forward one call; the file lock of the trace filter, whose effect is outside the state of the program.
\<close>

end
